(* ===== verification/Prelude.thy ===== *)
theory Prelude
  imports Complex_Main "HOL-Library.Sublist" "HOL-Library.Word"
begin

text \<open>
  Shared vocabulary of the development.

  A Go string is a list of bytes; Isabelle's \<^typ>\<open>char\<close> is exactly one byte, so a Go string is a
  \<^typ>\<open>string\<close> and \<open>length\<close> is Go's \<open>len\<close>.  Machine integers are words of their
  width, read with \<open>sint\<close> (signed) or \<open>uint\<close> (unsigned).  A call that returns
  \<open>(T, error)\<close> is a value of \<open>'e + 'a\<close>; a call that also talks to the outside world (the
  network, the clock, a shared cache) takes the world and returns it, so that two calls in a row may
  answer differently.  The Go idiom \<open>x, err := f(); if err != nil { return wrap(err) }\<close> is
  \<open>tryE\<close> on values and \<open>tryM\<close> on world-passing calls.

  The theory also models the parts of the packages \<open>strings\<close> and \<open>strconv\<close> that the
  program uses.
\<close>

section \<open>Types\<close>

type_synonym int64 = "64 word"
type_synonym uint64 = "64 word"
type_synonym uint32 = "32 word"
type_synonym bytes = "8 word list"

type_synonym ('w, 'e, 'a) io = "'w \<Rightarrow> ('e + 'a) \<times> 'w"

declare of_int_sint [simp del] of_int_uint [simp del]

section \<open>Collections of facts\<close>

named_theorems preserves_intros \<open>rules that a call keeps a property of the world\<close>
named_theorems codec_defs \<open>definitions of the value encoders and decoders\<close>
named_theorems request_defs \<open>definitions of the request validators\<close>

section \<open>Fallible and world-passing calls\<close>

fun tryE :: "'e + 'a \<Rightarrow> ('e \<Rightarrow> 'e) \<Rightarrow> ('a \<Rightarrow> 'e + 'b) \<Rightarrow> 'e + 'b" where
  "tryE (Inl e) w k = Inl (w e)"
| "tryE (Inr x) w k = k x"

definition tryM :: "('w, 'e, 'a) io \<Rightarrow> ('e \<Rightarrow> 'e) \<Rightarrow> ('a \<Rightarrow> ('w, 'e, 'b) io) \<Rightarrow> ('w, 'e, 'b) io" where
  "tryM m w k = (\<lambda>s. case m s of (Inl e, s') \<Rightarrow> (Inl (w e), s') | (Inr x, s') \<Rightarrow> k x s')"

definition retM :: "'a \<Rightarrow> ('w, 'e, 'a) io" where
  "retM x = (\<lambda>s. (Inr x, s))"

definition failM :: "'e \<Rightarrow> ('w, 'e, 'a) io" where
  "failM e = (\<lambda>s. (Inl e, s))"

definition liftM :: "'e + 'a \<Rightarrow> ('w, 'e, 'a) io" where
  "liftM r = (\<lambda>s. (r, s))"

lemma tryE_Inr_iff: "tryE r w k = Inr y \<longleftrightarrow> (\<exists>x. r = Inr x \<and> k x = Inr y)"
  by (cases r) auto

lemma tryE_Inl_iff: "tryE r w k = Inl e \<longleftrightarrow> (\<exists>e'. r = Inl e' \<and> e = w e') \<or> (\<exists>x. r = Inr x \<and> k x = Inl e)"
  by (cases r) auto

lemma retM_apply [simp]: "retM x s = (Inr x, s)"
  by (simp add: retM_def)

lemma failM_apply [simp]: "failM e s = (Inl e, s)"
  by (simp add: failM_def)

lemma liftM_apply [simp]: "liftM r s = (r, s)"
  by (simp add: liftM_def)

lemma tryM_apply:
  "tryM m w k s = (case m s of (Inl e, s') \<Rightarrow> (Inl (w e), s') | (Inr x, s') \<Rightarrow> k x s')"
  by (simp add: tryM_def)

lemma tryM_Inr [simp]: "m s = (Inr x, s') \<Longrightarrow> tryM m w k s = k x s'"
  by (simp add: tryM_def)

lemma tryM_Inl [simp]: "m s = (Inl e, s') \<Longrightarrow> tryM m w k s = (Inl (w e), s')"
  by (simp add: tryM_def)

lemma tryM_Inr_iff:
  "tryM m w k s = (Inr y, s'') \<longleftrightarrow> (\<exists>x s'. m s = (Inr x, s') \<and> k x s' = (Inr y, s''))"
  by (auto simp: tryM_def split: prod.splits sum.splits)

lemma tryM_Inl_iff:
  "tryM m w k s = (Inl e, s'') \<longleftrightarrow>
     (\<exists>e'. m s = (Inl e', s'') \<and> e = w e') \<or> (\<exists>x s'. m s = (Inr x, s') \<and> k x s' = (Inl e, s''))"
  by (auto simp: tryM_def split: prod.splits sum.splits)

lemma tryM_liftM [simp]:
  "tryM (liftM (Inl e)) w k = failM (w e)" "tryM (liftM (Inr x)) w k = k x"
  by (auto simp: tryM_def fun_eq_iff)

lemma tryM_retM [simp]: "tryM (retM x) w k = k x"
  by (auto simp: tryM_def fun_eq_iff)

lemma tryM_failM [simp]: "tryM (failM e) w k = failM (w e)"
  by (auto simp: tryM_def fun_eq_iff)

text \<open>A loop over a slice whose body may return an error from the function.\<close>

fun traverseE :: "('a \<Rightarrow> 'e + 'b) \<Rightarrow> 'a list \<Rightarrow> 'e + 'b list" where
  "traverseE f [] = Inr []"
| "traverseE f (x # xs) = (case f x of Inl e \<Rightarrow> Inl e | Inr y \<Rightarrow>
     (case traverseE f xs of Inl e \<Rightarrow> Inl e | Inr ys \<Rightarrow> Inr (y # ys)))"

lemma traverseE_Inr_iff: "traverseE f xs = Inr ys \<longleftrightarrow> list_all2 (\<lambda>x y. f x = Inr y) xs ys"
proof (induction xs arbitrary: ys)
  case (Cons x xs)
  show ?case by (auto simp: list_all2_Cons1 Cons.IH [symmetric] split: sum.splits)
qed auto

text \<open>A call keeps a property of the world.\<close>

definition preserves :: "('w \<Rightarrow> bool) \<Rightarrow> ('w \<Rightarrow> 'r \<times> 'w) \<Rightarrow> bool" where
  "preserves P m \<longleftrightarrow> (\<forall>s. P s \<longrightarrow> P (snd (m s)))"

lemma preservesD: "preserves P m \<Longrightarrow> P s \<Longrightarrow> m s = (r, s') \<Longrightarrow> P s'"
  unfolding preserves_def by (drule spec [of _ s]) simp

lemma preserves_tryM [preserves_intros]:
  "preserves P m \<Longrightarrow> (\<And>x. preserves P (k x)) \<Longrightarrow> preserves P (tryM m w k)"
  by (auto simp: preserves_def tryM_def split: prod.splits sum.splits dest: spec)

lemma preserves_pure [preserves_intros]:
  "preserves P (retM x)" "preserves P (failM e)" "preserves P (liftM r)"
  by (auto simp: preserves_def)

lemma preserves_if [preserves_intros]:
  "preserves P m \<Longrightarrow> preserves P n \<Longrightarrow> preserves P (if b then m else n)"
  by simp

section \<open>Package strings\<close>

text \<open>\<open>strings.Index\<close>: the first position of a substring, \<open>None\<close> for Go's \<open>-1\<close>.\<close>

fun Index :: "string \<Rightarrow> string \<Rightarrow> nat option" where
  "Index [] sub = (if sub = [] then Some 0 else None)"
| "Index (c # s) sub = (if prefix sub (c # s) then Some 0 else map_option Suc (Index s sub))"

definition Contains :: "string \<Rightarrow> string \<Rightarrow> bool" where
  "Contains s sub \<longleftrightarrow> Index s sub \<noteq> None"

lemma Index_sound: "Index s sub = Some i \<Longrightarrow> i + length sub \<le> length s \<and> prefix sub (drop i s)"
proof (induction s arbitrary: i)
  case (Cons c s)
  show ?case
  proof (cases "prefix sub (c # s)")
    case True
    with Cons.prems show ?thesis by (auto dest: prefix_length_le)
  next
    case False
    with Cons.prems obtain j where "Index s sub = Some j" "i = Suc j" by auto
    then show ?thesis using Cons.IH [of j] by auto
  qed
qed (auto split: if_splits)

lemma Index_append: "Index (pre @ sub @ post) sub \<noteq> None"
proof (induction pre)
  case Nil
  have "prefix sub (sub @ post)" by simp
  then show ?case by (cases "sub @ post") auto
qed auto

lemma Contains_iff_sublist: "Contains s sub \<longleftrightarrow> sublist sub s"
proof
  assume "Contains s sub"
  then obtain i where "Index s sub = Some i" by (auto simp: Contains_def)
  then obtain r where "drop i s = sub @ r" using Index_sound by (metis prefixE)
  then have "s = take i s @ sub @ r" by (metis append_take_drop_id)
  then show "sublist sub s" by (metis sublist_def)
next
  assume "sublist sub s"
  then show "Contains s sub" using Index_append by (fastforce simp: Contains_def sublist_def)
qed

text \<open>
  \<open>strings.TrimSpace\<close> removes leading and trailing white space as \<open>unicode.IsSpace\<close> has it:
  the six ASCII characters and the UTF-8 encodings of the other white space code points (U+0085,
  U+00A0, U+1680, U+2000 to U+200A, U+2028, U+2029, U+202F, U+205F, U+3000).
\<close>

definition space_encodings :: "string list" where
  "space_encodings =
     [[CHR 0x09], [CHR 0x0A], [CHR 0x0B], [CHR 0x0C], [CHR 0x0D], [CHR 0x20],
      [CHR 0xC2, CHR 0x85], [CHR 0xC2, CHR 0xA0], [CHR 0xE1, CHR 0x9A, CHR 0x80]]
     @ map (\<lambda>c. [CHR 0xE2, CHR 0x80, c])
         [CHR 0x80, CHR 0x81, CHR 0x82, CHR 0x83, CHR 0x84, CHR 0x85, CHR 0x86, CHR 0x87,
          CHR 0x88, CHR 0x89, CHR 0x8A, CHR 0xA8, CHR 0xA9, CHR 0xAF]
     @ [[CHR 0xE2, CHR 0x81, CHR 0x9F], [CHR 0xE3, CHR 0x80, CHR 0x80]]"

function strip :: "string list \<Rightarrow> string \<Rightarrow> string" where
  "strip es s = (case find (\<lambda>e. e \<noteq> [] \<and> prefix e s) es of None \<Rightarrow> s | Some e \<Rightarrow> strip es (drop (length e) s))"
  by pat_completeness auto
termination
  by (relation "measure (\<lambda>(es, s). length s)") (auto simp: find_Some_iff prefix_def)

declare strip.simps [simp del]

definition TrimSpace :: "string \<Rightarrow> string" where
  "TrimSpace s = rev (strip (map rev space_encodings) (rev (strip space_encodings s)))"

lemma strip_fix: "find (\<lambda>e. e \<noteq> [] \<and> prefix e s) es = None \<Longrightarrow> strip es s = s"
  by (subst strip.simps) simp

lemma strip_find_None: "find (\<lambda>e. e \<noteq> [] \<and> prefix e (strip es s)) es = None"
proof (induction es s rule: strip.induct)
  case (1 es s)
  show ?case
  proof (cases "find (\<lambda>e. e \<noteq> [] \<and> prefix e s) es")
    case None
    then show ?thesis by (simp add: strip_fix)
  next
    case (Some e)
    then have "strip es s = strip es (drop (length e) s)" by (subst strip.simps) simp
    then show ?thesis using "1.IH" [OF Some] by simp
  qed
qed

lemma strip_suffix: "suffix (strip es s) s"
proof (induction es s rule: strip.induct)
  case (1 es s)
  show ?case
  proof (cases "find (\<lambda>e. e \<noteq> [] \<and> prefix e s) es")
    case None
    then show ?thesis by (simp add: strip_fix)
  next
    case (Some e)
    then have "strip es s = strip es (drop (length e) s)" by (subst strip.simps) simp
    then show ?thesis using "1.IH" [OF Some] suffix_drop by (metis suffix_order.trans)
  qed
qed

text \<open>
  \<open>strings.ToUpper\<close>, on the strings the program compares its result with.  The ASCII letters are
  mapped; of all other code points only U+017F (long s) and U+0131 (dotless i) have an ASCII upper
  case, so every other byte of a multi-byte code point is left as it is: the result differs from
  Go's only in non-ASCII bytes, which no comparison in the program looks for.
\<close>

definition upper_ascii :: "char \<Rightarrow> char" where
  "upper_ascii c = (if 97 \<le> (of_char c :: nat) \<and> (of_char c :: nat) \<le> 122 then char_of ((of_char c :: nat) - 32) else c)"

fun ToUpper :: "string \<Rightarrow> string" where
  "ToUpper [] = []"
| "ToUpper [c] = [upper_ascii c]"
| "ToUpper (c # d # s) =
     (if c = CHR 0xC5 \<and> d = CHR 0xBF then CHR ''S'' # ToUpper s
      else if c = CHR 0xC4 \<and> d = CHR 0xB1 then CHR ''I'' # ToUpper s
      else upper_ascii c # ToUpper (d # s))"

section \<open>Package strconv: decimal integers\<close>

fun dec_nat :: "nat \<Rightarrow> string" where
  "dec_nat n = (if n < 10 then [char_of (48 + n)] else dec_nat (n div 10) @ [char_of (48 + n mod 10)])"

declare dec_nat.simps [simp del]

definition dec_int :: "int \<Rightarrow> string" where
  "dec_int i = (if i < 0 then CHR ''-'' # dec_nat (nat (- i)) else dec_nat (nat i))"

definition is_digit :: "char \<Rightarrow> bool" where
  "is_digit c \<longleftrightarrow> 48 \<le> (of_char c :: nat) \<and> (of_char c :: nat) \<le> 57"

definition digits_val :: "string \<Rightarrow> nat" where
  "digits_val s = foldl (\<lambda>a c. 10 * a + ((of_char c :: nat) - 48)) 0 s"

text \<open>
  \<open>strconv.ParseInt(s, 10, 64)\<close> and \<open>strconv.Atoi\<close> on a 64-bit platform: an optional sign,
  at least one digit, nothing else, and a value in the range of \<open>int64\<close>.
\<close>

definition ParseInt64 :: "string \<Rightarrow> int option" where
  "ParseInt64 s =
     (let neg = (case s of c # _ \<Rightarrow> c = CHR ''-'' | [] \<Rightarrow> False);
          ds = (case s of c # r \<Rightarrow> (if c = CHR ''-'' \<or> c = CHR ''+'' then r else s) | [] \<Rightarrow> s);
          v = (if neg then - int (digits_val ds) else int (digits_val ds))
      in if ds \<noteq> [] \<and> list_all is_digit ds \<and> - (2 ^ 63) \<le> v \<and> v < 2 ^ 63 then Some v else None)"

text \<open>The error of a failed \<open>strconv.ParseInt\<close>, with the quoting verb \<open>%q\<close> as an argument.\<close>

definition ParseInt_error_text :: "(string \<Rightarrow> string) \<Rightarrow> string \<Rightarrow> string" where
  "ParseInt_error_text quote s =
     (let ds = (case s of c # r \<Rightarrow> (if c = CHR ''-'' \<or> c = CHR ''+'' then r else s) | [] \<Rightarrow> s)
      in ''strconv.ParseInt: parsing '' @ quote s @
         (if ds \<noteq> [] \<and> list_all is_digit ds then '': value out of range'' else '': invalid syntax''))"

lemma of_char_digit: "d < 10 \<Longrightarrow> (of_char (char_of (48 + d) :: char) :: nat) = 48 + d"
  by simp

lemma dec_nat_digits: "list_all is_digit (dec_nat n)"
proof (induction n rule: dec_nat.induct)
  case (1 n)
  have "is_digit (char_of (48 + d))" if "d < 10" for d :: nat
    using that by (simp add: is_digit_def)
  with "1" show ?case by (subst dec_nat.simps) simp
qed

lemma dec_nat_nonempty: "dec_nat n \<noteq> []"
  by (subst dec_nat.simps) simp

lemma digits_val_snoc: "digits_val (s @ [c]) = 10 * digits_val s + ((of_char c :: nat) - 48)"
  by (simp add: digits_val_def)

lemma digits_val_dec_nat [simp]: "digits_val (dec_nat n) = n"
proof (induction n rule: dec_nat.induct)
  case (1 n)
  then show ?case
    by (subst dec_nat.simps) (auto simp: digits_val_snoc, simp add: digits_val_def)
qed

lemma is_digit_not_sign: "is_digit c \<Longrightarrow> c \<noteq> CHR ''-'' \<and> c \<noteq> CHR ''+''"
  by (auto simp: is_digit_def)

lemma ParseInt64_dec_int:
  assumes "- (2 ^ 63) \<le> i" "i < 2 ^ 63" shows "ParseInt64 (dec_int i) = Some i"
proof (cases "i < 0")
  case True
  with assms show ?thesis
    by (simp add: ParseInt64_def dec_int_def Let_def dec_nat_nonempty dec_nat_digits)
next
  case False
  obtain c s where cs: "dec_nat (nat i) = c # s"
    using dec_nat_nonempty [of "nat i"] by (cases "dec_nat (nat i)") auto
  then have "is_digit c" using dec_nat_digits [of "nat i"] by simp
  then have ns: "c \<noteq> CHR ''-'' \<and> c \<noteq> CHR ''+''" by (rule is_digit_not_sign)
  have dv: "digits_val (c # s) = nat i" using digits_val_dec_nat [of "nat i"] cs by simp
  have ds: "list_all is_digit (c # s)" using dec_nat_digits [of "nat i"] cs by simp
  show ?thesis using False assms ns ds
    by (simp add: ParseInt64_def dec_int_def cs Let_def dv)
qed

lemma dec_int_chars: "c \<in> set (dec_int i) \<Longrightarrow> is_digit c \<or> c = CHR ''-''"
  using dec_nat_digits by (auto simp: dec_int_def list_all_iff split: if_splits)

end
