(* ===== verification/Errors.thy ===== *)
theory Errors
  imports Prelude
begin

text \<open>
  Go errors.  A package-level \<open>errors.New\<close> value is a sentinel, compared by identity;
  \<open>fmt.Errorf\<close> without \<open>%w\<close> makes a fresh error with a text; with \<open>%w\<close> it wraps an
  error between a prefix and a suffix.  \<open>Error\<close> is the text of an error and \<open>errors_Is\<close> is
  \<open>errors.Is\<close>, which walks the chain of wrapped errors.  The sentinels are grouped by the
  package that declares them.
\<close>

section \<open>Sentinels by package\<close>

datatype lmsr_err =
    lmsr_ErrInvalidOutcome | lmsr_ErrNegativeAmount | lmsr_ErrInvalidLiquidity
  | lmsr_ErrNegativeQuantities | lmsr_ErrInsufficientTokens

fun lmsr_text :: "lmsr_err \<Rightarrow> string" where
  "lmsr_text lmsr_ErrInvalidOutcome = ''invalid outcome: must be YES or NO''"
| "lmsr_text lmsr_ErrNegativeAmount = ''amount must be positive''"
| "lmsr_text lmsr_ErrInvalidLiquidity = ''liquidity parameter must be positive''"
| "lmsr_text lmsr_ErrNegativeQuantities = ''quantities must be non-negative''"
| "lmsr_text lmsr_ErrInsufficientTokens = ''cannot sell more than available''"

datatype model_err =
    model_ErrInvalidOutcome | model_ErrInvalidPublicKey | model_ErrEmptyQuestion
  | model_ErrQuestionTooLong | model_ErrDescriptionTooLong | model_ErrInvalidLiquidityParam
  | model_ErrInvalidShareAmount | model_ErrCloseTimeInPast | model_ErrInvalidSlippage

fun model_text :: "model_err \<Rightarrow> string" where
  "model_text model_ErrInvalidOutcome = ''invalid outcome: must be YES or NO''"
| "model_text model_ErrInvalidPublicKey = ''invalid Stellar public key format''"
| "model_text model_ErrEmptyQuestion = ''question is required''"
| "model_text model_ErrQuestionTooLong = ''question exceeds maximum length (500 characters)''"
| "model_text model_ErrDescriptionTooLong = ''description exceeds maximum length (2000 characters)''"
| "model_text model_ErrInvalidLiquidityParam = ''liquidity parameter must be positive''"
| "model_text model_ErrInvalidShareAmount = ''share amount must be positive''"
| "model_text model_ErrCloseTimeInPast = ''close time must be in the future''"
| "model_text model_ErrInvalidSlippage = ''slippage must be between 0 and 10%''"

datatype service_err =
    service_ErrAmountOverflow | service_ErrMarketNotFound | service_ErrMarketResolved
  | service_ErrInvalidOutcome | service_ErrInsufficientCost

fun service_text :: "service_err \<Rightarrow> string" where
  "service_text service_ErrAmountOverflow = ''amount overflow: value exceeds int64 range''"
| "service_text service_ErrMarketNotFound = ''market not found''"
| "service_text service_ErrMarketResolved = ''market already resolved''"
| "service_text service_ErrInvalidOutcome = ''invalid outcome''"
| "service_text service_ErrInsufficientCost = ''insufficient cost provided''"

datatype factory_err = factory_ErrFactoryNotConfigured | factory_ErrInvalidMetadataHash

fun factory_text :: "factory_err \<Rightarrow> string" where
  "factory_text factory_ErrFactoryNotConfigured = ''factory contract not configured''"
| "factory_text factory_ErrInvalidMetadataHash = ''invalid metadata hash''"

datatype soroban_err =
    soroban_ErrRPCError | soroban_ErrSimulationFailed | soroban_ErrTransactionFailed
  | soroban_ErrTransactionNotFound | soroban_ErrTimeout | soroban_ErrUnknownStatus

fun soroban_text :: "soroban_err \<Rightarrow> string" where
  "soroban_text soroban_ErrRPCError = ''RPC error''"
| "soroban_text soroban_ErrSimulationFailed = ''simulation failed''"
| "soroban_text soroban_ErrTransactionFailed = ''transaction failed''"
| "soroban_text soroban_ErrTransactionNotFound = ''transaction not found''"
| "soroban_text soroban_ErrTimeout = ''timeout waiting for transaction''"
| "soroban_text soroban_ErrUnknownStatus = ''unknown transaction status''"

datatype stellar_err =
    stellar_ErrAccountNotFound | stellar_ErrInsufficientBalance | stellar_ErrNetworkTimeout
  | stellar_ErrInvalidTransaction | stellar_ErrEmptyHorizonURL | stellar_ErrEmptyPassphrase

fun stellar_text :: "stellar_err \<Rightarrow> string" where
  "stellar_text stellar_ErrAccountNotFound = ''stellar account not found''"
| "stellar_text stellar_ErrInsufficientBalance = ''insufficient balance''"
| "stellar_text stellar_ErrNetworkTimeout = ''stellar network timeout''"
| "stellar_text stellar_ErrInvalidTransaction = ''invalid transaction''"
| "stellar_text stellar_ErrEmptyHorizonURL = ''horizon URL is required''"
| "stellar_text stellar_ErrEmptyPassphrase = ''network passphrase is required''"

text \<open>
  The remaining sentinels: one each of \<open>soroban/types.go\<close> and \<open>ipfs/client.go\<close>, and the two
  of Go's package \<open>context\<close>.
\<close>

datatype sentinel =
    Lmsr lmsr_err | Model model_err | Service service_err | Factory factory_err
  | Soroban soroban_err | SorobanInvalidOutcome | Stellar stellar_err | IpfsInvalidCID
  | CtxCanceled | CtxDeadlineExceeded

fun sentinel_text :: "sentinel \<Rightarrow> string" where
  "sentinel_text (Lmsr e) = lmsr_text e"
| "sentinel_text (Model e) = model_text e"
| "sentinel_text (Service e) = service_text e"
| "sentinel_text (Factory e) = factory_text e"
| "sentinel_text (Soroban e) = soroban_text e"
| "sentinel_text SorobanInvalidOutcome = ''invalid outcome: must be YES or NO''"
| "sentinel_text (Stellar e) = stellar_text e"
| "sentinel_text IpfsInvalidCID = ''invalid IPFS CID format''"
| "sentinel_text CtxCanceled = ''context canceled''"
| "sentinel_text CtxDeadlineExceeded = ''context deadline exceeded''"

section \<open>Errors\<close>

text \<open>The error type of package \<open>ipfs\<close>.\<close>

record gatewayError =
  ge_status :: int
  ge_msg :: string

definition gatewayError_Error :: "gatewayError \<Rightarrow> string" where
  "gatewayError_Error e = ''IPFS error: '' @ ge_msg e"

datatype goerr =
    Sentinel sentinel
  | ErrNew string
  | ErrWrap string goerr string
  | GatewayError gatewayError

primrec Error :: "goerr \<Rightarrow> string" where
  "Error (Sentinel s) = sentinel_text s"
| "Error (ErrNew t) = t"
| "Error (ErrWrap pre e post) = pre @ Error e @ post"
| "Error (GatewayError e) = gatewayError_Error e"

primrec errors_Is :: "goerr \<Rightarrow> sentinel \<Rightarrow> bool" where
  "errors_Is (Sentinel s) t \<longleftrightarrow> s = t"
| "errors_Is (ErrNew x) t \<longleftrightarrow> False"
| "errors_Is (ErrWrap pre e post) t \<longleftrightarrow> errors_Is e t"
| "errors_Is (GatewayError e) t \<longleftrightarrow> False"

text \<open>The usual wrappings: \<open>fmt.Errorf("pre: %w", err)\<close>, and none at all.\<close>

definition wrap :: "string \<Rightarrow> goerr \<Rightarrow> goerr" where
  "wrap pre e = ErrWrap pre e []"

definition same :: "goerr \<Rightarrow> goerr" where
  "same e = e"

type_synonym 'a result = "goerr + 'a"
type_synonym ('w, 'a) action = "('w, goerr, 'a) io"

lemma same_simp [simp]: "same e = e"
  by (simp add: same_def)

lemma errors_Is_wrap [simp]: "errors_Is (wrap pre e) t = errors_Is e t"
  by (simp add: wrap_def)

lemma Error_wrap [simp]: "Error (wrap pre e) = pre @ Error e"
  by (simp add: wrap_def)

text \<open>A chain ends in at most one sentinel, so an error matches at most one.\<close>

lemma errors_Is_unique: "errors_Is e s \<Longrightarrow> errors_Is e t \<Longrightarrow> s = t"
  by (induction e) auto

end
