(* ===== verification/Float64.thy ===== *)
theory Float64
  imports Prelude "HOL-Library.Log_Nat"
begin

text \<open>
  Go's \<open>float64\<close>: IEEE 754 binary64 arithmetic, with round to nearest, ties to even.

  A finite value is the rational number it stands for.  Every operation computes the exact rational
  result and rounds it once, as the standard prescribes.  Overflow gives an infinity, and the invalid
  operations (\<open>0/0\<close>, \<open>Inf - Inf\<close>, \<open>Inf/Inf\<close>, \<open>0*Inf\<close>) give NaN; a
  comparison with NaN is false.  The two zeros are one value: no operation of the program tells them
  apart (it never divides by a computed zero of negative sign, and never asks for a sign bit).

  The laws of rounding that the clients need (monotone, idempotent, odd, exact on 1) are the locale
  \<open>rounding\<close>; the facts derived from them alone are proved inside it, and the rounding of binary64
  interprets it.
\<close>

section \<open>Rounding to 53 bits\<close>

text \<open>\<open>expo x\<close> is the binary exponent of \<open>x\<close>, computed from numerator and denominator.\<close>

definition expo :: "rat \<Rightarrow> int" where
  "expo x = (case quotient_of x of (n, d) \<Rightarrow>
     (let k = bitlen \<bar>n\<bar> - bitlen d in if 2 powi k \<le> \<bar>x\<bar> then k else k - 1))"

text \<open>The distance of neighbouring values at \<open>x\<close>; \<open>2^-1074\<close> is the least subnormal.\<close>

definition ulp :: "rat \<Rightarrow> rat" where
  "ulp x = 2 powi (max (expo x - 52) (- 1074))"

definition round_ne :: "rat \<Rightarrow> int" where
  "round_ne x = (let f = \<lfloor>x\<rfloor>; d = x - of_int f in
     if d < 1/2 then f else if 1/2 < d then f + 1 else if even f then f else f + 1)"

text \<open>Rounding with 53 significant bits and no upper bound of the exponent.\<close>

definition rnd :: "rat \<Rightarrow> rat" where
  "rnd x = (if x = 0 then 0 else of_int (round_ne (x / ulp x)) * ulp x)"

subsection \<open>Facts about rounding\<close>

lemma powi_pos [simp]: "0 < (2::rat) powi k"
  by (simp add: power_int_def)

lemma powi_nz: "(2::rat) powi k \<noteq> 0"
  using powi_pos [of k] by linarith

lemma powi_less_iff: "(2::rat) powi a < 2 powi b \<longleftrightarrow> a < b"
  by (metis less_irrefl linorder_less_linear one_less_numeral_iff order_less_trans
      power_int_strict_increasing semiring_norm(76))

lemma powi_le_iff: "(2::rat) powi a \<le> 2 powi b \<longleftrightarrow> a \<le> b"
  using powi_less_iff [of b a] by (simp add: not_less [symmetric])

lemma powi_diff: "(2::rat) powi (a - b) = 2 powi a / 2 powi b"
  by (simp add: power_int_diff)

lemma powi_Suc: "(2::rat) powi (a + 1) = 2 * 2 powi a"
  by (simp add: power_int_add)

lemma bitlen_powi: assumes "0 < n" shows "2 powi (bitlen n - 1) \<le> (of_int n :: rat)" "(of_int n :: rat) < 2 powi (bitlen n)"
proof -
  have b: "2 ^ nat (bitlen n - 1) \<le> n" "n < 2 ^ nat (bitlen n)"
    using bitlen_bounds [OF assms] by auto
  have p: "0 < bitlen n"
    using assms b by (metis bitlen_eq_zero_iff bitlen_nonneg order_le_less not_less)
  have "(of_int (2 ^ nat (bitlen n - 1)) :: rat) \<le> of_int n" using b(1) by (simp only: of_int_le_iff)
  then show "2 powi (bitlen n - 1) \<le> (of_int n :: rat)" using p by (simp add: power_int_def)
  have "(of_int n :: rat) < of_int (2 ^ nat (bitlen n))" using b(2) by (simp only: of_int_less_iff)
  then show "(of_int n :: rat) < 2 powi (bitlen n)" using p by (simp add: power_int_def)
qed

lemma expo_bounds:
  assumes "x \<noteq> 0" shows "2 powi expo x \<le> \<bar>x\<bar>" "\<bar>x\<bar> < 2 powi (expo x + 1)"
proof -
  obtain n d where q: "quotient_of x = (n, d)" by (cases "quotient_of x") auto
  have d: "0 < d" using q by (rule quotient_of_denom_pos)
  have x: "x = of_int n / of_int d" using q by (rule quotient_of_div)
  have n: "0 < \<bar>n\<bar>" using x assms by auto
  have ax: "\<bar>x\<bar> = of_int \<bar>n\<bar> / of_int d" using x d by simp
  let ?a = "bitlen \<bar>n\<bar>" and ?c = "bitlen d"
  have "\<bar>x\<bar> < 2 powi ?a / 2 powi (?c - 1)"
    unfolding ax using bitlen_powi [OF n] bitlen_powi [OF d] d
    by (intro frac_less) auto
  then have up: "\<bar>x\<bar> < 2 powi (?a - ?c + 1)" by (simp add: powi_diff [symmetric] algebra_simps)
  have "2 powi (?a - 1) / 2 powi ?c < \<bar>x\<bar>"
    unfolding ax using bitlen_powi [OF n] bitlen_powi [OF d] d n
    by (intro frac_less2) auto
  then have lo: "2 powi (?a - ?c - 1) < \<bar>x\<bar>" by (simp add: powi_diff [symmetric] algebra_simps)
  show "2 powi expo x \<le> \<bar>x\<bar>" "\<bar>x\<bar> < 2 powi (expo x + 1)"
    using up lo by (auto simp: expo_def q Let_def)
qed

lemma expo_unique:
  assumes "2 powi k \<le> \<bar>x\<bar>" "\<bar>x\<bar> < 2 powi (k + 1)" shows "expo x = k"
proof -
  have nz: "x \<noteq> 0" using assms(1) powi_pos [of k] by (metis abs_zero not_less)
  have "k < expo x + 1" using assms(1) expo_bounds(2) [OF nz] powi_less_iff by (meson le_less_trans)
  moreover have "expo x < k + 1" using assms(2) expo_bounds(1) [OF nz] powi_less_iff by (meson le_less_trans)
  ultimately show ?thesis by simp
qed

lemma expo_mono: assumes "x \<noteq> 0" "\<bar>x\<bar> \<le> \<bar>y\<bar>" shows "expo x \<le> expo y"
proof -
  have "y \<noteq> 0" using assms by auto
  then have "2 powi expo x < (2::rat) powi (expo y + 1)"
    using expo_bounds(1) [OF assms(1)] expo_bounds(2) [of y] assms(2) by linarith
  then show ?thesis by (simp add: powi_less_iff)
qed

lemma ulp_pos [simp]: "0 < ulp x" by (simp add: ulp_def)

lemma ulp_not_neg [simp]: "\<not> ulp x < 0" using ulp_pos [of x] by linarith

lemma expo_minus [simp]: "expo (- x) = expo x"
proof (cases "x = 0")
  case False
  show ?thesis by (rule expo_unique) (use expo_bounds [OF False] in auto)
qed simp

lemma ulp_minus [simp]: "ulp (- x) = ulp x" by (simp add: ulp_def)

lemma round_ne_of_int [simp]: "round_ne (of_int i) = i" by (simp add: round_ne_def)

lemma round_ne_err: "\<bar>of_int (round_ne x) - x\<bar> \<le> 1/2"
  using of_int_floor_le [of x] floor_correct [of x] by (auto simp: round_ne_def Let_def)

lemma round_ne_mono: assumes "x \<le> y" shows "round_ne x \<le> round_ne y"
proof (cases "\<lfloor>x\<rfloor> = \<lfloor>y\<rfloor>")
  case True with assms show ?thesis by (auto simp: round_ne_def Let_def)
next
  case False
  then have "\<lfloor>x\<rfloor> + 1 \<le> \<lfloor>y\<rfloor>" using floor_mono [OF assms] by linarith
  moreover have "round_ne x \<le> \<lfloor>x\<rfloor> + 1" "\<lfloor>y\<rfloor> \<le> round_ne y" by (auto simp: round_ne_def Let_def)
  ultimately show ?thesis by linarith
qed

lemma round_ne_minus [simp]: "round_ne (- x) = - round_ne x"
proof (cases "x = of_int \<lfloor>x\<rfloor>")
  case True
  then obtain i where "x = of_int i" by blast
  then show ?thesis by (simp add: round_ne_def)
next
  case False
  have c: "\<lceil>x\<rceil> = \<lfloor>x\<rfloor> + 1"
    using False by (metis Ints_of_int ceiling_altdef)
  show ?thesis using False floor_correct [of x]
    by (auto simp: round_ne_def Let_def floor_minus c)
qed

lemma rnd_0 [simp]: "rnd 0 = 0" by (simp add: rnd_def)

lemma rnd_minus [simp]: "rnd (- x) = - rnd x"
  by (simp add: rnd_def)

lemma rnd_err: "\<bar>rnd x - x\<bar> \<le> ulp x / 2"
proof (cases "x = 0")
  case False
  have "rnd x - x = (of_int (round_ne (x / ulp x)) - x / ulp x) * ulp x"
    using False ulp_pos [of x] by (simp add: rnd_def left_diff_distrib del: ulp_pos)
  then have "\<bar>rnd x - x\<bar> = \<bar>of_int (round_ne (x / ulp x)) - x / ulp x\<bar> * ulp x"
    using ulp_pos [of x] by (simp only: abs_mult abs_of_pos)
  also have "\<dots> \<le> 1/2 * ulp x"
    by (rule mult_right_mono [OF round_ne_err]) (simp add: less_imp_le)
  finally show ?thesis by simp
qed (simp add: less_imp_le)

lemma rnd_grid:
  assumes e: "- 1074 \<le> e" and m: "\<bar>m\<bar> \<le> 2 ^ 53"
  shows "rnd (of_int m * 2 powi e) = of_int m * 2 powi e"
proof (cases "m = 0")
  case False
  define x :: rat where "x = of_int m * 2 powi e"
  have nz: "x \<noteq> 0" using False by (simp add: x_def powi_nz)
  define u where "u = max (expo x - 52) (- 1074)"
  have ax: "\<bar>x\<bar> = of_int \<bar>m\<bar> * 2 powi e" by (simp add: x_def abs_mult)
  have "\<exists>i. x / 2 powi u = of_int i"
  proof (cases "\<bar>m\<bar> = 2 ^ 53")
    case True
    have mm: "m = sgn m * 2 ^ 53" using True by (metis mult_sgn_abs mult.commute)
    have p: "(2::rat) powi (e + 53) = 2 ^ 53 * 2 powi e" by (simp add: power_int_add)
    have "expo x = e + 53"
      by (rule expo_unique) (simp_all add: ax True p power_int_add)
    then have u: "u = e + 1" using e by (simp add: u_def)
    have "x / 2 powi u = of_int m / 2" by (simp add: x_def u power_int_add)
    also have "\<dots> = of_int (sgn m * 2 ^ 52)" by (subst mm) simp
    finally show ?thesis by blast
  next
    case F: False
    then have "\<bar>m\<bar> < 2 ^ 53" using m by simp
    then have "(of_int \<bar>m\<bar> :: rat) < of_int (2 ^ 53)" by (simp only: of_int_less_iff)
    then have "\<bar>x\<bar> < 2 ^ 53 * 2 powi e" unfolding ax by (intro mult_strict_right_mono) auto
    then have "(2::rat) powi expo x < 2 powi (e + 53)"
      using expo_bounds(1) [OF nz] by (simp add: power_int_add)
    then have "u \<le> e" using e by (simp add: u_def powi_less_iff)
    then have "x / 2 powi u = of_int (m * 2 ^ nat (e - u))"
      by (simp add: x_def powi_diff [symmetric] power_int_def [of 2 "e - u"] flip: times_divide_eq_right)
    then show ?thesis by blast
  qed
  then obtain i where i: "x / ulp x = of_int i" by (auto simp: ulp_def u_def)
  then have "x = of_int i * ulp x" using ulp_pos [of x] by (simp add: field_simps del: ulp_pos)
  then show ?thesis using nz i by (simp add: rnd_def x_def [symmetric])
qed simp

lemma rnd_form: "\<exists>m e. rnd x = of_int m * 2 powi e \<and> - 1074 \<le> e \<and> \<bar>m\<bar> \<le> 2 ^ 53"
proof (cases "x = 0")
  case True then show ?thesis by (intro exI [of _ 0]) auto
next
  case False
  have "\<bar>x / ulp x\<bar> \<le> of_int (2 ^ 53)"
  proof -
    have "2 powi (expo x + 1) \<le> (2::rat) powi (53 + max (expo x - 52) (- 1074))" by (subst powi_le_iff) simp
    also have "\<dots> = 2 ^ 53 * ulp x" by (simp add: ulp_def power_int_add)
    finally have "\<bar>x\<bar> \<le> 2 ^ 53 * ulp x" using expo_bounds(2) [OF False] by linarith
    then show ?thesis by (simp add: abs_divide field_simps del: of_int_power)
  qed
  then have "x / ulp x \<le> of_int (2 ^ 53)" "of_int (- (2 ^ 53)) \<le> x / ulp x"
    by (auto simp only: abs_le_iff of_int_minus minus_le_iff)
  then have "round_ne (x / ulp x) \<le> 2 ^ 53" "- (2 ^ 53) \<le> round_ne (x / ulp x)"
    using round_ne_mono [of "x / ulp x" "of_int (2 ^ 53)"] round_ne_mono [of "of_int (- (2 ^ 53))" "x / ulp x"]
    by (simp_all only: round_ne_of_int)
  then have "\<bar>round_ne (x / ulp x)\<bar> \<le> 2 ^ 53" by linarith
  then show ?thesis using False unfolding rnd_def ulp_def
    by (intro exI [of _ "round_ne (x / ulp x)"] exI [of _ "max (expo x - 52) (- 1074)"]) (auto simp: ulp_def)
qed

lemma rnd_idem [simp]: "rnd (rnd x) = rnd x"
  using rnd_form [of x] rnd_grid by metis

lemma rnd_nonneg: "0 \<le> x \<Longrightarrow> 0 \<le> rnd x"
proof -
  assume "0 \<le> x"
  then have "of_int 0 \<le> x / ulp x" by (simp add: less_imp_le)
  then have "0 \<le> round_ne (x / ulp x)" using round_ne_mono round_ne_of_int by metis
  then show ?thesis by (auto simp: rnd_def less_imp_le)
qed

lemma ulp_mult_le:
  assumes "max (expo x - 52) (- 1074) \<le> k" "x \<noteq> 0"
  shows "x \<le> 2 powi k \<Longrightarrow> rnd x \<le> 2 powi k" and "2 powi k \<le> x \<Longrightarrow> 2 powi k \<le> rnd x"
proof -
  define j where "j = nat (k - max (expo x - 52) (- 1074))"
  have "(2::rat) powi k = 2 powi (int j) * 2 powi max (expo x - 52) (- 1074)"
    using assms(1) by (subst power_int_add [symmetric]) (simp_all add: j_def)
  then have pk: "(2::rat) powi k = of_int (2 ^ j) * ulp x" by (simp add: ulp_def)
  have r: "rnd x = of_int (round_ne (x / ulp x)) * ulp x" using assms(2) by (simp add: rnd_def)
  have iff: "of_int a * ulp x \<le> of_int b * ulp x \<longleftrightarrow> a \<le> b" for a b :: int
    by (simp add: mult_le_cancel_right)
  show "rnd x \<le> 2 powi k" if "x \<le> 2 powi k"
  proof -
    have "x / ulp x \<le> of_int (2 ^ j)" using that pk by (simp add: divide_le_eq del: of_int_power)
    then have "round_ne (x / ulp x) \<le> 2 ^ j" using round_ne_mono round_ne_of_int by metis
    then show ?thesis by (simp only: r pk iff)
  qed
  show "2 powi k \<le> rnd x" if "2 powi k \<le> x"
  proof -
    have "of_int (2 ^ j) \<le> x / ulp x" using that pk by (simp add: le_divide_eq del: of_int_power)
    then have "2 ^ j \<le> round_ne (x / ulp x)" using round_ne_mono round_ne_of_int by metis
    then show ?thesis by (simp only: r pk iff)
  qed
qed

lemma rnd_mono_pos:
  assumes "0 < x" "x \<le> y" shows "rnd x \<le> rnd y"
proof (cases "max (expo x - 52) (- 1074) = max (expo y - 52) (- 1074)")
  case True
  then have u: "ulp x = ulp y" by (simp add: ulp_def)
  have "round_ne (x / ulp y) \<le> round_ne (y / ulp y)"
    using assms by (intro round_ne_mono divide_right_mono) (simp_all add: less_imp_le)
  then show ?thesis using assms u by (simp add: rnd_def mult_le_cancel_right)
next
  case False
  have ne: "x \<noteq> 0" "y \<noteq> 0" using assms by auto
  have "expo x \<le> expo y" using assms by (intro expo_mono) auto
  with False have k: "expo x + 1 \<le> expo y" "max (expo x - 52) (- 1074) \<le> expo y"
    "max (expo y - 52) (- 1074) \<le> expo y" by auto
  have "x < 2 powi (expo x + 1)" using expo_bounds(2) [OF ne(1)] assms by simp
  also have "\<dots> \<le> 2 powi expo y" using k(1) by (simp add: powi_le_iff)
  finally have "rnd x \<le> 2 powi expo y" using ulp_mult_le(1) [OF k(2) ne(1)] by simp
  also have "\<dots> \<le> rnd y" using ulp_mult_le(2) [OF k(3) ne(2)] expo_bounds(1) [OF ne(2)] assms by simp
  finally show ?thesis .
qed

lemma rnd_mono: assumes "x \<le> y" shows "rnd x \<le> rnd y"
proof -
  consider "0 < x" | "x \<le> 0" "0 \<le> y" | "y < 0" by linarith
  then show ?thesis
  proof cases
    case 1 then show ?thesis using assms by (rule rnd_mono_pos)
  next
    case 2
    then show ?thesis using rnd_nonneg [of y] rnd_nonneg [of "- x"] by simp
  next
    case 3
    then show ?thesis using rnd_mono_pos [of "- y" "- x"] assms by simp
  qed
qed

lemma rnd_of_int: assumes "\<bar>m\<bar> \<le> 2 ^ 53" shows "rnd (of_int m) = of_int m"
  using rnd_grid [OF _ assms, of 0] by simp

lemma rnd_1 [simp]: "rnd 1 = 1"
  using rnd_of_int [of 1] by simp

lemma rnd_rel_err:
  assumes "2 powi (- 1022) \<le> \<bar>x\<bar>" shows "\<bar>rnd x - x\<bar> \<le> \<bar>x\<bar> * 2 powi (- 53)"
proof -
  have nz: "x \<noteq> 0" using assms powi_pos [of "- 1022"] by (metis abs_zero not_less)
  have "- 1022 < expo x + 1"
    using assms expo_bounds(2) [OF nz] powi_less_iff by (meson le_less_trans)
  then have "ulp x = 2 powi expo x * 2 powi (- 52)" by (simp add: ulp_def powi_diff power_int_minus field_simps)
  also have "\<dots> \<le> \<bar>x\<bar> * 2 powi (- 52)"
    using expo_bounds(1) [OF nz] by (intro mult_right_mono) (simp_all only: less_imp_le powi_pos)
  finally have "ulp x / 2 \<le> \<bar>x\<bar> * 2 powi (- 53)" by (simp add: power_int_minus field_simps)
  then show ?thesis using rnd_err [of x] by linarith
qed


section \<open>The laws clients rely on\<close>

locale rounding =
  fixes R :: "rat \<Rightarrow> rat"
  assumes R_mono: "x \<le> y \<Longrightarrow> R x \<le> R y"
    and R_idem: "R (R x) = R x"
    and R_minus: "R (- x) = - R x"
    and R_one: "R 1 = 1"
begin

lemma R_zero: "R 0 = 0"
  using R_minus [of 0] by simp

lemma R_nonneg: "0 \<le> x \<Longrightarrow> 0 \<le> R x"
  using R_mono [of 0 x] R_zero by simp

lemma R_le_fixed: "R b = b \<Longrightarrow> x \<le> b \<Longrightarrow> R x \<le> b"
  using R_mono [of x b] by simp

lemma R_ge_fixed: "R b = b \<Longrightarrow> b \<le> x \<Longrightarrow> b \<le> R x"
  using R_mono [of b x] by simp

lemma R_abs_le_fixed: "R b = b \<Longrightarrow> \<bar>x\<bar> \<le> b \<Longrightarrow> \<bar>R x\<bar> \<le> b"
  using R_le_fixed [of b x] R_le_fixed [of b "- x"] by (simp add: R_minus abs_le_iff)

lemma R_ratio: "0 \<le> x \<Longrightarrow> x \<le> y \<Longrightarrow> 0 < y \<Longrightarrow> 0 \<le> R (x / y) \<and> R (x / y) \<le> 1"
  by (auto intro: R_nonneg R_le_fixed R_one)

lemma R_scale_up: "R c = c \<Longrightarrow> 0 \<le> c \<Longrightarrow> 1 \<le> s \<Longrightarrow> c \<le> R (c * s)"
  using mult_left_mono [of 1 s c] by (intro R_ge_fixed) auto

lemma R_scale_down:
  "R c = c \<Longrightarrow> 0 \<le> c \<Longrightarrow> 0 \<le> s \<Longrightarrow> s \<le> 1 \<Longrightarrow> 0 \<le> R (c * s) \<and> R (c * s) \<le> c"
  using mult_left_mono [of s 1 c] by (auto intro: R_nonneg R_le_fixed)

end

interpretation f64: rounding rnd
  by unfold_locales (auto intro: rnd_mono)

section \<open>Values and operations\<close>

datatype float64 = NaN | PosInf | NegInf | Fin rat

definition round64 :: "rat \<Rightarrow> float64" where
  "round64 x = (let r = rnd x in if 2 ^ 1024 \<le> r then PosInf else if r \<le> - (2 ^ 1024) then NegInf else Fin r)"

text \<open>A value that some operation can return: a finite one is representable.\<close>

fun f64_ok :: "float64 \<Rightarrow> bool" where
  "f64_ok (Fin x) \<longleftrightarrow> rnd x = x \<and> \<bar>x\<bar> < 2 ^ 1024"
| "f64_ok _ \<longleftrightarrow> True"

fun f64_neg :: "float64 \<Rightarrow> float64" where
  "f64_neg NaN = NaN"
| "f64_neg PosInf = NegInf"
| "f64_neg NegInf = PosInf"
| "f64_neg (Fin x) = Fin (- x)"

fun f64_add :: "float64 \<Rightarrow> float64 \<Rightarrow> float64" where
  "f64_add NaN _ = NaN"
| "f64_add _ NaN = NaN"
| "f64_add PosInf NegInf = NaN"
| "f64_add NegInf PosInf = NaN"
| "f64_add PosInf _ = PosInf"
| "f64_add _ PosInf = PosInf"
| "f64_add NegInf _ = NegInf"
| "f64_add _ NegInf = NegInf"
| "f64_add (Fin x) (Fin y) = round64 (x + y)"

definition f64_sub :: "float64 \<Rightarrow> float64 \<Rightarrow> float64" where
  "f64_sub a b = f64_add a (f64_neg b)"

text \<open>An infinity with the sign of a rational, for products and quotients with an infinity.\<close>

definition f64_inf :: "rat \<Rightarrow> float64" where
  "f64_inf s = (if 0 < s then PosInf else if s < 0 then NegInf else NaN)"

fun f64_mul :: "float64 \<Rightarrow> float64 \<Rightarrow> float64" where
  "f64_mul NaN _ = NaN"
| "f64_mul _ NaN = NaN"
| "f64_mul PosInf PosInf = PosInf"
| "f64_mul NegInf NegInf = PosInf"
| "f64_mul PosInf NegInf = NegInf"
| "f64_mul NegInf PosInf = NegInf"
| "f64_mul PosInf (Fin y) = f64_inf y"
| "f64_mul NegInf (Fin y) = f64_inf (- y)"
| "f64_mul (Fin x) PosInf = f64_inf x"
| "f64_mul (Fin x) NegInf = f64_inf (- x)"
| "f64_mul (Fin x) (Fin y) = round64 (x * y)"

fun f64_div :: "float64 \<Rightarrow> float64 \<Rightarrow> float64" where
  "f64_div NaN _ = NaN"
| "f64_div _ NaN = NaN"
| "f64_div PosInf (Fin y) = (if y < 0 then NegInf else PosInf)"
| "f64_div NegInf (Fin y) = (if y < 0 then PosInf else NegInf)"
| "f64_div PosInf _ = NaN"
| "f64_div NegInf _ = NaN"
| "f64_div (Fin x) PosInf = Fin 0"
| "f64_div (Fin x) NegInf = Fin 0"
| "f64_div (Fin x) (Fin y) = (if y = 0 then f64_inf x else round64 (x / y))"

fun f64_lt :: "float64 \<Rightarrow> float64 \<Rightarrow> bool" where
  "f64_lt NaN _ = False"
| "f64_lt _ NaN = False"
| "f64_lt PosInf _ = False"
| "f64_lt _ NegInf = False"
| "f64_lt NegInf _ = True"
| "f64_lt _ PosInf = True"
| "f64_lt (Fin x) (Fin y) = (x < y)"

definition f64_eq :: "float64 \<Rightarrow> float64 \<Rightarrow> bool" where
  "f64_eq a b \<longleftrightarrow> a \<noteq> NaN \<and> a = b"

definition f64_le :: "float64 \<Rightarrow> float64 \<Rightarrow> bool" where
  "f64_le a b \<longleftrightarrow> f64_lt a b \<or> f64_eq a b"

text \<open>\<open>math.Max\<close>: \<open>+Inf\<close> wins over NaN, NaN over everything else.\<close>

definition f64_max :: "float64 \<Rightarrow> float64 \<Rightarrow> float64" where
  "f64_max a b = (if a = PosInf \<or> b = PosInf then PosInf
     else if a = NaN \<or> b = NaN then NaN
     else if f64_lt b a then a else b)"

text \<open>An untyped constant of the source, converted to \<open>float64\<close>.\<close>

definition f64_const :: "rat \<Rightarrow> float64" where
  "f64_const r = round64 r"

definition f64_of_int64 :: "int64 \<Rightarrow> float64" where
  "f64_of_int64 w = round64 (of_int (sint w))"

definition rat_trunc :: "rat \<Rightarrow> int" where
  "rat_trunc x = (if x < 0 then \<lceil>x\<rceil> else \<lfloor>x\<rfloor>)"

text \<open>
  The conversion \<open>int64(f)\<close> truncates towards zero.  When the value does not fit, the Go
  specification leaves the result to the implementation: \<open>impl\<close> stands for it.
\<close>

definition f64_to_int64 :: "(float64 \<Rightarrow> int64) \<Rightarrow> float64 \<Rightarrow> int64" where
  "f64_to_int64 impl f = (case f of
     Fin x \<Rightarrow> if - (2 ^ 63) \<le> rat_trunc x \<and> rat_trunc x < 2 ^ 63 then word_of_int (rat_trunc x) else impl f
   | _ \<Rightarrow> impl f)"

text \<open>The verb \<open>%.nf\<close>: the value rounded to \<open>n\<close> decimals, ties to even.\<close>

definition fmt_fixed :: "nat \<Rightarrow> float64 \<Rightarrow> string" where
  "fmt_fixed n f = (case f of
     NaN \<Rightarrow> ''NaN'' | PosInf \<Rightarrow> ''+Inf'' | NegInf \<Rightarrow> ''-Inf''
   | Fin x \<Rightarrow> (let v = nat (round_ne (\<bar>x\<bar> * 10 ^ n)); i = dec_nat (v div 10 ^ n); d = dec_nat (v mod 10 ^ n)
       in (if x < 0 then ''-'' else []) @ i @
          (if n = 0 then [] else ''.'' @ replicate (n - length d) (CHR ''0'') @ d)))"

text \<open>The width of a verb such as \<open>%5.1f\<close>: padding with blanks on the left.\<close>

definition pad_left :: "nat \<Rightarrow> string \<Rightarrow> string" where
  "pad_left w s = replicate (w - length s) (CHR '' '') @ s"

subsection \<open>Facts about the operations\<close>

lemma round64_Fin: "\<bar>rnd x\<bar> < 2 ^ 1024 \<Longrightarrow> round64 x = Fin (rnd x)"
  by (auto simp: round64_def Let_def abs_less_iff)

lemma round64_cases:
  obtains "round64 x = PosInf" "2 ^ 1024 \<le> rnd x" | "round64 x = NegInf" "rnd x \<le> - (2 ^ 1024)"
  | "round64 x = Fin (rnd x)" "\<bar>rnd x\<bar> < 2 ^ 1024"
proof -
  consider "2 ^ 1024 \<le> rnd x" | "rnd x \<le> - (2 ^ 1024)" "\<not> 2 ^ 1024 \<le> rnd x" | "\<bar>rnd x\<bar> < 2 ^ 1024"
    unfolding abs_less_iff by linarith
  then show ?thesis
    using that round64_Fin [of x] by cases (auto simp: round64_def Let_def)
qed

lemma round64_ok [simp]: "f64_ok (round64 x)"
  by (cases x rule: round64_cases) auto

lemma round64_not_NaN [simp]: "round64 x \<noteq> NaN"
  by (auto simp: round64_def Let_def)

lemma rnd_powi: "- 1074 \<le> k \<Longrightarrow> rnd (2 powi k) = 2 powi k"
  using rnd_grid [of k 1] by simp

lemma round64_bounded:
  assumes "\<bar>x\<bar> \<le> 2 powi k" "- 1074 \<le> k" "k < 1024"
  shows "round64 x = Fin (rnd x)" "\<bar>rnd x\<bar> \<le> 2 powi k"
proof -
  show b: "\<bar>rnd x\<bar> \<le> 2 powi k"
    using assms by (intro f64.R_abs_le_fixed rnd_powi)
  have "(2::rat) powi k < 2 powi 1024" using assms(3) by (simp only: powi_less_iff)
  also have "(2::rat) powi 1024 = 2 ^ 1024" by (simp only: power_int_numeral)
  finally have "\<bar>rnd x\<bar> < 2 ^ 1024" using b by (rule le_less_trans [rotated])
  then show "round64 x = Fin (rnd x)" by (rule round64_Fin)
qed

lemma f64_ok_ops [simp]:
  "f64_ok (f64_add a b)" "f64_ok (f64_mul a b)" "f64_ok (f64_div a b)"
  by (cases a; cases b; simp add: f64_inf_def)+

lemma f64_ok_conv [simp]: "f64_ok (f64_of_int64 w)" "f64_ok (f64_const r)"
  by (simp_all add: f64_of_int64_def f64_const_def)

lemma f64_ok_neg: "f64_ok a \<Longrightarrow> f64_ok (f64_neg a)"
  by (cases a) auto

lemma f64_ok_sub [simp]: "f64_ok (f64_sub a b)"
  by (simp add: f64_sub_def)

lemma f64_le_Fin [simp]: "f64_le (Fin x) (Fin y) \<longleftrightarrow> x \<le> y"
  by (auto simp: f64_le_def f64_eq_def)

lemma f64_eq_Fin [simp]: "f64_eq (Fin x) (Fin y) \<longleftrightarrow> x = y"
  by (auto simp: f64_eq_def)

lemma f64_lt_NaN [simp]: "\<not> f64_lt a NaN"
  by (cases a) auto

lemma f64_le_simps [simp]:
  "\<not> f64_le NaN a" "\<not> f64_le a NaN" "f64_le PosInf a \<longleftrightarrow> a = PosInf" "f64_le a NegInf \<longleftrightarrow> a = NegInf"
  "f64_le NegInf (Fin x)" "f64_le (Fin x) PosInf" "f64_le NegInf PosInf"
  by (cases a; simp add: f64_le_def f64_eq_def)+

lemma round64_mono: assumes "x \<le> y" shows "f64_le (round64 x) (round64 y)"
proof (cases x rule: round64_cases)
  case 1
  then have "round64 y = PosInf" using rnd_mono [OF assms] by (simp add: round64_def Let_def del: power_numeral)
  with 1 show ?thesis by simp
next
  case 2
  then show ?thesis by (cases y rule: round64_cases) auto
next
  case 3
  have "round64 y \<noteq> NegInf"
    using 3 rnd_mono [OF assms] by (cases y rule: round64_cases) (auto simp only: abs_less_iff float64.distinct)
  then show ?thesis using 3 rnd_mono [OF assms] by (cases y rule: round64_cases) auto
qed

lemma f64_lt_imp_not_le: "f64_lt a b \<Longrightarrow> \<not> f64_le b a"
  by (cases a; cases b) (auto simp: f64_le_def f64_eq_def)

lemma f64_not_lt_le: "a \<noteq> NaN \<Longrightarrow> b \<noteq> NaN \<Longrightarrow> \<not> f64_lt a b \<longleftrightarrow> f64_le b a"
  by (cases a; cases b) (auto simp: f64_le_def f64_eq_def)

lemma sint_int64_bounds: "- (2 ^ 63) \<le> sint (w :: int64)" "sint (w :: int64) < 2 ^ 63"
  using sint_ge [of w] sint_lt [of w] by simp_all

lemma sint_abs_powi: "\<bar>of_int (sint (w :: int64)) :: rat\<bar> \<le> 2 powi 63"
proof -
  have "\<bar>sint w\<bar> \<le> 2 ^ 63" using sint_int64_bounds [of w] by linarith
  then have "(of_int \<bar>sint w\<bar> :: rat) \<le> of_int (2 ^ 63)" by (simp only: of_int_le_iff)
  then show ?thesis by simp
qed

lemma f64_of_int64_Fin: "f64_of_int64 w = Fin (rnd (of_int (sint w)))" "\<bar>rnd (of_int (sint w))\<bar> \<le> 2 powi 63"
  using round64_bounded [OF sint_abs_powi [of w]] by (simp_all add: f64_of_int64_def)

lemma f64_of_int64_exact: "\<bar>sint w\<bar> \<le> 2 ^ 53 \<Longrightarrow> f64_of_int64 w = Fin (of_int (sint w))"
  using f64_of_int64_Fin(1) [of w] by (simp add: rnd_of_int)

lemma rat_trunc_of_int [simp]: "rat_trunc (of_int i) = i"
  by (simp add: rat_trunc_def)

lemma rat_trunc_bounds: "0 \<le> x \<Longrightarrow> of_int (rat_trunc x) \<le> x \<and> x < of_int (rat_trunc x) + 1 \<and> 0 \<le> rat_trunc x"
  using floor_correct [of x] by (simp add: rat_trunc_def)

lemma rat_trunc_mono: assumes "x \<le> y" shows "rat_trunc x \<le> rat_trunc y"
proof -
  consider "0 \<le> x" | "x < 0" "0 \<le> y" | "y < 0" using assms by linarith
  then show ?thesis
  proof cases
    case 2
    then have "\<lceil>x\<rceil> \<le> 0" "0 \<le> \<lfloor>y\<rfloor>" by (auto simp: ceiling_le_iff)
    then have "\<lceil>x\<rceil> \<le> \<lfloor>y\<rfloor>" by (rule order_trans)
    then show ?thesis using 2 by (simp add: rat_trunc_def)
  qed (use assms in \<open>auto simp: rat_trunc_def ceiling_mono floor_mono\<close>)
qed

lemma sint_word_of_int64: "- (2 ^ 63) \<le> i \<Longrightarrow> i < 2 ^ 63 \<Longrightarrow> sint (word_of_int i :: int64) = i"
  by (simp add: sint_sbintrunc' signed_take_bit_int_eq_self)

lemma f64_to_int64_Fin:
  "- (2 ^ 63) \<le> rat_trunc x \<Longrightarrow> rat_trunc x < 2 ^ 63 \<Longrightarrow> sint (f64_to_int64 impl (Fin x)) = rat_trunc x"
  by (simp add: f64_to_int64_def sint_word_of_int64)

end
