(* ===== verification/Lmsr.thy ===== *)
theory Lmsr
  imports Errors Float64
begin

text \<open>
  The pricing library \<open>internal/lmsr/calculator.go\<close>.

  The operations are written once, over a record \<open>arith\<close> of the arithmetic they use.  Two
  instances give them a meaning: \<open>real_arith\<close> computes with exact real numbers, where the laws of
  the logarithmic market scoring rule are stated; \<open>float_arith\<close> computes with \<open>float64\<close>, where
  \<open>math.Exp\<close> and \<open>math.Log\<close> are parameters.  The contract of a cost function is the locale
  \<open>cost_function\<close>; the laws of trading (prices of a purchase, hedging, bounded loss) follow from
  it alone, and the calculator's \<open>cost\<close> interprets it.
\<close>

section \<open>The operations\<close>

record 'f arith =
  a_add :: "'f \<Rightarrow> 'f \<Rightarrow> 'f"
  a_sub :: "'f \<Rightarrow> 'f \<Rightarrow> 'f"
  a_mul :: "'f \<Rightarrow> 'f \<Rightarrow> 'f"
  a_div :: "'f \<Rightarrow> 'f \<Rightarrow> 'f"
  a_lt :: "'f \<Rightarrow> 'f \<Rightarrow> bool"
  a_le :: "'f \<Rightarrow> 'f \<Rightarrow> bool"
  a_max :: "'f \<Rightarrow> 'f \<Rightarrow> 'f"
  a_exp :: "'f \<Rightarrow> 'f"
  a_log :: "'f \<Rightarrow> 'f"
  a_lit :: "rat \<Rightarrow> 'f"

record 'f Calculator =
  calc_b :: 'f

definition New :: "'f arith \<Rightarrow> 'f \<Rightarrow> 'f Calculator result" where
  "New F liquidityParam =
     (if a_le F liquidityParam (a_lit F 0) then Inl (Sentinel (Lmsr lmsr_ErrInvalidLiquidity))
      else Inr \<lparr>calc_b = liquidityParam\<rparr>)"

definition cost :: "'f arith \<Rightarrow> 'f Calculator \<Rightarrow> 'f \<Rightarrow> 'f \<Rightarrow> 'f" where
  "cost F c qYes qNo =
     (let maxQ = a_max F qYes qNo
      in a_mul F (calc_b c)
           (a_add F (a_div F maxQ (calc_b c))
             (a_log F (a_add F (a_exp F (a_div F (a_sub F qYes maxQ) (calc_b c)))
                               (a_exp F (a_div F (a_sub F qNo maxQ) (calc_b c)))))))"

definition Price :: "'f arith \<Rightarrow> 'f Calculator \<Rightarrow> 'f \<Rightarrow> 'f \<Rightarrow> ('f \<times> 'f) result" where
  "Price F c qYes qNo =
     (if a_lt F qYes (a_lit F 0) \<or> a_lt F qNo (a_lit F 0)
      then Inl (Sentinel (Lmsr lmsr_ErrNegativeQuantities))
      else let expYes = a_exp F (a_div F qYes (calc_b c));
               expNo = a_exp F (a_div F qNo (calc_b c));
               sum = a_add F expYes expNo
           in Inr (a_div F expYes sum, a_div F expNo sum))"

definition CalculateCost :: "'f arith \<Rightarrow> 'f Calculator \<Rightarrow> 'f \<Rightarrow> 'f \<Rightarrow> 'f \<Rightarrow> string \<Rightarrow> 'f result" where
  "CalculateCost F c qYes qNo amount outcome =
     (if a_le F amount (a_lit F 0) then Inl (Sentinel (Lmsr lmsr_ErrNegativeAmount))
      else if a_lt F qYes (a_lit F 0) \<or> a_lt F qNo (a_lit F 0)
      then Inl (Sentinel (Lmsr lmsr_ErrNegativeQuantities))
      else let costBefore = cost F c qYes qNo
           in if outcome = ''YES'' then Inr (a_sub F (cost F c (a_add F qYes amount) qNo) costBefore)
              else if outcome = ''NO'' then Inr (a_sub F (cost F c qYes (a_add F qNo amount)) costBefore)
              else Inl (Sentinel (Lmsr lmsr_ErrInvalidOutcome)))"

definition CalculateSellReturn :: "'f arith \<Rightarrow> 'f Calculator \<Rightarrow> 'f \<Rightarrow> 'f \<Rightarrow> 'f \<Rightarrow> string \<Rightarrow> 'f result" where
  "CalculateSellReturn F c qYes qNo amount outcome =
     (if a_le F amount (a_lit F 0) then Inl (Sentinel (Lmsr lmsr_ErrNegativeAmount))
      else if a_lt F qYes (a_lit F 0) \<or> a_lt F qNo (a_lit F 0)
      then Inl (Sentinel (Lmsr lmsr_ErrNegativeQuantities))
      else let costBefore = cost F c qYes qNo
           in if outcome = ''YES''
              then (if a_lt F qYes amount then Inl (Sentinel (Lmsr lmsr_ErrInsufficientTokens))
                    else Inr (a_sub F costBefore (cost F c (a_sub F qYes amount) qNo)))
              else if outcome = ''NO''
              then (if a_lt F qNo amount then Inl (Sentinel (Lmsr lmsr_ErrInsufficientTokens))
                    else Inr (a_sub F costBefore (cost F c qYes (a_sub F qNo amount))))
              else Inl (Sentinel (Lmsr lmsr_ErrInvalidOutcome)))"

definition InitialLiquidity :: "'f arith \<Rightarrow> 'f Calculator \<Rightarrow> 'f" where
  "InitialLiquidity F c = a_mul F (calc_b c) (a_log F (a_lit F 2))"

text \<open>
  In \<open>Quote\<close> the quantities after the purchase start as zero and are set by the switch on the
  outcome; the purchase cost has already refused every other outcome.
\<close>

definition Quote :: "'f arith \<Rightarrow> 'f Calculator \<Rightarrow> 'f \<Rightarrow> 'f \<Rightarrow> 'f \<Rightarrow> string \<Rightarrow> ('f \<times> 'f \<times> 'f) result" where
  "Quote F c qYes qNo amount outcome =
     tryE (CalculateCost F c qYes qNo amount outcome) same (\<lambda>cst.
       let pricePerShare = a_div F cst amount;
           (newQYes, newQNo) =
             (if outcome = ''YES'' then (a_add F qYes amount, qNo)
              else if outcome = ''NO'' then (qYes, a_add F qNo amount)
              else (a_lit F 0, a_lit F 0))
       in tryE (Price F c newQYes newQNo) same (\<lambda>(newPriceYes, _).
            Inr (cst, pricePerShare,
                 if outcome = ''YES'' then newPriceYes else a_sub F (a_lit F 1) newPriceYes)))"

definition LiquidityParam :: "'f Calculator \<Rightarrow> 'f" where
  "LiquidityParam c = calc_b c"

section \<open>The two arithmetics\<close>

definition real_arith :: "real arith" where
  "real_arith = \<lparr>a_add = (+), a_sub = (-), a_mul = (*), a_div = (/), a_lt = (<), a_le = (\<le>),
     a_max = max, a_exp = exp, a_log = ln, a_lit = of_rat\<rparr>"

definition float_arith :: "(float64 \<Rightarrow> float64) \<Rightarrow> (float64 \<Rightarrow> float64) \<Rightarrow> float64 arith" where
  "float_arith EXP LOG = \<lparr>a_add = f64_add, a_sub = f64_sub, a_mul = f64_mul, a_div = f64_div,
     a_lt = f64_lt, a_le = f64_le, a_max = f64_max, a_exp = EXP, a_log = LOG, a_lit = f64_const\<rparr>"

lemma real_arith_simps [simp]:
  "a_add real_arith = (+)" "a_sub real_arith = (-)" "a_mul real_arith = (*)" "a_div real_arith = (/)"
  "a_lt real_arith = (<)" "a_le real_arith = (\<le>)" "a_max real_arith = max"
  "a_exp real_arith = exp" "a_log real_arith = ln" "a_lit real_arith = of_rat"
  by (simp_all add: real_arith_def)

lemma float_arith_simps [simp]:
  "a_add (float_arith EXP LOG) = f64_add" "a_sub (float_arith EXP LOG) = f64_sub"
  "a_mul (float_arith EXP LOG) = f64_mul" "a_div (float_arith EXP LOG) = f64_div"
  "a_lt (float_arith EXP LOG) = f64_lt" "a_le (float_arith EXP LOG) = f64_le"
  "a_max (float_arith EXP LOG) = f64_max" "a_exp (float_arith EXP LOG) = EXP"
  "a_log (float_arith EXP LOG) = LOG" "a_lit (float_arith EXP LOG) = f64_const"
  by (simp_all add: float_arith_def)

section \<open>The contract of a cost function\<close>

text \<open>
  What a market maker needs of the cost function \<open>C\<close> of a market \<open>m\<close>: it is symmetric,
  strictly increasing, adding the same quantity to both outcomes adds that amount of money, it covers
  the larger quantity (what the winners are owed), and it starts at the funding \<open>L\<close>.
\<close>

locale cost_function =
  fixes C :: "'m \<Rightarrow> real \<Rightarrow> real \<Rightarrow> real" and L :: "'m \<Rightarrow> real" and valid :: "'m \<Rightarrow> bool"
  assumes C_sym: "valid m \<Longrightarrow> C m x y = C m y x"
    and C_shift: "valid m \<Longrightarrow> C m (x + t) (y + t) = C m x y + t"
    and C_strict: "valid m \<Longrightarrow> x < x' \<Longrightarrow> C m x y < C m x' y"
    and C_lower: "valid m \<Longrightarrow> x \<le> C m x y"
    and C_zero: "valid m \<Longrightarrow> C m 0 0 = L m"
begin

lemma buy_positive: "valid m \<Longrightarrow> 0 < a \<Longrightarrow> 0 < C m (x + a) y - C m x y"
  using C_strict [of m x "x + a" y] by simp

lemma buy_below_amount: assumes "valid m" "0 < a" shows "C m (x + a) y - C m x y < a"
proof -
  have "C m y (x + a) < C m (y + a) (x + a)" using assms by (intro C_strict) auto
  also have "\<dots> = C m x y + a" using C_shift [OF assms(1), of y a x] C_sym [OF assms(1), of x y] by simp
  finally show ?thesis using C_sym [OF assms(1), of y "x + a"] by simp
qed

lemma hedge: "valid m \<Longrightarrow> (C m (x + a) y - C m x y) + (C m (x + a) (y + a) - C m (x + a) y) = a"
  by (simp add: C_shift)

lemma covered: assumes "valid m" shows "max x y \<le> L m + (C m x y - C m 0 0)"
  using C_lower [OF assms, of x y] C_lower [OF assms, of y x] C_sym [OF assms, of x y] C_zero [OF assms] by simp

end

section \<open>The calculator over the reals\<close>

text \<open>The cost function as the literature writes it, without the shift by the maximum.\<close>

definition lse :: "real \<Rightarrow> real \<Rightarrow> real \<Rightarrow> real" where
  "lse b x y = b * ln (exp (x / b) + exp (y / b))"

lemma exp_sum_pos: "0 < exp (x::real) + exp y"
  by (simp add: add_pos_pos)

lemma lse_shift: assumes "0 < b" shows "lse b (x + t) (y + t) = lse b x y + t"
proof -
  have "exp ((x + t) / b) + exp ((y + t) / b) = exp (t / b) * (exp (x / b) + exp (y / b))"
    by (simp add: add_divide_distrib exp_add algebra_simps)
  then have "ln (exp ((x + t) / b) + exp ((y + t) / b)) = t / b + ln (exp (x / b) + exp (y / b))"
    using exp_sum_pos [of "x / b" "y / b"] by (simp add: ln_mult)
  then show ?thesis using assms by (simp add: lse_def distrib_left)
qed

lemma lse_ge: assumes "0 < b" shows "x \<le> lse b x y"
proof -
  have "x / b = ln (exp (x / b))" by simp
  also have "\<dots> \<le> ln (exp (x / b) + exp (y / b))" by (subst ln_le_cancel_iff) (auto simp: exp_sum_pos)
  finally have "b * (x / b) \<le> lse b x y" using assms unfolding lse_def by (intro mult_left_mono) auto
  then show ?thesis using assms by simp
qed

lemma cost_lse: assumes "0 < calc_b c" shows "cost real_arith c x y = lse (calc_b c) x y"
proof -
  let ?b = "calc_b c" and ?m = "max x y"
  have "cost real_arith c x y = ?b * (?m / ?b) + lse ?b (x + (- ?m)) (y + (- ?m))"
    by (simp add: cost_def lse_def Let_def distrib_left)
  also have "\<dots> = lse ?b x y" using assms by (simp only: lse_shift) simp
  finally show ?thesis .
qed

interpretation lmsr: cost_function "cost real_arith" "InitialLiquidity real_arith" "\<lambda>c. 0 < calc_b c"
proof
  fix c :: "real Calculator" and x y x' t :: real
  assume b: "0 < calc_b c"
  show "cost real_arith c x y = cost real_arith c y x"
    using b by (simp add: cost_lse lse_def add.commute)
  show "cost real_arith c (x + t) (y + t) = cost real_arith c x y + t"
    using b by (simp add: cost_lse lse_shift)
  show "cost real_arith c x y < cost real_arith c x' y" if "x < x'"
    using b that by (simp add: cost_lse lse_def exp_sum_pos divide_strict_right_mono)
  show "x \<le> cost real_arith c x y" using b by (simp add: cost_lse lse_ge)
  show "cost real_arith c 0 0 = InitialLiquidity real_arith c"
    using b by (simp add: cost_lse lse_def InitialLiquidity_def)
qed

subsection \<open>The derivative of the cost is the price\<close>

definition sigma :: "real \<Rightarrow> real \<Rightarrow> real \<Rightarrow> real" where
  "sigma b x y = exp (x / b) / (exp (x / b) + exp (y / b))"

lemma sigma_bounds: "0 < sigma b x y" "sigma b x y < 1"
  by (simp_all add: sigma_def exp_sum_pos)

lemma sigma_sum: "sigma b x y + sigma b y x = 1"
  using exp_sum_pos [of "x / b" "y / b"] by (simp add: sigma_def add.commute add_divide_distrib [symmetric])

lemma sigma_mono: assumes "0 < b" "x < x'" shows "sigma b x y < sigma b x' y"
proof -
  have "exp (x / b) * exp (y / b) < exp (x' / b) * exp (y / b)"
    using assms by (simp add: divide_strict_right_mono)
  then show ?thesis unfolding sigma_def
    by (subst divide_less_eq) (auto simp: exp_sum_pos field_simps)
qed

lemma lse_deriv: assumes "0 < b" shows "((\<lambda>x. lse b x y) has_real_derivative sigma b x y) (at x)"
proof -
  have "((\<lambda>x. exp (x / b) + exp (y / b)) has_real_derivative (exp (x / b) / b)) (at x)"
    using assms by (auto intro!: derivative_eq_intros)
  from DERIV_ln_divide [OF exp_sum_pos [of "x / b" "y / b"]] this
  have "((\<lambda>x. ln (exp (x / b) + exp (y / b))) has_real_derivative
      (1 / (exp (x / b) + exp (y / b))) * (exp (x / b) / b)) (at x)"
    by (rule DERIV_chain2)
  then have "((\<lambda>x. b * ln (exp (x / b) + exp (y / b))) has_real_derivative
      b * ((1 / (exp (x / b) + exp (y / b))) * (exp (x / b) / b))) (at x)"
    by (rule DERIV_cmult)
  then show ?thesis using assms by (simp add: lse_def [abs_def] sigma_def)
qed

lemma lse_mean_value:
  assumes "0 < b" "0 < a"
  shows "a * sigma b x y < lse b (x + a) y - lse b x y"
    and "lse b (x + a) y - lse b x y < a * sigma b (x + a) y"
proof -
  obtain z where z: "x < z" "z < x + a" "lse b (x + a) y - lse b x y = a * sigma b z y"
    using MVT2 [of x "x + a" "\<lambda>x. lse b x y" "\<lambda>z. sigma b z y"] lse_deriv [OF assms(1)] assms(2) by auto
  show "a * sigma b x y < lse b (x + a) y - lse b x y"
    using sigma_mono [OF assms(1) z(1)] z(3) assms(2) by simp
  show "lse b (x + a) y - lse b x y < a * sigma b (x + a) y"
    using sigma_mono [OF assms(1) z(2)] z(3) assms(2) by simp
qed

lemma Price_real:
  "0 \<le> x \<Longrightarrow> 0 \<le> y \<Longrightarrow> Price real_arith c x y = Inr (sigma (calc_b c) x y, sigma (calc_b c) y x)"
  by (simp add: Price_def sigma_def Let_def add.commute)

lemma CalculateCost_real:
  assumes "0 < calc_b c" "0 \<le> x" "0 \<le> y" "0 < a"
  shows "CalculateCost real_arith c x y a ''YES'' = Inr (cost real_arith c (x + a) y - cost real_arith c x y)"
    and "CalculateCost real_arith c x y a ''NO'' = Inr (cost real_arith c x (y + a) - cost real_arith c x y)"
  using assms by (simp_all add: CalculateCost_def Let_def)

subsection \<open>Trading sequences\<close>

text \<open>
  The book of a market maker that charges every purchase what \<open>CalculateCost\<close> says and pays every
  sale what \<open>CalculateSellReturn\<close> says, starting from the funding of \<open>InitialLiquidity\<close>.
\<close>

datatype trade = Buy string real | Sell string real

record book =
  bk_yes :: real
  bk_no :: real
  bk_pool :: real

definition book_shift :: "book \<Rightarrow> string \<Rightarrow> real \<Rightarrow> real \<Rightarrow> book" where
  "book_shift s outcome a money =
     (if outcome = ''YES'' then s\<lparr>bk_yes := bk_yes s + a, bk_pool := bk_pool s + money\<rparr>
      else s\<lparr>bk_no := bk_no s + a, bk_pool := bk_pool s + money\<rparr>)"

fun trade_step :: "real Calculator \<Rightarrow> trade \<Rightarrow> book \<Rightarrow> book result" where
  "trade_step c (Buy outcome a) s =
     tryE (CalculateCost real_arith c (bk_yes s) (bk_no s) a outcome) same (\<lambda>k. Inr (book_shift s outcome a k))"
| "trade_step c (Sell outcome a) s =
     tryE (CalculateSellReturn real_arith c (bk_yes s) (bk_no s) a outcome) same
       (\<lambda>k. Inr (book_shift s outcome (- a) (- k)))"

text \<open>A refused trade leaves the book as it is.\<close>

fun run_trades :: "real Calculator \<Rightarrow> trade list \<Rightarrow> book \<Rightarrow> book" where
  "run_trades c [] s = s"
| "run_trades c (t # ts) s = run_trades c ts (case trade_step c t s of Inl e \<Rightarrow> s | Inr s' \<Rightarrow> s')"

definition open_book :: "real Calculator \<Rightarrow> book" where
  "open_book c = \<lparr>bk_yes = 0, bk_no = 0, bk_pool = InitialLiquidity real_arith c\<rparr>"

definition book_inv :: "real Calculator \<Rightarrow> book \<Rightarrow> bool" where
  "book_inv c s \<longleftrightarrow> 0 \<le> bk_yes s \<and> 0 \<le> bk_no s \<and> bk_pool s = cost real_arith c (bk_yes s) (bk_no s)"

lemma trade_step_inv:
  assumes "book_inv c s" "trade_step c t s = Inr s'" shows "book_inv c s'"
  using assms
  by (cases t) (auto simp: book_inv_def book_shift_def CalculateCost_def CalculateSellReturn_def
      tryE_Inr_iff Let_def split: if_splits)

lemma run_trades_inv: "book_inv c s \<Longrightarrow> book_inv c (run_trades c ts s)"
  by (induction ts arbitrary: s) (auto split: sum.splits intro: trade_step_inv)

lemma open_book_inv: "0 < calc_b c \<Longrightarrow> book_inv c (open_book c)"
  by (simp add: book_inv_def open_book_def lmsr.C_zero)

section \<open>Properties\<close>



text \<open>
  C29 (cost_log_sum_exp): the shift by the maximum that \<open>cost\<close> uses for numerical stability does not
  change its value: it is the formula of its comment, \<open>b * ln(exp(qYes/b) + exp(qNo/b))\<close>.
\<close>

theorem cost_log_sum_exp:
  assumes "New real_arith b = Inr c"
  shows "cost real_arith c qYes qNo = b * ln (exp (qYes / b) + exp (qNo / b))"
proof -
  have "0 < b" "calc_b c = b" using assms by (auto simp: New_def split: if_splits)
  then show ?thesis by (simp add: cost_lse lse_def)
qed

theorem cost_log_sum_exp_witness:
  "cost real_arith \<lparr>calc_b = 100\<rparr> 50 20 = 100 * ln (exp (50 / 100) + exp (20 / 100))"
  by (rule cost_log_sum_exp) (simp add: New_def)









text \<open>
  The direct computation of \<open>Price\<close> is not stable in \<open>float64\<close>.  With
  the documented overflow of \<open>math.Exp\<close> to \<open>+Inf\<close>, once the quantity of the leading outcome
  exceeds 710 times the liquidity parameter, \<open>Price\<close> reports no error and returns NaN for it.
\<close>

lemma Price_overflow_NaN:
  assumes EXP_over: "\<And>x. 710 \<le> x \<Longrightarrow> EXP (Fin x) = PosInf" and EXP_0: "EXP (Fin 0) = Fin 1"
    and "calc_b c = Fin b" "0 < b" "0 \<le> q" "710 \<le> rnd (q / b)" "\<bar>rnd (q / b)\<bar> < 2 ^ 1024"
  shows "Price (float_arith EXP LOG) c (Fin q) (Fin 0) = Inr (NaN, Fin 0)"
proof -
  have "EXP (Fin (rnd (q / b))) = PosInf" using assms(6) by (rule EXP_over)
  then show ?thesis using assms by (simp add: Price_def f64_const_def round64_Fin Let_def)
qed

end
