(* ===== verification/Sdk.thy ===== *)
theory Sdk
  imports Errors Float64
begin

text \<open>
  The boundary of the program: the data types of the Stellar SDK it builds and reads (\<open>xdr\<close>,
  \<open>txnbuild\<close>, \<open>horizon\<close>), the JSON-RPC messages of \<open>internal/soroban/types.go\<close>, and the
  record \<open>env\<close> of the functions the program calls outside its own sources.

  Everything in \<open>env\<close> is a parameter of the model: the HTTP client, the JSON, XDR, base64 and strkey
  codecs, Horizon, the transaction builder of the SDK, the clock, the verbs \<open>%q\<close>, \<open>%g\<close> and
  \<open>%v\<close>, and the implementation-defined result of an overflowing conversion.  A property that needs
  one of them to behave says so as a hypothesis.  Calls that can answer differently each time act on the
  world.  The part of the world the program owns itself is the request counter of the RPC client.
\<close>

section \<open>Caches and HTTP clients\<close>

text \<open>
  What the program sets of a cache of the library \<open>samber/hot\<close> (least recently used entries go first) and of an \<open>http.Client\<close>; durations are in nanoseconds.
\<close>

record hot_settings =
  hot_Size :: nat
  hot_TTL :: int
  hot_Revalidation :: "int option"
  hot_KeepOnError :: bool

record http_client =
  hcl_Timeout :: int
  hcl_FollowRedirects :: bool

section \<open>XDR values\<close>

text \<open>
  The structs as the SDK declares them, restricted to the fields the program touches: a type tag and one
  pointer per arm of the union, so that a tag without its pointer can be written down.
\<close>

datatype ScValType = ScvBool | ScvU32 | ScvI128 | ScvBytes | ScvString | ScvSymbol | ScvVec | ScvAddress | ScvOther nat

record Int128Parts =
  i128_Hi :: int64
  i128_Lo :: uint64

datatype ScAddressType = AddressTypeAccount | AddressTypeContract | AddressTypeOther nat

record ScAddress =
  sa_Type :: ScAddressType
  sa_AccountId :: "bytes option"
  sa_ContractId :: "bytes option"

datatype ScVal = ScVal
  (sv_Type: ScValType)
  (sv_B: "bool option")
  (sv_U32: "uint32 option")
  (sv_I128: "Int128Parts option")
  (sv_Bytes: "bytes option")
  (sv_Str: "string option")
  (sv_Sym: "string option")
  (sv_Vec: "ScVal list option option")
  (sv_Address: "ScAddress option")

text \<open>Authorization entries and transaction data are opaque; \<open>[]\<close> is the zero value of the latter.\<close>

type_synonym SorobanAuthorizationEntry = bytes
type_synonym SorobanTransactionData = bytes

record InvokeHostFunctionOp =
  ih_ContractAddress :: ScAddress
  ih_FunctionName :: string
  ih_Args :: "ScVal list"
  ih_Auth :: "SorobanAuthorizationEntry list"

datatype op_body = OpInvokeHostFunction InvokeHostFunctionOp | OpOther nat

record Transaction =
  tx_SourceAccount :: string
  tx_Fee :: uint32
  tx_SeqNum :: int64
  tx_Operations :: "op_body list"
  tx_Ext :: "SorobanTransactionData option"

datatype TransactionEnvelope = EnvelopeTx Transaction | EnvelopeOther nat

text \<open>Balances, transaction records and operation records of Horizon are passed through: they are opaque.\<close>

record Account =
  ac_AccountID :: string
  ac_Sequence :: int64
  ac_Balances :: "string list"
  ac_Data :: "(string \<times> string) list"

datatype TimeBounds = InfiniteTimeout | TimeoutAt int

record TransactionParams =
  tp_SourceAccount :: Account
  tp_IncrementSequenceNum :: bool
  tp_Operations :: "InvokeHostFunctionOp list"
  tp_BaseFee :: int64
  tp_TimeBounds :: TimeBounds

datatype ContractDataDurability = DurabilityTemporary | DurabilityPersistent

record LedgerKeyContractData =
  lk_Contract :: ScAddress
  lk_Key :: ScVal
  lk_Durability :: ContractDataDurability

section \<open>JSON-RPC messages\<close>

record ResourceConfig =
  rc_InstructionLeeway :: uint64

record SimulateTransactionParams =
  sp_Transaction :: string
  sp_ResourceConfig :: "ResourceConfig option"

record SimulateResult =
  sr_Auth :: "string list"
  sr_XDR :: string

record SimulateCost =
  sc_CPUInsns :: string
  sc_MemBytes :: string

record RestorePreamble =
  rp_TransactionData :: string
  rp_MinResourceFee :: string

record LedgerEntryChange =
  lc_Type :: string
  lc_Key :: string
  lc_Before :: string
  lc_After :: string

record SimulateTransactionResult =
  sim_TransactionData :: string
  sim_MinResourceFee :: string
  sim_Events :: "string list"
  sim_Results :: "SimulateResult list"
  sim_Cost :: "SimulateCost option"
  sim_RestorePreamble :: "RestorePreamble option"
  sim_StateChanges :: "LedgerEntryChange list"
  sim_LatestLedger :: uint32
  sim_Error :: string

record SendTransactionParams =
  st_Transaction :: string

record SendTransactionResult =
  send_Status :: string
  send_Hash :: string
  send_LatestLedger :: uint32
  send_ErrorResult :: string

definition TxStatusPending :: string where "TxStatusPending = ''PENDING''"
definition TxStatusDuplicate :: string where "TxStatusDuplicate = ''DUPLICATE''"
definition TxStatusTryAgain :: string where "TxStatusTryAgain = ''TRY_AGAIN_LATER''"
definition TxStatusError :: string where "TxStatusError = ''ERROR''"

record GetTransactionParams =
  gt_Hash :: string

record GetTransactionResult =
  gtr_Status :: string
  gtr_LatestLedger :: uint32
  gtr_LatestLedgerCloseTime :: string
  gtr_OldestLedger :: uint32
  gtr_OldestLedgerCloseTime :: string
  gtr_Ledger :: uint32
  gtr_CreatedAt :: string
  gtr_ApplicationOrder :: int
  gtr_FeeBump :: bool
  gtr_EnvelopeXdr :: string
  gtr_ResultXdr :: string
  gtr_ResultMetaXdr :: string
  gtr_ReturnValue :: string

definition TxResultNotFound :: string where "TxResultNotFound = ''NOT_FOUND''"
definition TxResultSuccess :: string where "TxResultSuccess = ''SUCCESS''"
definition TxResultFailed :: string where "TxResultFailed = ''FAILED''"

record GetLedgerEntriesParams =
  gl_Keys :: "string list"

record LedgerEntry =
  le_Key :: string
  le_XDR :: string
  le_LastModifiedLedgerSeq :: uint32
  le_LiveUntilLedgerSeq :: uint32

record GetLedgerEntriesResult =
  glr_Entries :: "LedgerEntry list"
  glr_LatestLedger :: uint32

record GetHealthResult =
  gh_Status :: string
  gh_LatestLedger :: uint32
  gh_OldestLedger :: uint32
  gh_LedgerRetentionWindow :: uint32

record GetNetworkResult =
  gn_FriendbotURL :: string
  gn_Passphrase :: string
  gn_ProtocolVersion :: int

record GetLatestLedgerResult =
  ll_ID :: string
  ll_ProtocolVersion :: int
  ll_Sequence :: uint32

record EventFilter =
  ef_Type :: string
  ef_ContractIDs :: "string list"
  ef_Topics :: "string list list"

record EventPagination =
  ep_Limit :: int
  ep_Cursor :: string

record GetEventsParams =
  ge_StartLedger :: uint32
  ge_Filters :: "EventFilter list"
  ge_Pagination :: "EventPagination option"

record ContractEvent =
  ce_Type :: string
  ce_Ledger :: uint32
  ce_LedgerClosedAt :: string
  ce_ContractID :: string
  ce_ID :: string
  ce_PagingToken :: string
  ce_InSuccessfulContractCall :: bool
  ce_Topic :: "string list"
  ce_Value :: string

record GetEventsResult =
  ger_Events :: "ContractEvent list"
  ger_LatestLedger :: uint32

text \<open>The field \<open>Params any\<close> of a request holds nil or one of the parameter structs.\<close>

datatype rpc_params =
    NoParams
  | ParamsSimulate SimulateTransactionParams
  | ParamsSend SendTransactionParams
  | ParamsGetTransaction GetTransactionParams
  | ParamsLedgerEntries GetLedgerEntriesParams
  | ParamsEvents GetEventsParams

record RPCRequest =
  rpc_JSONRPC :: string
  rpc_ID :: int
  rpc_Method :: string
  rpc_Params :: rpc_params

record RPCError =
  re_Code :: int
  re_Message :: string
  re_Data :: string

definition RPCError_Error :: "RPCError \<Rightarrow> string" where
  "RPCError_Error e = (if re_Data e \<noteq> [] then re_Message e @ '': '' @ re_Data e else re_Message e)"

text \<open>\<open>json.RawMessage\<close> is the text of the result, decoded later.\<close>

record RPCResponse =
  rs_JSONRPC :: string
  rs_ID :: int
  rs_Result :: string
  rs_Error :: "RPCError option"

section \<open>HTTP\<close>

record http_request =
  hq_Method :: string
  hq_URL :: string
  hq_Headers :: "(string \<times> string) list"
  hq_Body :: string

text \<open>
  A body is the bytes that arrive, and the error that then follows instead of the end, if any.  \<open>io.LimitReader\<close> ends
  after its limit without asking for more, so that it never sees an error that comes later; \<open>io.ReadAll\<close> fails with
  the error of the reader.
\<close>

record reader =
  rd_Data :: string
  rd_Err :: "goerr option"

definition LimitReader :: "nat \<Rightarrow> reader \<Rightarrow> reader" where
  "LimitReader n b = (if length (rd_Data b) < n then b else \<lparr>rd_Data = take n (rd_Data b), rd_Err = None\<rparr>)"

definition ReadAll :: "reader \<Rightarrow> string result" where
  "ReadAll b = (case rd_Err b of Some err \<Rightarrow> Inl err | None \<Rightarrow> Inr (rd_Data b))"

definition all_of :: "string \<Rightarrow> reader" where
  "all_of data = \<lparr>rd_Data = data, rd_Err = None\<rparr>"

lemma ReadAll_all_of [simp]: "ReadAll (all_of data) = Inr data"
  by (simp add: ReadAll_def all_of_def)

lemma ReadAll_LimitReader:
  "ReadAll (LimitReader n b) = Inr data \<longleftrightarrow> (rd_Err b = None \<or> n \<le> length (rd_Data b)) \<and> data = take n (rd_Data b)"
  by (auto simp: ReadAll_def LimitReader_def split: option.splits)

record http_response =
  hr_StatusCode :: int
  hr_Status :: string
  hr_Body :: reader

section \<open>The world and the environment\<close>

record 'w world =
  w_requestID :: int64
  w_ext :: 'w

type_synonym ('w, 'a) act = "('w world, 'a) action"

definition outside :: "('w \<Rightarrow> 'r \<times> 'w) \<Rightarrow> 'w world \<Rightarrow> 'r \<times> 'w world" where
  "outside f s = (case f (w_ext s) of (r, x) \<Rightarrow> (r, s\<lparr>w_ext := x\<rparr>))"

datatype sk_version = VersionByteAccountID | VersionByteContract

datatype wait_event = CtxDone goerr | Tick

record 'w env =
  http_NewRequest :: "http_request \<Rightarrow> unit result"
  http_Do :: "http_request \<Rightarrow> 'w \<Rightarrow> http_response result \<times> 'w"
  json_MarshalRequest :: "RPCRequest \<Rightarrow> string result"
  json_RPCResponse :: "string \<Rightarrow> RPCResponse result"
  json_Health :: "string \<Rightarrow> GetHealthResult result"
  json_Network :: "string \<Rightarrow> GetNetworkResult result"
  json_LatestLedger :: "string \<Rightarrow> GetLatestLedgerResult result"
  json_Simulate :: "string \<Rightarrow> SimulateTransactionResult result"
  json_Send :: "string \<Rightarrow> SendTransactionResult result"
  json_GetTransaction :: "string \<Rightarrow> GetTransactionResult result"
  json_Events :: "string \<Rightarrow> GetEventsResult result"
  json_LedgerEntries :: "string \<Rightarrow> GetLedgerEntriesResult result"
  ctx_Err :: "'w \<Rightarrow> goerr option"
  wait_tick :: "'w \<Rightarrow> wait_event \<times> 'w"
  time_Now :: "'w \<Rightarrow> int"
  hz_AccountDetail :: "string \<Rightarrow> string \<Rightarrow> 'w \<Rightarrow> Account result \<times> 'w"
  hz_IsNotFoundError :: "goerr \<Rightarrow> bool"
  hz_Transactions :: "string \<Rightarrow> string \<Rightarrow> uint64 \<Rightarrow> 'w \<Rightarrow> string list result \<times> 'w"
  hz_Operations :: "string \<Rightarrow> string \<Rightarrow> uint64 \<Rightarrow> 'w \<Rightarrow> string list result \<times> 'w"
  hz_SubmitTransaction :: "string \<Rightarrow> TransactionEnvelope \<Rightarrow> 'w \<Rightarrow> string result \<times> 'w"
  sk_Decode :: "sk_version \<Rightarrow> string \<Rightarrow> bytes result"
  sk_Encode :: "sk_version \<Rightarrow> bytes \<Rightarrow> string result"
  tx_NewTransaction :: "TransactionParams \<Rightarrow> TransactionEnvelope result"
  xdr_MarshalEnvelope :: "TransactionEnvelope \<Rightarrow> string result"
  xdr_UnmarshalEnvelope :: "string \<Rightarrow> TransactionEnvelope result"
  xdr_UnmarshalSorobanData :: "string \<Rightarrow> SorobanTransactionData result"
  xdr_UnmarshalAuth :: "string \<Rightarrow> SorobanAuthorizationEntry result"
  xdr_UnmarshalScVal :: "bytes \<Rightarrow> ScVal result"
  xdr_MarshalScVal :: "ScVal \<Rightarrow> string result"
  xdr_MarshalLedgerKey :: "LedgerKeyContractData \<Rightarrow> string result"
  base64_Decode :: "string \<Rightarrow> bytes result"
  time_ParseRFC3339 :: "string \<Rightarrow> int result"
  conv_impl :: "float64 \<Rightarrow> int64"
  fmt_q :: "string \<Rightarrow> string"
  fmt_g :: "float64 \<Rightarrow> string"
  fmt_ScValType :: "ScValType \<Rightarrow> string"
  fmt_EnvelopeType :: "nat \<Rightarrow> string"

lemma outside_requestID [simp]: "w_requestID (snd (outside f s)) = w_requestID s"
  by (simp add: outside_def split: prod.splits)

lemma outside_eq: "f (w_ext s) = (r, x) \<Longrightarrow> outside f s = (r, s\<lparr>w_ext := x\<rparr>)"
  by (simp add: outside_def)

section \<open>An environment for examples\<close>

text \<open>Every call outside fails; the witnesses of the properties replace the functions they need.\<close>

definition null_env :: "'w env" where
  "null_env = \<lparr>http_NewRequest = (\<lambda>_. Inr ()), http_Do = (\<lambda>_ w. (Inl (ErrNew ''down''), w)),
     json_MarshalRequest = (\<lambda>r. Inr (rpc_Method r)), json_RPCResponse = (\<lambda>_. Inl (ErrNew ''json'')),
     json_Health = (\<lambda>_. Inl (ErrNew ''json'')), json_Network = (\<lambda>_. Inl (ErrNew ''json'')),
     json_LatestLedger = (\<lambda>_. Inl (ErrNew ''json'')), json_Simulate = (\<lambda>_. Inl (ErrNew ''json'')),
     json_Send = (\<lambda>_. Inl (ErrNew ''json'')), json_GetTransaction = (\<lambda>_. Inl (ErrNew ''json'')),
     json_Events = (\<lambda>_. Inl (ErrNew ''json'')), json_LedgerEntries = (\<lambda>_. Inl (ErrNew ''json'')),
     ctx_Err = (\<lambda>_. None), wait_tick = (\<lambda>w. (Tick, w)), time_Now = (\<lambda>_. 0),
     hz_AccountDetail = (\<lambda>_ _ w. (Inl (ErrNew ''horizon''), w)), hz_IsNotFoundError = (\<lambda>_. False),
     hz_Transactions = (\<lambda>_ _ _ w. (Inl (ErrNew ''horizon''), w)), hz_Operations = (\<lambda>_ _ _ w. (Inl (ErrNew ''horizon''), w)),
     hz_SubmitTransaction = (\<lambda>_ _ w. (Inl (ErrNew ''horizon''), w)),
     sk_Decode = (\<lambda>_ _. Inl (ErrNew ''strkey'')), sk_Encode = (\<lambda>_ _. Inl (ErrNew ''strkey'')),
     tx_NewTransaction = (\<lambda>_. Inl (ErrNew ''txnbuild'')), xdr_MarshalEnvelope = (\<lambda>_. Inl (ErrNew ''xdr'')),
     xdr_UnmarshalEnvelope = (\<lambda>_. Inl (ErrNew ''xdr'')), xdr_UnmarshalSorobanData = (\<lambda>_. Inl (ErrNew ''xdr'')),
     xdr_UnmarshalAuth = (\<lambda>_. Inl (ErrNew ''xdr'')), xdr_UnmarshalScVal = (\<lambda>_. Inl (ErrNew ''xdr'')),
     xdr_MarshalScVal = (\<lambda>_. Inl (ErrNew ''xdr'')), xdr_MarshalLedgerKey = (\<lambda>_. Inl (ErrNew ''xdr'')),
     base64_Decode = (\<lambda>_. Inl (ErrNew ''base64'')), time_ParseRFC3339 = (\<lambda>_. Inl (ErrNew ''time'')),
     conv_impl = (\<lambda>_. 0), fmt_q = (\<lambda>s. s), fmt_g = (\<lambda>_. ''g''), fmt_ScValType = (\<lambda>_. ''t''),
     fmt_EnvelopeType = (\<lambda>_. ''t'')\<rparr>"

end
