(* ===== verification/Http.thy ===== *)
theory Http
  imports Sdk
begin

text \<open>
  The part of Go's \<open>net/http\<close> that the handlers use: what a handler reads from a request and what it
  writes to the response.  The status line is sent by the first \<open>WriteHeader\<close> or \<open>Write\<close>; later calls of
  \<open>WriteHeader\<close> and later changes of the header have no effect.
\<close>

section \<open>Requests\<close>

text \<open>
  \<open>rq_ParseForm\<close> is the result of \<open>r.ParseForm()\<close>; the other fields are the accessors of a request, with
  the empty string for a missing value, and an error for a missing cookie.
\<close>

record Request =
  rq_ParseForm :: "unit result"
  rq_PathValue :: "string \<Rightarrow> string"
  rq_FormValue :: "string \<Rightarrow> string"
  rq_QueryGet :: "string \<Rightarrow> string"
  rq_Cookie :: "string \<Rightarrow> string result"
  rq_HeaderGet :: "string \<Rightarrow> string"
  rq_URLPath :: string

section \<open>Responses\<close>

datatype SameSite = SameSiteDefault | SameSiteLax

record Cookie =
  ck_Name :: string
  ck_Value :: string
  ck_Path :: string
  ck_MaxAge :: int
  ck_HttpOnly :: bool
  ck_SameSite :: SameSite

text \<open>\<open>rw_sent\<close> is the status once the header is sent; \<open>rw_Location\<close> is the target given to \<open>http.Redirect\<close>.\<close>

record ResponseWriter =
  rw_sent :: "int option"
  rw_ContentType :: string
  rw_Cookies :: "Cookie list"
  rw_Location :: string
  rw_Body :: string

definition new_writer :: ResponseWriter where
  "new_writer = \<lparr>rw_sent = None, rw_ContentType = [], rw_Cookies = [], rw_Location = [], rw_Body = []\<rparr>"

definition WriteHeader :: "int \<Rightarrow> ResponseWriter \<Rightarrow> ResponseWriter" where
  "WriteHeader status w = (if rw_sent w = None then w\<lparr>rw_sent := Some status\<rparr> else w)"

definition Write :: "string \<Rightarrow> ResponseWriter \<Rightarrow> ResponseWriter" where
  "Write s w = (WriteHeader 200 w)\<lparr>rw_Body := rw_Body w @ s\<rparr>"

definition SetContentType :: "string \<Rightarrow> ResponseWriter \<Rightarrow> ResponseWriter" where
  "SetContentType t w = (if rw_sent w = None then w\<lparr>rw_ContentType := t\<rparr> else w)"

definition SetCookie :: "Cookie \<Rightarrow> ResponseWriter \<Rightarrow> ResponseWriter" where
  "SetCookie c w = (if rw_sent w = None then w\<lparr>rw_Cookies := rw_Cookies w @ [c]\<rparr> else w)"

definition http_Error :: "string \<Rightarrow> int \<Rightarrow> ResponseWriter \<Rightarrow> ResponseWriter" where
  "http_Error msg code w =
     Write (msg @ [CHR 0x0A]) (WriteHeader code (SetContentType ''text/plain; charset=utf-8'' w))"

text \<open>The status the client sees: 200 if the handler returns without writing anything.\<close>

definition status :: "ResponseWriter \<Rightarrow> int" where
  "status w = (case rw_sent w of None \<Rightarrow> 200 | Some s \<Rightarrow> s)"

text \<open>The body that \<open>http.Redirect\<close> adds is not modelled.\<close>

definition http_Redirect :: "string \<Rightarrow> int \<Rightarrow> ResponseWriter \<Rightarrow> ResponseWriter" where
  "http_Redirect url code w =
     WriteHeader code (if rw_sent w = None then w\<lparr>rw_Location := url\<rparr> else w)"

lemma status_new [simp]: "rw_sent new_writer = None"
  by (simp add: new_writer_def)

lemma rw_sent_simps [simp]:
  "rw_sent (WriteHeader st w) = (case rw_sent w of None \<Rightarrow> Some st | Some s \<Rightarrow> Some s)"
  "rw_sent (Write s w) = (case rw_sent w of None \<Rightarrow> Some 200 | Some s \<Rightarrow> Some s)"
  "rw_sent (SetContentType t w) = rw_sent w" "rw_sent (SetCookie c w) = rw_sent w"
  "rw_sent (http_Error msg st w) = (case rw_sent w of None \<Rightarrow> Some st | Some s \<Rightarrow> Some s)"
  "rw_sent (http_Redirect u st w) = (case rw_sent w of None \<Rightarrow> Some st | Some s \<Rightarrow> Some s)"
  by (auto simp: WriteHeader_def Write_def SetContentType_def SetCookie_def http_Error_def http_Redirect_def split: option.splits)

lemma status_sent: "rw_sent w = Some s \<Longrightarrow> status w = s"
  by (simp add: status_def)

lemma status_http_Error [simp]: "rw_sent w = None \<Longrightarrow> status (http_Error msg st w) = st"
  by (simp add: status_def)

end
