(* ===== verification/Config.thy ===== *)
theory Config
  imports Sdk
begin

text \<open>\<open>internal/config/config.go\<close>: the constants of the two networks and of IPFS.\<close>

definition DefaultPort :: string where "DefaultPort = ''8080''"
definition MainnetHorizonURL :: string where "MainnetHorizonURL = ''https://horizon.stellar.org''"
definition MainnetSorobanRPCURL :: string where "MainnetSorobanRPCURL = ''https://mainnet.sorobanrpc.com''"
definition MainnetNetworkPassphrase :: string where
  "MainnetNetworkPassphrase = ''Public Global Stellar Network ; September 2015''"
definition TestnetHorizonURL :: string where "TestnetHorizonURL = ''https://horizon-testnet.stellar.org''"
definition TestnetSorobanRPCURL :: string where "TestnetSorobanRPCURL = ''https://soroban-testnet.stellar.org:443''"
definition TestnetNetworkPassphrase :: string where "TestnetNetworkPassphrase = ''Test SDF Network ; September 2015''"
definition DefaultBaseFee :: int64 where "DefaultBaseFee = 100"
definition DefaultIPFSGateway :: string where "DefaultIPFSGateway = ''https://gateway.pinata.cloud/ipfs/''"
definition PinataAPIURL :: string where "PinataAPIURL = ''https://api.pinata.cloud/pinning/pinJSONToIPFS''"
definition DefaultLiquidityParam :: float64 where "DefaultLiquidityParam = f64_const 100"

record NetworkConfig =
  nc_HorizonURL :: string
  nc_SorobanRPCURL :: string
  nc_NetworkPassphrase :: string

definition GetNetworkConfig :: "string \<Rightarrow> NetworkConfig" where
  "GetNetworkConfig network =
     (if network = ''mainnet''
      then \<lparr>nc_HorizonURL = MainnetHorizonURL, nc_SorobanRPCURL = MainnetSorobanRPCURL,
            nc_NetworkPassphrase = MainnetNetworkPassphrase\<rparr>
      else \<lparr>nc_HorizonURL = TestnetHorizonURL, nc_SorobanRPCURL = TestnetSorobanRPCURL,
            nc_NetworkPassphrase = TestnetNetworkPassphrase\<rparr>)"

lemmas network_constants = MainnetHorizonURL_def MainnetSorobanRPCURL_def MainnetNetworkPassphrase_def
  TestnetHorizonURL_def TestnetSorobanRPCURL_def TestnetNetworkPassphrase_def

end
