(* ===== verification/Soroban_Codec.thy ===== *)
theory Soroban_Codec
  imports Sdk
begin

text \<open>
  The value codecs of \<open>internal/soroban\<close>: outcomes (\<open>types.go\<close>), the \<open>Encode*\<close> and
  \<open>Decode*\<close> functions on contract values, addresses and ledger keys (\<open>contract.go\<close>).

  The contract of a codec is the locale \<open>codec\<close>: decoding an encoded value gives the value back.
  Injectivity of the encoder and exactness of the decoder on encodings follow in the locale; every pair
  of functions below interprets it.
\<close>

section \<open>Outcomes and the scale factor\<close>

definition OutcomeYes32 :: uint32 where "OutcomeYes32 = 0"
definition OutcomeNo32 :: uint32 where "OutcomeNo32 = 1"
definition ScaleFactor :: int64 where "ScaleFactor = 10000000"

definition OutcomeToU32 :: "'w env \<Rightarrow> string \<Rightarrow> uint32 result" where
  "OutcomeToU32 E outcome =
     (if outcome = ''YES'' then Inr OutcomeYes32
      else if outcome = ''NO'' then Inr OutcomeNo32
      else Inl (ErrWrap [] (Sentinel SorobanInvalidOutcome) ('': got '' @ fmt_q E outcome)))"

definition U32ToOutcome :: "uint32 \<Rightarrow> string result" where
  "U32ToOutcome outcome =
     (if outcome = OutcomeYes32 then Inr ''YES''
      else if outcome = OutcomeNo32 then Inr ''NO''
      else Inl (ErrWrap [] (Sentinel SorobanInvalidOutcome) ('': got '' @ dec_int (uint outcome))))"

section \<open>Contract identifiers and addresses\<close>

text \<open>The verb \<open>%c\<close> on a byte: the UTF-8 encoding of that code point.\<close>

definition fmt_c :: "char \<Rightarrow> string" where
  "fmt_c c = (let n = (of_char c :: nat) in if n < 128 then [c] else [char_of (192 + n div 64), char_of (128 + n mod 64)])"

definition ValidateContractID :: "'w env \<Rightarrow> string \<Rightarrow> unit result" where
  "ValidateContractID E cid =
     (if length cid \<noteq> 56
      then Inl (ErrNew (''invalid contract ID: must be 56 characters, got '' @ dec_int (int (length cid))))
      else if hd cid \<noteq> CHR ''C''
      then Inl (ErrNew (''invalid contract ID: must start with 'C', got '' @ [CHR 0x27] @ fmt_c (hd cid) @ [CHR 0x27]))
      else tryE (sk_Decode E VersionByteContract cid) (wrap ''invalid contract ID: '') (\<lambda>_. Inr ()))"

text \<open>\<open>copy(dst[:], src)\<close> into a zeroed array of 32 bytes.\<close>

definition copy32 :: "bytes \<Rightarrow> bytes" where
  "copy32 src = take 32 (src @ replicate 32 0)"

definition zero_ScVal :: ScVal where
  "zero_ScVal = ScVal ScvBool None None None None None None None None"

definition contract_address :: "bytes \<Rightarrow> ScAddress" where
  "contract_address b = \<lparr>sa_Type = AddressTypeContract, sa_AccountId = None, sa_ContractId = Some (copy32 b)\<rparr>"

definition account_address :: "bytes \<Rightarrow> ScAddress" where
  "account_address b = \<lparr>sa_Type = AddressTypeAccount, sa_AccountId = Some (copy32 b), sa_ContractId = None\<rparr>"

definition address_ScVal :: "ScAddress \<Rightarrow> ScVal" where
  "address_ScVal a = ScVal ScvAddress None None None None None None None (Some a)"

definition EncodeAddress :: "'w env \<Rightarrow> string \<Rightarrow> ScVal result" where
  "EncodeAddress E address =
     (if length address \<noteq> 56 then Inl (ErrNew ''invalid address length'')
      else if hd address = CHR ''G''
      then tryE (sk_Decode E VersionByteAccountID address) (wrap ''invalid account ID: '')
             (\<lambda>accountID. Inr (address_ScVal (account_address accountID)))
      else if hd address = CHR ''C''
      then tryE (sk_Decode E VersionByteContract address) (wrap ''invalid contract ID: '')
             (\<lambda>contractIDBytes. Inr (address_ScVal (contract_address contractIDBytes)))
      else Inl (ErrNew ''unsupported address type''))"

definition DecodeAddress :: "'w env \<Rightarrow> ScVal \<Rightarrow> string result" where
  "DecodeAddress E val =
     (case (sv_Type val, sv_Address val) of
        (ScvAddress, Some a) \<Rightarrow>
          (case sa_Type a of
             AddressTypeAccount \<Rightarrow>
               (case sa_AccountId a of None \<Rightarrow> Inl (ErrNew ''nil account ID'')
                | Some b \<Rightarrow> sk_Encode E VersionByteAccountID b)
           | AddressTypeContract \<Rightarrow>
               (case sa_ContractId a of None \<Rightarrow> Inl (ErrNew ''nil contract ID'')
                | Some b \<Rightarrow> sk_Encode E VersionByteContract b)
           | AddressTypeOther _ \<Rightarrow> Inl (ErrNew ''unknown address type''))
      | _ \<Rightarrow> Inl (ErrNew ''not an Address value''))"

section \<open>Encoders\<close>

text \<open>An \<open>int64\<close> as the two halves of an \<open>i128\<close>: the high half extends the sign.\<close>

definition EncodeI128 :: "int64 \<Rightarrow> ScVal" where
  "EncodeI128 value =
     (let (hi, lo) = (if 0 \<le> sint value then (0, value) else (- 1, value))
      in ScVal ScvI128 None None (Some \<lparr>i128_Hi = hi, i128_Lo = lo\<rparr>) None None None None None)"

definition EncodeU32 :: "uint32 \<Rightarrow> ScVal" where
  "EncodeU32 value = ScVal ScvU32 None (Some value) None None None None None None"

definition EncodeSymbol :: "string \<Rightarrow> ScVal" where
  "EncodeSymbol s = ScVal ScvSymbol None None None None None (Some s) None None"

definition EncodeString :: "string \<Rightarrow> ScVal" where
  "EncodeString s = ScVal ScvString None None None None (Some s) None None None"

definition EncodeBytes :: "bytes \<Rightarrow> ScVal" where
  "EncodeBytes b = ScVal ScvBytes None None None (Some b) None None None None"

definition EncodeBool :: "bool \<Rightarrow> ScVal" where
  "EncodeBool b = ScVal ScvBool (Some b) None None None None None None None"

text \<open>The argument is a Go array of 32 bytes.\<close>

definition EncodeBytes32 :: "bytes \<Rightarrow> ScVal" where
  "EncodeBytes32 b = ScVal ScvBytes None None None (Some b) None None None None"

section \<open>Decoders\<close>

definition maxInt64 :: uint64 where "maxInt64 = 2 ^ 63 - 1"

definition DecodeI128 :: "ScVal \<Rightarrow> int64 result" where
  "DecodeI128 val =
     (case (sv_Type val, sv_I128 val) of
        (ScvI128, Some p) \<Rightarrow>
          (let hi = i128_Hi p; lo = i128_Lo p
           in if hi = 0 \<and> lo \<le> maxInt64 then Inr lo
              else if hi = - 1 \<and> maxInt64 < lo then Inr lo
              else Inl (ErrNew ''I128 value too large for int64''))
      | _ \<Rightarrow> Inl (ErrNew ''not an I128 value''))"

definition DecodeU32 :: "ScVal \<Rightarrow> uint32 result" where
  "DecodeU32 val =
     (case (sv_Type val, sv_U32 val) of (ScvU32, Some v) \<Rightarrow> Inr v | _ \<Rightarrow> Inl (ErrNew ''not a U32 value''))"

definition DecodeBool :: "ScVal \<Rightarrow> bool result" where
  "DecodeBool val =
     (case (sv_Type val, sv_B val) of (ScvBool, Some b) \<Rightarrow> Inr b | _ \<Rightarrow> Inl (ErrNew ''not a Bool value''))"

definition DecodeVec :: "'w env \<Rightarrow> ScVal \<Rightarrow> ScVal list result" where
  "DecodeVec E val =
     (case (sv_Type val, sv_Vec val) of
        (ScvVec, Some (Some vec)) \<Rightarrow> Inr vec
      | _ \<Rightarrow> Inl (ErrNew (''not a Vec value, got type '' @ fmt_ScValType E (sv_Type val))))"

definition DecodeString :: "'w env \<Rightarrow> ScVal \<Rightarrow> string result" where
  "DecodeString E val =
     (case (sv_Type val, sv_Str val) of
        (ScvString, Some s) \<Rightarrow> Inr s
      | _ \<Rightarrow> Inl (ErrNew (''not a String value, got type '' @ fmt_ScValType E (sv_Type val))))"

definition ParseReturnValue :: "'w env \<Rightarrow> string \<Rightarrow> ScVal result" where
  "ParseReturnValue E returnValueXDR =
     tryE (base64_Decode E returnValueXDR) (wrap ''failed to decode base64: '') (\<lambda>decoded.
     tryE (xdr_UnmarshalScVal E decoded) (wrap ''failed to unmarshal ScVal: '') Inr)"

definition BuildContractDataKey :: "'w env \<Rightarrow> string \<Rightarrow> ScVal \<Rightarrow> ContractDataDurability \<Rightarrow> string result" where
  "BuildContractDataKey E contractAddr key durability =
     tryE (sk_Decode E VersionByteContract contractAddr) (wrap ''invalid contract ID: '') (\<lambda>contractIDBytes.
     tryE (xdr_MarshalLedgerKey E
             \<lparr>lk_Contract = contract_address contractIDBytes, lk_Key = key, lk_Durability = durability\<rparr>)
          (wrap ''failed to encode ledger key: '') Inr)"

lemmas codec_defs_list [codec_defs] =
  EncodeI128_def EncodeU32_def EncodeSymbol_def EncodeString_def EncodeBytes_def EncodeBool_def EncodeBytes32_def
  DecodeI128_def DecodeU32_def DecodeBool_def DecodeVec_def DecodeString_def
  OutcomeToU32_def U32ToOutcome_def OutcomeYes32_def OutcomeNo32_def

section \<open>The contract of a codec\<close>

locale codec =
  fixes enc :: "'a \<Rightarrow> 'v" and dec :: "'v \<Rightarrow> 'a result" and dom :: "'a \<Rightarrow> bool"
  assumes dec_enc: "dom x \<Longrightarrow> dec (enc x) = Inr x"
begin

lemma enc_inj: "dom x \<Longrightarrow> dom y \<Longrightarrow> enc x = enc y \<longleftrightarrow> x = y"
  using dec_enc by (metis sum.inject(2))

lemma dec_enc_iff: "dom x \<Longrightarrow> dec (enc x) = Inr y \<longleftrightarrow> y = x"
  by (auto simp: dec_enc)

end

interpretation u32: codec EncodeU32 DecodeU32 "\<lambda>_. True"
  by unfold_locales (simp add: codec_defs)

lemma bit63_iff: assumes "0 \<le> u" "u < 2 ^ 64" shows "bit (u :: int) 63 \<longleftrightarrow> 2 ^ 63 \<le> u"
proof -
  have "u div 2 ^ 63 = (if 2 ^ 63 \<le> u then 1 else 0)"
    using assms by (auto intro!: int_div_pos_eq [where r = "u - 2 ^ 63"] simp: div_pos_pos_trivial)
  then show ?thesis by (simp add: bit_iff_odd)
qed

lemma sint64_uint: "sint (x :: 64 word) = (if 2 ^ 63 \<le> uint x then uint x - 2 ^ 64 else uint x)"
proof -
  have u: "0 \<le> uint x" "uint x < 2 ^ 64" using uint_lt2p [of x] by simp_all
  have "sint x = signed_take_bit 63 (uint x)" by (simp add: sint_uint)
  also have "\<dots> = uint x - (if bit (uint x) 63 then 2 ^ 64 else 0)"
    using u by (simp add: signed_take_bit_eq_take_bit_minus take_bit_int_eq_self)
  finally show ?thesis using bit63_iff [OF u] by auto
qed

lemma sint64_inject: "sint (x :: 64 word) = sint y \<longleftrightarrow> x = y"
  by (auto intro: signed_word_eqI)

lemma le_maxInt64: "x \<le> maxInt64 \<longleftrightarrow> 0 \<le> sint (x :: int64)"
  using uint_lt2p [of x] by (auto simp: maxInt64_def word_le_def sint64_uint)

interpretation i128: codec EncodeI128 DecodeI128 "\<lambda>_. True"
proof
  fix x :: int64
  note le_maxInt64 [of x]
  then show "DecodeI128 (EncodeI128 x) = Inr x"
    by (auto simp: codec_defs Let_def not_le)
qed

interpretation bool: codec EncodeBool DecodeBool "\<lambda>_. True"
  by unfold_locales (simp add: codec_defs)

interpretation str: codec EncodeString "DecodeString E" "\<lambda>_. True" for E
  by unfold_locales (simp add: codec_defs)

interpretation outcome: codec "\<lambda>s. if s = ''YES'' then OutcomeYes32 else OutcomeNo32" U32ToOutcome "\<lambda>s. s = ''YES'' \<or> s = ''NO''"
  by unfold_locales (auto simp: codec_defs)

section \<open>Properties\<close>

text \<open>The number that the two halves of an \<open>i128\<close> stand for.\<close>

definition i128_value :: "Int128Parts \<Rightarrow> int" where
  "i128_value p = sint (i128_Hi p) * 2 ^ 64 + uint (i128_Lo p)"

lemma copy32_id: "length b = 32 \<Longrightarrow> copy32 b = b"
  by (simp add: copy32_def)

text \<open>
  \<open>EncodeI128\<close> writes the two's complement of its argument: the halves stand
  for exactly that number, for negative values too, and \<open>DecodeI128\<close> gives the number back.
\<close>

lemma EncodeI128_value:
  "(\<exists>p. sv_I128 (EncodeI128 v) = Some p \<and> i128_value p = sint v) \<and> DecodeI128 (EncodeI128 v) = Inr v"
proof
  have "uint v < 2 ^ 64" using uint_lt2p [of v] by simp
  then show "\<exists>p. sv_I128 (EncodeI128 v) = Some p \<and> i128_value p = sint v"
    by (auto simp: EncodeI128_def i128_value_def sint64_uint [of v])
  show "DecodeI128 (EncodeI128 v) = Inr v" by (rule i128.dec_enc) simp
qed

text \<open>
  \<open>DecodeI128\<close> accepts an \<open>i128\<close> exactly when its value fits in
  \<open>int64\<close>, and then returns that value; no value is truncated or changes its sign.
\<close>

lemma DecodeI128_exact:
  assumes "sv_Type val = ScvI128" "sv_I128 val = Some p"
  shows "(DecodeI128 val = Inr v \<longleftrightarrow> i128_value p = sint v)
    \<and> ((\<exists>e. DecodeI128 val = Inl e) \<longleftrightarrow> i128_value p < - (2 ^ 63) \<or> 2 ^ 63 \<le> i128_value p)"
proof -
  let ?h = "sint (i128_Hi p)" and ?l = "uint (i128_Lo p)"
  have lo: "0 \<le> ?l" "?l < 2 ^ 64" using uint_lt2p [of "i128_Lo p"] by simp_all
  have s: "- (2 ^ 63) \<le> sint v" "sint v < 2 ^ 63" by (rule sint_int64_bounds)+
  have D: "DecodeI128 val = (if ?h = 0 \<and> ?l < 2 ^ 63 \<or> ?h = - 1 \<and> 2 ^ 63 \<le> ?l then Inr (i128_Lo p)
      else Inl (ErrNew ''I128 value too large for int64''))"
    using assms lo sint64_inject [of "i128_Hi p" 0] sint64_inject [of "i128_Hi p" "- 1"]
    by (auto simp: DecodeI128_def Let_def maxInt64_def word_le_def word_less_def)
  have fit: "i128_value p = sint (i128_Lo p)" if "?h = 0 \<and> ?l < 2 ^ 63 \<or> ?h = - 1 \<and> 2 ^ 63 \<le> ?l"
    using that by (auto simp: i128_value_def sint64_uint [of "i128_Lo p"])
  have big: "i128_value p < - (2 ^ 63) \<or> 2 ^ 63 \<le> i128_value p" if "\<not> (?h = 0 \<and> ?l < 2 ^ 63 \<or> ?h = - 1 \<and> 2 ^ 63 \<le> ?l)"
  proof -
    consider "?h = 0" | "?h = - 1" | "1 \<le> ?h" | "?h \<le> - 2" by linarith
    then show ?thesis
    proof cases
      case 3
      then have "2 ^ 64 \<le> ?h * 2 ^ 64" by simp
      with lo(1) have "2 ^ 64 \<le> i128_value p" unfolding i128_value_def by linarith
      then have "2 ^ 63 \<le> i128_value p" by simp
      then show ?thesis ..
    next
      case 4
      then have "?h * 2 ^ 64 \<le> (- 2) * 2 ^ 64" by (intro mult_right_mono) simp_all
      with lo(2) have "i128_value p < (- 2) * 2 ^ 64 + 2 ^ 64" unfolding i128_value_def by linarith
      then have "i128_value p < - (2 ^ 63)" by simp
      then show ?thesis ..
    qed (use that in \<open>auto simp: i128_value_def\<close>)
  qed
  show ?thesis using D fit big s sint_int64_bounds [of "i128_Lo p"] sint64_inject [of "i128_Lo p" v]
    by (auto split: if_splits)
qed

text \<open>The two outcome tables are inverse to each other, and exactly the codes 0 and 1 are decoded.\<close>

lemma Outcome_codec_exact:
  "OutcomeToU32 E s = Inr n \<longleftrightarrow> U32ToOutcome n = Inr s"
  "(\<exists>t. U32ToOutcome n = Inr t) \<longleftrightarrow> n = 0 \<or> n = 1"
  "OutcomeToU32 E s = Inl e \<Longrightarrow> errors_Is e SorobanInvalidOutcome"
  by (auto simp: codec_defs split: if_splits)

text \<open>
  An address that \<open>EncodeAddress\<close> accepts is decoded to the same string, for
  accounts and for contracts.  The hypothesis is the documented behaviour of the strkey package: a
  decoded key has 32 bytes and encodes to the string it came from.
\<close>

lemma address_roundtrip:
  assumes strkey: "\<And>ver a b. sk_Decode E ver a = Inr b \<Longrightarrow> length b = 32 \<and> sk_Encode E ver b = Inr a"
    and "EncodeAddress E address = Inr val"
  shows "DecodeAddress E val = Inr address"
  using assms(2) strkey
  by (fastforce simp: EncodeAddress_def DecodeAddress_def address_ScVal_def account_address_def
      contract_address_def tryE_Inr_iff copy32_id split: if_splits)

definition key_env :: "unit env" where
  "key_env = null_env\<lparr>
     sk_Decode := (\<lambda>ver a. if ver = VersionByteAccountID \<and> a = replicate 56 (CHR ''G'') then Inr (replicate 32 7)
       else if ver = VersionByteContract \<and> a = replicate 56 (CHR ''C'') then Inr (replicate 32 9)
       else Inl (ErrNew ''strkey'')),
     sk_Encode := (\<lambda>ver b. if ver = VersionByteAccountID then Inr (replicate 56 (CHR ''G''))
       else Inr (replicate 56 (CHR ''C'')))\<rparr>"

end
