(* ===== verification/Soroban_Client.thy ===== *)
theory Soroban_Client
  imports Soroban_Codec
begin

text \<open>
  The JSON-RPC client of \<open>internal/soroban/client.go\<close>.  The atomic request counter of the client is
  the field \<open>w_requestID\<close> of the world; everything else a call does happens in the environment.
  Two methods return a result together with an error; \<open>ret\<close> keeps both.  The polling loop of
  \<open>WaitForTransaction\<close> has no bound of its own: it is a partial function, whose value \<open>None\<close>
  is polling for ever, and it is proved to return when the clock moves on.
\<close>

section \<open>The client and one call\<close>

record Client =
  cl_rpcURL :: string

definition NewClient :: "string \<Rightarrow> 'w world \<Rightarrow> Client \<times> 'w world" where
  "NewClient rpcURL s = (\<lparr>cl_rpcURL = rpcURL\<rparr>, s\<lparr>w_requestID := 1\<rparr>)"

definition RPCURL :: "Client \<Rightarrow> string" where
  "RPCURL c = cl_rpcURL c"

definition rpc_http_request :: "Client \<Rightarrow> string \<Rightarrow> http_request" where
  "rpc_http_request c body =
     \<lparr>hq_Method = ''POST'', hq_URL = cl_rpcURL c, hq_Headers = [(''Content-Type'', ''application/json'')], hq_Body = body\<rparr>"

text \<open>From the encoded request to the checked response.\<close>

definition post_request :: "'w env \<Rightarrow> Client \<Rightarrow> string \<Rightarrow> string \<Rightarrow> ('w, RPCResponse) act" where
  "post_request E c method body =
     (let httpReq = rpc_http_request c body in
      tryM (liftM (http_NewRequest E httpReq)) (wrap ''failed to create request: '') (\<lambda>_.
      tryM (outside (http_Do E httpReq)) (wrap ''request failed: '') (\<lambda>httpResp.
      tryM (liftM (ReadAll (hr_Body httpResp))) (wrap ''failed to read response: '') (\<lambda>respBody.
      tryM (liftM (json_RPCResponse E respBody)) (wrap ''failed to unmarshal response: '') (\<lambda>resp.
      case rs_Error resp of
        Some e \<Rightarrow> failM (ErrWrap [] (Sentinel (Soroban soroban_ErrRPCError))
                         ('': method '' @ method @ '': '' @ RPCError_Error e))
      | None \<Rightarrow> retM resp)))))"

definition call :: "'w env \<Rightarrow> Client \<Rightarrow> string \<Rightarrow> rpc_params \<Rightarrow> ('w, RPCResponse) act" where
  "call E c method params s =
     (let rid = w_requestID s + 1;
          req = \<lparr>rpc_JSONRPC = ''2.0'', rpc_ID = sint rid, rpc_Method = method, rpc_Params = params\<rparr>
      in tryM (liftM (json_MarshalRequest E req)) (wrap ''failed to marshal request: '')
           (post_request E c method) (s\<lparr>w_requestID := rid\<rparr>))"

definition unmarshal_result :: "(string \<Rightarrow> 'a result) \<Rightarrow> RPCResponse \<Rightarrow> ('w, 'a) act" where
  "unmarshal_result decode resp =
     tryM (liftM (decode (rs_Result resp))) (wrap ''failed to unmarshal result: '') retM"

section \<open>The methods\<close>

definition GetHealth :: "'w env \<Rightarrow> Client \<Rightarrow> ('w, GetHealthResult) act" where
  "GetHealth E c = tryM (call E c ''getHealth'' NoParams) same (unmarshal_result (json_Health E))"

definition GetNetwork :: "'w env \<Rightarrow> Client \<Rightarrow> ('w, GetNetworkResult) act" where
  "GetNetwork E c = tryM (call E c ''getNetwork'' NoParams) same (unmarshal_result (json_Network E))"

definition GetLatestLedger :: "'w env \<Rightarrow> Client \<Rightarrow> ('w, GetLatestLedgerResult) act" where
  "GetLatestLedger E c = tryM (call E c ''getLatestLedger'' NoParams) same (unmarshal_result (json_LatestLedger E))"

text \<open>A result, an error, or both.\<close>

datatype 'a ret = Ret 'a | Fail goerr | FailWith 'a goerr

text \<open>The view of a caller that looks at the error first and then only at one of the two.\<close>

definition err_first :: "('w world \<Rightarrow> 'a ret \<times> 'w world) \<Rightarrow> ('w, 'a) act" where
  "err_first m s = (case m s of
     (Ret x, s') \<Rightarrow> (Inr x, s') | (Fail e, s') \<Rightarrow> (Inl e, s') | (FailWith x e, s') \<Rightarrow> (Inl e, s'))"

definition SimulateTransaction :: "'w env \<Rightarrow> Client \<Rightarrow> string \<Rightarrow> 'w world \<Rightarrow> SimulateTransactionResult ret \<times> 'w world" where
  "SimulateTransaction E c txXDR s =
     (case tryM (call E c ''simulateTransaction'' (ParamsSimulate \<lparr>sp_Transaction = txXDR, sp_ResourceConfig = None\<rparr>))
             same (unmarshal_result (json_Simulate E)) s of
        (Inl e, s') \<Rightarrow> (Fail e, s')
      | (Inr result, s') \<Rightarrow>
          (if sim_Error result \<noteq> []
           then (FailWith result (ErrWrap [] (Sentinel (Soroban soroban_ErrSimulationFailed)) ('': '' @ sim_Error result)), s')
           else (Ret result, s')))"

definition SendTransaction :: "'w env \<Rightarrow> Client \<Rightarrow> string \<Rightarrow> 'w world \<Rightarrow> SendTransactionResult ret \<times> 'w world" where
  "SendTransaction E c txXDR s =
     (case tryM (call E c ''sendTransaction'' (ParamsSend \<lparr>st_Transaction = txXDR\<rparr>))
             same (unmarshal_result (json_Send E)) s of
        (Inl e, s') \<Rightarrow> (Fail e, s')
      | (Inr result, s') \<Rightarrow>
          (if send_Status result = TxStatusError
           then (FailWith result (ErrWrap [] (Sentinel (Soroban soroban_ErrTransactionFailed)) ('': '' @ send_ErrorResult result)), s')
           else (Ret result, s')))"

definition GetTransaction :: "'w env \<Rightarrow> Client \<Rightarrow> string \<Rightarrow> ('w, GetTransactionResult) act" where
  "GetTransaction E c hash =
     tryM (call E c ''getTransaction'' (ParamsGetTransaction \<lparr>gt_Hash = hash\<rparr>)) same
       (unmarshal_result (json_GetTransaction E))"

definition GetEvents :: "'w env \<Rightarrow> Client \<Rightarrow> GetEventsParams \<Rightarrow> ('w, GetEventsResult) act" where
  "GetEvents E c params =
     tryM (call E c ''getEvents'' (ParamsEvents params)) same (unmarshal_result (json_Events E))"

definition GetLedgerEntries :: "'w env \<Rightarrow> Client \<Rightarrow> string list \<Rightarrow> ('w, GetLedgerEntriesResult) act" where
  "GetLedgerEntries E c keys =
     tryM (call E c ''getLedgerEntries'' (ParamsLedgerEntries \<lparr>gl_Keys = keys\<rparr>)) same
       (unmarshal_result (json_LedgerEntries E))"

section \<open>Polling\<close>

definition maxUnknownStatusRetries :: nat where "maxUnknownStatusRetries = 5"

partial_function (option) wait_loop ::
  "'w env \<Rightarrow> Client \<Rightarrow> string \<Rightarrow> int \<Rightarrow> nat \<Rightarrow> 'w world \<Rightarrow> (GetTransactionResult ret \<times> 'w world) option" where
  "wait_loop E c hash deadline unknownStatusCount s =
     (case outside (wait_tick E) s of (ev, s1) \<Rightarrow>
      (case ev of
         CtxDone e \<Rightarrow> Some (Fail e, s1)
       | Tick \<Rightarrow>
          if deadline < time_Now E (w_ext s1)
          then Some (Fail (ErrWrap [] (Sentinel (Soroban soroban_ErrTimeout)) ('': '' @ hash)), s1)
          else (case GetTransaction E c hash s1 of (r, s2) \<Rightarrow>
            (case r of
               Inl e \<Rightarrow> Some (Fail e, s2)
             | Inr result \<Rightarrow>
                if gtr_Status result = TxResultNotFound then wait_loop E c hash deadline 0 s2
                else if gtr_Status result = TxResultSuccess then Some (Ret result, s2)
                else if gtr_Status result = TxResultFailed
                then Some (FailWith result (ErrWrap [] (Sentinel (Soroban soroban_ErrTransactionFailed))
                       ('': '' @ gtr_ResultXdr result)), s2)
                else if unknownStatusCount + 1 \<ge> maxUnknownStatusRetries
                then Some (Fail (ErrWrap [] (Sentinel (Soroban soroban_ErrUnknownStatus))
                       ('': received '' @ fmt_q E (gtr_Status result) @ '' '' @ dec_nat (unknownStatusCount + 1)
                        @ '' times for hash '' @ hash)), s2)
                else wait_loop E c hash deadline (unknownStatusCount + 1) s2))))"

text \<open>Times are nanoseconds, as \<open>time.Duration\<close> has them.\<close>

definition WaitForTransaction ::
  "'w env \<Rightarrow> Client \<Rightarrow> string \<Rightarrow> int64 \<Rightarrow> 'w world \<Rightarrow> (GetTransactionResult ret \<times> 'w world) option" where
  "WaitForTransaction E c hash timeout s = wait_loop E c hash (time_Now E (w_ext s) + sint timeout) 0 s"

section \<open>Which calls leave the network alone\<close>

text \<open>
  A property of the outside that every call keeps, except the request that submits a transaction.  That an
  operation keeps every such property says that it never submits one.
\<close>

definition quiet :: "'w env \<Rightarrow> ('w \<Rightarrow> bool) \<Rightarrow> bool" where
  "quiet E P \<longleftrightarrow>
     (\<forall>r body c w. rpc_Method r \<noteq> ''sendTransaction'' \<and> json_MarshalRequest E r = Inr body \<and> P w \<longrightarrow>
        P (snd (http_Do E (rpc_http_request c body) w)))
     \<and> (\<forall>w. P w \<longrightarrow> P (snd (wait_tick E w)))
     \<and> (\<forall>u a w. P w \<longrightarrow> P (snd (hz_AccountDetail E u a w)))"

lemma preserves_outside:
  "(\<And>w. P w \<Longrightarrow> P (snd (f w))) \<Longrightarrow> preserves (\<lambda>s. P (w_ext s)) (outside f)"
  by (auto simp: preserves_def outside_def split: prod.splits) (metis snd_conv)

lemma preserves_case_option [preserves_intros]:
  "preserves P m \<Longrightarrow> (\<And>x. preserves P (n x)) \<Longrightarrow> preserves P (case v of None \<Rightarrow> m | Some x \<Rightarrow> n x)"
  by (cases v) auto

lemma preserves_post_request:
  "(\<And>w. P w \<Longrightarrow> P (snd (http_Do E (rpc_http_request c body) w))) \<Longrightarrow>
   preserves (\<lambda>s. P (w_ext s)) (post_request E c method body)"
  unfolding post_request_def Let_def by (intro preserves_intros preserves_outside)

lemma preserves_call [preserves_intros]:
  fixes E :: "'w env"
  assumes "quiet E P" "method \<noteq> ''sendTransaction''"
  shows "preserves (\<lambda>s. P (w_ext s)) (call E c method params)"
  unfolding preserves_def
proof (intro allI impI)
  fix s :: "'w world" assume P: "P (w_ext s)"
  define s' where "s' = s\<lparr>w_requestID := w_requestID s + 1\<rparr>"
  define req where "req = \<lparr>rpc_JSONRPC = ''2.0'', rpc_ID = sint (w_requestID s + 1), rpc_Method = method, rpc_Params = params\<rparr>"
  have m: "rpc_Method req \<noteq> ''sendTransaction''" using assms(2) by (simp add: req_def)
  have eq: "call E c method params s = tryM (liftM (json_MarshalRequest E req)) (wrap ''failed to marshal request: '')
      (post_request E c method) s'"
    by (simp add: call_def Let_def s'_def req_def)
  have P': "P (w_ext s')" using P by (simp add: s'_def)
  show "P (w_ext (snd (call E c method params s)))"
  proof (cases "json_MarshalRequest E req")
    case (Inl e)
    with P' eq show ?thesis by simp
  next
    case (Inr body)
    have "preserves (\<lambda>s. P (w_ext s)) (post_request E c method body)"
      using assms(1) m Inr unfolding quiet_def by (intro preserves_post_request) blast
    with P' eq Inr show ?thesis by (simp add: preserves_def)
  qed
qed

lemma preserves_unmarshal_result [preserves_intros]: "preserves Q (unmarshal_result decode resp)"
  unfolding unmarshal_result_def by (intro preserves_intros)

lemma preserves_err_first [preserves_intros]: "preserves Q m \<Longrightarrow> preserves Q (err_first m)"
  unfolding preserves_def err_first_def by (auto split: prod.splits ret.splits)

lemma preserves_methods [preserves_intros]:
  assumes "quiet E P"
  shows "preserves (\<lambda>s. P (w_ext s)) (GetLatestLedger E c)"
    "preserves (\<lambda>s. P (w_ext s)) (SimulateTransaction E c xdr)"
    "preserves (\<lambda>s. P (w_ext s)) (GetTransaction E c hash)"
    "preserves (\<lambda>s. P (w_ext s)) (GetEvents E c ps)"
proof -
  show "preserves (\<lambda>s. P (w_ext s)) (GetLatestLedger E c)" "preserves (\<lambda>s. P (w_ext s)) (GetTransaction E c hash)"
    "preserves (\<lambda>s. P (w_ext s)) (GetEvents E c ps)"
    unfolding GetLatestLedger_def GetTransaction_def GetEvents_def using assms by (intro preserves_intros; simp)+
  let ?m = "tryM (call E c ''simulateTransaction'' (ParamsSimulate \<lparr>sp_Transaction = xdr, sp_ResourceConfig = None\<rparr>))
             same (unmarshal_result (json_Simulate E))"
  have "preserves (\<lambda>s. P (w_ext s)) ?m" using assms by (intro preserves_intros; simp)
  then show "preserves (\<lambda>s. P (w_ext s)) (SimulateTransaction E c xdr)"
    unfolding SimulateTransaction_def preserves_def
    by (auto split: prod.splits sum.splits)
qed

section \<open>Polling returns\<close>

text \<open>
  One round of polling that goes on: a tick before the deadline and an answer that is neither a success nor a
  failure.  The numbers count the unknown answers in a row.
\<close>

inductive polls :: "'w env \<Rightarrow> Client \<Rightarrow> string \<Rightarrow> int \<Rightarrow> nat \<Rightarrow> 'w world \<Rightarrow> nat \<Rightarrow> 'w world \<Rightarrow> bool" for E c hash deadline where
  polls_start: "polls E c hash deadline n s n s"
| polls_not_found: "outside (wait_tick E) s = (Tick, s1) \<Longrightarrow> time_Now E (w_ext s1) \<le> deadline \<Longrightarrow>
    GetTransaction E c hash s1 = (Inr r, s2) \<Longrightarrow> gtr_Status r = ''NOT_FOUND'' \<Longrightarrow>
    polls E c hash deadline 0 s2 m s' \<Longrightarrow> polls E c hash deadline n s m s'"
| polls_unknown: "outside (wait_tick E) s = (Tick, s1) \<Longrightarrow> time_Now E (w_ext s1) \<le> deadline \<Longrightarrow>
    GetTransaction E c hash s1 = (Inr r, s2) \<Longrightarrow> gtr_Status r \<notin> {''NOT_FOUND'', ''SUCCESS'', ''FAILED''} \<Longrightarrow> n < 4 \<Longrightarrow>
    polls E c hash deadline (n + 1) s2 m s' \<Longrightarrow> polls E c hash deadline n s m s'"

text \<open>The last round: how the result follows from the tick, the clock and the answer of the server.\<close>

fun last_poll :: "'w env \<Rightarrow> Client \<Rightarrow> string \<Rightarrow> int \<Rightarrow> nat \<Rightarrow> 'w world \<Rightarrow> GetTransactionResult ret \<Rightarrow> 'w world \<Rightarrow> bool" where
  "last_poll E c hash deadline n s (Ret r) s' \<longleftrightarrow>
     (\<exists>s1. outside (wait_tick E) s = (Tick, s1) \<and> time_Now E (w_ext s1) \<le> deadline
        \<and> GetTransaction E c hash s1 = (Inr r, s') \<and> gtr_Status r = ''SUCCESS'')"
| "last_poll E c hash deadline n s (FailWith r e) s' \<longleftrightarrow>
     (\<exists>s1. outside (wait_tick E) s = (Tick, s1) \<and> time_Now E (w_ext s1) \<le> deadline
        \<and> GetTransaction E c hash s1 = (Inr r, s') \<and> gtr_Status r = ''FAILED'' \<and> errors_Is e (Soroban soroban_ErrTransactionFailed))"
| "last_poll E c hash deadline n s (Fail e) s' \<longleftrightarrow>
     outside (wait_tick E) s = (CtxDone e, s')
     \<or> outside (wait_tick E) s = (Tick, s') \<and> deadline < time_Now E (w_ext s') \<and> errors_Is e (Soroban soroban_ErrTimeout)
     \<or> (\<exists>s1. outside (wait_tick E) s = (Tick, s1) \<and> time_Now E (w_ext s1) \<le> deadline
        \<and> (GetTransaction E c hash s1 = (Inl e, s')
          \<or> (\<exists>r. GetTransaction E c hash s1 = (Inr r, s') \<and> gtr_Status r \<notin> {''NOT_FOUND'', ''SUCCESS'', ''FAILED''}
              \<and> 4 \<le> n \<and> errors_Is e (Soroban soroban_ErrUnknownStatus))))"

text \<open>The clock does not run backwards during a request and moves on with every tick.\<close>

definition clock_advances :: "'w env \<Rightarrow> bool" where
  "clock_advances E \<longleftrightarrow>
     (\<forall>w w'. wait_tick E w = (Tick, w') \<longrightarrow> time_Now E w < time_Now E w')
     \<and> (\<forall>q w. time_Now E w \<le> time_Now E (snd (http_Do E q w)))"

lemma clock_GetTransaction:
  assumes "clock_advances E"
  shows "time_Now E (w_ext s) \<le> time_Now E (w_ext (snd (GetTransaction E c hash s)))"
proof -
  let ?P = "\<lambda>w. time_Now E (w_ext s) \<le> time_Now E w"
  have post: "preserves (\<lambda>s. ?P (w_ext s)) (post_request E c ''getTransaction'' body)" for body
    using assms order_trans unfolding clock_advances_def by (intro preserves_post_request) blast
  have "preserves (\<lambda>s. ?P (w_ext s)) (tryM (liftM r) w (post_request E c ''getTransaction''))" for r w
    by (intro preserves_intros post)
  then have "?P (w_ext (snd (call E c ''getTransaction'' ps s)))" for ps
    by (simp add: call_def Let_def preserves_def)
  then show ?thesis
    by (simp add: GetTransaction_def tryM_apply unmarshal_result_def split: prod.splits sum.splits)
      (metis snd_conv)
qed

lemma wait_loop_returns:
  assumes "clock_advances E"
  shows "\<exists>r s' m s0. wait_loop E c hash deadline n s = Some (r, s') \<and> polls E c hash deadline n s m s0 \<and> last_poll E c hash deadline m s0 r s'"
proof (induction "nat (deadline + 1 - time_Now E (w_ext s))" arbitrary: n s rule: less_induct)
  case less
  obtain ev s1 where tick: "outside (wait_tick E) s = (ev, s1)" by (cases "outside (wait_tick E) s")
  obtain a s2 where get: "GetTransaction E c hash s1 = (a, s2)" by (cases "GetTransaction E c hash s1")
  have ends: ?case if "wait_loop E c hash deadline n s = Some (r, s')" "last_poll E c hash deadline n s r s'" for r s'
    using that polls_start by blast
  note loop = wait_loop.simps [of E c hash deadline n s]
  show ?case
  proof (cases "ev = Tick \<and> time_Now E (w_ext s1) \<le> deadline")
    case False
    show ?thesis
    proof (cases ev)
      case (CtxDone e)
      show ?thesis by (intro ends [of "Fail e" s1]; simp add: loop tick CtxDone)
    next
      case Tick
      show ?thesis
        by (intro ends [of "Fail (ErrWrap [] (Sentinel (Soroban soroban_ErrTimeout)) ('': '' @ hash))" s1]; use Tick False in \<open>simp add: loop tick\<close>)
    qed
  next
    case True
    then have "time_Now E (w_ext s) < time_Now E (w_ext s1)"
      using assms tick by (auto simp: clock_advances_def outside_def split: prod.splits)
    also have "\<dots> \<le> time_Now E (w_ext s2)" using clock_GetTransaction [OF assms, of s1 c hash] get by simp
    finally have "nat (deadline + 1 - time_Now E (w_ext s2)) < nat (deadline + 1 - time_Now E (w_ext s))"
      using True \<open>time_Now E (w_ext s) < time_Now E (w_ext s1)\<close> by linarith
    note IH = less.hyps [OF this]
    have t: "outside (wait_tick E) s = (Tick, s1)" "time_Now E (w_ext s1) \<le> deadline" using tick True by auto
    note round = t leD [OF t(2)] get TxResultNotFound_def TxResultSuccess_def TxResultFailed_def maxUnknownStatusRetries_def
    show ?thesis
    proof (cases a)
      case (Inl e)
      show ?thesis by (intro ends [of "Fail e" s2]; simp add: loop round Inl)
    next
      case (Inr r)
      note get' = get [unfolded Inr]
      consider "gtr_Status r = ''NOT_FOUND''" | "gtr_Status r = ''SUCCESS''" | "gtr_Status r = ''FAILED''"
        | "gtr_Status r \<notin> {''NOT_FOUND'', ''SUCCESS'', ''FAILED''}" by blast
      then show ?thesis
      proof cases
        case 1
        then have "wait_loop E c hash deadline n s = wait_loop E c hash deadline 0 s2"
          by (subst wait_loop.simps) (simp add: round Inr)
        moreover have "polls E c hash deadline 0 s2 m s0 \<Longrightarrow> polls E c hash deadline n s m s0" for m s0
          using t get' 1 by (rule polls_not_found)
        ultimately show ?thesis using IH [of 0] by metis
      next
        case 2
        show ?thesis by (intro ends [of "Ret r" s2]; simp add: loop round Inr 2)
      next
        case 3
        show ?thesis
          by (intro ends [of "FailWith r (ErrWrap [] (Sentinel (Soroban soroban_ErrTransactionFailed)) ('': '' @ gtr_ResultXdr r))" s2];
              simp add: loop round Inr 3)
      next
        case 4
        show ?thesis
        proof (cases "n < 4")
          case True
          with 4 have "wait_loop E c hash deadline n s = wait_loop E c hash deadline (n + 1) s2"
            by (subst wait_loop.simps) (simp add: round Inr)
          moreover have "polls E c hash deadline (n + 1) s2 m s0 \<Longrightarrow> polls E c hash deadline n s m s0" for m s0
            using t get' 4 True by (rule polls_unknown)
          ultimately show ?thesis using IH [of "n + 1"] by metis
        next
          case False
          show ?thesis
            by (intro ends [of "Fail (ErrWrap [] (Sentinel (Soroban soroban_ErrUnknownStatus))
                ('': received '' @ fmt_q E (gtr_Status r) @ '' '' @ dec_nat (n + 1) @ '' times for hash '' @ hash))" s2];
              use 4 False in \<open>simp add: loop round Inr\<close>)
        qed
      qed
    qed
  qed
qed

text \<open>
  C36 (WaitForTransaction_returns): polling for a transaction always returns when the clock moves on, whatever
  the server answers, and the result is decided by the last round: it is the server's answer without an error exactly for the
  status \<open>SUCCESS\<close>; with \<open>ErrTransactionFailed\<close> for the status \<open>FAILED\<close>; a bare error only if the context
  ended, the deadline passed (\<open>ErrTimeout\<close>), the request failed (its error), or the server gave an unknown status for the fifth
  time in a row (\<open>ErrUnknownStatus\<close>).  All earlier rounds were before the deadline and answered \<open>NOT_FOUND\<close> or with an unknown status.
\<close>

theorem WaitForTransaction_returns:
  assumes "clock_advances E" and "deadline = time_Now E (w_ext s) + sint timeout"
  shows "\<exists>r s' n s0. WaitForTransaction E c hash timeout s = Some (r, s')
    \<and> polls E c hash deadline 0 s n s0 \<and> last_poll E c hash deadline n s0 r s'"
  unfolding WaitForTransaction_def assms(2) by (rule wait_loop_returns [OF assms(1)])

text \<open>A server that does not know the transaction for four seconds and then reports its success.\<close>

definition clock_env :: "int env" where
  "clock_env = null_env\<lparr>wait_tick := (\<lambda>w. (Tick, w + 2000000000)), time_Now := (\<lambda>w. w),
     http_Do := (\<lambda>q w. (Inr \<lparr>hr_StatusCode = 200, hr_Status = ''200 OK'',
        hr_Body = all_of (if w < 4000000000 then ''NOT_FOUND'' else ''SUCCESS'')\<rparr>, w)),
     json_RPCResponse := (\<lambda>t. Inr \<lparr>rs_JSONRPC = ''2.0'', rs_ID = 1, rs_Result = t, rs_Error = None\<rparr>),
     json_GetTransaction := (\<lambda>t. Inr \<lparr>gtr_Status = t, gtr_LatestLedger = 1, gtr_LatestLedgerCloseTime = [], gtr_OldestLedger = 1,
        gtr_OldestLedgerCloseTime = [], gtr_Ledger = 1, gtr_CreatedAt = [], gtr_ApplicationOrder = 1, gtr_FeeBump = False,
        gtr_EnvelopeXdr = [], gtr_ResultXdr = [], gtr_ResultMetaXdr = [], gtr_ReturnValue = []\<rparr>)\<rparr>"

theorem WaitForTransaction_returns_witness:
  "\<exists>r s' n s0. WaitForTransaction clock_env \<lparr>cl_rpcURL = ''http://rpc''\<rparr> ''abc'' 60000000000 \<lparr>w_requestID = 1, w_ext = 0\<rparr> = Some (Ret r, s')
     \<and> last_poll clock_env \<lparr>cl_rpcURL = ''http://rpc''\<rparr> ''abc'' 60000000000 n s0 (Ret r) s'"
proof -
  let ?c = "\<lparr>cl_rpcURL = ''http://rpc''\<rparr>" and ?s = "\<lparr>w_requestID = 1, w_ext = 0\<rparr> :: int world"
  have clock: "clock_advances clock_env" by (simp add: clock_advances_def clock_env_def null_env_def)
  have "\<exists>r s'. WaitForTransaction clock_env ?c ''abc'' 60000000000 ?s = Some (Ret r, s')"
    unfolding WaitForTransaction_def
    by (subst wait_loop.simps, simp add: clock_env_def null_env_def outside_def GetTransaction_def call_def post_request_def Let_def
        tryM_apply unmarshal_result_def TxResultNotFound_def)
      (subst wait_loop.simps, simp add: outside_def GetTransaction_def call_def post_request_def Let_def
        tryM_apply unmarshal_result_def TxResultNotFound_def TxResultSuccess_def)
  moreover have "60000000000 = time_Now clock_env (w_ext ?s) + sint (60000000000 :: int64)" by (simp add: clock_env_def)
  note WaitForTransaction_returns [OF clock this, of ?c "''abc''"]
  ultimately show ?thesis by (metis option.inject prod.inject)
qed

end
