(* ===== verification/Ipfs.thy ===== *)
theory Ipfs
  imports Config Soroban_Client
begin

text \<open>
  \<open>internal/ipfs/client.go\<close>: content identifiers, fetching from the gateway with retries, the cache, and
  pinning.  The cache of the library \<open>samber/hot\<close>, the timers and the JSON codecs are in the record
  \<open>ipfs_deps\<close>; HTTP is in the environment.  A body is the string of its bytes.
\<close>

section \<open>Content identifiers\<close>

text \<open>The two character classes of the regular expression \<open>ipfsCIDPattern\<close>.\<close>

definition base58_char :: "char \<Rightarrow> bool" where
  "base58_char c \<longleftrightarrow> (let n = (of_char c :: nat) in
     49 \<le> n \<and> n \<le> 57 \<or> 65 \<le> n \<and> n \<le> 72 \<or> 74 \<le> n \<and> n \<le> 78 \<or> 80 \<le> n \<and> n \<le> 90
     \<or> 97 \<le> n \<and> n \<le> 107 \<or> 109 \<le> n \<and> n \<le> 122)"

definition base32_char :: "char \<Rightarrow> bool" where
  "base32_char c \<longleftrightarrow> (let n = (of_char c :: nat) in 65 \<le> n \<and> n \<le> 90 \<or> 97 \<le> n \<and> n \<le> 122 \<or> 50 \<le> n \<and> n \<le> 55)"

definition ipfsCIDPattern :: "string \<Rightarrow> bool" where
  "ipfsCIDPattern s \<longleftrightarrow>
     (prefix ''Qm'' s \<and> length s = 2 + 44 \<and> list_all base58_char (drop 2 s))
     \<or> (prefix ''b'' s \<and> 1 + 58 \<le> length s \<and> list_all base32_char (drop 1 s))"

definition ValidateCID :: "string \<Rightarrow> unit result" where
  "ValidateCID cid =
     (if length cid < 10 \<or> length cid > 100 then Inl (Sentinel IpfsInvalidCID)
      else if \<not> ipfsCIDPattern cid then Inl (Sentinel IpfsInvalidCID)
      else Inr ())"

section \<open>The client\<close>

record IpfsClient =
  ic_apiKey :: string
  ic_apiSecret :: string
  ic_gatewayURL :: string
  ic_httpClient :: http_client
  ic_cache :: hot_settings

definition cacheTTL :: int where "cacheTTL = 300000000000"
definition cacheSize :: nat where "cacheSize = 1000"

definition Ipfs_NewClient :: "string \<Rightarrow> string \<Rightarrow> IpfsClient" where
  "Ipfs_NewClient apiKey apiSecret =
     \<lparr>ic_apiKey = apiKey, ic_apiSecret = apiSecret, ic_gatewayURL = DefaultIPFSGateway,
      ic_httpClient = \<lparr>hcl_Timeout = 30000000000, hcl_FollowRedirects = True\<rparr>,
      ic_cache = \<lparr>hot_Size = cacheSize, hot_TTL = cacheTTL, hot_Revalidation = Some cacheTTL, hot_KeepOnError = True\<rparr>\<rparr>"

definition GatewayURL :: "IpfsClient \<Rightarrow> string" where
  "GatewayURL c = ic_gatewayURL c"

definition CanPin :: "IpfsClient \<Rightarrow> bool" where
  "CanPin c \<longleftrightarrow> ic_apiKey c \<noteq> [] \<and> ic_apiSecret c \<noteq> []"

record PinataResponse =
  pr_IpfsHash :: string
  pr_PinSize :: int
  pr_Timestamp :: int
  pr_IsDuplicate :: bool

record 'w ipfs_deps =
  ipfs_hotGet :: "string \<Rightarrow> 'w \<Rightarrow> (string \<times> bool \<times> goerr option) \<times> 'w"
  ipfs_hotSet :: "string \<Rightarrow> string \<Rightarrow> 'w \<Rightarrow> unit \<times> 'w"
  wait_After :: "int \<Rightarrow> 'w \<Rightarrow> wait_event \<times> 'w"
  time_Sleep :: "int \<Rightarrow> 'w \<Rightarrow> unit \<times> 'w"
  json_Pinata :: "reader \<Rightarrow> PinataResponse result"

section \<open>Fetching\<close>

definition gateway_request :: "IpfsClient \<Rightarrow> string \<Rightarrow> http_request" where
  "gateway_request c hash = \<lparr>hq_Method = ''GET'', hq_URL = ic_gatewayURL c @ hash, hq_Headers = [], hq_Body = []\<rparr>"

definition doFetch :: "'w env \<Rightarrow> IpfsClient \<Rightarrow> string \<Rightarrow> ('w, string) act" where
  "doFetch E c hash =
     tryM (liftM (http_NewRequest E (gateway_request c hash))) (wrap ''failed to create request: '') (\<lambda>_.
     tryM (outside (http_Do E (gateway_request c hash))) (wrap ''failed to fetch from IPFS: '') (\<lambda>resp.
     if hr_StatusCode resp \<noteq> 200 then failM (GatewayError \<lparr>ge_status = hr_StatusCode resp, ge_msg = hr_Status resp\<rparr>)
     else tryM (liftM (ReadAll (hr_Body resp))) (wrap ''failed to read response: '') retM))"

text \<open>\<open>errors.As(err, &ge)\<close>: the first gateway error in the chain.\<close>

primrec errors_As_gateway :: "goerr \<Rightarrow> gatewayError option" where
  "errors_As_gateway (Sentinel s) = None"
| "errors_As_gateway (ErrNew t) = None"
| "errors_As_gateway (ErrWrap pre e post) = errors_As_gateway e"
| "errors_As_gateway (GatewayError ge) = Some ge"

definition isRateLimitError :: "goerr \<Rightarrow> bool" where
  "isRateLimitError err \<longleftrightarrow> (case errors_As_gateway err of None \<Rightarrow> False | Some ge \<Rightarrow> ge_status ge = 429)"

definition maxRetries :: nat where "maxRetries = 3"
definition initialBackoff :: int where "initialBackoff = 500000000"
definition maxBackoff :: int where "maxBackoff = 5000000000"

text \<open>
  The loop, from an attempt on; \<open>lastErr\<close> is nil only before the first attempt.  The wait before a retry
  is a \<open>select\<close> on the context and a timer.
\<close>

function fetch_loop :: "'w env \<Rightarrow> 'w ipfs_deps \<Rightarrow> IpfsClient \<Rightarrow> string \<Rightarrow> nat \<Rightarrow> int \<Rightarrow> goerr option \<Rightarrow> ('w, string) act" where
  "fetch_loop E D c hash attempt backoff lastErr w =
     (if attempt > maxRetries then
        (case lastErr of
           Some e \<Rightarrow> (Inl (wrap ''max retries exceeded: '' e), w)
         | None \<Rightarrow> (Inl (ErrNew ''max retries exceeded: %!w(<nil>)''), w))
      else
        (case (if attempt > 0 then outside (wait_After D backoff) w else (Tick, w)) of
           (CtxDone e, w1) \<Rightarrow> (Inl e, w1)
         | (Tick, w1) \<Rightarrow>
             (let backoff' = (if attempt > 0 then min (backoff * 2) maxBackoff else backoff) in
              case doFetch E c hash w1 of
                (Inr data, w2) \<Rightarrow> (Inr data, w2)
              | (Inl err, w2) \<Rightarrow>
                  (if \<not> isRateLimitError err then (Inl err, w2)
                   else fetch_loop E D c hash (attempt + 1) backoff' (Some err) w2))))"
  by pat_completeness auto
termination
  by (relation "measure (\<lambda>(E, D, c, hash, attempt, backoff, lastErr, w). Suc maxRetries - attempt)") auto

declare fetch_loop.simps [simp del]

definition fetchFromGateway :: "'w env \<Rightarrow> 'w ipfs_deps \<Rightarrow> IpfsClient \<Rightarrow> string \<Rightarrow> ('w, string) act" where
  "fetchFromGateway E D c hash =
     tryM (liftM (ValidateCID hash)) (wrap (''invalid IPFS hash '' @ fmt_q E hash @ '': '')) (\<lambda>_.
     fetch_loop E D c hash 0 initialBackoff None)"

text \<open>The loader of the cache, run by the library: the bodies that could be fetched.\<close>

fun load_from :: "'w env \<Rightarrow> 'w ipfs_deps \<Rightarrow> IpfsClient \<Rightarrow> nat \<Rightarrow> string list \<Rightarrow> 'w world \<Rightarrow> (string \<times> string) list \<times> 'w world" where
  "load_from E D c i [] w = ([], w)"
| "load_from E D c i (hash # hashes) w =
     (let w1 = (if i > 0 then snd (outside (time_Sleep D 200000000) w) else w) in
      case fetchFromGateway E D c hash w1 of
        (Inl e, w2) \<Rightarrow> load_from E D c (i + 1) hashes w2
      | (Inr data, w2) \<Rightarrow> (case load_from E D c (i + 1) hashes w2 of (rest, w3) \<Rightarrow> ((hash, data) # rest, w3)))"

definition loadFromGateway :: "'w env \<Rightarrow> 'w ipfs_deps \<Rightarrow> IpfsClient \<Rightarrow> string list \<Rightarrow> 'w world \<Rightarrow> (string \<times> string) list \<times> 'w world" where
  "loadFromGateway E D c hashes w = load_from E D c 0 hashes w"

section \<open>Reading and pinning\<close>

text \<open>The target of the decoding is given by its decoder.\<close>

definition GetJSON :: "'w env \<Rightarrow> 'w ipfs_deps \<Rightarrow> IpfsClient \<Rightarrow> string \<Rightarrow> (string \<Rightarrow> 'v result) \<Rightarrow> ('w, 'v) act" where
  "GetJSON E D c hash decode w =
     (case outside (ipfs_hotGet D hash) w of ((cached, found, err), w1) \<Rightarrow>
        (case err of
           Some e \<Rightarrow> (Inl (wrap ''cache error: '' e), w1)
         | None \<Rightarrow>
             tryM (if \<not> found
                   then tryM (fetchFromGateway E D c hash) same (\<lambda>data w2.
                        case outside (ipfs_hotSet D hash data) w2 of (_, w3) \<Rightarrow> (Inr data, w3))
                   else retM cached) same (\<lambda>data.
             tryM (liftM (decode data)) (wrap ''failed to decode JSON: '') retM) w1))"

text \<open>The argument is the encoded envelope with the content, or the error of encoding it.\<close>

definition pin_request :: "IpfsClient \<Rightarrow> string \<Rightarrow> http_request" where
  "pin_request c body = \<lparr>hq_Method = ''POST'', hq_URL = PinataAPIURL,
     hq_Headers = [(''Content-Type'', ''application/json''), (''pinata_api_key'', ic_apiKey c), (''pinata_secret_api_key'', ic_apiSecret c)],
     hq_Body = body\<rparr>"

definition PinJSON :: "'w env \<Rightarrow> 'w ipfs_deps \<Rightarrow> IpfsClient \<Rightarrow> string result \<Rightarrow> ('w, string) act" where
  "PinJSON E D c marshalled =
     (if ic_apiKey c = [] \<or> ic_apiSecret c = [] then failM (ErrNew ''pinata credentials not configured'')
      else
      tryM (liftM marshalled) (wrap ''failed to marshal JSON: '') (\<lambda>jsonData.
      tryM (liftM (http_NewRequest E (pin_request c jsonData))) (wrap ''failed to create request: '') (\<lambda>_.
      tryM (outside (http_Do E (pin_request c jsonData))) (wrap ''failed to pin JSON: '') (\<lambda>resp.
      if hr_StatusCode resp \<noteq> 200
      then failM (ErrNew (''pinata error: '' @ hr_Status resp @ '' - '' @ rd_Data (hr_Body resp)))
      else tryM (liftM (json_Pinata D (hr_Body resp))) (wrap ''failed to decode response: '') (\<lambda>pinataResp.
           retM (pr_IpfsHash pinataResp))))))"

text \<open>The body of the goroutine that \<open>Warmup\<close> starts.\<close>

fun warmup_from :: "'w env \<Rightarrow> 'w ipfs_deps \<Rightarrow> IpfsClient \<Rightarrow> nat \<Rightarrow> string list \<Rightarrow> 'w world \<Rightarrow> unit \<times> 'w world" where
  "warmup_from E D c i [] w = ((), w)"
| "warmup_from E D c i (hash # hashes) w =
     (if hash = [] then warmup_from E D c (i + 1) hashes w
      else let w1 = (if i > 0 then snd (outside (time_Sleep D 200000000) w) else w) in
        case fetchFromGateway E D c hash w1 of
          (Inl e, w2) \<Rightarrow> warmup_from E D c (i + 1) hashes w2
        | (Inr data, w2) \<Rightarrow> warmup_from E D c (i + 1) hashes (snd (outside (ipfs_hotSet D hash data) w2)))"

definition Warmup :: "'w env \<Rightarrow> 'w ipfs_deps \<Rightarrow> IpfsClient \<Rightarrow> string list \<Rightarrow> 'w world \<Rightarrow> unit \<times> 'w world" where
  "Warmup E D c hashes w = warmup_from E D c 0 hashes w"

section \<open>Only safe requests reach the gateway\<close>

definition alnum :: "char \<Rightarrow> bool" where
  "alnum c \<longleftrightarrow> (let n = (of_char c :: nat) in 48 \<le> n \<and> n \<le> 57 \<or> 65 \<le> n \<and> n \<le> 90 \<or> 97 \<le> n \<and> n \<le> 122)"

text \<open>A string that cannot leave its place in a URL: letters and digits only, of limited length.\<close>

definition safe_segment :: "string \<Rightarrow> bool" where
  "safe_segment h \<longleftrightarrow> 46 \<le> length h \<and> length h \<le> 100 \<and> list_all alnum h"

lemma base58_alnum: "base58_char c \<Longrightarrow> alnum c"
  by (auto simp: base58_char_def alnum_def Let_def)

lemma base32_alnum: "base32_char c \<Longrightarrow> alnum c"
  by (auto simp: base32_char_def alnum_def Let_def)

lemma alnum_letters: "alnum (CHR ''Q'')" "alnum (CHR ''m'')" "alnum (CHR ''b'')"
  by (simp_all add: alnum_def)

lemma ValidateCID_safe: assumes "ValidateCID h = Inr u" shows "safe_segment h"
proof -
  have len: "length h \<le> 100" and pat: "ipfsCIDPattern h" using assms by (auto simp: ValidateCID_def split: if_splits)
  from pat show ?thesis unfolding ipfsCIDPattern_def
  proof (elim disjE conjE)
    assume q: "prefix ''Qm'' h" "length h = 2 + 44" "list_all base58_char (drop 2 h)"
    then obtain r where "h = ''Qm'' @ r" by (auto elim: prefixE)
    with q len show ?thesis by (auto simp: safe_segment_def alnum_letters list_all_iff base58_alnum)
  next
    assume b: "prefix ''b'' h" "1 + 58 \<le> length h" "list_all base32_char (drop 1 h)"
    then obtain r where "h = ''b'' @ r" by (auto elim: prefixE)
    with b len show ?thesis by (auto simp: safe_segment_def alnum_letters list_all_iff base32_alnum)
  qed
qed

text \<open>A property of the outside that the cache, the timers and requests for safe paths keep.\<close>

definition gateway_keeps :: "'w env \<Rightarrow> 'w ipfs_deps \<Rightarrow> IpfsClient \<Rightarrow> ('w \<Rightarrow> bool) \<Rightarrow> bool" where
  "gateway_keeps E D c P \<longleftrightarrow>
     (\<forall>h w. safe_segment h \<and> P w \<longrightarrow> P (snd (http_Do E (gateway_request c h) w)))
     \<and> (\<forall>h w. P w \<longrightarrow> P (snd (ipfs_hotGet D h w))) \<and> (\<forall>h d w. P w \<longrightarrow> P (snd (ipfs_hotSet D h d w)))
     \<and> (\<forall>t w. P w \<longrightarrow> P (snd (wait_After D t w))) \<and> (\<forall>t w. P w \<longrightarrow> P (snd (time_Sleep D t w)))"

lemma gateway_outside:
  assumes "gateway_keeps E D c P"
  shows "preserves (\<lambda>w. P (w_ext w)) (outside (ipfs_hotGet D h))" "preserves (\<lambda>w. P (w_ext w)) (outside (ipfs_hotSet D h d))"
    "preserves (\<lambda>w. P (w_ext w)) (outside (wait_After D t))" "preserves (\<lambda>w. P (w_ext w)) (outside (time_Sleep D t))"
  using assms unfolding gateway_keeps_def by (intro preserves_outside; blast)+

lemma gateway_http:
  assumes "gateway_keeps E D c P" "safe_segment h"
  shows "preserves (\<lambda>w. P (w_ext w)) (outside (http_Do E (gateway_request c h)))"
  using assms unfolding gateway_keeps_def by (intro preserves_outside; blast)

lemma preserves_doFetch:
  "gateway_keeps E D c P \<Longrightarrow> safe_segment h \<Longrightarrow> preserves (\<lambda>w. P (w_ext w)) (doFetch E c h)"
  unfolding doFetch_def by (intro preserves_intros gateway_http)

text \<open>The world at the end of the loop, from the worlds after each wait and each request.\<close>

lemma preserves_fetch_loop:
  assumes f: "preserves Q (doFetch E c h)" and t: "\<And>t. preserves Q (outside (wait_After D t))"
  shows "Q w \<Longrightarrow> Q (snd (fetch_loop E D c h n b e w))"
proof (induction "Suc maxRetries - n" arbitrary: n b e w rule: less_induct)
  case less
  obtain ev w1 where wait: "(if n > 0 then outside (wait_After D b) w else (Tick, w)) = (ev, w1)" by (metis surj_pair)
  obtain r w2 where fetch: "doFetch E c h w1 = (r, w2)" by (cases "doFetch E c h w1")
  have Q1: "Q w1" using wait less.prems preservesD [OF t] by (auto split: if_splits)
  have Q2: "Q w2" using preservesD [OF f Q1 fetch] .
  show ?case
    using less.prems Q1 Q2 less.hyps [of "n + 1"] fetch wait
    by (subst fetch_loop.simps) (auto simp: Let_def split: wait_event.splits sum.splits option.splits)
qed

lemma preserves_fetchFromGateway:
  assumes k: "gateway_keeps E D c P" shows "preserves (\<lambda>w. P (w_ext w)) (fetchFromGateway E D c h)"
  unfolding preserves_def
proof (intro allI impI)
  fix w :: "'a world" assume P: "P (w_ext w)"
  show "P (w_ext (snd (fetchFromGateway E D c h w)))"
  proof (cases "ValidateCID h")
    case (Inl e)
    then show ?thesis using P by (simp add: fetchFromGateway_def)
  next
    case (Inr u)
    have "P (w_ext (snd (fetch_loop E D c h 0 initialBackoff None w)))"
      by (rule preserves_fetch_loop [where Q = "\<lambda>w. P (w_ext w)"])
        (use preserves_doFetch [OF k ValidateCID_safe [OF Inr]] gateway_outside(3) [OF k] P in auto)
    then show ?thesis using Inr by (simp add: fetchFromGateway_def)
  qed
qed

lemma preserves_load_from:
  assumes k: "gateway_keeps E D c P" shows "P (w_ext w) \<Longrightarrow> P (w_ext (snd (load_from E D c i hs w)))"
proof (induction hs arbitrary: i w)
  case (Cons h hs)
  have "P (w_ext (if i > 0 then snd (outside (time_Sleep D 200000000) w) else w))"
    using Cons.prems gateway_outside(4) [OF k] by (simp add: preserves_def)
  then show ?case
    using Cons.IH preservesD [OF preserves_fetchFromGateway [OF k]]
    by (auto simp: Let_def split: prod.splits sum.splits) (metis snd_conv)+
qed simp

lemma preserves_warmup_from:
  assumes k: "gateway_keeps E D c P" shows "P (w_ext w) \<Longrightarrow> P (w_ext (snd (warmup_from E D c i hs w)))"
proof (induction hs arbitrary: i w)
  case (Cons h hs)
  have "P (w_ext (if i > 0 then snd (outside (time_Sleep D 200000000) w) else w))"
    using Cons.prems gateway_outside(4) [OF k] by (simp add: preserves_def)
  moreover have "P (w_ext (snd (outside (ipfs_hotSet D h d) w)))" if "P (w_ext w)" for d w
    using that gateway_outside(2) [OF k] by (simp add: preserves_def)
  ultimately show ?case
    using Cons preservesD [OF preserves_fetchFromGateway [OF k]]
    by (auto simp: Let_def split: prod.splits sum.splits)
qed simp

lemma preserves_GetJSON:
  assumes k: "gateway_keeps E D c P" shows "preserves (\<lambda>w. P (w_ext w)) (GetJSON E D c hash decode)"
proof -
  have "preserves (\<lambda>w. P (w_ext w)) (\<lambda>w2. case outside (ipfs_hotSet D hash d) w2 of (_, w3) \<Rightarrow> (Inr d, w3))" for d
    using gateway_outside(2) [OF k, of hash d] unfolding preserves_def by (auto split: prod.splits)
  then have body: "preserves (\<lambda>w. P (w_ext w)) (tryM (if \<not> found
                   then tryM (fetchFromGateway E D c hash) same (\<lambda>data w2.
                        case outside (ipfs_hotSet D hash data) w2 of (_, w3) \<Rightarrow> (Inr data, w3))
                   else retM cached) same (\<lambda>data.
             tryM (liftM (decode data)) (wrap ''failed to decode JSON: '') retM))" for found cached
    using preserves_fetchFromGateway [OF k] by (intro preserves_intros)
  show "preserves (\<lambda>w. P (w_ext w)) (GetJSON E D c hash decode)"
    unfolding preserves_def
  proof (intro allI impI)
    fix w :: "'a world" assume P: "P (w_ext w)"
    obtain cached found err w1 where g: "outside (ipfs_hotGet D hash) w = ((cached, found, err), w1)"
      by (cases "outside (ipfs_hotGet D hash) w") auto
    have P1: "P (w_ext w1)" using preservesD [OF gateway_outside(1) [OF k] P g] .
    then show "P (w_ext (snd (GetJSON E D c hash decode w)))"
      using body [of found cached] unfolding preserves_def by (cases err; cases found) (simp_all add: GetJSON_def g)
  qed
qed

text \<open>
  C22 (gateway_requests_safe): whatever string it is given as a hash, the client only sends requests of the form
  GET gateway URL followed by letters and digits, at most 100 of them: no path separator, dot, query, fragment or
  host part of the hash ever reaches the HTTP client.  This covers single reads, background refreshes and the
  warm-up.
\<close>

theorem gateway_requests_safe:
  assumes k: "gateway_keeps E D c P"
  shows "preserves (\<lambda>w. P (w_ext w)) (fetchFromGateway E D c hash)
    \<and> preserves (\<lambda>w. P (w_ext w)) (GetJSON E D c hash decode)
    \<and> preserves (\<lambda>w. P (w_ext w)) (loadFromGateway E D c hashes)
    \<and> preserves (\<lambda>w. P (w_ext w)) (Warmup E D c hashes)"
proof (intro conjI)
  show "preserves (\<lambda>w. P (w_ext w)) (fetchFromGateway E D c hash)" using k by (rule preserves_fetchFromGateway)
  show "preserves (\<lambda>w. P (w_ext w)) (loadFromGateway E D c hashes)" "preserves (\<lambda>w. P (w_ext w)) (Warmup E D c hashes)"
    using preserves_load_from [OF k] preserves_warmup_from [OF k] by (auto simp: preserves_def loadFromGateway_def Warmup_def)
  show "preserves (\<lambda>w. P (w_ext w)) (GetJSON E D c hash decode)" using k by (rule preserves_GetJSON)
qed

text \<open>The witness logs the URLs that are requested.\<close>

definition log_env :: "string list env" where
  "log_env = null_env\<lparr>http_Do := (\<lambda>q w. (Inl (ErrNew ''down''), hq_URL q # w))\<rparr>"

definition log_deps :: "'w ipfs_deps" where
  "log_deps = \<lparr>ipfs_hotGet = (\<lambda>_ w. (([], False, None), w)), ipfs_hotSet = (\<lambda>_ _ w. ((), w)),
     wait_After = (\<lambda>_ w. (Tick, w)), time_Sleep = (\<lambda>_ w. ((), w)), json_Pinata = (\<lambda>_. Inl (ErrNew ''json''))\<rparr>"

definition safe_url :: "string \<Rightarrow> bool" where
  "safe_url u \<longleftrightarrow> prefix DefaultIPFSGateway u \<and> list_all alnum (drop (length DefaultIPFSGateway) u)"

theorem gateway_requests_safe_witness:
  "list_all safe_url (w_ext (snd (Warmup log_env log_deps (Ipfs_NewClient [] []) [''../../admin'', ''Qm'' @ replicate 44 (CHR ''a'')] \<lparr>w_requestID = 1, w_ext = []\<rparr>)))"
proof -
  have k: "gateway_keeps log_env log_deps (Ipfs_NewClient [] []) (list_all safe_url)"
    by (simp add: gateway_keeps_def log_env_def log_deps_def gateway_request_def Ipfs_NewClient_def safe_url_def safe_segment_def)
  have "preserves (\<lambda>w. list_all safe_url (w_ext w)) (Warmup log_env log_deps (Ipfs_NewClient [] []) [''../../admin'', ''Qm'' @ replicate 44 (CHR ''a'')])"
    using gateway_requests_safe [OF k] by blast
  then show ?thesis by (simp add: preserves_def)
qed

section \<open>Retries are bounded\<close>

lemma doFetch_count:
  assumes "\<And>q w. cnt (snd (http_Do E q w)) \<le> cnt w + (1::nat)"
  shows "cnt (w_ext (snd (doFetch E c h w))) \<le> cnt (w_ext w) + 1"
proof -
  obtain r x where d: "http_Do E (gateway_request c h) (w_ext w) = (r, x)" by (cases "http_Do E (gateway_request c h) (w_ext w)")
  then have "cnt x \<le> cnt (w_ext w) + 1" using assms [of "gateway_request c h" "w_ext w"] by simp
  then show ?thesis
    by (simp add: doFetch_def tryM_apply outside_def d split: sum.splits)
qed

text \<open>
  C35 (fetchFromGateway_bounded): a fetch makes at most four requests, whatever the gateway answers, none for a hash that is not
  valid, and only one unless the answer is the status 429: the data or the first error is then returned as it is.
\<close>

theorem fetchFromGateway_bounded:
  assumes http: "\<And>q w. cnt (snd (http_Do E q w)) \<le> cnt w + (1::nat)"
    and wait: "\<And>t w. cnt (snd (wait_After D t w)) \<le> cnt w"
  shows "cnt (w_ext (snd (fetchFromGateway E D c h w))) \<le> cnt (w_ext w) + 4
    \<and> (ValidateCID h = Inl v \<longrightarrow> snd (fetchFromGateway E D c h w) = w)
    \<and> (ValidateCID h = Inr () \<and> doFetch E c h w = (r, w') \<and> (\<forall>e. r = Inl e \<longrightarrow> \<not> isRateLimitError e) \<longrightarrow>
        fetchFromGateway E D c h w = (r, w'))"
proof (intro conjI)
  have loop: "cnt (w_ext (snd (fetch_loop E D c h n b e w))) \<le> cnt (w_ext w) + (Suc maxRetries - n)" for n b e w
  proof (induction "Suc maxRetries - n" arbitrary: n b e w rule: less_induct)
    case less
    obtain ev w1 where wt: "(if n > 0 then outside (wait_After D b) w else (Tick, w)) = (ev, w1)" by (metis surj_pair)
    obtain r w2 where fetch: "doFetch E c h w1 = (r, w2)" by (cases "doFetch E c h w1")
    have w1: "cnt (w_ext w1) \<le> cnt (w_ext w)"
      using wt wait [of b "w_ext w"] by (auto simp: outside_def split: if_splits prod.splits)
    have w2: "cnt (w_ext w2) \<le> cnt (w_ext w) + 1" using doFetch_count [of cnt E c h w1, OF http] fetch w1 by simp
    show ?case
    proof (cases "n > maxRetries")
      case True
      then show ?thesis by (subst fetch_loop.simps) (simp split: option.splits)
    next
      case False
      then have "cnt (w_ext (snd (fetch_loop E D c h (n + 1) b' e' w2))) \<le> cnt (w_ext w2) + (Suc maxRetries - (n + 1))" for b' e'
        by (intro less.hyps) simp
      moreover have "cnt (w_ext w2) + (Suc maxRetries - (n + 1)) \<le> cnt (w_ext w) + (Suc maxRetries - n)"
        using w2 False by simp
      ultimately have "cnt (w_ext (snd (fetch_loop E D c h (n + 1) b' e' w2))) \<le> cnt (w_ext w) + (Suc maxRetries - n)" for b' e'
        by (rule order_trans)
      then show ?thesis using False wt w1 w2 fetch
        by (subst fetch_loop.simps) (auto simp: Let_def split: wait_event.splits sum.splits)
    qed
  qed
  show "cnt (w_ext (snd (fetchFromGateway E D c h w))) \<le> cnt (w_ext w) + 4"
    using loop [of 0 initialBackoff None w] by (cases "ValidateCID h") (simp_all add: fetchFromGateway_def maxRetries_def)
  show "ValidateCID h = Inl v \<longrightarrow> snd (fetchFromGateway E D c h w) = w" by (simp add: fetchFromGateway_def)
  show "ValidateCID h = Inr () \<and> doFetch E c h w = (r, w') \<and> (\<forall>e. r = Inl e \<longrightarrow> \<not> isRateLimitError e) \<longrightarrow>
        fetchFromGateway E D c h w = (r, w')"
  proof (intro impI, elim conjE)
    assume v: "ValidateCID h = Inr ()" and f: "doFetch E c h w = (r, w')" and n: "\<forall>e. r = Inl e \<longrightarrow> \<not> isRateLimitError e"
    have "fetch_loop E D c h 0 initialBackoff None w = (r, w')" using f n by (subst fetch_loop.simps) (cases r; simp)
    then show "fetchFromGateway E D c h w = (r, w')" using v by (simp add: fetchFromGateway_def)
  qed
qed

definition busy_env :: "nat env" where
  "busy_env = null_env\<lparr>http_Do := (\<lambda>q w. (Inr \<lparr>hr_StatusCode = 429, hr_Status = ''429 Too Many Requests'', hr_Body = all_of []\<rparr>, w + 1))\<rparr>"

text \<open>A busy gateway and one that answers at once, each counting its requests.\<close>

definition ready_env :: "nat env" where
  "ready_env = null_env\<lparr>http_Do := (\<lambda>q w. (Inr \<lparr>hr_StatusCode = 200, hr_Status = ''200 OK'', hr_Body = all_of ''{}''\<rparr>, w + 1))\<rparr>"

theorem fetchFromGateway_bounded_witness:
  "w_ext (snd (fetchFromGateway busy_env log_deps (Ipfs_NewClient [] []) (''Qm'' @ replicate 44 (CHR ''a'')) \<lparr>w_requestID = 1, w_ext = 0\<rparr>)) \<le> 0 + 4
   \<and> fetchFromGateway ready_env log_deps (Ipfs_NewClient [] []) (''Qm'' @ replicate 44 (CHR ''a'')) \<lparr>w_requestID = 1, w_ext = 0\<rparr> =
       (Inr ''{}'', \<lparr>w_requestID = 1, w_ext = 1\<rparr>)"
proof
  let ?c = "Ipfs_NewClient [] []" and ?h = "''Qm'' @ replicate 44 (CHR ''a'')" and ?w = "\<lparr>w_requestID = 1, w_ext = 0\<rparr> :: nat world"
  show "w_ext (snd (fetchFromGateway busy_env log_deps ?c ?h ?w)) \<le> 0 + 4"
    using fetchFromGateway_bounded [of "\<lambda>n. n" busy_env log_deps ?c ?h ?w] by (simp add: busy_env_def log_deps_def)
  have "ValidateCID ?h = Inr ()" by code_simp
  moreover have "doFetch ready_env ?c ?h ?w = (Inr ''{}'', \<lparr>w_requestID = 1, w_ext = 1\<rparr>)"
    by (simp add: doFetch_def ready_env_def null_env_def outside_def tryM_apply)
  ultimately show "fetchFromGateway ready_env log_deps ?c ?h ?w = (Inr ''{}'', \<lparr>w_requestID = 1, w_ext = 1\<rparr>)"
    using fetchFromGateway_bounded [of "\<lambda>n. n" ready_env log_deps ?c ?h ?w _ "Inr ''{}''"] by (simp add: ready_env_def log_deps_def)
qed

end
