(* ===== verification/Soroban_Invoker.thy ===== *)
theory Soroban_Invoker
  imports Soroban_Client
begin

text \<open>
  \<open>ContractInvoker\<close> of \<open>internal/soroban/contract.go\<close>: the transaction that invokes a contract
  function, and its preparation with the resources that a simulation reports.
\<close>

section \<open>Building an invocation\<close>

record ContractInvoker =
  ci_client :: Client
  ci_networkPassphrase :: string
  ci_baseFee :: int64

definition NewContractInvoker :: "Client \<Rightarrow> string \<Rightarrow> int64 \<Rightarrow> ContractInvoker" where
  "NewContractInvoker client networkPassphrase baseFee =
     \<lparr>ci_client = client, ci_networkPassphrase = networkPassphrase, ci_baseFee = baseFee\<rparr>"

record InvokeParams =
  ip_SourceAccount :: Account
  ip_ContractID :: string
  ip_FunctionName :: string
  ip_Args :: "ScVal list"
  ip_Auth :: "SorobanAuthorizationEntry list"

definition BuildInvokeTx :: "'w env \<Rightarrow> ContractInvoker \<Rightarrow> InvokeParams \<Rightarrow> string result" where
  "BuildInvokeTx E ci params =
     tryE (sk_Decode E VersionByteContract (ip_ContractID params)) (wrap ''invalid contract ID: '') (\<lambda>contractIDBytes.
     let contractAddress = contract_address contractIDBytes;
         invokeOp = \<lparr>ih_ContractAddress = contractAddress, ih_FunctionName = ip_FunctionName params,
                ih_Args = ip_Args params, ih_Auth = ip_Auth params\<rparr>
     in tryE (tx_NewTransaction E
               \<lparr>tp_SourceAccount = ip_SourceAccount params, tp_IncrementSequenceNum = True,
                tp_Operations = [invokeOp], tp_BaseFee = ci_baseFee ci, tp_TimeBounds = InfiniteTimeout\<rparr>)
          (wrap ''failed to build transaction: '') (\<lambda>tx.
        tryE (xdr_MarshalEnvelope E tx) (wrap ''failed to encode transaction: '') Inr))"

section \<open>Preparing a transaction\<close>

definition MaxUint32 :: int where "MaxUint32 = 2 ^ 32 - 1"

text \<open>The block \<open>Update auth if provided by simulation\<close>.\<close>

definition update_auth :: "'w env \<Rightarrow> SimulateTransactionResult \<Rightarrow> Transaction \<Rightarrow> Transaction result" where
  "update_auth E simResult tx =
     (case sim_Results simResult of
        r # _ \<Rightarrow>
          if sr_Auth r \<noteq> [] then
            (case tx_Operations tx of
               [] \<Rightarrow> Inl (ErrNew ''transaction has no operations'')
             | OpOther _ # _ \<Rightarrow> Inl (ErrNew ''operation is not an InvokeHostFunction'')
             | OpInvokeHostFunction iop # ops \<Rightarrow>
                 tryE (traverseE (xdr_UnmarshalAuth E) (sr_Auth r)) (wrap ''failed to parse auth entry: '') (\<lambda>auth.
                 Inr (tx\<lparr>tx_Operations := OpInvokeHostFunction (iop\<lparr>ih_Auth := auth\<rparr>) # ops\<rparr>)))
          else Inr tx
      | [] \<Rightarrow> Inr tx)"

text \<open>The steps after the transaction is taken from its envelope.\<close>

definition attach_to :: "'w env \<Rightarrow> SimulateTransactionResult \<Rightarrow> SorobanTransactionData \<Rightarrow> Transaction \<Rightarrow> string result" where
  "attach_to E simResult sorobanData tx0 =
     (let tx = tx0\<lparr>tx_Ext := Some sorobanData\<rparr> in
      case ParseInt64 (sim_MinResourceFee simResult) of
        None \<Rightarrow> Inl (wrap ''failed to parse resource fee: '' (ErrNew (ParseInt_error_text (fmt_q E) (sim_MinResourceFee simResult))))
      | Some resourceFee \<Rightarrow>
          let newFee = (word_of_int (uint (tx_Fee tx)) + word_of_int resourceFee :: int64) in
          if sint newFee < 0 \<or> sint newFee > MaxUint32
          then Inl (ErrNew (''calculated fee '' @ dec_int (sint newFee) @ '' overflows uint32''))
          else tryE (update_auth E simResult (tx\<lparr>tx_Fee := word_of_int (sint newFee)\<rparr>)) same (\<lambda>tx'.
               tryE (xdr_MarshalEnvelope E (EnvelopeTx tx')) (wrap ''failed to encode updated transaction: '') Inr))"

text \<open>Everything after the simulation.\<close>

definition attach_resources :: "'w env \<Rightarrow> string \<Rightarrow> SimulateTransactionResult \<Rightarrow> string result" where
  "attach_resources E txXDR simResult =
     tryE (xdr_UnmarshalEnvelope E txXDR) (wrap ''failed to parse transaction: '') (\<lambda>txEnvelope.
     tryE (if sim_TransactionData simResult \<noteq> [] then xdr_UnmarshalSorobanData E (sim_TransactionData simResult) else Inr [])
          (wrap ''failed to parse soroban data: '') (\<lambda>sorobanData.
     case txEnvelope of
       EnvelopeOther t \<Rightarrow> Inl (ErrNew (''unsupported envelope type: '' @ fmt_EnvelopeType E t))
     | EnvelopeTx tx \<Rightarrow> attach_to E simResult sorobanData tx))"

definition SimulateAndPrepare :: "'w env \<Rightarrow> ContractInvoker \<Rightarrow> string \<Rightarrow> ('w, string) act" where
  "SimulateAndPrepare E ci txXDR =
     tryM (err_first (SimulateTransaction E (ci_client ci) txXDR)) (wrap ''simulation failed: '') (\<lambda>simResult.
     liftM (attach_resources E txXDR simResult))"

section \<open>What preparation changes\<close>

text \<open>
  The prepared transaction: the fee grows by exactly the resource fee, the resources that the simulation named are attached, the authorization of the
  first operation becomes what the simulation asked for, if it asked for any, and everything else stays.
\<close>

definition sim_auth :: "SimulateTransactionResult \<Rightarrow> string list" where
  "sim_auth sim = (case sim_Results sim of [] \<Rightarrow> [] | r # _ \<Rightarrow> sr_Auth r)"

definition resources_of :: "'w env \<Rightarrow> SimulateTransactionResult \<Rightarrow> SorobanTransactionData result" where
  "resources_of E sim = (if sim_TransactionData sim = [] then Inr [] else xdr_UnmarshalSorobanData E (sim_TransactionData sim))"

definition authorized_from :: "'w env \<Rightarrow> string list \<Rightarrow> op_body list \<Rightarrow> op_body list \<Rightarrow> bool" where
  "authorized_from E auths ops ops' \<longleftrightarrow>
     (if auths = [] then ops' = ops
      else \<exists>a entries rest. ops = OpInvokeHostFunction a # rest \<and> ops' = OpInvokeHostFunction (a\<lparr>ih_Auth := entries\<rparr>) # rest
             \<and> list_all2 (\<lambda>x y. xdr_UnmarshalAuth E x = Inr y) auths entries)"

definition prepared_from :: "'w env \<Rightarrow> SimulateTransactionResult \<Rightarrow> Transaction \<Rightarrow> int \<Rightarrow> Transaction \<Rightarrow> bool" where
  "prepared_from E sim tx fee tx' \<longleftrightarrow>
     uint (tx_Fee tx') = uint (tx_Fee tx) + fee
     \<and> tx_SourceAccount tx' = tx_SourceAccount tx \<and> tx_SeqNum tx' = tx_SeqNum tx
     \<and> (\<exists>data. resources_of E sim = Inr data \<and> tx_Ext tx' = Some data)
     \<and> authorized_from E (sim_auth sim) (tx_Operations tx) (tx_Operations tx')"

lemma sint_add_fee:
  fixes f :: uint32
  assumes r: "- (2 ^ 63) \<le> r" "r < 2 ^ 63"
    and ok: "0 \<le> sint (word_of_int (uint f) + word_of_int r :: int64)"
  shows "sint (word_of_int (uint f) + word_of_int r :: int64) = uint f + r"
proof -
  let ?n = "word_of_int (uint f) + word_of_int r :: int64"
  have f: "0 \<le> uint f" "uint f < 2 ^ 32" using uint_lt2p [of f] by simp_all
  have n: "?n = word_of_int (uint f + r)" by simp
  show ?thesis
  proof (cases "uint f + r < 2 ^ 63")
    case True
    then show ?thesis unfolding n using f r by (intro sint_word_of_int64) linarith+
  next
    case False
    have "(word_of_int (uint f + r) :: int64) = word_of_int (uint f + r - 2 ^ 64)"
      by (simp add: word_of_int_eq_iff take_bit_eq_mod)
    moreover have "sint (word_of_int (uint f + r - 2 ^ 64) :: int64) = uint f + r - 2 ^ 64"
      using False f(2) r by (intro sint_word_of_int64) simp_all
    ultimately have "sint ?n = uint f + r - 2 ^ 64" by (simp only: n)
    moreover have "uint f + r - 2 ^ 64 < 0" using f(2) r(2) by simp
    ultimately show ?thesis using ok by linarith
  qed
qed

lemma ParseInt64_bounds: "ParseInt64 s = Some i \<Longrightarrow> - (2 ^ 63) \<le> i \<and> i < 2 ^ 63"
  by (auto simp: ParseInt64_def Let_def split: if_splits)

lemma uint_fee: "0 \<le> i \<Longrightarrow> i \<le> MaxUint32 \<Longrightarrow> uint (word_of_int i :: uint32) = i"
  by (simp add: MaxUint32_def uint_word_of_int take_bit_int_eq_self)

lemma update_auth_keeps:
  "update_auth E sim tx = Inr tx' \<Longrightarrow>
     authorized_from E (sim_auth sim) (tx_Operations tx) (tx_Operations tx') \<and> tx_Fee tx' = tx_Fee tx
     \<and> tx_SourceAccount tx' = tx_SourceAccount tx \<and> tx_SeqNum tx' = tx_SeqNum tx \<and> tx_Ext tx' = tx_Ext tx"
  by (auto simp: update_auth_def authorized_from_def sim_auth_def tryE_Inr_iff traverseE_Inr_iff split: list.splits if_splits op_body.splits)

lemma attach_resources_Inr:
  assumes "attach_resources E txXDR sim = Inr out"
  shows "\<exists>tx fee tx'. xdr_UnmarshalEnvelope E txXDR = Inr (EnvelopeTx tx)
     \<and> ParseInt64 (sim_MinResourceFee sim) = Some fee
     \<and> prepared_from E sim tx fee tx' \<and> xdr_MarshalEnvelope E (EnvelopeTx tx') = Inr out"
proof -
  obtain e data where e: "xdr_UnmarshalEnvelope E txXDR = Inr e" and data: "resources_of E sim = Inr data"
    and rest: "(case e of EnvelopeOther t \<Rightarrow> Inl (ErrNew (''unsupported envelope type: '' @ fmt_EnvelopeType E t))
      | EnvelopeTx tx0 \<Rightarrow> attach_to E sim data tx0) = Inr out"
    using assms unfolding attach_resources_def tryE_Inr_iff resources_of_def by (auto split: if_splits)
  then obtain tx fee tx' where
    env: "xdr_UnmarshalEnvelope E txXDR = Inr (EnvelopeTx tx)"
    and fee: "ParseInt64 (sim_MinResourceFee sim) = Some fee"
    and ok: "0 \<le> sint (word_of_int (uint (tx_Fee tx)) + word_of_int fee :: int64)"
      "sint (word_of_int (uint (tx_Fee tx)) + word_of_int fee :: int64) \<le> MaxUint32"
    and auth: "update_auth E sim (tx\<lparr>tx_Ext := Some data,
        tx_Fee := word_of_int (sint (word_of_int (uint (tx_Fee tx)) + word_of_int fee :: int64))\<rparr>) = Inr tx'"
    and out: "xdr_MarshalEnvelope E (EnvelopeTx tx') = Inr out"
    by (auto simp: attach_to_def tryE_Inr_iff Let_def not_less
        split: TransactionEnvelope.splits option.splits if_splits)
  have sum: "sint (word_of_int (uint (tx_Fee tx)) + word_of_int fee :: int64) = uint (tx_Fee tx) + fee"
    using sint_add_fee ok(1) ParseInt64_bounds [OF fee] by blast
  have "prepared_from E sim tx fee tx'"
    using update_auth_keeps [OF auth] uint_fee [of "uint (tx_Fee tx) + fee"] ok data unfolding sum
    by (simp add: prepared_from_def)
  with env fee out show ?thesis by blast
qed

text \<open>
  C17 (SimulateAndPrepare_exact_fee): a transaction that comes out of \<open>SimulateAndPrepare\<close> is the one that
  went in, with the same source, sequence number and operations, except that its fee is exactly the
  old fee plus the resource fee of the simulation, with no wrap-around, that the resources attached to it are those that the simulation
  returned, and that the authorization entries of its first operation are those of the simulation, one by one, if there are any.
\<close>

theorem SimulateAndPrepare_exact_fee:
  assumes "SimulateAndPrepare E ci txXDR s = (Inr out, s')"
  shows "\<exists>sim tx fee tx'. SimulateTransaction E (ci_client ci) txXDR s = (Ret sim, s')
     \<and> xdr_UnmarshalEnvelope E txXDR = Inr (EnvelopeTx tx)
     \<and> ParseInt64 (sim_MinResourceFee sim) = Some fee
     \<and> prepared_from E sim tx fee tx' \<and> xdr_MarshalEnvelope E (EnvelopeTx tx') = Inr out"
proof -
  obtain sim where "SimulateTransaction E (ci_client ci) txXDR s = (Ret sim, s')" "attach_resources E txXDR sim = Inr out"
    using assms by (auto simp: SimulateAndPrepare_def tryM_Inr_iff err_first_def split: prod.splits ret.splits)
  then show ?thesis using attach_resources_Inr by blast
qed

section \<open>An environment in which everything answers\<close>

text \<open>
  Used by the witnesses.  Every account exists, every simulation succeeds with the resource fee 4242 and a
  pair of contract values, and transactions have the fee 100.
\<close>

definition demo_account :: Account where
  "demo_account = \<lparr>ac_AccountID = replicate 56 (CHR ''G''), ac_Sequence = 7, ac_Balances = [], ac_Data = []\<rparr>"

definition demo_sim :: SimulateTransactionResult where
  "demo_sim = \<lparr>sim_TransactionData = [], sim_MinResourceFee = ''4242'', sim_Events = [],
     sim_Results = [\<lparr>sr_Auth = [], sr_XDR = ''AAAA''\<rparr>], sim_Cost = None, sim_RestorePreamble = None,
     sim_StateChanges = [], sim_LatestLedger = 1, sim_Error = []\<rparr>"

definition demo_tx :: Transaction where
  "demo_tx = \<lparr>tx_SourceAccount = replicate 56 (CHR ''G''), tx_Fee = 100, tx_SeqNum = 8,
     tx_Operations = [OpInvokeHostFunction \<lparr>ih_ContractAddress = contract_address (replicate 32 9),
       ih_FunctionName = ''buy'', ih_Args = [EncodeU32 0], ih_Auth = []\<rparr>], tx_Ext = None\<rparr>"

definition demo_env :: "unit env" where
  "demo_env = key_env\<lparr>
     http_Do := (\<lambda>q w. (Inr \<lparr>hr_StatusCode = 200, hr_Status = ''200 OK'', hr_Body = all_of (hq_Body q)\<rparr>, w)),
     json_RPCResponse := (\<lambda>b. Inr \<lparr>rs_JSONRPC = ''2.0'', rs_ID = 1, rs_Result = b, rs_Error = None\<rparr>),
     json_Simulate := (\<lambda>_. Inr demo_sim),
     hz_AccountDetail := (\<lambda>_ _ w. (Inr demo_account, w)),
     tx_NewTransaction := (\<lambda>_. Inr (EnvelopeTx demo_tx)),
     xdr_MarshalEnvelope := (\<lambda>_. Inr ''AAAB''),
     xdr_UnmarshalEnvelope := (\<lambda>_. Inr (EnvelopeTx demo_tx)),
     base64_Decode := (\<lambda>_. Inr [0]),
     xdr_UnmarshalScVal := (\<lambda>_. Inr (ScVal ScvVec None None None None None None
        (Some (Some [EncodeI128 50000000, EncodeI128 6000000])) None))\<rparr>"

definition demo_client :: Client where "demo_client = \<lparr>cl_rpcURL = ''http://rpc''\<rparr>"
definition demo_world :: "unit world" where "demo_world = \<lparr>w_requestID = 1, w_ext = ()\<rparr>"

lemmas demo_defs = demo_env_def demo_sim_def demo_account_def demo_client_def demo_world_def key_env_def null_env_def

lemma demo_simulate:
  "SimulateTransaction demo_env c txXDR s = (Ret demo_sim, s\<lparr>w_requestID := w_requestID s + 1\<rparr>)"
  by (simp add: SimulateTransaction_def call_def post_request_def Let_def tryM_apply unmarshal_result_def outside_def demo_defs)

lemma demo_attach: "attach_resources demo_env txXDR demo_sim = Inr ''AAAB''"
  by (simp add: attach_resources_def attach_to_def demo_defs demo_tx_def ParseInt64_def Let_def is_digit_def digits_val_def
      update_auth_def MaxUint32_def)

lemma demo_prepare:
  "SimulateAndPrepare demo_env ci txXDR s = (Inr ''AAAB'', s\<lparr>w_requestID := w_requestID s + 1\<rparr>)"
  by (simp add: SimulateAndPrepare_def err_first_def tryM_apply demo_simulate demo_attach)

theorem SimulateAndPrepare_exact_fee_witness:
  "\<exists>sim tx fee tx'. SimulateTransaction demo_env demo_client ''AAAB'' demo_world = (Ret sim, demo_world\<lparr>w_requestID := 2\<rparr>)
     \<and> xdr_UnmarshalEnvelope demo_env ''AAAB'' = Inr (EnvelopeTx tx)
     \<and> ParseInt64 (sim_MinResourceFee sim) = Some fee
     \<and> prepared_from demo_env sim tx fee tx' \<and> xdr_MarshalEnvelope demo_env (EnvelopeTx tx') = Inr ''AAAB''"
proof -
  have "SimulateAndPrepare demo_env (NewContractInvoker demo_client ''net'' 100) ''AAAB'' demo_world
      = (Inr ''AAAB'', demo_world\<lparr>w_requestID := 2\<rparr>)"
    by (simp add: demo_prepare demo_world_def)
  from SimulateAndPrepare_exact_fee [OF this] show ?thesis by (simp add: NewContractInvoker_def)
qed

end
