(* ===== verification/Stellar_Builder.thy ===== *)
theory Stellar_Builder
  imports Soroban_Invoker
begin

text \<open>
  \<open>internal/stellar\<close>: the Horizon client (\<open>client.go\<close>) and the builder of the transactions
  that call the market and factory contracts (\<open>builder.go\<close>).

  The twelve \<open>Build*Tx\<close> methods share one contract, the locale \<open>contract_call\<close>: what they
  return is the encoding of one invocation of a fixed contract function, with the arguments the method
  lists, and they touch the network only to read the account.  Each method interprets it.
\<close>

section \<open>The Horizon client\<close>

record HorizonClient =
  hc_HorizonURL :: string
  hc_networkPassphrase :: string

definition NewHorizonClient :: "string \<Rightarrow> string \<Rightarrow> HorizonClient result" where
  "NewHorizonClient horizonURL networkPassphrase =
     (if horizonURL = [] then Inl (Sentinel (Stellar stellar_ErrEmptyHorizonURL))
      else if networkPassphrase = [] then Inl (Sentinel (Stellar stellar_ErrEmptyPassphrase))
      else Inr \<lparr>hc_HorizonURL = horizonURL, hc_networkPassphrase = networkPassphrase\<rparr>)"

definition GetAccount :: "'w env \<Rightarrow> HorizonClient \<Rightarrow> string \<Rightarrow> ('w, Account) act" where
  "GetAccount E c publicKey s =
     (case ctx_Err E (w_ext s) of
        Some err \<Rightarrow> (Inl (wrap ''context error: '' err), s)
      | None \<Rightarrow>
          (case outside (hz_AccountDetail E (hc_HorizonURL c) publicKey) s of
             (Inl err, s') \<Rightarrow>
               (if hz_IsNotFoundError E err then (Inl (Sentinel (Stellar stellar_ErrAccountNotFound)), s')
                else (Inl (wrap ''failed to get account: '' err), s'))
           | (Inr account, s') \<Rightarrow> (Inr account, s')))"

definition GetAccountBalances :: "'w env \<Rightarrow> HorizonClient \<Rightarrow> string \<Rightarrow> ('w, string list) act" where
  "GetAccountBalances E c publicKey = tryM (GetAccount E c publicKey) same (\<lambda>account. retM (ac_Balances account))"

definition GetAccountData :: "'w env \<Rightarrow> HorizonClient \<Rightarrow> string \<Rightarrow> ('w, (string \<times> string) list) act" where
  "GetAccountData E c publicKey = tryM (GetAccount E c publicKey) same (\<lambda>account. retM (ac_Data account))"

text \<open>The conversion \<open>uint(limit)\<close> keeps the bits.\<close>

definition GetTransactions :: "'w env \<Rightarrow> HorizonClient \<Rightarrow> string \<Rightarrow> int64 \<Rightarrow> ('w, string list) act" where
  "GetTransactions E c publicKey limit s =
     (case ctx_Err E (w_ext s) of
        Some err \<Rightarrow> (Inl (wrap ''context error: '' err), s)
      | None \<Rightarrow> tryM (outside (hz_Transactions E (hc_HorizonURL c) publicKey limit)) (wrap ''failed to get transactions: '') retM s)"

definition GetOperations :: "'w env \<Rightarrow> HorizonClient \<Rightarrow> string \<Rightarrow> int64 \<Rightarrow> ('w, string list) act" where
  "GetOperations E c publicKey limit s =
     (case ctx_Err E (w_ext s) of
        Some err \<Rightarrow> (Inl (wrap ''context error: '' err), s)
      | None \<Rightarrow> tryM (outside (hz_Operations E (hc_HorizonURL c) publicKey limit)) (wrap ''failed to get operations: '') retM s)"

definition HorizonURL :: "HorizonClient \<Rightarrow> string" where
  "HorizonURL c = hc_HorizonURL c"

definition NetworkPassphrase :: "HorizonClient \<Rightarrow> string" where
  "NetworkPassphrase c = hc_networkPassphrase c"

definition SubmitTransaction :: "'w env \<Rightarrow> HorizonClient \<Rightarrow> TransactionEnvelope \<Rightarrow> ('w, string) act" where
  "SubmitTransaction E c tx = tryM (outside (hz_SubmitTransaction E (hc_HorizonURL c) tx)) (wrap ''failed to submit transaction: '') retM"

section \<open>The builder\<close>

record Builder =
  bl_client :: HorizonClient
  bl_networkPassphrase :: string
  bl_baseFee :: int64
  bl_sorobanClient :: "Client option"
  bl_contractInvoker :: "ContractInvoker option"

definition NewBuilder :: "HorizonClient \<Rightarrow> string \<Rightarrow> int64 \<Rightarrow> Client option \<Rightarrow> Builder" where
  "NewBuilder client networkPassphrase baseFee sorobanClient =
     \<lparr>bl_client = client, bl_networkPassphrase = networkPassphrase, bl_baseFee = baseFee, bl_sorobanClient = sorobanClient,
      bl_contractInvoker =
        (case sorobanClient of None \<Rightarrow> None | Some c \<Rightarrow> Some (NewContractInvoker c networkPassphrase baseFee))\<rparr>"

text \<open>The guard at the start of every method.\<close>

definition with_invoker :: "Builder \<Rightarrow> (ContractInvoker \<Rightarrow> ('w, 'a) act) \<Rightarrow> ('w, 'a) act" where
  "with_invoker b k =
     (case bl_contractInvoker b of None \<Rightarrow> failM (ErrNew ''soroban client not configured'') | Some ci \<Rightarrow> k ci)"

record BuyTxParams =
  buy_UserPublicKey :: string
  buy_ContractID :: string
  buy_Outcome :: uint32
  buy_Amount :: int64
  buy_MaxCost :: int64

definition BuildBuyTx :: "'w env \<Rightarrow> Builder \<Rightarrow> BuyTxParams \<Rightarrow> ('w, string) act" where
  "BuildBuyTx E b params = with_invoker b (\<lambda>ci.
     tryM (GetAccount E (bl_client b) (buy_UserPublicKey params)) (wrap ''failed to get user account: '') (\<lambda>userAccount.
     tryM (liftM (EncodeAddress E (buy_UserPublicKey params))) (wrap ''failed to encode user address: '') (\<lambda>userAddr.
     liftM (BuildInvokeTx E ci
       \<lparr>ip_SourceAccount = userAccount, ip_ContractID = buy_ContractID params, ip_FunctionName = ''buy'',
        ip_Args = [userAddr, EncodeU32 (buy_Outcome params), EncodeI128 (buy_Amount params), EncodeI128 (buy_MaxCost params)],
        ip_Auth = []\<rparr>))))"

record SellTxParams =
  sell_UserPublicKey :: string
  sell_ContractID :: string
  sell_Outcome :: uint32
  sell_Amount :: int64
  sell_MinReturn :: int64

definition BuildSellTx :: "'w env \<Rightarrow> Builder \<Rightarrow> SellTxParams \<Rightarrow> ('w, string) act" where
  "BuildSellTx E b params = with_invoker b (\<lambda>ci.
     tryM (GetAccount E (bl_client b) (sell_UserPublicKey params)) (wrap ''failed to get user account: '') (\<lambda>userAccount.
     tryM (liftM (EncodeAddress E (sell_UserPublicKey params))) (wrap ''failed to encode user address: '') (\<lambda>userAddr.
     liftM (BuildInvokeTx E ci
       \<lparr>ip_SourceAccount = userAccount, ip_ContractID = sell_ContractID params, ip_FunctionName = ''sell'',
        ip_Args = [userAddr, EncodeU32 (sell_Outcome params), EncodeI128 (sell_Amount params), EncodeI128 (sell_MinReturn params)],
        ip_Auth = []\<rparr>))))"

record ResolveTxParams =
  res_OraclePublicKey :: string
  res_ContractID :: string
  res_WinningOutcome :: uint32

definition BuildResolveTx :: "'w env \<Rightarrow> Builder \<Rightarrow> ResolveTxParams \<Rightarrow> ('w, string) act" where
  "BuildResolveTx E b params = with_invoker b (\<lambda>ci.
     tryM (GetAccount E (bl_client b) (res_OraclePublicKey params)) (wrap ''failed to get oracle account: '') (\<lambda>oracleAccount.
     tryM (liftM (EncodeAddress E (res_OraclePublicKey params))) (wrap ''failed to encode oracle address: '') (\<lambda>oracleAddr.
     liftM (BuildInvokeTx E ci
       \<lparr>ip_SourceAccount = oracleAccount, ip_ContractID = res_ContractID params, ip_FunctionName = ''resolve'',
        ip_Args = [oracleAddr, EncodeU32 (res_WinningOutcome params)],
        ip_Auth = []\<rparr>))))"

record ClaimTxParams =
  clm_UserPublicKey :: string
  clm_ContractID :: string

definition BuildClaimTx :: "'w env \<Rightarrow> Builder \<Rightarrow> ClaimTxParams \<Rightarrow> ('w, string) act" where
  "BuildClaimTx E b params = with_invoker b (\<lambda>ci.
     tryM (GetAccount E (bl_client b) (clm_UserPublicKey params)) (wrap ''failed to get user account: '') (\<lambda>userAccount.
     tryM (liftM (EncodeAddress E (clm_UserPublicKey params))) (wrap ''failed to encode user address: '') (\<lambda>userAddr.
     liftM (BuildInvokeTx E ci
       \<lparr>ip_SourceAccount = userAccount, ip_ContractID = clm_ContractID params, ip_FunctionName = ''claim'',
        ip_Args = [userAddr],
        ip_Auth = []\<rparr>))))"

record WithdrawTxParams =
  wd_OraclePublicKey :: string
  wd_ContractID :: string

definition BuildWithdrawTx :: "'w env \<Rightarrow> Builder \<Rightarrow> WithdrawTxParams \<Rightarrow> ('w, string) act" where
  "BuildWithdrawTx E b params = with_invoker b (\<lambda>ci.
     tryM (GetAccount E (bl_client b) (wd_OraclePublicKey params)) (wrap ''failed to get oracle account: '') (\<lambda>oracleAccount.
     tryM (liftM (EncodeAddress E (wd_OraclePublicKey params))) (wrap ''failed to encode oracle address: '') (\<lambda>oracleAddr.
     liftM (BuildInvokeTx E ci
       \<lparr>ip_SourceAccount = oracleAccount, ip_ContractID = wd_ContractID params, ip_FunctionName = ''withdraw_remaining'',
        ip_Args = [oracleAddr],
        ip_Auth = []\<rparr>))))"

record GetQuoteTxParams =
  gq_UserPublicKey :: string
  gq_ContractID :: string
  gq_Outcome :: uint32
  gq_Amount :: int64

definition BuildGetQuoteTx :: "'w env \<Rightarrow> Builder \<Rightarrow> GetQuoteTxParams \<Rightarrow> ('w, string) act" where
  "BuildGetQuoteTx E b params = with_invoker b (\<lambda>ci.
     tryM (GetAccount E (bl_client b) (gq_UserPublicKey params)) (wrap ''failed to get user account: '') (\<lambda>userAccount.
     liftM (BuildInvokeTx E ci
       \<lparr>ip_SourceAccount = userAccount, ip_ContractID = gq_ContractID params, ip_FunctionName = ''get_quote'',
        ip_Args = [EncodeU32 (gq_Outcome params), EncodeI128 (gq_Amount params)],
        ip_Auth = []\<rparr>)))"

definition BuildGetSellQuoteTx :: "'w env \<Rightarrow> Builder \<Rightarrow> GetQuoteTxParams \<Rightarrow> ('w, string) act" where
  "BuildGetSellQuoteTx E b params = with_invoker b (\<lambda>ci.
     tryM (GetAccount E (bl_client b) (gq_UserPublicKey params)) (wrap ''failed to get user account: '') (\<lambda>userAccount.
     liftM (BuildInvokeTx E ci
       \<lparr>ip_SourceAccount = userAccount, ip_ContractID = gq_ContractID params, ip_FunctionName = ''get_sell_quote'',
        ip_Args = [EncodeU32 (gq_Outcome params), EncodeI128 (gq_Amount params)],
        ip_Auth = []\<rparr>)))"

record GetBalanceTxParams =
  gb_UserPublicKey :: string
  gb_ContractID :: string
  gb_Account :: string
  gb_Outcome :: uint32

definition BuildGetBalanceTx :: "'w env \<Rightarrow> Builder \<Rightarrow> GetBalanceTxParams \<Rightarrow> ('w, string) act" where
  "BuildGetBalanceTx E b params = with_invoker b (\<lambda>ci.
     tryM (GetAccount E (bl_client b) (gb_UserPublicKey params)) (wrap ''failed to get user account: '') (\<lambda>userAccount.
     tryM (liftM (EncodeAddress E (gb_Account params))) (wrap ''failed to encode account address: '') (\<lambda>accountAddr.
     liftM (BuildInvokeTx E ci
       \<lparr>ip_SourceAccount = userAccount, ip_ContractID = gb_ContractID params, ip_FunctionName = ''get_balance'',
        ip_Args = [accountAddr, EncodeU32 (gb_Outcome params)],
        ip_Auth = []\<rparr>))))"

definition SimulateAndPrepareTx :: "'w env \<Rightarrow> Builder \<Rightarrow> string \<Rightarrow> ('w, string) act" where
  "SimulateAndPrepareTx E b txXDR = with_invoker b (\<lambda>ci. SimulateAndPrepare E ci txXDR)"

subsection \<open>Factory contract methods\<close>

record ListMarketsTxParams =
  lm_UserPublicKey :: string
  lm_FactoryContract :: string

definition BuildListMarketsTx :: "'w env \<Rightarrow> Builder \<Rightarrow> ListMarketsTxParams \<Rightarrow> ('w, string) act" where
  "BuildListMarketsTx E b params = with_invoker b (\<lambda>ci.
     tryM (GetAccount E (bl_client b) (lm_UserPublicKey params)) (wrap ''failed to get user account: '') (\<lambda>userAccount.
     liftM (BuildInvokeTx E ci
       \<lparr>ip_SourceAccount = userAccount, ip_ContractID = lm_FactoryContract params, ip_FunctionName = ''list_markets'',
        ip_Args = [],
        ip_Auth = []\<rparr>)))"

record GetStateTxParams =
  gs_UserPublicKey :: string
  gs_ContractID :: string

definition BuildGetStateTx :: "'w env \<Rightarrow> Builder \<Rightarrow> GetStateTxParams \<Rightarrow> ('w, string) act" where
  "BuildGetStateTx E b params = with_invoker b (\<lambda>ci.
     tryM (GetAccount E (bl_client b) (gs_UserPublicKey params)) (wrap ''failed to get user account: '') (\<lambda>userAccount.
     liftM (BuildInvokeTx E ci
       \<lparr>ip_SourceAccount = userAccount, ip_ContractID = gs_ContractID params, ip_FunctionName = ''get_state'',
        ip_Args = [],
        ip_Auth = []\<rparr>)))"

record GetMetadataHashTxParams =
  gm_UserPublicKey :: string
  gm_ContractID :: string

definition BuildGetMetadataHashTx :: "'w env \<Rightarrow> Builder \<Rightarrow> GetMetadataHashTxParams \<Rightarrow> ('w, string) act" where
  "BuildGetMetadataHashTx E b params = with_invoker b (\<lambda>ci.
     tryM (GetAccount E (bl_client b) (gm_UserPublicKey params)) (wrap ''failed to get user account: '') (\<lambda>userAccount.
     liftM (BuildInvokeTx E ci
       \<lparr>ip_SourceAccount = userAccount, ip_ContractID = gm_ContractID params, ip_FunctionName = ''get_metadata_hash'',
        ip_Args = [],
        ip_Auth = []\<rparr>)))"

record GetWinningOutcomeTxParams =
  gw_UserPublicKey :: string
  gw_ContractID :: string

definition BuildGetWinningOutcomeTx :: "'w env \<Rightarrow> Builder \<Rightarrow> GetWinningOutcomeTxParams \<Rightarrow> ('w, string) act" where
  "BuildGetWinningOutcomeTx E b params = with_invoker b (\<lambda>ci.
     tryM (GetAccount E (bl_client b) (gw_UserPublicKey params)) (wrap ''failed to get user account: '') (\<lambda>userAccount.
     liftM (BuildInvokeTx E ci
       \<lparr>ip_SourceAccount = userAccount, ip_ContractID = gw_ContractID params, ip_FunctionName = ''get_winning_outcome'',
        ip_Args = [],
        ip_Auth = []\<rparr>)))"

text \<open>\<open>Salt\<close> is a Go array of 32 bytes.\<close>

record DeployMarketTxParams =
  dm_OraclePublicKey :: string
  dm_FactoryContract :: string
  dm_LiquidityParam :: int64
  dm_MetadataHash :: string
  dm_InitialFunding :: int64
  dm_Salt :: bytes

definition BuildDeployMarketTx :: "'w env \<Rightarrow> Builder \<Rightarrow> DeployMarketTxParams \<Rightarrow> ('w, string) act" where
  "BuildDeployMarketTx E b params = with_invoker b (\<lambda>ci.
     tryM (GetAccount E (bl_client b) (dm_OraclePublicKey params)) (wrap ''failed to get oracle account: '') (\<lambda>oracleAccount.
     tryM (liftM (EncodeAddress E (dm_OraclePublicKey params))) (wrap ''failed to encode oracle address: '') (\<lambda>oracleAddr.
     liftM (BuildInvokeTx E ci
       \<lparr>ip_SourceAccount = oracleAccount, ip_ContractID = dm_FactoryContract params, ip_FunctionName = ''deploy_market'',
        ip_Args = [oracleAddr, EncodeI128 (dm_LiquidityParam params), EncodeString (dm_MetadataHash params), EncodeI128 (dm_InitialFunding params), EncodeBytes32 (dm_Salt params)],
        ip_Auth = []\<rparr>))))"

section \<open>What a built transaction does\<close>

text \<open>
  The documented behaviour of the Stellar SDK and of Horizon that the builder relies on: a new transaction has
  the source account and the operations it was given, an encoded envelope decodes to itself, and Horizon
  returns the account that was asked for.
\<close>

definition sdk_laws :: "'w env \<Rightarrow> bool" where
  "sdk_laws E \<longleftrightarrow>
     (\<forall>p e. tx_NewTransaction E p = Inr e \<longrightarrow>
        (\<exists>t. e = EnvelopeTx t \<and> tx_SourceAccount t = ac_AccountID (tp_SourceAccount p)
           \<and> tx_Operations t = map OpInvokeHostFunction (tp_Operations p)))
     \<and> (\<forall>e x. xdr_MarshalEnvelope E e = Inr x \<longrightarrow> xdr_UnmarshalEnvelope E x = Inr e)
     \<and> (\<forall>u k w a w'. hz_AccountDetail E u k w = (Inr a, w') \<longrightarrow> ac_AccountID a = k)"

text \<open>An encoded transaction from \<open>who\<close> whose only operation calls a function of a contract.\<close>

definition invokes :: "'w env \<Rightarrow> string \<Rightarrow> string \<Rightarrow> string \<Rightarrow> string \<Rightarrow> ScVal list \<Rightarrow> bool" where
  "invokes E out who cid func args \<longleftrightarrow>
     (\<exists>t cb iop. xdr_UnmarshalEnvelope E out = Inr (EnvelopeTx t) \<and> tx_SourceAccount t = who
        \<and> tx_Operations t = [OpInvokeHostFunction iop] \<and> sk_Decode E VersionByteContract cid = Inr cb
        \<and> ih_ContractAddress iop = contract_address cb \<and> ih_FunctionName iop = func \<and> ih_Args iop = args)"

lemma sdk_NewTransaction:
  assumes "sdk_laws E" "tx_NewTransaction E p = Inr e"
  obtains t where "e = EnvelopeTx t" "tx_SourceAccount t = ac_AccountID (tp_SourceAccount p)"
    "tx_Operations t = map OpInvokeHostFunction (tp_Operations p)"
  using assms unfolding sdk_laws_def by blast

lemma sdk_Unmarshal: "sdk_laws E \<Longrightarrow> xdr_MarshalEnvelope E e = Inr x \<Longrightarrow> xdr_UnmarshalEnvelope E x = Inr e"
  unfolding sdk_laws_def by blast

lemma sdk_AccountDetail: "sdk_laws E \<Longrightarrow> hz_AccountDetail E u k w = (Inr a, w') \<Longrightarrow> ac_AccountID a = k"
  unfolding sdk_laws_def by blast

lemma GetAccount_ID: "sdk_laws E \<Longrightarrow> GetAccount E c k s = (Inr a, s') \<Longrightarrow> ac_AccountID a = k"
  by (auto simp: GetAccount_def outside_def dest: sdk_AccountDetail
      split: option.splits prod.splits sum.splits if_splits)

lemma BuildInvokeTx_invokes:
  assumes "sdk_laws E" "BuildInvokeTx E ci p = Inr out"
  shows "invokes E out (ac_AccountID (ip_SourceAccount p)) (ip_ContractID p) (ip_FunctionName p) (ip_Args p)"
proof -
  obtain cb e where cb: "sk_Decode E VersionByteContract (ip_ContractID p) = Inr cb"
    and new: "tx_NewTransaction E
         \<lparr>tp_SourceAccount = ip_SourceAccount p, tp_IncrementSequenceNum = True,
          tp_Operations = [\<lparr>ih_ContractAddress = contract_address cb, ih_FunctionName = ip_FunctionName p,
                ih_Args = ip_Args p, ih_Auth = ip_Auth p\<rparr>],
          tp_BaseFee = ci_baseFee ci, tp_TimeBounds = InfiniteTimeout\<rparr> = Inr e"
    and out: "xdr_MarshalEnvelope E e = Inr out"
    using assms(2) by (auto simp: BuildInvokeTx_def tryE_Inr_iff Let_def)
  from assms(1) new show ?thesis
    by (rule sdk_NewTransaction) (simp add: invokes_def sdk_Unmarshal [OF assms(1) out] cb)
qed

lemma authorized_from_Invoke:
  assumes "authorized_from E auths [OpInvokeHostFunction a] ops"
  obtains b where "ops = [OpInvokeHostFunction b]" "ih_ContractAddress b = ih_ContractAddress a" "ih_FunctionName b = ih_FunctionName a" "ih_Args b = ih_Args a"
  using assms that by (auto simp: authorized_from_def split: if_splits)

lemma SimulateAndPrepareTx_invokes:
  assumes "sdk_laws E" "invokes E x who cid func args" "SimulateAndPrepareTx E b x s = (Inr y, s')"
  shows "invokes E y who cid func args"
proof -
  obtain ci where "SimulateAndPrepare E ci x s = (Inr y, s')"
    using assms(3) by (auto simp: SimulateAndPrepareTx_def with_invoker_def split: option.splits)
  then obtain sim where "attach_resources E x sim = Inr y"
    by (auto simp: SimulateAndPrepare_def tryM_Inr_iff)
  then obtain tx fee tx' where "xdr_UnmarshalEnvelope E x = Inr (EnvelopeTx tx)" "prepared_from E sim tx fee tx'"
    "xdr_MarshalEnvelope E (EnvelopeTx tx') = Inr y" using attach_resources_Inr by blast
  moreover from this(3) have "xdr_UnmarshalEnvelope E y = Inr (EnvelopeTx tx')" by (rule sdk_Unmarshal [OF assms(1)])
  ultimately show ?thesis using assms(2)
    by (auto simp: invokes_def prepared_from_def elim!: authorized_from_Invoke)
qed

lemma preserves_GetAccount [preserves_intros]:
  assumes "quiet E P" shows "preserves (\<lambda>s. P (w_ext s)) (GetAccount E c k)"
  using assms unfolding preserves_def GetAccount_def quiet_def outside_def
  by (auto split: option.splits prod.splits sum.splits) (metis snd_conv)+

lemma preserves_with_invoker [preserves_intros]:
  "(\<And>ci. preserves Q (k ci)) \<Longrightarrow> preserves Q (with_invoker b k)"
  by (auto simp: with_invoker_def preserves_def split: option.splits)

lemma preserves_SimulateAndPrepareTx [preserves_intros]:
  "quiet E P \<Longrightarrow> preserves (\<lambda>s. P (w_ext s)) (SimulateAndPrepareTx E b xdr)"
  unfolding SimulateAndPrepareTx_def SimulateAndPrepare_def by (intro preserves_intros)

section \<open>The contract of the building methods\<close>

locale contract_call =
  fixes E :: "'w env" and b :: Builder and build :: "'p \<Rightarrow> ('w, string) act"
    and func :: string and signer :: "'p \<Rightarrow> string" and target :: "'p \<Rightarrow> string" and args :: "'p \<Rightarrow> ScVal list result"
  assumes build_Inr: "build p s = (Inr out, s') \<Longrightarrow>
      \<exists>ci acct vs. GetAccount E (bl_client b) (signer p) s = (Inr acct, s') \<and> args p = Inr vs
        \<and> BuildInvokeTx E ci \<lparr>ip_SourceAccount = acct, ip_ContractID = target p, ip_FunctionName = func,
            ip_Args = vs, ip_Auth = []\<rparr> = Inr out"
    and build_quiet: "quiet E P \<Longrightarrow> preserves (\<lambda>s. P (w_ext s)) (build p)"
    and build_unconfigured: "bl_contractInvoker b = None \<Longrightarrow> build p s = (Inl (ErrNew ''soroban client not configured''), s)"
begin

lemma build_invokes:
  assumes "sdk_laws E" "build p s = (Inr out, s')"
  shows "\<exists>vs. args p = Inr vs \<and> invokes E out (signer p) (target p) func vs"
  using build_Inr [OF assms(2)] BuildInvokeTx_invokes [OF assms(1)] GetAccount_ID [OF assms(1)] by fastforce

lemma build_and_prepare:
  assumes "sdk_laws E" "build p s = (Inr x, s1)" "SimulateAndPrepareTx E b x s1' = (Inr y, s2)"
  shows "\<exists>vs. args p = Inr vs \<and> invokes E y (signer p) (target p) func vs"
  using build_invokes [OF assms(1,2)] SimulateAndPrepareTx_invokes [OF assms(1) _ assms(3)] by blast

lemma build_configured: "build p s = (Inr out, s') \<Longrightarrow> bl_contractInvoker b \<noteq> None"
  using build_unconfigured by (metis Inl_Inr_False prod.inject)

end

lemmas build_unfold = with_invoker_def tryM_Inr_iff tryE_Inr_iff

interpretation buy: contract_call E b "BuildBuyTx E b" "''buy''" buy_UserPublicKey buy_ContractID
  "\<lambda>p. tryE (EncodeAddress E (buy_UserPublicKey p)) same (\<lambda>a. Inr
     [a, EncodeU32 (buy_Outcome p), EncodeI128 (buy_Amount p), EncodeI128 (buy_MaxCost p)])"
  unfolding BuildBuyTx_def by unfold_locales (auto simp: build_unfold split: option.splits intro!: preserves_intros)

interpretation sell: contract_call E b "BuildSellTx E b" "''sell''" sell_UserPublicKey sell_ContractID
  "\<lambda>p. tryE (EncodeAddress E (sell_UserPublicKey p)) same (\<lambda>a. Inr
     [a, EncodeU32 (sell_Outcome p), EncodeI128 (sell_Amount p), EncodeI128 (sell_MinReturn p)])"
  unfolding BuildSellTx_def by unfold_locales (auto simp: build_unfold split: option.splits intro!: preserves_intros)

interpretation resolve: contract_call E b "BuildResolveTx E b" "''resolve''" res_OraclePublicKey res_ContractID
  "\<lambda>p. tryE (EncodeAddress E (res_OraclePublicKey p)) same (\<lambda>a. Inr
     [a, EncodeU32 (res_WinningOutcome p)])"
  unfolding BuildResolveTx_def by unfold_locales (auto simp: build_unfold split: option.splits intro!: preserves_intros)

interpretation claim: contract_call E b "BuildClaimTx E b" "''claim''" clm_UserPublicKey clm_ContractID
  "\<lambda>p. tryE (EncodeAddress E (clm_UserPublicKey p)) same (\<lambda>a. Inr
     [a])"
  unfolding BuildClaimTx_def by unfold_locales (auto simp: build_unfold split: option.splits intro!: preserves_intros)

interpretation withdraw: contract_call E b "BuildWithdrawTx E b" "''withdraw_remaining''" wd_OraclePublicKey wd_ContractID
  "\<lambda>p. tryE (EncodeAddress E (wd_OraclePublicKey p)) same (\<lambda>a. Inr
     [a])"
  unfolding BuildWithdrawTx_def by unfold_locales (auto simp: build_unfold split: option.splits intro!: preserves_intros)

interpretation quote: contract_call E b "BuildGetQuoteTx E b" "''get_quote''" gq_UserPublicKey gq_ContractID
  "\<lambda>p. Inr [EncodeU32 (gq_Outcome p), EncodeI128 (gq_Amount p)]"
  unfolding BuildGetQuoteTx_def by unfold_locales (auto simp: build_unfold split: option.splits intro!: preserves_intros)

interpretation sell_quote: contract_call E b "BuildGetSellQuoteTx E b" "''get_sell_quote''" gq_UserPublicKey gq_ContractID
  "\<lambda>p. Inr [EncodeU32 (gq_Outcome p), EncodeI128 (gq_Amount p)]"
  unfolding BuildGetSellQuoteTx_def by unfold_locales (auto simp: build_unfold split: option.splits intro!: preserves_intros)

interpretation balance: contract_call E b "BuildGetBalanceTx E b" "''get_balance''" gb_UserPublicKey gb_ContractID
  "\<lambda>p. tryE (EncodeAddress E (gb_Account p)) same (\<lambda>a. Inr
     [a, EncodeU32 (gb_Outcome p)])"
  unfolding BuildGetBalanceTx_def by unfold_locales (auto simp: build_unfold split: option.splits intro!: preserves_intros)

interpretation list_markets: contract_call E b "BuildListMarketsTx E b" "''list_markets''" lm_UserPublicKey lm_FactoryContract
  "\<lambda>p. Inr []"
  unfolding BuildListMarketsTx_def by unfold_locales (auto simp: build_unfold split: option.splits intro!: preserves_intros)

interpretation get_state: contract_call E b "BuildGetStateTx E b" "''get_state''" gs_UserPublicKey gs_ContractID
  "\<lambda>p. Inr []"
  unfolding BuildGetStateTx_def by unfold_locales (auto simp: build_unfold split: option.splits intro!: preserves_intros)

interpretation metadata_hash: contract_call E b "BuildGetMetadataHashTx E b" "''get_metadata_hash''" gm_UserPublicKey gm_ContractID
  "\<lambda>p. Inr []"
  unfolding BuildGetMetadataHashTx_def by unfold_locales (auto simp: build_unfold split: option.splits intro!: preserves_intros)

interpretation winning_outcome: contract_call E b "BuildGetWinningOutcomeTx E b" "''get_winning_outcome''" gw_UserPublicKey gw_ContractID
  "\<lambda>p. Inr []"
  unfolding BuildGetWinningOutcomeTx_def by unfold_locales (auto simp: build_unfold split: option.splits intro!: preserves_intros)

interpretation deploy: contract_call E b "BuildDeployMarketTx E b" "''deploy_market''" dm_OraclePublicKey dm_FactoryContract
  "\<lambda>p. tryE (EncodeAddress E (dm_OraclePublicKey p)) same (\<lambda>a. Inr
     [a, EncodeI128 (dm_LiquidityParam p), EncodeString (dm_MetadataHash p), EncodeI128 (dm_InitialFunding p), EncodeBytes32 (dm_Salt p)])"
  unfolding BuildDeployMarketTx_def by unfold_locales (auto simp: build_unfold split: option.splits intro!: preserves_intros)

end
