(* ===== verification/Model.thy ===== *)
theory Model
  imports Errors Float64
begin

text \<open>
  The package \<open>internal/model\<close>: outcomes, public keys, markets and their metadata, with the
  validators that guard them.  \<open>time.Time\<close> is an integer (nanoseconds); a nil pointer is
  \<open>None\<close>; a validator that returns \<open>error\<close> is a \<open>unit result\<close>, \<open>Inr ()\<close> for nil.
\<close>

section \<open>Outcomes and keys\<close>

type_synonym Outcome = string
type_synonym time = int

definition OutcomeYes :: Outcome where "OutcomeYes = ''YES''"
definition OutcomeNo :: Outcome where "OutcomeNo = ''NO''"

definition MaxQuestionLength :: nat where "MaxQuestionLength = 500"
definition MaxDescriptionLength :: nat where "MaxDescriptionLength = 2000"
definition DefaultSlippage :: float64 where "DefaultSlippage = f64_const (1/100)"
definition MaxSlippage :: float64 where "MaxSlippage = f64_const (1/10)"

definition ParseOutcome :: "string \<Rightarrow> Outcome result" where
  "ParseOutcome s =
     (let t = ToUpper (TrimSpace s)
      in if t = ''YES'' then Inr OutcomeYes
         else if t = ''NO'' then Inr OutcomeNo
         else Inl (Sentinel (Model model_ErrInvalidOutcome)))"

definition Outcome_IsValid :: "Outcome \<Rightarrow> bool" where
  "Outcome_IsValid out \<longleftrightarrow> out = OutcomeYes \<or> out = OutcomeNo"

definition Outcome_String :: "Outcome \<Rightarrow> string" where
  "Outcome_String out = out"

definition ValidateStellarPublicKey :: "string \<Rightarrow> unit result" where
  "ValidateStellarPublicKey key0 =
     (let key = TrimSpace key0
      in if length key \<noteq> 56 then Inl (Sentinel (Model model_ErrInvalidPublicKey))
         else if \<not> prefix ''G'' key then Inl (Sentinel (Model model_ErrInvalidPublicKey))
         else Inr ())"

section \<open>Markets\<close>

record Market =
  mk_ID :: string
  mk_Question :: string
  mk_Description :: string
  mk_ResolutionSource :: string
  mk_Category :: string
  mk_EndDate :: time
  mk_CollateralAsset :: string
  mk_LiquidityParam :: float64
  mk_YesSold :: float64
  mk_NoSold :: float64
  mk_PriceYes :: float64
  mk_PriceNo :: float64
  mk_ResolvedAt :: "time option"
  mk_Resolution :: Outcome
  mk_CreatedAt :: time
  mk_MetadataHash :: string

text \<open>Go's zero value of the struct; \<open>zero_time\<close> is the zero \<open>time.Time\<close> (year 1).\<close>

definition zero_time :: time where "zero_time = - 62135596800000000000"

definition zero_Market :: Market where
  "zero_Market = \<lparr>mk_ID = [], mk_Question = [], mk_Description = [], mk_ResolutionSource = [],
     mk_Category = [], mk_EndDate = zero_time, mk_CollateralAsset = [], mk_LiquidityParam = Fin 0,
     mk_YesSold = Fin 0, mk_NoSold = Fin 0, mk_PriceYes = Fin 0, mk_PriceNo = Fin 0,
     mk_ResolvedAt = None, mk_Resolution = [], mk_CreatedAt = zero_time, mk_MetadataHash = []\<rparr>"

definition NewMarket :: "string \<Rightarrow> float64 \<Rightarrow> Market result" where
  "NewMarket mid liquidityParam =
     (if mid = [] then Inl (ErrNew ''market ID is required'')
      else if f64_le liquidityParam (f64_const 0) then Inl (Sentinel (Model model_ErrInvalidLiquidityParam))
      else Inr (zero_Market\<lparr>mk_ID := mid, mk_LiquidityParam := liquidityParam,
             mk_PriceYes := f64_const (1/2), mk_PriceNo := f64_const (1/2)\<rparr>))"

definition IsResolved :: "Market \<Rightarrow> bool" where
  "IsResolved m \<longleftrightarrow> mk_Resolution m \<noteq> []"

definition Market_Validate :: "Market \<Rightarrow> unit result" where
  "Market_Validate m =
     (if mk_ID m = [] then Inl (ErrNew ''market ID is required'')
      else if f64_le (mk_LiquidityParam m) (f64_const 0) then Inl (Sentinel (Model model_ErrInvalidLiquidityParam))
      else if f64_lt (mk_YesSold m) (f64_const 0) then Inl (ErrNew ''yes_sold must be non-negative'')
      else if f64_lt (mk_NoSold m) (f64_const 0) then Inl (ErrNew ''no_sold must be non-negative'')
      else if f64_lt (mk_PriceYes m) (f64_const 0) \<or> f64_lt (f64_const 1) (mk_PriceYes m)
        then Inl (ErrNew ''price_yes must be in range [0, 1]'')
      else if f64_lt (mk_PriceNo m) (f64_const 0) \<or> f64_lt (f64_const 1) (mk_PriceNo m)
        then Inl (ErrNew ''price_no must be in range [0, 1]'')
      else if mk_Resolution m \<noteq> [] \<and> \<not> Outcome_IsValid (mk_Resolution m)
        then Inl (Sentinel (Model model_ErrInvalidOutcome))
      else if mk_Resolution m \<noteq> [] \<and> mk_ResolvedAt m = None
        then Inl (ErrNew ''resolved market must have resolved_at timestamp'')
      else if mk_Resolution m = [] \<and> mk_ResolvedAt m \<noteq> None
        then Inl (ErrNew ''unresolved market must not have resolved_at timestamp'')
      else Inr ())"

section \<open>Quotes, price points, transactions\<close>

record PriceQuote =
  pq_MarketID :: string
  pq_Outcome :: Outcome
  pq_ShareAmount :: float64
  pq_Cost :: float64
  pq_PricePerShare :: float64
  pq_NewProbability :: float64

record PricePoint =
  pp_Timestamp :: time
  pp_PriceYes :: float64

record TransactionResult =
  tr_XDR :: string
  tr_Description :: string
  tr_SignWith :: string
  tr_SubmitURL :: string

section \<open>Metadata\<close>

record MarketMetadata =
  md_Question :: string
  md_Description :: string
  md_ResolutionSource :: string
  md_Category :: string
  md_EndDate :: time
  md_CreatedAt :: time
  md_CreatedBy :: string

definition Metadata_Validate :: "MarketMetadata \<Rightarrow> unit result" where
  "Metadata_Validate m =
     (if md_Question m = [] then Inl (Sentinel (Model model_ErrEmptyQuestion))
      else if MaxQuestionLength < length (md_Question m) then Inl (Sentinel (Model model_ErrQuestionTooLong))
      else if MaxDescriptionLength < length (md_Description m) then Inl (Sentinel (Model model_ErrDescriptionTooLong))
      else Inr ())"

text \<open>\<open>now\<close> is the value of \<open>time.Now().UTC()\<close>.\<close>

definition NewMarketMetadata :: "time \<Rightarrow> string \<Rightarrow> MarketMetadata result" where
  "NewMarketMetadata now question =
     (let m = \<lparr>md_Question = question, md_Description = [], md_ResolutionSource = [], md_Category = [],
               md_EndDate = zero_time, md_CreatedAt = now, md_CreatedBy = []\<rparr>
      in tryE (Metadata_Validate m) same (\<lambda>_. Inr m))"

section \<open>Facts\<close>

lemmas outcome_defs = OutcomeYes_def OutcomeNo_def

lemma Outcome_IsValid_iff: "Outcome_IsValid out \<longleftrightarrow> out = ''YES'' \<or> out = ''NO''"
  by (simp add: Outcome_IsValid_def outcome_defs)

lemma f64_const_0 [simp]: "f64_const 0 = Fin 0"
  by (simp add: f64_const_def round64_Fin)

lemma f64_const_1 [simp]: "f64_const 1 = Fin 1"
  by (simp add: f64_const_def round64_Fin)

lemma f64_const_half [simp]: "f64_const (1/2) = Fin (1/2)"
proof -
  have "rnd (1/2) = 1/2" using rnd_powi [of "- 1"] by simp
  then show ?thesis by (simp add: f64_const_def round64_Fin)
qed

lemma strip_blank: "strip space_encodings (CHR '' '' # s) = strip space_encodings s"
  by (subst strip.simps) (simp add: space_encodings_def)

lemma strip_rev_blank: "strip (map rev space_encodings) (CHR '' '' # s) = strip (map rev space_encodings) s"
  by (subst strip.simps) (simp add: space_encodings_def)

lemma strip_blanks: "strip space_encodings (replicate n (CHR '' '') @ s) = strip space_encodings s"
  by (induction n) (simp_all add: strip_blank)

lemma strip_rev_blanks:
  "strip (map rev space_encodings) (replicate n (CHR '' '') @ s) = strip (map rev space_encodings) s"
  by (induction n) (simp_all add: strip_rev_blank)

lemma strip_letter:
  assumes "c \<in> set ''yesnoYESNO''" shows "strip space_encodings (c # s) = c # s"
    "strip (map rev space_encodings) (c # s) = c # s"
  using assms by (auto intro!: strip_fix simp: space_encodings_def)

lemma upper_ascii_letter:
  assumes "(of_char l :: nat) = of_char u + 32" "65 \<le> (of_char u :: nat)" "(of_char u :: nat) \<le> 90"
  shows "upper_ascii c = u \<longleftrightarrow> c = u \<or> c = l"
proof (cases "97 \<le> (of_char c :: nat) \<and> (of_char c :: nat) \<le> 122")
  case True
  then have "(of_char c :: nat) - 32 < 256" by linarith
  with True have "(of_char (upper_ascii c) :: nat) = of_char c - 32" by (simp add: upper_ascii_def)
  then have "upper_ascii c = u \<longleftrightarrow> (of_char c :: nat) - 32 = of_char u"
    by (metis of_char_eq_iff)
  also have "\<dots> \<longleftrightarrow> (of_char c :: nat) = of_char l" using True assms by auto
  also have "\<dots> \<longleftrightarrow> c = l" by (rule of_char_eq_iff)
  finally show ?thesis using True assms by auto
next
  case False
  then have "c \<noteq> l" using assms by auto
  then show ?thesis unfolding upper_ascii_def using False by auto
qed

lemma upper_ascii_preimage:
  "upper_ascii c = CHR ''Y'' \<longleftrightarrow> c = CHR ''Y'' \<or> c = CHR ''y''"
  "upper_ascii c = CHR ''E'' \<longleftrightarrow> c = CHR ''E'' \<or> c = CHR ''e''"
  "upper_ascii c = CHR ''S'' \<longleftrightarrow> c = CHR ''S'' \<or> c = CHR ''s''"
  "upper_ascii c = CHR ''N'' \<longleftrightarrow> c = CHR ''N'' \<or> c = CHR ''n''"
  "upper_ascii c = CHR ''O'' \<longleftrightarrow> c = CHR ''O'' \<or> c = CHR ''o''"
  by (rule upper_ascii_letter, simp_all)+

lemma TrimSpace_blanks:
  assumes "strip space_encodings (s @ replicate m (CHR '' '')) = s @ replicate m (CHR '' '')"
    and "strip (map rev space_encodings) (rev s) = rev s"
  shows "TrimSpace (replicate n (CHR '' '') @ s @ replicate m (CHR '' '')) = s"
  using assms by (simp add: TrimSpace_def strip_blanks strip_rev_blanks)

section \<open>Properties\<close>

text \<open>
  Every spelling of YES or NO, in any mixture of upper and lower case and
  with any number of blanks before and after it, is parsed as that outcome, and the parser returns
  nothing but the two outcomes.
\<close>

lemma ParseOutcome_spellings:
  assumes "map upper_ascii s = out" "Outcome_IsValid out"
  shows "ParseOutcome (replicate n (CHR '' '') @ s @ replicate m (CHR '' '')) = Inr out
    \<and> (\<forall>t. \<exists>u. (ParseOutcome t = Inr u \<and> Outcome_IsValid u) \<or> ParseOutcome t = Inl (Sentinel (Model model_ErrInvalidOutcome)))"
proof
  from assms consider (yes) "map upper_ascii s = ''YES''" "out = ''YES''"
    | (no) "map upper_ascii s = ''NO''" "out = ''NO''" by (auto simp: Outcome_IsValid_iff)
  then show "ParseOutcome (replicate n (CHR '' '') @ s @ replicate m (CHR '' '')) = Inr out"
  proof cases
    case yes
    then obtain a b c where s: "s = [a, b, c]" "upper_ascii a = CHR ''Y''" "upper_ascii b = CHR ''E''" "upper_ascii c = CHR ''S''"
      by (auto simp: map_eq_Cons_conv)
    then have l: "a \<in> set ''yesnoYESNO''" "b \<in> set ''yesnoYESNO''" "c \<in> set ''yesnoYESNO''"
      "a \<noteq> CHR 0xC5" "a \<noteq> CHR 0xC4" "b \<noteq> CHR 0xC5" "b \<noteq> CHR 0xC4"
      by (auto simp: upper_ascii_preimage)
    have "TrimSpace (replicate n (CHR '' '') @ s @ replicate m (CHR '' '')) = s"
      using s l(1,3) by (intro TrimSpace_blanks) (simp_all only: append_Cons rev.simps append_Nil strip_letter)
    then show ?thesis using s l yes by (simp add: ParseOutcome_def outcome_defs)
  next
    case no
    then obtain a b where s: "s = [a, b]" "upper_ascii a = CHR ''N''" "upper_ascii b = CHR ''O''"
      by (auto simp: map_eq_Cons_conv)
    then have l: "a \<in> set ''yesnoYESNO''" "b \<in> set ''yesnoYESNO''" "a \<noteq> CHR 0xC5" "a \<noteq> CHR 0xC4"
      by (auto simp: upper_ascii_preimage)
    have "TrimSpace (replicate n (CHR '' '') @ s @ replicate m (CHR '' '')) = s"
      using s l(1,2) by (intro TrimSpace_blanks) (simp_all only: append_Cons rev.simps append_Nil strip_letter)
    then show ?thesis using s l no by (simp add: ParseOutcome_def outcome_defs)
  qed
next
  show "\<forall>t. \<exists>u. (ParseOutcome t = Inr u \<and> Outcome_IsValid u) \<or> ParseOutcome t = Inl (Sentinel (Model model_ErrInvalidOutcome))"
    by (auto simp: ParseOutcome_def Outcome_IsValid_def Let_def)
qed

text \<open>
  A market that \<open>NewMarket\<close> returns passes \<open>Validate\<close>, is
  unresolved, and starts at even prices.
\<close>

lemma NewMarket_establishes_invariant:
  assumes "NewMarket mid b = Inr m"
  shows "Market_Validate m = Inr () \<and> \<not> IsResolved m \<and> mk_ID m = mid \<and> mk_LiquidityParam m = b
    \<and> mk_PriceYes m = Fin (1/2) \<and> mk_PriceNo m = Fin (1/2)"
  using assms
  by (auto simp: NewMarket_def zero_Market_def Market_Validate_def IsResolved_def split: if_splits)

text \<open>
  For a market whose numbers are not NaN, \<open>Validate\<close> returns nil
  exactly when the identifier is set, the liquidity is positive, the quantities are not negative, both
  prices are in [0, 1], the resolution is empty, YES or NO, and a resolution time is present exactly
  for a resolved market.
\<close>

lemma Market_Validate_invariant:
  assumes "NaN \<notin> {mk_LiquidityParam m, mk_YesSold m, mk_NoSold m, mk_PriceYes m, mk_PriceNo m}"
  shows "Market_Validate m = Inr () \<longleftrightarrow>
    mk_ID m \<noteq> [] \<and> f64_lt (Fin 0) (mk_LiquidityParam m) \<and>
    f64_le (Fin 0) (mk_YesSold m) \<and> f64_le (Fin 0) (mk_NoSold m) \<and>
    f64_le (Fin 0) (mk_PriceYes m) \<and> f64_le (mk_PriceYes m) (Fin 1) \<and>
    f64_le (Fin 0) (mk_PriceNo m) \<and> f64_le (mk_PriceNo m) (Fin 1) \<and>
    mk_Resolution m \<in> {[], ''YES'', ''NO''} \<and> (IsResolved m \<longleftrightarrow> mk_ResolvedAt m \<noteq> None)"
proof -
  have "f64_lt (Fin 0) (mk_LiquidityParam m) \<longleftrightarrow> \<not> f64_le (mk_LiquidityParam m) (Fin 0)"
    using assms f64_not_lt_le [of "Fin 0" "mk_LiquidityParam m"] by auto
  moreover have "f64_le a b \<longleftrightarrow> \<not> f64_lt b a" if "a \<noteq> NaN" "b \<noteq> NaN" for a b
    using f64_not_lt_le [OF that(2,1)] by simp
  ultimately show ?thesis using assms
    by (auto simp: Market_Validate_def IsResolved_def Outcome_IsValid_iff)
qed

text \<open>
  \<open>Validate\<close> does not see NaN.  Every market it accepts is still
  accepted when its prices, quantities and liquidity are replaced by NaN, although the checks read as
  range checks.
\<close>

lemma Market_Validate_accepts_NaN:
  assumes "Market_Validate m = Inr ()"
  shows "Market_Validate (m\<lparr>mk_LiquidityParam := NaN, mk_YesSold := NaN, mk_NoSold := NaN,
    mk_PriceYes := NaN, mk_PriceNo := NaN\<rparr>) = Inr ()"
  using assms by (auto simp: Market_Validate_def split: if_splits)

text \<open>
  \<open>NewMarketMetadata\<close> counts bytes, not characters: a
  question of \<open>n\<close> two-byte characters is accepted exactly when \<open>0 < n \<le> 250\<close>, while the
  error message speaks of 500 characters.
\<close>

lemma NewMarketMetadata_length_in_bytes:
  "(\<exists>m. NewMarketMetadata now (concat (replicate n [CHR 0xD0, CHR 0x90])) = Inr m) \<longleftrightarrow> 0 < n \<and> n \<le> 250"
proof -
  have "length (concat (replicate n [CHR 0xD0, CHR 0x90])) = 2 * n" by (induction n) auto
  then show ?thesis
    by (auto simp: NewMarketMetadata_def Metadata_Validate_def MaxQuestionLength_def MaxDescriptionLength_def Let_def)
qed

end
