(* ===== verification/Concurrency.thy ===== *)
theory Concurrency
  imports Prelude
begin

text \<open>
  Goroutines.  A \<open>thread\<close> is what is left to run of a goroutine: it is done, or it takes one atomic
  step on the shared world.  One step is one call that touches the world (a request, a cache access); what
  happens between two such calls is local.  \<open>schedule\<close> runs goroutines to completion under a schedule
  that says which of them moves next; a schedule that ends early leaves the rest to run one after the other,
  so that the schedules are exactly the interleavings.  A fact about every schedule holds whatever the Go
  scheduler does.
\<close>

datatype ('w, 'a) thread = Done 'a | Step "'w \<Rightarrow> ('w, 'a) thread \<times> 'w"

definition atomic :: "('w \<Rightarrow> 'a \<times> 'w) \<Rightarrow> ('w, 'a) thread" where
  "atomic m = Step (\<lambda>s. case m s of (x, s') \<Rightarrow> (Done x, s'))"

primrec bindT :: "('w, 'a) thread \<Rightarrow> ('a \<Rightarrow> ('w, 'b) thread) \<Rightarrow> ('w, 'b) thread" where
  "bindT (Done x) k = k x"
| "bindT (Step f) k = Step (\<lambda>s. map_prod (\<lambda>t. bindT t k) (\<lambda>s'. s') (f s))"

text \<open>The error idiom on threads, as \<open>tryM\<close> on calls.\<close>

definition tryT :: "('w, 'e + 'a) thread \<Rightarrow> ('e \<Rightarrow> 'e) \<Rightarrow> ('a \<Rightarrow> ('w, 'e + 'b) thread) \<Rightarrow> ('w, 'e + 'b) thread" where
  "tryT t w k = bindT t (\<lambda>r. case r of Inl e \<Rightarrow> Done (Inl (w e)) | Inr x \<Rightarrow> k x)"

section \<open>Running\<close>

primrec run_thread :: "('w, 'a) thread \<Rightarrow> 'w \<Rightarrow> 'a \<times> 'w" where
  "run_thread (Done x) = (\<lambda>s. (x, s))"
| "run_thread (Step f) = (\<lambda>s. case map_prod run_thread (\<lambda>s'. s') (f s) of (g, s') \<Rightarrow> g s')"

fun run_all :: "('w, 'a) thread list \<Rightarrow> 'w \<Rightarrow> 'a list \<times> 'w" where
  "run_all [] s = ([], s)"
| "run_all (t # ts) s = (case run_thread t s of (x, s1) \<Rightarrow> case run_all ts s1 of (xs, s2) \<Rightarrow> (x # xs, s2))"

fun schedule :: "nat list \<Rightarrow> ('w, 'a) thread list \<Rightarrow> 'w \<Rightarrow> 'a list \<times> 'w" where
  "schedule [] ts s = run_all ts s"
| "schedule (i # is) ts s =
     (if i < length ts then
        (case ts ! i of
           Done x \<Rightarrow> schedule is ts s
         | Step f \<Rightarrow> (case f s of (t, s') \<Rightarrow> schedule is (ts[i := t]) s'))
      else schedule is ts s)"

section \<open>Reasoning about every interleaving\<close>

text \<open>Every step of a thread keeps \<open>P\<close> of the world, and its result satisfies \<open>Q\<close>.\<close>

primrec thread_ok :: "('w \<Rightarrow> bool) \<Rightarrow> ('a \<Rightarrow> bool) \<Rightarrow> ('w, 'a) thread \<Rightarrow> bool" where
  "thread_ok P Q (Done x) \<longleftrightarrow> Q x"
| "thread_ok P Q (Step f) \<longleftrightarrow> (\<forall>s. P s \<longrightarrow> P (snd (f s)) \<and> fst (map_prod (thread_ok P Q) (\<lambda>s'. s') (f s)))"

lemma thread_ok_Step: "thread_ok P Q (Step f) \<Longrightarrow> P s \<Longrightarrow> f s = (t, s') \<Longrightarrow> P s' \<and> thread_ok P Q t"
  unfolding thread_ok.simps by (drule spec [of _ s]) simp

lemma run_thread_Step: "f s = (t, s') \<Longrightarrow> run_thread (Step f) s = run_thread t s'"
  by simp

lemma step_range: "f s = (t, s') \<Longrightarrow> (t, s') \<in> range f"
  by (metis rangeI)

lemma run_thread_ok: "thread_ok P Q t \<Longrightarrow> P s \<Longrightarrow> run_thread t s = (x, s') \<Longrightarrow> P s' \<and> Q x"
proof (induction t arbitrary: s)
  case (Step f)
  obtain t s1 where fs: "f s = (t, s1)" by (cases "f s")
  have ok: "P s1" "thread_ok P Q t" using thread_ok_Step [OF Step.prems(1,2) fs] by simp_all
  have "run_thread t s1 = (x, s')" using Step.prems(3) fs by simp
  then show ?case using Step.IH [OF step_range [of f, OF fs], of t] ok by simp
qed simp

lemma run_all_ok:
  "list_all2 (thread_ok P) Qs ts \<Longrightarrow> P s \<Longrightarrow> run_all ts s = (xs, s') \<Longrightarrow> P s' \<and> list_all2 (\<lambda>Q x. Q x) Qs xs"
proof (induction ts arbitrary: Qs s xs)
  case (Cons t ts)
  then show ?case by (auto simp: list_all2_Cons2 dest!: run_thread_ok split: prod.splits)
qed auto

lemma schedule_ok:
  "list_all2 (thread_ok P) Qs ts \<Longrightarrow> P s \<Longrightarrow> schedule is ts s = (xs, s') \<Longrightarrow> P s' \<and> list_all2 (\<lambda>Q x. Q x) Qs xs"
proof (induction "is" ts s arbitrary: xs rule: schedule.induct)
  case (2 i "is" ts s)
  show ?case
  proof (cases "i < length ts")
    case True
    show ?thesis
    proof (cases "ts ! i")
      case (Done x)
      then show ?thesis using 2 True by simp
    next
      case (Step f)
      obtain t s1 where fs: "f s = (t, s1)" by (cases "f s")
      have len: "length Qs = length ts" using "2.prems"(1) by (rule list_all2_lengthD)
      have ok: "thread_ok P (Qs ! i) (Step f)" using "2.prems"(1) True Step len by (metis list_all2_nthD2)
      have st: "P s1 \<and> thread_ok P (Qs ! i) t" using thread_ok_Step [OF ok "2.prems"(2) fs] .
      then have "list_all2 (thread_ok P) (Qs[i := Qs ! i]) (ts[i := t])"
        using "2.prems"(1) by (intro list_all2_update_cong) auto
      then show ?thesis using 2 True Step fs st by simp
    qed
  qed (use 2 in simp)
next
  case (1 ts s)
  then show ?case using run_all_ok by (metis schedule.simps(1))
qed

lemma thread_ok_atomic:
  "(\<And>s x s'. P s \<Longrightarrow> m s = (x, s') \<Longrightarrow> P s' \<and> Q x) \<Longrightarrow> thread_ok P Q (atomic m)"
  by (auto simp: atomic_def split: prod.splits)

lemma thread_ok_bindT:
  "thread_ok P Q0 t \<Longrightarrow> (\<And>x. Q0 x \<Longrightarrow> thread_ok P Q (k x)) \<Longrightarrow> thread_ok P Q (bindT t k)"
proof (induction t)
  case (Step f)
  have "thread_ok P Q (bindT t k)" if "P s" "f s = (t, s')" for s t s'
    using Step.IH [OF step_range [of f, OF that(2)], of t] thread_ok_Step [OF Step.prems(1) that] Step.prems(2) by simp
  moreover have "P s'" if "P s" "f s = (t, s')" for s t s'
    using thread_ok_Step [OF Step.prems(1) that] by simp
  ultimately show ?case by (simp add: map_prod_def split: prod.splits)
qed simp

lemma bindT_Done: "bindT t Done = t"
proof (induction t)
  case (Step f)
  have "map_prod (\<lambda>t. bindT t Done) (\<lambda>s'. s') (f s) = f s" for s
    using Step.IH [OF rangeI, of "fst (f s)" s] by (cases "f s") simp
  then show ?case by simp
qed simp

lemma thread_ok_weaken: "thread_ok P Q t \<Longrightarrow> (\<And>x. Q x \<Longrightarrow> R x) \<Longrightarrow> thread_ok P R t"
  using thread_ok_bindT [of P Q t R Done] by (simp add: bindT_Done)

lemma thread_ok_True: "thread_ok (\<lambda>_. True) (\<lambda>_. True) t"
proof (induction t)
  case (Step f)
  have "thread_ok (\<lambda>_. True) (\<lambda>_. True) t" if "f s = (t, s')" for s t s'
    using Step.IH [OF step_range [of f, OF that], of t] by simp
  then show ?case by (simp add: map_prod_def split: prod.splits)
qed simp

lemma thread_ok_tryT:
  "thread_ok P (\<lambda>r. \<forall>x. r = Inr x \<longrightarrow> A x) t \<Longrightarrow> (\<And>x. A x \<Longrightarrow> thread_ok P (\<lambda>r. \<forall>y. r = Inr y \<longrightarrow> B y) (k x)) \<Longrightarrow>
   thread_ok P (\<lambda>r. \<forall>y. r = Inr y \<longrightarrow> B y) (tryT t w k)"
  unfolding tryT_def by (erule thread_ok_bindT) (auto split: sum.splits)

text \<open>
  What a thread may return when others act between its steps and keep \<open>P\<close>.
\<close>

primrec may_return :: "('w \<Rightarrow> bool) \<Rightarrow> ('w, 'a) thread \<Rightarrow> 'a \<Rightarrow> bool" where
  "may_return P (Done x) = (\<lambda>y. y = x)"
| "may_return P (Step f) = (\<lambda>y. \<exists>s. P s \<and> fst (map_prod (may_return P) (\<lambda>s'. s') (f s)) y)"

lemma may_return_Step: "P s \<Longrightarrow> f s = (t, s') \<Longrightarrow> may_return P t y \<Longrightarrow> may_return P (Step f) y"
  by (auto intro!: exI [of _ s])

lemma thread_ok_may_return: "thread_ok P (\<lambda>_. True) t \<Longrightarrow> thread_ok P (may_return P t) t"
proof (induction t)
  case (Step f)
  have "P s'" "thread_ok P (may_return P (Step f)) t" if "P s" "f s = (t, s')" for s t s'
  proof -
    have ok: "P s'" "thread_ok P (\<lambda>_. True) t" using thread_ok_Step [OF Step.prems that] by simp_all
    then have "thread_ok P (may_return P t) t" using Step.IH [OF step_range [of f, OF that(2)], of t] by simp
    then show "thread_ok P (may_return P (Step f)) t" by (rule thread_ok_weaken) (rule may_return_Step [where P = P and f = f, OF that])
    show "P s'" by (rule ok(1))
  qed
  then show ?case unfolding thread_ok.simps(2) by (auto simp: map_prod_def split: prod.splits)
qed simp

lemma may_return_ok: "thread_ok P Q t \<Longrightarrow> may_return P t y \<Longrightarrow> Q y"
proof (induction t)
  case (Step f)
  then obtain s where s: "P s" "may_return P (fst (f s)) y" by (auto simp: map_prod_def split: prod.splits)
  have "thread_ok P Q (fst (f s))" using thread_ok_Step [OF Step.prems(1) s(1), of "fst (f s)" "snd (f s)"] by simp
  then show ?case using Step.IH [OF rangeI, of "fst (f s)" s] s(2) by (simp add: fsts.simps)
qed simp

lemma run_thread_may_return:
  "thread_ok P (\<lambda>_. True) t \<Longrightarrow> P s \<Longrightarrow> run_thread t s = (x, s') \<Longrightarrow> may_return P t x"
  using run_thread_ok [of P "may_return P t" t s x s'] thread_ok_may_return [of P t] by simp

text \<open>A thread on its own is the sequential call.\<close>

lemma run_thread_atomic [simp]: "run_thread (atomic m) s = m s"
  by (simp add: atomic_def split: prod.splits)

lemma run_thread_bindT: "run_thread (bindT t k) s = (case run_thread t s of (x, s') \<Rightarrow> run_thread (k x) s')"
proof (induction t arbitrary: s)
  case (Step f)
  obtain t s1 where fs: "f s = (t, s1)" by (cases "f s")
  then have "run_thread (bindT t k) s1 = (case run_thread t s1 of (x, s') \<Rightarrow> run_thread (k x) s')"
    using Step.IH [OF step_range [of f, OF fs], of t] by simp
  then show ?case using fs by simp
qed simp

lemma run_thread_tryT: "run_thread (tryT t w k) s = tryM (run_thread t) w (\<lambda>x. run_thread (k x)) s"
  by (auto simp: tryT_def run_thread_bindT tryM_apply split: prod.splits sum.splits)

lemma schedule_length: "schedule is ts s = (xs, s') \<Longrightarrow> length xs = length ts"
  using schedule_ok [of "\<lambda>_. True" "map (\<lambda>_ _. True) ts" ts s "is" xs s']
  by (auto simp: list_all2_conv_all_nth thread_ok_True dest: list_all2_lengthD)

text \<open>Goroutines whose steps keep a property of the world keep it together.\<close>

lemma thread_keeps_atomic [preserves_intros]: "preserves P m \<Longrightarrow> thread_ok P (\<lambda>_. True) (atomic m)"
  by (rule thread_ok_atomic) (auto dest: preservesD)

lemma thread_keeps_tryT [preserves_intros]:
  "thread_ok P (\<lambda>_. True) t \<Longrightarrow> (\<And>x. thread_ok P (\<lambda>_. True) (k x)) \<Longrightarrow> thread_ok P (\<lambda>_. True) (tryT t w k)"
  unfolding tryT_def by (erule thread_ok_bindT) (auto split: sum.splits)

lemma thread_keeps_Done [preserves_intros]: "thread_ok P (\<lambda>_. True) (Done x)"
  by simp

lemma preserves_schedule:
  assumes "\<And>t. t \<in> set ts \<Longrightarrow> thread_ok P (\<lambda>_. True) t"
  shows "preserves P (schedule is ts)"
  unfolding preserves_def
proof (intro allI impI)
  fix s assume "P s"
  obtain xs s' where r: "schedule is ts s = (xs, s')" by (cases "schedule is ts s")
  have "list_all2 (thread_ok P) (map (\<lambda>_ _. True) ts) ts"
    using assms by (auto simp: list_all2_conv_all_nth)
  from schedule_ok [OF this \<open>P s\<close> r] show "P (snd (schedule is ts s))" using r by simp
qed

section \<open>What goroutines achieve together\<close>

text \<open>
  \<open>establishes P R t s\<close>: from \<open>s\<close> on, the thread brings about \<open>R\<close> by its own steps, whatever the
  others do in between, as long as they keep \<open>P\<close> and, once it holds, \<open>R\<close>.
\<close>

primrec establishes :: "('w \<Rightarrow> bool) \<Rightarrow> ('w \<Rightarrow> bool) \<Rightarrow> ('w, 'a) thread \<Rightarrow> 'w \<Rightarrow> bool" where
  "establishes P R (Done x) = R"
| "establishes P R (Step f) =
     (\<lambda>s. R s \<or> (\<forall>s. P s \<longrightarrow> (case map_prod (establishes P R) (\<lambda>s'. s') (f s) of (g, s') \<Rightarrow> g s')))"

lemma establishes_already: "R s \<Longrightarrow> establishes P R t s"
  by (cases t) simp_all

lemma establishes_stable: "establishes P R t s \<Longrightarrow> (R s \<Longrightarrow> R s') \<Longrightarrow> establishes P R t s'"
  by (cases t) auto

lemma establishes_Step:
  "establishes P R (Step f) s \<Longrightarrow> P s \<Longrightarrow> f s = (t, s') \<Longrightarrow> (R s \<Longrightarrow> R s') \<Longrightarrow> establishes P R t s'"
  by (auto intro: establishes_already)

lemma establishes_atomic: "(\<And>s x s'. P s \<Longrightarrow> m s = (x, s') \<Longrightarrow> R s') \<Longrightarrow> establishes P R (atomic m) s"
  by (auto simp: atomic_def split: prod.splits)

lemma establishes_bindT:
  "thread_ok P Q t \<Longrightarrow> (\<And>x s. Q x \<Longrightarrow> P s \<Longrightarrow> establishes P R (k x) s) \<Longrightarrow> P s \<Longrightarrow> establishes P R (bindT t k) s"
proof (induction t arbitrary: s)
  case (Step f)
  have "establishes P R (bindT t k) s'" if "P s" "f s = (t, s')" for s t s'
    using Step.IH [OF step_range [of f, OF that(2)], of t] thread_ok_Step [OF Step.prems(1) that] Step.prems(2) by simp
  then show ?case by (simp add: map_prod_def split: prod.splits)
qed simp

lemma thread_ok_conj: "thread_ok P Q t \<Longrightarrow> thread_ok P Q' t \<Longrightarrow> thread_ok P (\<lambda>x. Q x \<and> Q' x) t"
proof (induction t)
  case (Step f)
  have "thread_ok P (\<lambda>x. Q x \<and> Q' x) t" "P s'" if "P s" "f s = (t, s')" for s t s'
    using Step.IH [OF step_range [of f, OF that(2)], of t] thread_ok_Step [OF Step.prems(1) that] thread_ok_Step [OF Step.prems(2) that] by simp_all
  then show ?case by (simp add: map_prod_def split: prod.splits)
qed simp

lemma thread_ok_atomic_result:
  assumes "thread_ok P Q (atomic m)" "\<And>s. P s \<Longrightarrow> Q' (fst (m s))"
  shows "thread_ok P (\<lambda>x. Q x \<and> Q' x) (atomic m)"
  using assms by (simp add: atomic_def split_beta)

text \<open>
  A thread with a guarantee: it keeps \<open>P\<close>, its result satisfies \<open>Q\<close>, and no step of it destroys one of the
  goals \<open>S\<close> of the group once that goal is reached.
\<close>

definition keeps_goals :: "('w \<Rightarrow> bool) set \<Rightarrow> 'w \<Rightarrow> 'w \<Rightarrow> bool" where
  "keeps_goals S s s' \<longleftrightarrow> (\<forall>R\<in>S. R s \<longrightarrow> R s')"

lemma keeps_goals_refl [simp]: "keeps_goals S s s"
  by (simp add: keeps_goals_def)

lemma keeps_goals_trans: "keeps_goals S s t \<Longrightarrow> keeps_goals S t u \<Longrightarrow> keeps_goals S s u"
  unfolding keeps_goals_def by blast

lemma keeps_goalsD: "keeps_goals S s s' \<Longrightarrow> R \<in> S \<Longrightarrow> R s \<Longrightarrow> R s'"
  unfolding keeps_goals_def by blast

primrec guarantees :: "('w \<Rightarrow> bool) \<Rightarrow> ('w \<Rightarrow> bool) set \<Rightarrow> ('a \<Rightarrow> bool) \<Rightarrow> ('w, 'a) thread \<Rightarrow> bool" where
  "guarantees P S Q (Done x) \<longleftrightarrow> Q x"
| "guarantees P S Q (Step f) \<longleftrightarrow> (\<forall>s. P s \<longrightarrow> P (snd (f s)) \<and> keeps_goals S s (snd (f s))
     \<and> fst (map_prod (guarantees P S Q) (\<lambda>s'. s') (f s)))"

lemma guarantees_Step:
  assumes "guarantees P S Q (Step f)" "P s" "f s = (t, s')"
  shows "P s'" "guarantees P S Q t" "keeps_goals S s s'"
  using assms(1) [unfolded guarantees.simps, THEN spec, of s] assms(2,3) by simp_all

lemma guarantees_atomic:
  assumes "\<And>s x s'. P s \<Longrightarrow> m s = (x, s') \<Longrightarrow> P s' \<and> Q x \<and> keeps_goals S s s'"
  shows "guarantees P S Q (atomic m)"
  using assms by (auto simp: atomic_def split: prod.splits)

lemma guarantees_bindT:
  "guarantees P S Q0 t \<Longrightarrow> (\<And>x. Q0 x \<Longrightarrow> guarantees P S Q (k x)) \<Longrightarrow> guarantees P S Q (bindT t k)"
proof (induction t)
  case (Step f)
  have "guarantees P S Q (bindT t k)" if "P s" "f s = (t, s')" for s t s'
    using Step.IH [OF step_range [of f, OF that(2)], of t] guarantees_Step(2) [OF Step.prems(1) that] Step.prems(2) by simp
  moreover have "P s'" "keeps_goals S s s'" if "P s" "f s = (t, s')" for s t s'
    using guarantees_Step(1,3) [OF Step.prems(1) that] by simp_all
  ultimately show ?case by (simp add: map_prod_def split: prod.splits)
qed simp

lemma guarantees_ok: "guarantees P S Q t \<Longrightarrow> thread_ok P Q t"
proof (induction t)
  case (Step f)
  have "thread_ok P Q t" "P s'" if "P s" "f s = (t, s')" for s t s'
    using Step.IH [OF step_range [of f, OF that(2)], of t] guarantees_Step [OF Step.prems that] by simp_all
  then show ?case by (simp add: map_prod_def split: prod.splits)
qed simp

lemma run_thread_guarantees:
  "guarantees P S Q t \<Longrightarrow> P s \<Longrightarrow> run_thread t s = (x, s') \<Longrightarrow> P s' \<and> keeps_goals S s s'"
proof (induction t arbitrary: s)
  case (Step f)
  obtain t s1 where fs: "f s = (t, s1)" by (cases "f s")
  note st = guarantees_Step [OF Step.prems(1,2) fs]
  have "P s' \<and> keeps_goals S s1 s'"
    using Step.IH [OF step_range [of f, OF fs], of t] st(1,2) Step.prems(3) fs by simp
  with keeps_goals_trans [OF st(3)] show ?case by simp
qed simp

lemma run_thread_establishes:
  "guarantees P S Q t \<Longrightarrow> R \<in> S \<Longrightarrow> establishes P R t s \<Longrightarrow> P s \<Longrightarrow> run_thread t s = (x, s') \<Longrightarrow> R s'"
proof (induction t arbitrary: s)
  case (Step f)
  obtain t s1 where fs: "f s = (t, s1)" by (cases "f s")
  note st = guarantees_Step [OF Step.prems(1,4) fs]
  have "establishes P R t s1" using establishes_Step [OF Step.prems(3,4) fs] keeps_goalsD [OF st(3) Step.prems(2)] by blast
  then show ?case using Step.IH [OF step_range [of f, OF fs], of t] st(1,2) Step.prems(2,5) fs by simp
qed simp

lemma run_all_establishes:
  assumes "run_all ts s = (xs, s')" "list_all2 (\<lambda>R t. establishes P R t s) Rs ts" "list_all (guarantees P S Q) ts" "set Rs \<subseteq> S" "P s"
  shows "list_all (\<lambda>R. R s') Rs \<and> P s' \<and> keeps_goals S s s'"
  using assms
proof (induction ts arbitrary: s Rs xs)
  case (Cons t ts)
  obtain x s1 xs1 where r: "run_thread t s = (x, s1)" "run_all ts s1 = (xs1, s')"
    using Cons.prems(1) by (auto split: prod.splits)
  obtain R Rs' where Rs: "Rs = R # Rs'" "establishes P R t s" "list_all2 (\<lambda>R t. establishes P R t s) Rs' ts"
    using Cons.prems(2) by (auto simp: list_all2_Cons2)
  have t: "guarantees P S Q t" and ts: "list_all (guarantees P S Q) ts" using Cons.prems(3) by simp_all
  have P1: "P s1" and keep: "keeps_goals S s s1" using run_thread_guarantees [OF t Cons.prems(5) r(1)] by simp_all
  have "list_all2 (\<lambda>R t. establishes P R t s1) Rs' ts"
    using Rs(3) by (rule list.rel_mono_strong) (use keep Cons.prems(4) Rs(1) in \<open>auto intro: establishes_stable keeps_goalsD\<close>)
  from Cons.IH [OF r(2) this ts] have "list_all (\<lambda>R. R s') Rs' \<and> P s' \<and> keeps_goals S s1 s'"
    using Cons.prems(4) Rs(1) P1 by simp
  moreover have "R s1" using run_thread_establishes [OF t _ Rs(2) Cons.prems(5) r(1)] Cons.prems(4) Rs(1) by simp
  ultimately show ?case using keeps_goalsD [of S s1 s' R] keeps_goals_trans [OF keep] Cons.prems(4) Rs(1) by simp
qed simp

lemma schedule_establishes:
  "list_all2 (\<lambda>R t. establishes P R t s) Rs ts \<Longrightarrow> list_all (guarantees P S Q) ts \<Longrightarrow> set Rs \<subseteq> S \<Longrightarrow> P s \<Longrightarrow>
   schedule is ts s = (xs, s') \<Longrightarrow> list_all (\<lambda>R. R s') Rs"
proof (induction "is" ts s arbitrary: xs rule: schedule.induct)
  case (1 ts s)
  then show ?case using run_all_establishes [of ts s xs s' P Rs S Q] by simp
next
  case (2 i "is" ts s)
  show ?case
  proof (cases "i < length ts \<and> (\<exists>f. ts ! i = Step f)")
    case True
    then obtain f where i: "i < length ts" and f: "ts ! i = Step f" by blast
    obtain t s1 where fs: "f s = (t, s1)" by (cases "f s")
    have c: "guarantees P S Q (Step f)" using "2.prems"(2) i f by (metis list_all_length)
    note st = guarantees_Step [OF c "2.prems"(4) fs]
    have len: "length Rs = length ts" using "2.prems"(1) by (rule list_all2_lengthD)
    have e: "establishes P (Rs ! i) (Step f) s" using list_all2_nthD2 [OF "2.prems"(1) i] f by simp
    have "Rs ! i \<in> S" using "2.prems"(3) nth_mem [of i Rs] i len by auto
    then have "establishes P (Rs ! i) t s1" using establishes_Step [OF e "2.prems"(4) fs] keeps_goalsD [OF st(3)] by blast
    moreover have "list_all2 (\<lambda>R t. establishes P R t s1) Rs ts"
      using "2.prems"(1) by (rule list.rel_mono_strong) (use st(3) "2.prems"(3) in \<open>auto intro: establishes_stable keeps_goalsD\<close>)
    ultimately have "list_all2 (\<lambda>R t. establishes P R t s1) (Rs[i := Rs ! i]) (ts[i := t])"
      by (intro list_all2_update_cong)
    moreover have "list_all (guarantees P S Q) (ts[i := t])"
      using "2.prems"(2) st(2) set_update_subset_insert [of ts i t] by (auto simp: list_all_iff)
    ultimately show ?thesis using 2 i f fs st(1) by simp
  next
    case False
    then show ?thesis using 2 by (auto split: thread.splits)
  qed
qed

end
