(* ===== verification/Market_Service.thy ===== *)
theory Market_Service
  imports Stellar_Builder Model Concurrency
begin

text \<open>
  \<open>internal/service/market.go\<close>: the operations of a trader and of the oracle on one market.  Every
  operation validates its request, asks the contract for a quote by simulation where it needs one, builds the
  transaction and prepares it for signing; it never submits anything.
\<close>

section \<open>Amounts\<close>

text \<open>\<open>float64(math.MaxInt64)\<close> is the constant \<open>2^63 - 1\<close> rounded to \<open>float64\<close>.\<close>

definition float_MaxInt64 :: float64 where "float_MaxInt64 = f64_const (2 ^ 63 - 1)"
definition float_MinInt64 :: float64 where "float_MinInt64 = f64_const (- (2 ^ 63))"

definition safeFloatToInt64 :: "'w env \<Rightarrow> float64 \<Rightarrow> int64 result" where
  "safeFloatToInt64 E f =
     (if f = NaN \<or> f = PosInf \<or> f = NegInf
      then Inl (ErrWrap [] (Sentinel (Service service_ErrAmountOverflow)) '': invalid float value (NaN or Inf)'')
      else if f64_lt float_MaxInt64 f \<or> f64_lt f float_MinInt64
      then Inl (ErrWrap [] (Sentinel (Service service_ErrAmountOverflow)) ('': value '' @ fmt_g E f @ '' exceeds int64 range''))
      else Inr (f64_to_int64 (conv_impl E) f))"

definition float_ScaleFactor :: float64 where "float_ScaleFactor = f64_of_int64 ScaleFactor"

section \<open>The service and its requests\<close>

record MarketService =
  ms_sorobanClient :: Client
  ms_txBuilder :: Builder
  ms_oraclePublicKey :: string

definition NewMarketService :: "Client \<Rightarrow> Builder \<Rightarrow> string \<Rightarrow> MarketService" where
  "NewMarketService sorobanClient txBuilder oraclePublicKey =
     \<lparr>ms_sorobanClient = sorobanClient, ms_txBuilder = txBuilder, ms_oraclePublicKey = oraclePublicKey\<rparr>"

record TradeRequest =
  tq_UserPublicKey :: string
  tq_ContractID :: string
  tq_Outcome :: Outcome
  tq_ShareAmount :: float64
  tq_Slippage :: float64

definition TradeRequest_Validate :: "'w env \<Rightarrow> TradeRequest \<Rightarrow> unit result" where
  "TradeRequest_Validate E r =
     tryE (ValidateStellarPublicKey (tq_UserPublicKey r)) same (\<lambda>_.
     tryE (ValidateContractID E (tq_ContractID r)) same (\<lambda>_.
     if \<not> Outcome_IsValid (tq_Outcome r) then Inl (Sentinel (Model model_ErrInvalidOutcome))
     else if f64_le (tq_ShareAmount r) (Fin 0) then Inl (Sentinel (Model model_ErrInvalidShareAmount))
     else if f64_le (tq_Slippage r) (Fin 0) \<or> f64_lt MaxSlippage (tq_Slippage r) then Inl (Sentinel (Model model_ErrInvalidSlippage))
     else Inr ()))"

type_synonym BuyRequest = TradeRequest
type_synonym SellRequest = TradeRequest

record ResolveRequest =
  rq_OraclePublicKey :: string
  rq_ContractID :: string
  rq_WinningOutcome :: Outcome

definition ResolveRequest_Validate :: "'w env \<Rightarrow> ResolveRequest \<Rightarrow> unit result" where
  "ResolveRequest_Validate E r =
     tryE (ValidateStellarPublicKey (rq_OraclePublicKey r)) same (\<lambda>_.
     tryE (ValidateContractID E (rq_ContractID r)) same (\<lambda>_.
     if \<not> Outcome_IsValid (rq_WinningOutcome r) then Inl (Sentinel (Model model_ErrInvalidOutcome)) else Inr ()))"

record ClaimRequest =
  cq_UserPublicKey :: string
  cq_ContractID :: string

definition ClaimRequest_Validate :: "'w env \<Rightarrow> ClaimRequest \<Rightarrow> unit result" where
  "ClaimRequest_Validate E r =
     tryE (ValidateStellarPublicKey (cq_UserPublicKey r)) same (\<lambda>_.
     tryE (ValidateContractID E (cq_ContractID r)) same (\<lambda>_. Inr ()))"

record WithdrawRequest =
  wq_OraclePublicKey :: string
  wq_ContractID :: string

definition WithdrawRequest_Validate :: "'w env \<Rightarrow> WithdrawRequest \<Rightarrow> unit result" where
  "WithdrawRequest_Validate E r =
     tryE (ValidateStellarPublicKey (wq_OraclePublicKey r)) same (\<lambda>_.
     tryE (ValidateContractID E (wq_ContractID r)) same (\<lambda>_. Inr ()))"

section \<open>Quotes\<close>

record Quote =
  q_Cost :: int64
  q_PriceAfter :: float64

record SellQuote =
  sq_ReturnAmount :: int64
  sq_PriceAfter :: float64

text \<open>
  The part of \<open>GetQuote\<close> and \<open>GetSellQuote\<close> after the simulation, which differs only in the
  wording of the errors: the first two elements of the returned tuple.  \<open>what\<close> names the result,
  \<open>amt\<close> its first component.
\<close>

definition decode_quote :: "'w env \<Rightarrow> string \<Rightarrow> string \<Rightarrow> SimulateTransactionResult \<Rightarrow> (int64 \<times> float64) result" where
  "decode_quote E what amt simResult =
     (if sim_Error simResult \<noteq> [] then Inl (ErrNew (''simulation error: '' @ sim_Error simResult))
      else case sim_Results simResult of
        [] \<Rightarrow> Inl (ErrNew ''no result from simulation'')
      | r # _ \<Rightarrow>
          if sr_XDR r = [] then Inl (ErrNew ''no result from simulation'')
          else tryE (ParseReturnValue E (sr_XDR r)) (wrap ''failed to parse return value: '') (\<lambda>returnVal.
               tryE (DecodeVec E returnVal)
                 (wrap (''failed to decode '' @ what @ '' result: expected ('' @ amt @ '', price_after) tuple, got ''
                        @ fmt_ScValType E (sv_Type returnVal) @ '': '')) (\<lambda>tuple.
               if length tuple < 2
               then Inl (ErrNew (''expected tuple of 2 elements, got '' @ dec_int (int (length tuple))))
               else tryE (DecodeI128 (tuple ! 0)) (wrap (''failed to decode '' @ amt @ '' from tuple: '')) (\<lambda>v.
                    tryE (DecodeI128 (tuple ! 1)) (wrap ''failed to decode price_after from tuple: '') (\<lambda>priceAfterScaled.
                    Inr (v, f64_div (f64_of_int64 priceAfterScaled) float_ScaleFactor))))))"

definition GetQuote :: "'w env \<Rightarrow> MarketService \<Rightarrow> string \<Rightarrow> Outcome \<Rightarrow> float64 \<Rightarrow> ('w, Quote) act" where
  "GetQuote E s contractID outcome amount =
     tryM (liftM (safeFloatToInt64 E (f64_mul amount float_ScaleFactor))) (wrap ''invalid quote amount: '') (\<lambda>amountScaled.
     tryM (liftM (OutcomeToU32 E outcome)) (wrap ''invalid outcome: '') (\<lambda>outcomeU32.
     tryM (BuildGetQuoteTx E (ms_txBuilder s)
             \<lparr>gq_UserPublicKey = ms_oraclePublicKey s, gq_ContractID = contractID, gq_Outcome = outcomeU32, gq_Amount = amountScaled\<rparr>)
          (wrap ''failed to build quote transaction: '') (\<lambda>txXDR.
     tryM (err_first (SimulateTransaction E (ms_sorobanClient s) txXDR)) (wrap ''failed to simulate quote: '') (\<lambda>simResult.
     tryM (liftM (decode_quote E ''quote'' ''cost'' simResult)) same (\<lambda>(cost, priceAfter).
     retM \<lparr>q_Cost = cost, q_PriceAfter = priceAfter\<rparr>)))))"

definition GetSellQuote :: "'w env \<Rightarrow> MarketService \<Rightarrow> string \<Rightarrow> Outcome \<Rightarrow> float64 \<Rightarrow> ('w, SellQuote) act" where
  "GetSellQuote E s contractID outcome amount =
     tryM (liftM (safeFloatToInt64 E (f64_mul amount float_ScaleFactor))) (wrap ''invalid sell quote amount: '') (\<lambda>amountScaled.
     tryM (liftM (OutcomeToU32 E outcome)) (wrap ''invalid outcome: '') (\<lambda>outcomeU32.
     tryM (BuildGetSellQuoteTx E (ms_txBuilder s)
             \<lparr>gq_UserPublicKey = ms_oraclePublicKey s, gq_ContractID = contractID, gq_Outcome = outcomeU32, gq_Amount = amountScaled\<rparr>)
          (wrap ''failed to build sell quote transaction: '') (\<lambda>txXDR.
     tryM (err_first (SimulateTransaction E (ms_sorobanClient s) txXDR)) (wrap ''failed to simulate sell quote: '') (\<lambda>simResult.
     tryM (liftM (decode_quote E ''sell quote'' ''return_amount'' simResult)) same (\<lambda>(returnAmount, priceAfter).
     retM \<lparr>sq_ReturnAmount = returnAmount, sq_PriceAfter = priceAfter\<rparr>)))))"

section \<open>Transactions\<close>

definition svc_BuildBuyTx :: "'w env \<Rightarrow> MarketService \<Rightarrow> BuyRequest \<Rightarrow> ('w, TransactionResult) act" where
  "svc_BuildBuyTx E s req =
     tryM (liftM (TradeRequest_Validate E req)) (wrap ''buy request validation failed: '') (\<lambda>_.
     tryM (liftM (safeFloatToInt64 E (f64_mul (tq_ShareAmount req) float_ScaleFactor))) (wrap ''invalid share amount: '') (\<lambda>amount.
     tryM (GetQuote E s (tq_ContractID req) (tq_Outcome req) (tq_ShareAmount req)) (wrap ''failed to get quote: '') (\<lambda>quote.
     if sint (q_Cost quote) \<le> 0
     then failM (ErrNew (''invalid quote cost: '' @ dec_int (sint (q_Cost quote)) @ '' (expected positive value)''))
     else
     tryM (liftM (safeFloatToInt64 E (f64_mul (f64_of_int64 (q_Cost quote)) (f64_add (Fin 1) (tq_Slippage req)))))
          (wrap ''max cost calculation overflow: '') (\<lambda>maxCost.
     tryM (liftM (OutcomeToU32 E (tq_Outcome req))) (wrap ''invalid outcome: '') (\<lambda>outcomeU32.
     tryM (BuildBuyTx E (ms_txBuilder s)
             \<lparr>buy_UserPublicKey = tq_UserPublicKey req, buy_ContractID = tq_ContractID req, buy_Outcome = outcomeU32,
              buy_Amount = amount, buy_MaxCost = maxCost\<rparr>) (wrap ''failed to build transaction: '') (\<lambda>txXDR.
     tryM (SimulateAndPrepareTx E (ms_txBuilder s) txXDR) (wrap ''failed to simulate transaction: '') (\<lambda>preparedXDR.
     retM \<lparr>tr_XDR = preparedXDR,
           tr_Description = ''Buy '' @ fmt_fixed 2 (tq_ShareAmount req) @ '' '' @ tq_Outcome req @ '' tokens'',
           tr_SignWith = tq_UserPublicKey req, tr_SubmitURL = RPCURL (ms_sorobanClient s)\<rparr>)))))))"

definition svc_BuildSellTx :: "'w env \<Rightarrow> MarketService \<Rightarrow> SellRequest \<Rightarrow> ('w, TransactionResult) act" where
  "svc_BuildSellTx E s req =
     tryM (liftM (TradeRequest_Validate E req)) (wrap ''sell request validation failed: '') (\<lambda>_.
     tryM (liftM (safeFloatToInt64 E (f64_mul (tq_ShareAmount req) float_ScaleFactor))) (wrap ''invalid share amount: '') (\<lambda>amount.
     tryM (GetSellQuote E s (tq_ContractID req) (tq_Outcome req) (tq_ShareAmount req)) (wrap ''failed to get sell quote: '') (\<lambda>sellQuote.
     if sint (sq_ReturnAmount sellQuote) \<le> 0
     then failM (ErrNew (''invalid sell return: '' @ dec_int (sint (sq_ReturnAmount sellQuote)) @ '' (expected positive value)''))
     else
     tryM (liftM (safeFloatToInt64 E (f64_mul (f64_of_int64 (sq_ReturnAmount sellQuote)) (f64_sub (Fin 1) (tq_Slippage req)))))
          (wrap ''min return calculation overflow: '') (\<lambda>minReturn.
     tryM (liftM (OutcomeToU32 E (tq_Outcome req))) (wrap ''invalid outcome: '') (\<lambda>outcomeU32.
     tryM (BuildSellTx E (ms_txBuilder s)
             \<lparr>sell_UserPublicKey = tq_UserPublicKey req, sell_ContractID = tq_ContractID req, sell_Outcome = outcomeU32,
              sell_Amount = amount, sell_MinReturn = minReturn\<rparr>) (wrap ''failed to build transaction: '') (\<lambda>txXDR.
     tryM (SimulateAndPrepareTx E (ms_txBuilder s) txXDR) (wrap ''failed to simulate transaction: '') (\<lambda>preparedXDR.
     retM \<lparr>tr_XDR = preparedXDR,
           tr_Description = ''Sell '' @ fmt_fixed 2 (tq_ShareAmount req) @ '' '' @ tq_Outcome req @ '' tokens'',
           tr_SignWith = tq_UserPublicKey req, tr_SubmitURL = RPCURL (ms_sorobanClient s)\<rparr>)))))))"

definition svc_BuildResolveTx :: "'w env \<Rightarrow> MarketService \<Rightarrow> ResolveRequest \<Rightarrow> ('w, TransactionResult) act" where
  "svc_BuildResolveTx E s req =
     tryM (liftM (ResolveRequest_Validate E req)) (wrap ''resolve request validation failed: '') (\<lambda>_.
     tryM (liftM (OutcomeToU32 E (rq_WinningOutcome req))) (wrap ''invalid outcome: '') (\<lambda>outcomeU32.
     tryM (BuildResolveTx E (ms_txBuilder s)
             \<lparr>res_OraclePublicKey = rq_OraclePublicKey req, res_ContractID = rq_ContractID req, res_WinningOutcome = outcomeU32\<rparr>)
          (wrap ''failed to build transaction: '') (\<lambda>txXDR.
     tryM (SimulateAndPrepareTx E (ms_txBuilder s) txXDR) (wrap ''failed to simulate transaction: '') (\<lambda>preparedXDR.
     retM \<lparr>tr_XDR = preparedXDR, tr_Description = ''Resolve market: '' @ rq_WinningOutcome req @ '' wins'',
           tr_SignWith = rq_OraclePublicKey req, tr_SubmitURL = RPCURL (ms_sorobanClient s)\<rparr>))))"

definition svc_BuildClaimTx :: "'w env \<Rightarrow> MarketService \<Rightarrow> ClaimRequest \<Rightarrow> ('w, TransactionResult) act" where
  "svc_BuildClaimTx E s req =
     tryM (liftM (ClaimRequest_Validate E req)) (wrap ''claim request validation failed: '') (\<lambda>_.
     tryM (BuildClaimTx E (ms_txBuilder s) \<lparr>clm_UserPublicKey = cq_UserPublicKey req, clm_ContractID = cq_ContractID req\<rparr>)
          (wrap ''failed to build transaction: '') (\<lambda>txXDR.
     tryM (SimulateAndPrepareTx E (ms_txBuilder s) txXDR) (wrap ''failed to simulate transaction: '') (\<lambda>preparedXDR.
     retM \<lparr>tr_XDR = preparedXDR, tr_Description = ''Claim winnings'',
           tr_SignWith = cq_UserPublicKey req, tr_SubmitURL = RPCURL (ms_sorobanClient s)\<rparr>)))"

definition svc_BuildWithdrawTx :: "'w env \<Rightarrow> MarketService \<Rightarrow> WithdrawRequest \<Rightarrow> ('w, TransactionResult) act" where
  "svc_BuildWithdrawTx E s req =
     tryM (liftM (WithdrawRequest_Validate E req)) (wrap ''withdraw request validation failed: '') (\<lambda>_.
     tryM (BuildWithdrawTx E (ms_txBuilder s) \<lparr>wd_OraclePublicKey = wq_OraclePublicKey req, wd_ContractID = wq_ContractID req\<rparr>)
          (wrap ''failed to build transaction: '') (\<lambda>txXDR.
     tryM (SimulateAndPrepareTx E (ms_txBuilder s) txXDR) (wrap ''failed to simulate transaction: '') (\<lambda>preparedXDR.
     retM \<lparr>tr_XDR = preparedXDR, tr_Description = ''Withdraw remaining pool'',
           tr_SignWith = wq_OraclePublicKey req, tr_SubmitURL = RPCURL (ms_sorobanClient s)\<rparr>)))"

section \<open>Balances\<close>

record UserBalance =
  ub_YesBalance :: float64
  ub_NoBalance :: float64

definition decode_balance :: "'w env \<Rightarrow> SimulateTransactionResult \<Rightarrow> int64 result" where
  "decode_balance E simResult =
     (case sim_Results simResult of
        [] \<Rightarrow> Inr 0
      | r # _ \<Rightarrow>
          if sr_XDR r = [] then Inr 0
          else tryE (ParseReturnValue E (sr_XDR r)) (wrap ''failed to parse return value: '') (\<lambda>returnVal.
               tryE (DecodeI128 returnVal) (wrap ''failed to decode balance: '') Inr))"

text \<open>\<open>getOutcomeBalance\<close> runs in a goroutine; its steps are the account lookup and the simulation.\<close>

definition getOutcomeBalance :: "'w env \<Rightarrow> MarketService \<Rightarrow> string \<Rightarrow> string \<Rightarrow> uint32 \<Rightarrow> ('w world, int64 result) thread" where
  "getOutcomeBalance E s contractID account outcome =
     tryT (atomic (BuildGetBalanceTx E (ms_txBuilder s)
             \<lparr>gb_UserPublicKey = ms_oraclePublicKey s, gb_ContractID = contractID, gb_Account = account, gb_Outcome = outcome\<rparr>))
          (wrap ''failed to build get_balance tx: '') (\<lambda>txXDR.
     tryT (atomic (err_first (SimulateTransaction E (ms_sorobanClient s) txXDR))) (wrap ''failed to simulate get_balance: '') (\<lambda>simResult.
     Done (decode_balance E simResult)))"

text \<open>
  The two goroutines run under a schedule; the YES result is looked at first, so that its error wins.  When
  it is an error the other goroutine is not waited for: it runs on to its end.
\<close>

definition GetBalance :: "'w env \<Rightarrow> nat list \<Rightarrow> MarketService \<Rightarrow> string \<Rightarrow> string \<Rightarrow> ('w, UserBalance) act" where
  "GetBalance E sched s contractID account =
     tryM (liftM (ValidateContractID E contractID)) (wrap ''invalid contract ID: '') (\<lambda>_.
     tryM (liftM (ValidateStellarPublicKey account)) (wrap ''invalid account: '') (\<lambda>_ w.
     case schedule sched [getOutcomeBalance E s contractID account OutcomeYes32, getOutcomeBalance E s contractID account OutcomeNo32] w of
       (rs, w') \<Rightarrow>
         tryM (liftM (rs ! 0)) (wrap ''failed to get YES balance: '') (\<lambda>yes.
         tryM (liftM (rs ! 1)) (wrap ''failed to get NO balance: '') (\<lambda>no.
         retM \<lparr>ub_YesBalance = f64_div (f64_of_int64 yes) float_ScaleFactor,
               ub_NoBalance = f64_div (f64_of_int64 no) float_ScaleFactor\<rparr>)) w'))"

section \<open>Conversion of amounts\<close>

lemma rnd_MaxInt64: "rnd (2 ^ 63 - 1) = 2 ^ 63"
proof -
  have e: "expo (2 ^ 63 - 1) = 62" by (rule expo_unique) (simp_all add: power_int_def)
  have u: "ulp (2 ^ 63 - 1) = 2 ^ 10" unfolding ulp_def e by (simp add: power_int_def)
  have "\<lfloor>(2 ^ 63 - 1 :: rat) / 2 ^ 10\<rfloor> = 2 ^ 53 - 1" by (simp add: floor_eq_iff)
  then have "round_ne ((2 ^ 63 - 1) / 2 ^ 10) = 2 ^ 53" by (simp add: round_ne_def Let_def)
  then show ?thesis unfolding rnd_def u by simp
qed

lemma float_MaxInt64: "float_MaxInt64 = Fin (2 ^ 63)"
proof -
  have "\<bar>2 ^ 63 - 1 :: rat\<bar> \<le> 2 powi 63" by simp
  from round64_bounded(1) [OF this] show ?thesis by (simp only: float_MaxInt64_def f64_const_def rnd_MaxInt64)
qed

lemma float_MinInt64: "float_MinInt64 = Fin (- (2 ^ 63))"
proof -
  have p: "(2::rat) powi 63 = 2 ^ 63" by (simp only: power_int_numeral)
  have "\<bar>- (2 ^ 63) :: rat\<bar> \<le> 2 powi 63" unfolding p by simp
  from round64_bounded(1) [OF this] have "round64 (- (2 ^ 63)) = Fin (- rnd (2 powi 63))"
    unfolding p by (simp only: rnd_minus)
  also have "rnd (2 powi 63) = 2 powi 63" by (intro rnd_powi) simp
  finally show ?thesis by (simp only: float_MinInt64_def f64_const_def p)
qed

lemma safeFloatToInt64_Inr_iff:
  "safeFloatToInt64 E f = Inr v \<longleftrightarrow> (\<exists>x. f = Fin x \<and> - (2 ^ 63) \<le> x \<and> x \<le> 2 ^ 63 \<and> v = f64_to_int64 (conv_impl E) f)"
  by (cases f) (auto simp: safeFloatToInt64_def float_MaxInt64 float_MinInt64)

lemma safeFloatToInt64_value:
  assumes "safeFloatToInt64 E (Fin x) = Inr v" "x \<noteq> 2 ^ 63"
  shows "sint v = rat_trunc x"
proof -
  have x: "- (2 ^ 63) \<le> x" "x < 2 ^ 63" and v: "v = f64_to_int64 (conv_impl E) (Fin x)"
    using assms by (auto simp: safeFloatToInt64_Inr_iff)
  have "rat_trunc (of_int (- (2 ^ 63))) \<le> rat_trunc x" using x by (intro rat_trunc_mono) simp
  then have lo: "- (2 ^ 63) \<le> rat_trunc x" by (simp only: rat_trunc_of_int)
  have "rat_trunc x < 2 ^ 63" using x(2) by (simp add: rat_trunc_def floor_less_iff ceiling_less_zero)
  then show ?thesis unfolding v by (rule f64_to_int64_Fin [OF lo])
qed

lemma safeFloatToInt64_limit: "safeFloatToInt64 E (Fin (2 ^ 63)) = Inr (conv_impl E (Fin (2 ^ 63)))"
proof -
  have "rat_trunc (of_int (2 ^ 63)) = 2 ^ 63" by (rule rat_trunc_of_int)
  then show ?thesis by (simp add: safeFloatToInt64_Inr_iff f64_to_int64_def)
qed

text \<open>
  C40 (safeFloatToInt64_truncates): a checked conversion that succeeds truncates the value towards zero, and
  it succeeds for every value in the range of \<open>int64\<close>; NaN, the infinities and every other value
  outside the range give \<open>ErrAmountOverflow\<close>.  The one exception is \<open>2^63\<close>: it passes the range check, because
  \<open>float64(math.MaxInt64)\<close> rounds up to it, and the result is then whatever the platform gives.
\<close>

theorem safeFloatToInt64_truncates:
  "(safeFloatToInt64 E f = Inr v \<and> f \<noteq> Fin (2 ^ 63) \<longrightarrow> (\<exists>x. f = Fin x \<and> - (2 ^ 63) \<le> x \<and> x < 2 ^ 63 \<and> sint v = rat_trunc x))
    \<and> ((\<exists>x. f = Fin x \<and> - (2 ^ 63) \<le> x \<and> x < 2 ^ 63) \<longrightarrow> (\<exists>v. safeFloatToInt64 E f = Inr v))
    \<and> (safeFloatToInt64 E f = Inl e \<longrightarrow> errors_Is e (Service service_ErrAmountOverflow))
    \<and> safeFloatToInt64 E (Fin (2 ^ 63)) = Inr (conv_impl E (Fin (2 ^ 63)))"
proof (intro conjI impI)
  assume "safeFloatToInt64 E f = Inr v \<and> f \<noteq> Fin (2 ^ 63)"
  moreover from this obtain x where "f = Fin x" "- (2 ^ 63) \<le> x" "x \<le> 2 ^ 63" by (auto simp: safeFloatToInt64_Inr_iff)
  ultimately show "\<exists>x. f = Fin x \<and> - (2 ^ 63) \<le> x \<and> x < 2 ^ 63 \<and> sint v = rat_trunc x"
    using safeFloatToInt64_value [of E x v] by auto
next
  show "safeFloatToInt64 E (Fin (2 ^ 63)) = Inr (conv_impl E (Fin (2 ^ 63)))" by (rule safeFloatToInt64_limit)
qed (auto simp: safeFloatToInt64_Inr_iff less_imp_le safeFloatToInt64_def float_MaxInt64 float_MinInt64 split: if_splits)

lemma floor_half: "\<lfloor>5 / 2 :: rat\<rfloor> = 2"
  by (simp add: floor_eq_iff)

theorem safeFloatToInt64_truncates_witness:
  "\<exists>x. Fin (5/2) = Fin x \<and> - (2 ^ 63) \<le> x \<and> x < 2 ^ 63 \<and> sint (2 :: int64) = rat_trunc x"
proof -
  have "safeFloatToInt64 (null_env :: unit env) (Fin (5/2)) = Inr 2"
    by (simp add: safeFloatToInt64_def float_MaxInt64 float_MinInt64 f64_to_int64_def rat_trunc_def floor_half)
  then show ?thesis
    using safeFloatToInt64_truncates [of "null_env :: unit env" "Fin (5/2)" 2] by simp
qed

section \<open>Slippage\<close>

lemma powi_eighth: "(2::rat) powi (- 3) = 1/8"
  by (simp add: power_int_minus)

lemma MaxSlippage_bound: "MaxSlippage = Fin (rnd (1/10))" "rnd (1/10) \<le> 1/8"
proof -
  have "\<bar>1/10 :: rat\<bar> \<le> 2 powi 0" by simp
  from round64_bounded(1) [OF this] show "MaxSlippage = Fin (rnd (1/10))" by (simp add: MaxSlippage_def f64_const_def)
  have "rnd (2 powi (- 3)) = 2 powi (- 3)" by (intro rnd_powi) simp
  then have "rnd (1/8 :: rat) = 1/8" by (simp only: powi_eighth)
  then show "rnd (1/10) \<le> 1/8" by (rule f64.R_le_fixed) simp
qed

text \<open>The slippage of a validated request that is a number.\<close>

lemma slippage_range:
  assumes "\<not> f64_le sl (Fin 0)" "\<not> f64_lt MaxSlippage sl" "sl \<noteq> NaN"
  obtains x where "sl = Fin x" "0 < x" "x \<le> 1/8"
  using assms MaxSlippage_bound(2) that unfolding MaxSlippage_bound(1)
  by (cases sl) (simp_all add: not_less not_le)

lemma rnd_eighths: "\<bar>m\<bar> \<le> 2 ^ 53 \<Longrightarrow> rnd (of_int m / 8) = of_int m / 8"
  using rnd_grid [of "- 3" m] by (simp add: powi_eighth)

text \<open>
  A quoted amount of at most \<open>2^53\<close> times a factor between 7/8 and 9/8: the product is a number, and
  converts to its floor.
\<close>

lemma scaled_quote:
  assumes c: "0 < sint c" "sint c \<le> 2 ^ 53" and y: "7/8 \<le> y" "y \<le> 9/8"
    and m: "safeFloatToInt64 E (f64_mul (f64_of_int64 c) (Fin y)) = Inr m"
  shows "sint m = \<lfloor>rnd (of_int (sint c) * y)\<rfloor>"
proof -
  let ?c = "of_int (sint c) :: rat"
  have c1: "0 < ?c" "?c \<le> 2 ^ 53" using c by (simp, metis of_int_le_iff of_int_numeral of_int_power)
  have "0 \<le> ?c * y" "?c * y \<le> 2 ^ 53 * 2" using c1 y by (simp, intro mult_mono) simp_all
  then have b: "\<bar>?c * y\<bar> \<le> 2 powi 54" by simp
  have f: "f64_mul (f64_of_int64 c) (Fin y) = Fin (rnd (?c * y))"
    using c round64_bounded(1) [OF b] by (simp add: f64_of_int64_exact)
  have "\<bar>rnd (?c * y)\<bar> \<le> 2 powi 54" using round64_bounded(2) [OF b] by simp
  then have "rnd (?c * y) \<noteq> 2 ^ 63" by auto
  with m have "sint m = rat_trunc (rnd (?c * y))" unfolding f by (rule safeFloatToInt64_value)
  moreover have "0 \<le> rnd (?c * y)" using \<open>0 \<le> ?c * y\<close> by (rule f64.R_nonneg)
  ultimately show ?thesis by (simp add: rat_trunc_def)
qed

lemma one_plus_slippage:
  assumes "0 < x" "x \<le> 1/8"
  obtains y where "f64_add (Fin 1) (Fin x) = Fin y" "1 \<le> y" "y \<le> 9/8"
proof
  have "\<bar>1 + x\<bar> \<le> 2 powi 1" using assms by simp
  from round64_bounded(1) [OF this] show "f64_add (Fin 1) (Fin x) = Fin (rnd (1 + x))" by simp
  show "1 \<le> rnd (1 + x)" using assms by (intro f64.R_ge_fixed) simp_all
  show "rnd (1 + x) \<le> 9/8" using assms rnd_eighths [of 9] by (intro f64.R_le_fixed) simp_all
qed

lemma one_minus_slippage:
  assumes "0 < x" "x \<le> 1/8"
  obtains y where "f64_sub (Fin 1) (Fin x) = Fin y" "7/8 \<le> y" "y \<le> 1"
proof
  have "\<bar>1 - x\<bar> \<le> 2 powi 1" using assms by simp
  from round64_bounded(1) [OF this] show "f64_sub (Fin 1) (Fin x) = Fin (rnd (1 - x))" by (simp add: f64_sub_def)
  show "rnd (1 - x) \<le> 1" using assms by (intro f64.R_le_fixed) simp_all
  show "7/8 \<le> rnd (1 - x)" using assms rnd_eighths [of 7] by (intro f64.R_ge_fixed) simp_all
qed

lemma max_cost_bounds:
  assumes "0 < sint c" "0 < x" "x \<le> 1/8"
    and m: "safeFloatToInt64 E (f64_mul (f64_of_int64 c) (f64_add (Fin 1) (Fin x))) = Inr m"
  shows "sint c \<le> 2 ^ 53 \<Longrightarrow> sint c \<le> sint m" "sint c \<le> 2 ^ 49 \<Longrightarrow> 8 * sint m \<le> 9 * sint c"
proof -
  let ?c = "of_int (sint c) :: rat"
  obtain y where y: "f64_add (Fin 1) (Fin x) = Fin y" "1 \<le> y" "y \<le> 9/8" using one_plus_slippage [OF assms(2,3)] .
  have s: "sint m = \<lfloor>rnd (?c * y)\<rfloor>" if "sint c \<le> 2 ^ 53"
    using scaled_quote [OF assms(1) that _ y(3)] m y by simp
  show "sint c \<le> sint m" if "sint c \<le> 2 ^ 53"
  proof -
    have "?c \<le> rnd (?c * y)" using that assms(1) y(2) by (intro f64.R_scale_up rnd_of_int) simp_all
    then show ?thesis using s [OF that] by (simp add: le_floor_iff)
  qed
  show "8 * sint m \<le> 9 * sint c" if "sint c \<le> 2 ^ 49"
  proof -
    have "?c * y \<le> ?c * (9/8)" using y(3) assms(1) by (intro mult_left_mono) simp_all
    then have "rnd (?c * y) \<le> of_int (9 * sint c) / 8"
      using that assms(1) by (intro f64.R_le_fixed rnd_eighths) simp_all
    moreover have "of_int (sint m) \<le> rnd (?c * y)" using s that by simp
    ultimately have "of_int (8 * sint m) \<le> (of_int (9 * sint c) :: rat)" by simp
    then show ?thesis by (simp only: of_int_le_iff)
  qed
qed

lemma min_return_bounds:
  assumes "0 < sint c" "0 < x" "x \<le> 1/8"
    and m: "safeFloatToInt64 E (f64_mul (f64_of_int64 c) (f64_sub (Fin 1) (Fin x))) = Inr m"
  shows "sint c \<le> 2 ^ 53 \<Longrightarrow> sint m \<le> sint c" "sint c \<le> 2 ^ 49 \<Longrightarrow> 7 * sint c < 8 * sint m + 8"
proof -
  let ?c = "of_int (sint c) :: rat"
  obtain y where y: "f64_sub (Fin 1) (Fin x) = Fin y" "7/8 \<le> y" "y \<le> 1" using one_minus_slippage [OF assms(2,3)] .
  have s: "sint m = \<lfloor>rnd (?c * y)\<rfloor>" if "sint c \<le> 2 ^ 53"
    using scaled_quote [OF assms(1) that y(2)] m y by simp
  show "sint m \<le> sint c" if "sint c \<le> 2 ^ 53"
  proof -
    have "?c * y \<le> ?c * 1" using y(3) assms(1) by (intro mult_left_mono) simp_all
    then have "rnd (?c * y) \<le> ?c" using that assms(1) by (intro f64.R_le_fixed rnd_of_int) simp_all
    then show ?thesis using s [OF that] floor_mono by (metis floor_of_int)
  qed
  show "7 * sint c < 8 * sint m + 8" if "sint c \<le> 2 ^ 49"
  proof -
    have "?c * (7/8) \<le> ?c * y" using y(2) assms(1) by (intro mult_left_mono) simp_all
    then have "of_int (7 * sint c) / 8 \<le> rnd (?c * y)"
      using that assms(1) by (intro f64.R_ge_fixed rnd_eighths) simp_all
    moreover have "rnd (?c * y) < of_int (sint m) + 1" using s that floor_correct [of "rnd (?c * y)"] by simp
    ultimately have "of_int (7 * sint c) < (of_int (8 * sint m + 8) :: rat)" by simp
    then show ?thesis by (simp only: of_int_less_iff)
  qed
qed

section \<open>The transactions the service hands out\<close>

lemma TradeRequest_Validate_Inr:
  "TradeRequest_Validate E r = Inr u \<Longrightarrow> \<not> f64_le (tq_Slippage r) (Fin 0) \<and> \<not> f64_lt MaxSlippage (tq_Slippage r)"
  by (auto simp: TradeRequest_Validate_def tryE_Inr_iff split: if_splits)

lemma safeFloatToInt64_not_NaN [simp]: "safeFloatToInt64 E NaN \<noteq> Inr v"
  by (simp add: safeFloatToInt64_def)

lemma trade_slippage:
  assumes "TradeRequest_Validate E r = Inr u" "tq_Slippage r \<noteq> NaN"
  obtains x where "tq_Slippage r = Fin x" "0 < x" "x \<le> 1/8"
  using TradeRequest_Validate_Inr [OF assms(1)] assms(2) slippage_range by blast

text \<open>
  A transaction that \<open>BuildBuyTx\<close> hands out for signing comes from the
  user of the request and its only operation is \<open>buy\<close> on the contract of the request, with the user,
  the code of the requested outcome, the truncated scaled amount and a maximum cost.  The maximum cost is
  never below the cost the contract quoted and at most 9/8 of it, for quotes up to \<open>2^49\<close> (and not
  below it up to \<open>2^53\<close>).  In particular no request with a NaN amount or slippage gets this far.
\<close>

lemma svc_BuildBuyTx_InrE:
  assumes sdk: "sdk_laws E" and ok: "svc_BuildBuyTx E s req w = (Inr tr, w')"
  obtains userAddr n amount q wq maxCost where
    "invokes E (tr_XDR tr) (tq_UserPublicKey req) (tq_ContractID req) ''buy'' [userAddr, EncodeU32 n, EncodeI128 amount, EncodeI128 maxCost]"
    "EncodeAddress E (tq_UserPublicKey req) = Inr userAddr" "U32ToOutcome n = Inr (tq_Outcome req)"
    "safeFloatToInt64 E (f64_mul (tq_ShareAmount req) float_ScaleFactor) = Inr amount"
    "GetQuote E s (tq_ContractID req) (tq_Outcome req) (tq_ShareAmount req) w = (Inr q, wq)" "0 < sint (q_Cost q)"
    "sint (q_Cost q) \<le> 2 ^ 53 \<Longrightarrow> sint (q_Cost q) \<le> sint maxCost" "sint (q_Cost q) \<le> 2 ^ 49 \<Longrightarrow> 8 * sint maxCost \<le> 9 * sint (q_Cost q)"
    "tr_SignWith tr = tq_UserPublicKey req"
proof -
  obtain u amount q wq maxCost n x w1 out where v: "TradeRequest_Validate E req = Inr u"
    and amt: "safeFloatToInt64 E (f64_mul (tq_ShareAmount req) float_ScaleFactor) = Inr amount"
    and q: "GetQuote E s (tq_ContractID req) (tq_Outcome req) (tq_ShareAmount req) w = (Inr q, wq)" "\<not> sint (q_Cost q) \<le> 0"
    and mc: "safeFloatToInt64 E (f64_mul (f64_of_int64 (q_Cost q)) (f64_add (Fin 1) (tq_Slippage req))) = Inr maxCost"
    and n: "OutcomeToU32 E (tq_Outcome req) = Inr n"
    and b: "BuildBuyTx E (ms_txBuilder s) \<lparr>buy_UserPublicKey = tq_UserPublicKey req, buy_ContractID = tq_ContractID req,
       buy_Outcome = n, buy_Amount = amount, buy_MaxCost = maxCost\<rparr> wq = (Inr x, w1)"
    and p: "SimulateAndPrepareTx E (ms_txBuilder s) x w1 = (Inr out, w')"
    and tr: "tr_XDR tr = out" "tr_SignWith tr = tq_UserPublicKey req"
    using ok by (auto simp: svc_BuildBuyTx_def tryM_Inr_iff split: if_splits)
  have "tq_Slippage req \<noteq> NaN" using mc by (auto simp: f64_of_int64_Fin)
  with v obtain sl where sl: "tq_Slippage req = Fin sl" "0 < sl" "sl \<le> 1/8" by (rule trade_slippage)
  obtain a where "EncodeAddress E (tq_UserPublicKey req) = Inr a"
    "invokes E out (tq_UserPublicKey req) (tq_ContractID req) ''buy'' [a, EncodeU32 n, EncodeI128 amount, EncodeI128 maxCost]"
    using buy.build_and_prepare [OF sdk b p] by (auto simp: tryE_Inr_iff)
  moreover have "U32ToOutcome n = Inr (tq_Outcome req)" using n by (simp only: Outcome_codec_exact(1))
  moreover have "0 < sint (q_Cost q)" using q(2) by simp
  moreover note max_cost_bounds [OF this sl(2,3) mc [unfolded sl(1)]]
  ultimately show ?thesis using that amt q(1) tr by blast
qed

text \<open>An environment for the witness: eight transactions can be encoded, and their encodings decode to them.\<close>

definition trade_user :: string where "trade_user = replicate 56 (CHR ''G'')"
definition trade_contract :: string where "trade_contract = replicate 56 (CHR ''C'')"

definition trade_tx :: "string \<Rightarrow> ScVal list \<Rightarrow> Transaction" where
  "trade_tx func args = \<lparr>tx_SourceAccount = trade_user, tx_Fee = 100, tx_SeqNum = 8,
     tx_Operations = [OpInvokeHostFunction \<lparr>ih_ContractAddress = contract_address (replicate 32 9),
       ih_FunctionName = func, ih_Args = args, ih_Auth = []\<rparr>], tx_Ext = None\<rparr>"

definition trade_args :: "int64 \<Rightarrow> ScVal list" where
  "trade_args bound = [address_ScVal (account_address (replicate 32 7)), EncodeU32 0, EncodeI128 20000000, EncodeI128 bound]"

definition trade_quote_tx :: Transaction where "trade_quote_tx = trade_tx ''get_quote'' [EncodeU32 0, EncodeI128 20000000]"
definition trade_buy_tx :: Transaction where "trade_buy_tx = trade_tx ''buy'' (trade_args 53125000)"
definition trade_prepared_tx :: Transaction where "trade_prepared_tx = trade_buy_tx\<lparr>tx_Fee := 4342, tx_Ext := Some []\<rparr>"
definition trade_sell_quote_tx :: Transaction where "trade_sell_quote_tx = trade_tx ''get_sell_quote'' [EncodeU32 0, EncodeI128 20000000]"
definition trade_sell_tx :: Transaction where "trade_sell_tx = trade_tx ''sell'' (trade_args 46875000)"
definition trade_sell_prepared_tx :: Transaction where
  "trade_sell_prepared_tx = trade_sell_tx\<lparr>tx_Fee := 4342, tx_Ext := Some []\<rparr>"
definition trade_claim_tx :: Transaction where
  "trade_claim_tx = trade_tx ''claim'' [address_ScVal (account_address (replicate 32 7))]"
definition trade_claim_prepared_tx :: Transaction where
  "trade_claim_prepared_tx = trade_claim_tx\<lparr>tx_Fee := 4342, tx_Ext := Some []\<rparr>"

definition trade_env :: "unit env" where
  "trade_env = demo_env\<lparr>
     hz_AccountDetail := (\<lambda>_ k w. (Inr (demo_account\<lparr>ac_AccountID := k\<rparr>), w)),
     tx_NewTransaction := (\<lambda>p. Inr (EnvelopeTx \<lparr>tx_SourceAccount = ac_AccountID (tp_SourceAccount p), tx_Fee = 100, tx_SeqNum = 8,
       tx_Operations = map OpInvokeHostFunction (tp_Operations p), tx_Ext = None\<rparr>)),
     xdr_MarshalEnvelope := (\<lambda>e. if e = EnvelopeTx trade_quote_tx then Inr ''T1'' else if e = EnvelopeTx trade_buy_tx then Inr ''T2''
       else if e = EnvelopeTx trade_prepared_tx then Inr ''T3'' else if e = EnvelopeTx trade_sell_quote_tx then Inr ''S1''
       else if e = EnvelopeTx trade_sell_tx then Inr ''S2'' else if e = EnvelopeTx trade_sell_prepared_tx then Inr ''S3''
       else if e = EnvelopeTx trade_claim_tx then Inr ''C2'' else if e = EnvelopeTx trade_claim_prepared_tx then Inr ''C3''
       else Inl (ErrNew ''xdr'')),
     xdr_UnmarshalEnvelope := (\<lambda>x. if x = ''T1'' then Inr (EnvelopeTx trade_quote_tx) else if x = ''T2'' then Inr (EnvelopeTx trade_buy_tx)
       else if x = ''T3'' then Inr (EnvelopeTx trade_prepared_tx) else if x = ''S1'' then Inr (EnvelopeTx trade_sell_quote_tx)
       else if x = ''S2'' then Inr (EnvelopeTx trade_sell_tx) else if x = ''S3'' then Inr (EnvelopeTx trade_sell_prepared_tx)
       else if x = ''C2'' then Inr (EnvelopeTx trade_claim_tx) else if x = ''C3'' then Inr (EnvelopeTx trade_claim_prepared_tx)
       else Inl (ErrNew ''xdr''))\<rparr>"

definition trade_service :: MarketService where
  "trade_service = NewMarketService demo_client
     (NewBuilder \<lparr>hc_HorizonURL = ''http://horizon'', hc_networkPassphrase = ''net''\<rparr> ''net'' 100 (Some demo_client)) trade_user"

definition trade_request :: TradeRequest where
  "trade_request = \<lparr>tq_UserPublicKey = trade_user, tq_ContractID = trade_contract, tq_Outcome = ''YES'',
     tq_ShareAmount = Fin 2, tq_Slippage = Fin (1/16)\<rparr>"

lemma trade_env_laws: "sdk_laws trade_env"
  by (auto simp: sdk_laws_def trade_env_def)

lemma round64_int: "\<bar>m\<bar> \<le> 2 ^ 53 \<Longrightarrow> round64 (of_int m) = Fin (of_int m)"
proof -
  assume m: "\<bar>m\<bar> \<le> 2 ^ 53"
  then have "(of_int \<bar>m\<bar> :: rat) \<le> of_int (2 ^ 53)" by (simp only: of_int_le_iff)
  then have "\<bar>of_int m :: rat\<bar> \<le> 2 powi 53" by simp
  from round64_bounded(1) [OF this] show ?thesis using m by (simp add: rnd_of_int)
qed

lemma trade_floats:
  "float_ScaleFactor = Fin 10000000" "round64 20000000 = Fin 20000000"
  "round64 (17/16) = Fin (17/16)" "round64 53125000 = Fin 53125000"
  "round64 (15/16) = Fin (15/16)" "round64 46875000 = Fin 46875000"
proof -
  show "float_ScaleFactor = Fin 10000000" using f64_of_int64_exact [of ScaleFactor] by (simp add: float_ScaleFactor_def ScaleFactor_def)
  show "round64 20000000 = Fin 20000000" using round64_int [of 20000000] by simp
  show "round64 53125000 = Fin 53125000" using round64_int [of 53125000] by simp
  have p: "(2::rat) powi (- 4) = 1/16" by (simp add: power_int_minus)
  show "round64 46875000 = Fin 46875000" using round64_int [of 46875000] by simp
  have "rnd (17/16) = 17/16" "rnd (15/16) = 15/16" using rnd_grid [of "- 4" 17] rnd_grid [of "- 4" 15] unfolding p by simp_all
  then show "round64 (17/16) = Fin (17/16)" "round64 (15/16) = Fin (15/16)"
    using round64_bounded(1) [of "17/16" 1] round64_bounded(1) [of "15/16" 1] by simp_all
qed

lemmas trade_env_simps = trade_env_def demo_env_def demo_account_def key_env_def null_env_def

lemma trade_GetAccount: "GetAccount trade_env hc k w = (Inr (demo_account\<lparr>ac_AccountID := k\<rparr>), w)"
  by (simp add: GetAccount_def outside_def trade_env_simps)

lemma trade_simulate:
  "SimulateTransaction trade_env c x w = (Ret demo_sim, w\<lparr>w_requestID := w_requestID w + 1\<rparr>)"
  by (simp add: SimulateTransaction_def call_def post_request_def Let_def tryM_apply unmarshal_result_def outside_def
      trade_env_simps demo_sim_def)

lemma trade_strkey: "sk_Decode trade_env VersionByteContract trade_contract = Inr (replicate 32 9)"
  "EncodeAddress trade_env trade_user = Inr (address_ScVal (account_address (replicate 32 7)))"
  by (simp_all add: trade_env_simps trade_contract_def trade_user_def EncodeAddress_def)

lemma trade_keys: "ValidateStellarPublicKey trade_user = Inr ()" "ValidateContractID trade_env trade_contract = Inr ()"
proof -
  have "TrimSpace trade_user = trade_user"
    by (simp add: TrimSpace_def trade_user_def strip_fix space_encodings_def numeral_eq_Suc)
  then show "ValidateStellarPublicKey trade_user = Inr ()"
    by (simp add: ValidateStellarPublicKey_def Let_def trade_user_def numeral_eq_Suc)
  show "ValidateContractID trade_env trade_contract = Inr ()"
    using trade_strkey(1) by (simp add: ValidateContractID_def trade_contract_def)
qed

lemma trade_validate: "TradeRequest_Validate trade_env trade_request = Inr ()"
proof -
  have "rnd (1/16) = 1/16" using rnd_grid [of "- 4" 1] by (simp add: power_int_minus)
  then have "1/16 \<le> rnd (1/10)" by (intro f64.R_ge_fixed) simp_all
  then show ?thesis
    by (simp add: TradeRequest_Validate_def trade_request_def trade_keys Outcome_IsValid_def OutcomeYes_def
        MaxSlippage_bound(1) not_less)
qed

lemma trade_invoke:
  "BuildInvokeTx trade_env ci \<lparr>ip_SourceAccount = demo_account\<lparr>ac_AccountID := trade_user\<rparr>, ip_ContractID = trade_contract,
     ip_FunctionName = func, ip_Args = args, ip_Auth = []\<rparr> =
   tryE (xdr_MarshalEnvelope trade_env (EnvelopeTx (trade_tx func args))) (wrap ''failed to encode transaction: '') Inr"
  using trade_strkey(1) by (simp add: BuildInvokeTx_def trade_env_simps trade_tx_def)

lemma trade_marshal:
  "xdr_MarshalEnvelope trade_env (EnvelopeTx trade_quote_tx) = Inr ''T1''"
  "xdr_MarshalEnvelope trade_env (EnvelopeTx trade_buy_tx) = Inr ''T2''"
  "xdr_MarshalEnvelope trade_env (EnvelopeTx trade_prepared_tx) = Inr ''T3''"
  "xdr_MarshalEnvelope trade_env (EnvelopeTx trade_sell_quote_tx) = Inr ''S1''"
  "xdr_MarshalEnvelope trade_env (EnvelopeTx trade_sell_tx) = Inr ''S2''"
  "xdr_MarshalEnvelope trade_env (EnvelopeTx trade_sell_prepared_tx) = Inr ''S3''"
  "xdr_MarshalEnvelope trade_env (EnvelopeTx trade_claim_tx) = Inr ''C2''"
  "xdr_MarshalEnvelope trade_env (EnvelopeTx trade_claim_prepared_tx) = Inr ''C3''"
  by (simp_all add: trade_env_def trade_claim_tx_def trade_claim_prepared_tx_def trade_quote_tx_def trade_buy_tx_def trade_prepared_tx_def trade_tx_def
      trade_sell_quote_tx_def trade_sell_tx_def trade_sell_prepared_tx_def)

lemma trade_decode: "decode_quote trade_env what amt demo_sim = Inr (50000000, f64_div (f64_of_int64 6000000) (Fin 10000000))"
  by (simp add: decode_quote_def demo_sim_def ParseReturnValue_def trade_env_simps DecodeVec_def i128.dec_enc trade_floats)

lemma trade_convert:
  "safeFloatToInt64 trade_env (Fin 20000000) = Inr 20000000" "safeFloatToInt64 trade_env (Fin 53125000) = Inr 53125000"
  "safeFloatToInt64 trade_env (Fin 46875000) = Inr 46875000" "f64_of_int64 50000000 = Fin 50000000"
  using rat_trunc_of_int [of 20000000] rat_trunc_of_int [of 53125000] rat_trunc_of_int [of 46875000] f64_of_int64_exact [of 50000000]
  by (simp_all add: safeFloatToInt64_def float_MaxInt64 float_MinInt64 f64_to_int64_def)

lemmas trade_service_simps = trade_service_def NewMarketService_def NewBuilder_def with_invoker_def tryM_apply err_first_def
  trade_GetAccount trade_simulate trade_invoke trade_strkey trade_floats trade_convert OutcomeToU32_def OutcomeYes32_def

lemma trade_quotes:
  "\<exists>q wq. GetQuote trade_env trade_service trade_contract ''YES'' (Fin 2) w = (Inr q, wq) \<and> q_Cost q = 50000000"
  "\<exists>q wq. GetSellQuote trade_env trade_service trade_contract ''YES'' (Fin 2) w = (Inr q, wq) \<and> sq_ReturnAmount q = 50000000"
  using trade_marshal(1,4) [unfolded trade_quote_tx_def trade_sell_quote_tx_def]
  by (simp_all add: GetQuote_def GetSellQuote_def BuildGetQuoteTx_def BuildGetSellQuoteTx_def trade_service_simps trade_decode)

lemma trade_built:
  "BuildBuyTx trade_env (ms_txBuilder trade_service) \<lparr>buy_UserPublicKey = trade_user, buy_ContractID = trade_contract,
       buy_Outcome = 0, buy_Amount = 20000000, buy_MaxCost = 53125000\<rparr> w = (Inr ''T2'', w)"
  "BuildSellTx trade_env (ms_txBuilder trade_service) \<lparr>sell_UserPublicKey = trade_user, sell_ContractID = trade_contract,
       sell_Outcome = 0, sell_Amount = 20000000, sell_MinReturn = 46875000\<rparr> w = (Inr ''S2'', w)"
  using trade_marshal(2,5) by (simp_all add: BuildBuyTx_def BuildSellTx_def trade_service_simps trade_buy_tx_def trade_sell_tx_def trade_args_def)

lemma trade_attach: "attach_resources trade_env ''T2'' demo_sim = Inr ''T3''" "attach_resources trade_env ''S2'' demo_sim = Inr ''S3''"
proof -
  have "xdr_UnmarshalEnvelope trade_env ''T2'' = Inr (EnvelopeTx trade_buy_tx)"
    "xdr_UnmarshalEnvelope trade_env ''S2'' = Inr (EnvelopeTx trade_sell_tx)" by (simp_all add: trade_env_def)
  moreover have "attach_to trade_env demo_sim [] trade_buy_tx = Inr ''T3''" "attach_to trade_env demo_sim [] trade_sell_tx = Inr ''S3''"
    using trade_marshal(3,6)
    by (simp_all add: attach_to_def demo_sim_def ParseInt64_def Let_def is_digit_def digits_val_def update_auth_def MaxUint32_def
        trade_prepared_tx_def trade_buy_tx_def trade_sell_prepared_tx_def trade_sell_tx_def trade_tx_def)
  ultimately show "attach_resources trade_env ''T2'' demo_sim = Inr ''T3''" "attach_resources trade_env ''S2'' demo_sim = Inr ''S3''"
    by (simp_all add: attach_resources_def demo_sim_def)
qed

lemma trade_prepared:
  "\<exists>w'. SimulateAndPrepareTx trade_env (ms_txBuilder trade_service) ''T2'' w = (Inr ''T3'', w')"
  "\<exists>w'. SimulateAndPrepareTx trade_env (ms_txBuilder trade_service) ''S2'' w = (Inr ''S3'', w')"
  by (simp_all add: SimulateAndPrepareTx_def SimulateAndPrepare_def trade_service_simps trade_attach)

lemma trade_runs:
  "\<exists>tr w'. svc_BuildBuyTx trade_env trade_service trade_request w = (Inr tr, w')"
  "\<exists>tr w'. svc_BuildSellTx trade_env trade_service trade_request w = (Inr tr, w')"
proof -
  obtain q wq where q: "GetQuote trade_env trade_service trade_contract ''YES'' (Fin 2) w = (Inr q, wq)" "q_Cost q = 50000000"
    using trade_quotes(1) by blast
  obtain w' where p: "SimulateAndPrepareTx trade_env (ms_txBuilder trade_service) ''T2'' wq = (Inr ''T3'', w')"
    using trade_prepared(1) by blast
  show "\<exists>tr w'. svc_BuildBuyTx trade_env trade_service trade_request w = (Inr tr, w')"
    using trade_validate
    by (simp add: svc_BuildBuyTx_def trade_request_def trade_floats trade_convert q tryM_apply OutcomeToU32_def OutcomeYes32_def
        trade_built p)
  obtain q wq where q: "GetSellQuote trade_env trade_service trade_contract ''YES'' (Fin 2) w = (Inr q, wq)" "sq_ReturnAmount q = 50000000"
    using trade_quotes(2) by blast
  obtain w' where p: "SimulateAndPrepareTx trade_env (ms_txBuilder trade_service) ''S2'' wq = (Inr ''S3'', w')"
    using trade_prepared(2) by blast
  show "\<exists>tr w'. svc_BuildSellTx trade_env trade_service trade_request w = (Inr tr, w')"
    using trade_validate
    by (simp add: svc_BuildSellTx_def trade_request_def trade_floats trade_convert q tryM_apply OutcomeToU32_def OutcomeYes32_def
        trade_built p f64_sub_def)
qed

text \<open>
  Likewise for \<open>BuildSellTx\<close>: the only operation is \<open>sell\<close>, and
  the minimum return is never above the quoted return and never more than 1/8 (and one unit) below it.
\<close>

lemma svc_BuildSellTx_InrE:
  assumes sdk: "sdk_laws E" and ok: "svc_BuildSellTx E s req w = (Inr tr, w')"
  obtains userAddr n amount q wq minReturn where
    "invokes E (tr_XDR tr) (tq_UserPublicKey req) (tq_ContractID req) ''sell'' [userAddr, EncodeU32 n, EncodeI128 amount, EncodeI128 minReturn]"
    "EncodeAddress E (tq_UserPublicKey req) = Inr userAddr" "U32ToOutcome n = Inr (tq_Outcome req)"
    "safeFloatToInt64 E (f64_mul (tq_ShareAmount req) float_ScaleFactor) = Inr amount"
    "GetSellQuote E s (tq_ContractID req) (tq_Outcome req) (tq_ShareAmount req) w = (Inr q, wq)" "0 < sint (sq_ReturnAmount q)"
    "sint (sq_ReturnAmount q) \<le> 2 ^ 53 \<Longrightarrow> sint minReturn \<le> sint (sq_ReturnAmount q)"
    "sint (sq_ReturnAmount q) \<le> 2 ^ 49 \<Longrightarrow> 7 * sint (sq_ReturnAmount q) < 8 * sint minReturn + 8"
    "tr_SignWith tr = tq_UserPublicKey req"
proof -
  obtain u amount q wq minReturn n x w1 out where v: "TradeRequest_Validate E req = Inr u"
    and amt: "safeFloatToInt64 E (f64_mul (tq_ShareAmount req) float_ScaleFactor) = Inr amount"
    and q: "GetSellQuote E s (tq_ContractID req) (tq_Outcome req) (tq_ShareAmount req) w = (Inr q, wq)" "\<not> sint (sq_ReturnAmount q) \<le> 0"
    and mc: "safeFloatToInt64 E (f64_mul (f64_of_int64 (sq_ReturnAmount q)) (f64_sub (Fin 1) (tq_Slippage req))) = Inr minReturn"
    and n: "OutcomeToU32 E (tq_Outcome req) = Inr n"
    and b: "BuildSellTx E (ms_txBuilder s) \<lparr>sell_UserPublicKey = tq_UserPublicKey req, sell_ContractID = tq_ContractID req,
       sell_Outcome = n, sell_Amount = amount, sell_MinReturn = minReturn\<rparr> wq = (Inr x, w1)"
    and p: "SimulateAndPrepareTx E (ms_txBuilder s) x w1 = (Inr out, w')"
    and tr: "tr_XDR tr = out" "tr_SignWith tr = tq_UserPublicKey req"
    using ok by (auto simp: svc_BuildSellTx_def tryM_Inr_iff split: if_splits)
  have "tq_Slippage req \<noteq> NaN" using mc by (auto simp: f64_of_int64_Fin f64_sub_def)
  with v obtain sl where sl: "tq_Slippage req = Fin sl" "0 < sl" "sl \<le> 1/8" by (rule trade_slippage)
  obtain a where "EncodeAddress E (tq_UserPublicKey req) = Inr a"
    "invokes E out (tq_UserPublicKey req) (tq_ContractID req) ''sell'' [a, EncodeU32 n, EncodeI128 amount, EncodeI128 minReturn]"
    using sell.build_and_prepare [OF sdk b p] by (auto simp: tryE_Inr_iff)
  moreover have "U32ToOutcome n = Inr (tq_Outcome req)" using n by (simp only: Outcome_codec_exact(1))
  moreover have "0 < sint (sq_ReturnAmount q)" using q(2) by simp
  moreover note min_return_bounds [OF this sl(2,3) mc [unfolded sl(1)]]
  ultimately show ?thesis using that amt q(1) tr by blast
qed

text \<open>
  The transactions of \<open>BuildResolveTx\<close>, \<open>BuildClaimTx\<close> and
  \<open>BuildWithdrawTx\<close> come from the key of the request and their only operation is the contract function
  of that name, with that key (and the winning outcome) as arguments; the key is named as the signer.
\<close>

lemma oracle_transactions:
  assumes sdk: "sdk_laws E"
  shows "(svc_BuildResolveTx E s req w = (Inr tr, w') \<longrightarrow>
       (\<exists>a n. EncodeAddress E (rq_OraclePublicKey req) = Inr a \<and> U32ToOutcome n = Inr (rq_WinningOutcome req)
          \<and> invokes E (tr_XDR tr) (rq_OraclePublicKey req) (rq_ContractID req) ''resolve'' [a, EncodeU32 n]
          \<and> tr_SignWith tr = rq_OraclePublicKey req))
     \<and> (svc_BuildClaimTx E s creq w = (Inr tr, w') \<longrightarrow>
       (\<exists>a. EncodeAddress E (cq_UserPublicKey creq) = Inr a
          \<and> invokes E (tr_XDR tr) (cq_UserPublicKey creq) (cq_ContractID creq) ''claim'' [a]
          \<and> tr_SignWith tr = cq_UserPublicKey creq))
     \<and> (svc_BuildWithdrawTx E s wreq w = (Inr tr, w') \<longrightarrow>
       (\<exists>a. EncodeAddress E (wq_OraclePublicKey wreq) = Inr a
          \<and> invokes E (tr_XDR tr) (wq_OraclePublicKey wreq) (wq_ContractID wreq) ''withdraw_remaining'' [a]
          \<and> tr_SignWith tr = wq_OraclePublicKey wreq))"
proof (intro conjI impI)
  assume "svc_BuildResolveTx E s req w = (Inr tr, w')"
  then obtain n x w1 where n: "OutcomeToU32 E (rq_WinningOutcome req) = Inr n"
    and b: "BuildResolveTx E (ms_txBuilder s) \<lparr>res_OraclePublicKey = rq_OraclePublicKey req, res_ContractID = rq_ContractID req,
       res_WinningOutcome = n\<rparr> w = (Inr x, w1)"
    and p: "SimulateAndPrepareTx E (ms_txBuilder s) x w1 = (Inr (tr_XDR tr), w')" and s: "tr_SignWith tr = rq_OraclePublicKey req"
    by (auto simp: svc_BuildResolveTx_def tryM_Inr_iff)
  have "U32ToOutcome n = Inr (rq_WinningOutcome req)" using n by (simp only: Outcome_codec_exact(1))
  then show "\<exists>a n. EncodeAddress E (rq_OraclePublicKey req) = Inr a \<and> U32ToOutcome n = Inr (rq_WinningOutcome req)
      \<and> invokes E (tr_XDR tr) (rq_OraclePublicKey req) (rq_ContractID req) ''resolve'' [a, EncodeU32 n]
      \<and> tr_SignWith tr = rq_OraclePublicKey req"
    using resolve.build_and_prepare [OF sdk b p] s by (auto simp: tryE_Inr_iff)
next
  assume "svc_BuildClaimTx E s creq w = (Inr tr, w')"
  then obtain x w1 where b: "BuildClaimTx E (ms_txBuilder s) \<lparr>clm_UserPublicKey = cq_UserPublicKey creq,
       clm_ContractID = cq_ContractID creq\<rparr> w = (Inr x, w1)"
    and p: "SimulateAndPrepareTx E (ms_txBuilder s) x w1 = (Inr (tr_XDR tr), w')" and s: "tr_SignWith tr = cq_UserPublicKey creq"
    by (auto simp: svc_BuildClaimTx_def tryM_Inr_iff)
  show "\<exists>a. EncodeAddress E (cq_UserPublicKey creq) = Inr a
      \<and> invokes E (tr_XDR tr) (cq_UserPublicKey creq) (cq_ContractID creq) ''claim'' [a] \<and> tr_SignWith tr = cq_UserPublicKey creq"
    using claim.build_and_prepare [OF sdk b p] s by (auto simp: tryE_Inr_iff)
next
  assume "svc_BuildWithdrawTx E s wreq w = (Inr tr, w')"
  then obtain x w1 where b: "BuildWithdrawTx E (ms_txBuilder s) \<lparr>wd_OraclePublicKey = wq_OraclePublicKey wreq,
       wd_ContractID = wq_ContractID wreq\<rparr> w = (Inr x, w1)"
    and p: "SimulateAndPrepareTx E (ms_txBuilder s) x w1 = (Inr (tr_XDR tr), w')" and s: "tr_SignWith tr = wq_OraclePublicKey wreq"
    by (auto simp: svc_BuildWithdrawTx_def tryM_Inr_iff)
  show "\<exists>a. EncodeAddress E (wq_OraclePublicKey wreq) = Inr a
      \<and> invokes E (tr_XDR tr) (wq_OraclePublicKey wreq) (wq_ContractID wreq) ''withdraw_remaining'' [a]
      \<and> tr_SignWith tr = wq_OraclePublicKey wreq"
    using withdraw.build_and_prepare [OF sdk b p] s by (auto simp: tryE_Inr_iff)
qed

lemma claim_runs: "\<exists>tr w'. svc_BuildClaimTx trade_env trade_service \<lparr>cq_UserPublicKey = trade_user, cq_ContractID = trade_contract\<rparr> demo_world = (Inr tr, w')"
proof -
  have u: "xdr_UnmarshalEnvelope trade_env ''C2'' = Inr (EnvelopeTx trade_claim_tx)" by (simp add: trade_env_def)
  have att: "attach_to trade_env demo_sim [] trade_claim_tx = Inr ''C3''"
    using trade_marshal(8)
    by (simp add: attach_to_def demo_sim_def ParseInt64_def Let_def is_digit_def digits_val_def update_auth_def MaxUint32_def
        trade_claim_prepared_tx_def trade_claim_tx_def trade_tx_def)
  have "attach_resources trade_env ''C2'' demo_sim = Inr ''C3''" using u att by (simp add: attach_resources_def demo_sim_def)
  then show ?thesis
    using trade_marshal(7)
    by (auto simp: svc_BuildClaimTx_def ClaimRequest_Validate_def trade_keys BuildClaimTx_def trade_service_simps
        trade_claim_tx_def SimulateAndPrepareTx_def SimulateAndPrepare_def)
qed

section \<open>Nothing is submitted\<close>

lemma preserves_GetQuote [preserves_intros]:
  assumes "quiet E P"
  shows "preserves (\<lambda>w. P (w_ext w)) (GetQuote E s cid out amt)" "preserves (\<lambda>w. P (w_ext w)) (GetSellQuote E s cid out amt)"
  unfolding GetQuote_def GetSellQuote_def using assms
  by (auto intro!: preserves_intros quote.build_quiet sell_quote.build_quiet split: prod.splits)

lemma preserves_getOutcomeBalance:
  assumes "quiet E P" shows "thread_ok (\<lambda>w. P (w_ext w)) (\<lambda>_. True) (getOutcomeBalance E s cid acc out)"
  unfolding getOutcomeBalance_def using assms by (intro preserves_intros balance.build_quiet)

lemma preserves_GetBalance:
  assumes "quiet E P" shows "preserves (\<lambda>w. P (w_ext w)) (GetBalance E sched s cid acc)"
proof -
  let ?ts = "[getOutcomeBalance E s cid acc OutcomeYes32, getOutcomeBalance E s cid acc OutcomeNo32]"
  have "preserves (\<lambda>w. P (w_ext w)) (schedule sched ?ts)"
    using preserves_getOutcomeBalance [OF assms] by (intro preserves_schedule) auto
  then show ?thesis
    unfolding GetBalance_def
    by (intro preserves_intros) (auto simp: preserves_def tryM_apply split: prod.splits sum.splits)
qed

text \<open>
  No operation of the market service submits a transaction, whatever the schedule of the two goroutines of
  \<open>GetBalance\<close>: each keeps every property of the outside that all requests other than \<open>sendTransaction\<close> keep.
\<close>

lemma preserves_market_service:
  assumes "quiet E P"
  shows "preserves (\<lambda>w. P (w_ext w)) (svc_BuildBuyTx E s req)
     \<and> preserves (\<lambda>w. P (w_ext w)) (svc_BuildSellTx E s req)
     \<and> preserves (\<lambda>w. P (w_ext w)) (svc_BuildResolveTx E s rreq)
     \<and> preserves (\<lambda>w. P (w_ext w)) (svc_BuildClaimTx E s creq)
     \<and> preserves (\<lambda>w. P (w_ext w)) (svc_BuildWithdrawTx E s wreq)
     \<and> preserves (\<lambda>w. P (w_ext w)) (GetQuote E s cid out amt)
     \<and> preserves (\<lambda>w. P (w_ext w)) (GetSellQuote E s cid out amt)
     \<and> preserves (\<lambda>w. P (w_ext w)) (GetBalance E sched s cid acc)"
  unfolding svc_BuildBuyTx_def svc_BuildSellTx_def svc_BuildResolveTx_def svc_BuildClaimTx_def svc_BuildWithdrawTx_def
  using assms
  by (intro conjI preserves_intros preserves_GetBalance buy.build_quiet sell.build_quiet resolve.build_quiet
      claim.build_quiet withdraw.build_quiet)

text \<open>An environment for examples that counts the submissions that reach the network.\<close>

definition count_env :: "nat env" where
  "count_env = null_env\<lparr>
     http_Do := (\<lambda>q w. (Inr \<lparr>hr_StatusCode = 200, hr_Status = ''200 OK'', hr_Body = all_of (hq_Body q)\<rparr>,
       if hq_Body q = ''sendTransaction'' then w + 1 else w)),
     json_RPCResponse := (\<lambda>b. Inr \<lparr>rs_JSONRPC = ''2.0'', rs_ID = 1, rs_Result = b, rs_Error = None\<rparr>),
     json_Simulate := (\<lambda>_. Inr demo_sim),
     hz_AccountDetail := (\<lambda>_ k w. (Inr (demo_account\<lparr>ac_AccountID := k\<rparr>), w)),
     sk_Decode := (\<lambda>_ _. Inr (replicate 32 9)),
     tx_NewTransaction := (\<lambda>_. Inr (EnvelopeTx demo_tx)), xdr_MarshalEnvelope := (\<lambda>_. Inr ''AAAB'')\<rparr>"

lemma count_env_quiet: "quiet count_env (\<lambda>n. n = 0)"
  by (auto simp: quiet_def count_env_def null_env_def rpc_http_request_def)

end
