(* ===== verification/Factory_Service.thy ===== *)
theory Factory_Service
  imports Market_Service Lmsr
begin

text \<open>
  \<open>internal/service/factory.go\<close> and \<open>cache.go\<close>: the list of markets, the state of every market
  fetched by one goroutine each, and the deployment of a new market.

  The two caches are of the library \<open>samber/hot\<close>, which refreshes entries in the background: the
  record \<open>fdeps\<close> holds its \<open>Get\<close> and \<open>Set\<close> as actions on the outside, together with
  \<open>crypto/rand\<close>.  The shared variables of \<open>GetMarketStates\<close> (the slice of states and the first
  error) are part of the state the goroutines act on, so that every interleaving is covered.
\<close>

section \<open>Market states and their cache\<close>

record MarketState =
  st_ContractID :: string
  st_YesSold :: int64
  st_NoSold :: int64
  st_Pool :: int64
  st_Resolved :: bool
  st_WinningOutcome :: string
  st_MetadataHash :: string
  st_PriceYes :: float64
  st_PriceNo :: float64

definition zero_MarketState :: MarketState where
  "zero_MarketState = \<lparr>st_ContractID = [], st_YesSold = 0, st_NoSold = 0, st_Pool = 0, st_Resolved = False,
     st_WinningOutcome = [], st_MetadataHash = [], st_PriceYes = Fin 0, st_PriceNo = Fin 0\<rparr>"

text \<open>The result of \<open>hot.Get\<close>: the value, whether it was found, and an error.\<close>

record 'w fdeps =
  state_hotGet :: "string \<Rightarrow> 'w \<Rightarrow> (MarketState \<times> bool \<times> goerr option) \<times> 'w"
  state_hotSet :: "string \<Rightarrow> MarketState \<Rightarrow> 'w \<Rightarrow> unit \<times> 'w"
  list_hotGet :: "string \<Rightarrow> 'w \<Rightarrow> (string list \<times> bool \<times> goerr option) \<times> 'w"
  list_hotSet :: "string \<Rightarrow> string list \<Rightarrow> 'w \<Rightarrow> unit \<times> 'w"
  rand_Read :: "'w \<Rightarrow> bytes result \<times> 'w"

definition marketStateCacheTTL :: int where "marketStateCacheTTL = 30000000000"
definition marketStateCacheSize :: nat where "marketStateCacheSize = 500"
definition marketListCacheTTL :: int where "marketListCacheTTL = 30000000000"

record StateCache =
  sc_cache :: hot_settings

text \<open>The constructor panics, \<open>None\<close>, when there is no loader.\<close>

definition NewStateCache :: "'f option \<Rightarrow> StateCache option" where
  "NewStateCache loader =
     (case loader of None \<Rightarrow> None
      | Some _ \<Rightarrow> Some \<lparr>sc_cache = \<lparr>hot_Size = marketStateCacheSize, hot_TTL = marketStateCacheTTL, hot_Revalidation = Some marketStateCacheTTL,
        hot_KeepOnError = True\<rparr>\<rparr>)"

definition StateCache_Get :: "'w fdeps \<Rightarrow> string \<Rightarrow> 'w world \<Rightarrow> (MarketState \<times> bool) \<times> 'w world" where
  "StateCache_Get D i s =
     (case outside (state_hotGet D i) s of ((val, found, err), s') \<Rightarrow>
        (if err \<noteq> None then ((zero_MarketState, False), s')
         else if \<not> found then ((zero_MarketState, False), s')
         else ((val, True), s')))"

definition StateCache_Set :: "'w fdeps \<Rightarrow> string \<Rightarrow> MarketState \<Rightarrow> 'w world \<Rightarrow> unit \<times> 'w world" where
  "StateCache_Set D i state = outside (state_hotSet D i state)"

section \<open>The service\<close>

record FactoryService =
  fs_sorobanClient :: Client
  fs_txBuilder :: Builder
  fs_factoryContract :: string
  fs_oraclePublicKey :: string
  fs_stateCache :: "StateCache option"
  fs_marketListCache :: hot_settings

text \<open>The loaders of the two caches are \<open>state_loader\<close> and \<open>list_loader\<close> below; there always is one.\<close>

definition NewFactoryService :: "Client \<Rightarrow> Builder \<Rightarrow> string \<Rightarrow> string \<Rightarrow> FactoryService" where
  "NewFactoryService sorobanClient txBuilder factoryContract oraclePublicKey =
     \<lparr>fs_sorobanClient = sorobanClient, fs_txBuilder = txBuilder, fs_factoryContract = factoryContract,
      fs_oraclePublicKey = oraclePublicKey, fs_stateCache = NewStateCache (Some ()),
      fs_marketListCache = \<lparr>hot_Size = 1, hot_TTL = marketListCacheTTL, hot_Revalidation = Some marketListCacheTTL, hot_KeepOnError = True\<rparr>\<rparr>"

definition HasFactory :: "FactoryService \<Rightarrow> bool" where
  "HasFactory s \<longleftrightarrow> fs_factoryContract s \<noteq> []"

definition FactoryContractID :: "FactoryService \<Rightarrow> string" where
  "FactoryContractID s = fs_factoryContract s"

text \<open>The value a simulated call returns, with the checks every reader makes first.\<close>

definition sim_return :: "'w env \<Rightarrow> SimulateTransactionResult \<Rightarrow> ScVal result" where
  "sim_return E simResult =
     (if sim_Error simResult \<noteq> [] then Inl (ErrNew (''simulation error: '' @ sim_Error simResult))
      else case sim_Results simResult of
        [] \<Rightarrow> Inl (ErrNew ''no result from simulation'')
      | r # _ \<Rightarrow>
          if sr_XDR r = [] then Inl (ErrNew ''no result from simulation'')
          else tryE (ParseReturnValue E (sr_XDR r)) (wrap ''failed to parse return value: '') Inr)"

section \<open>The list of markets\<close>

text \<open>Addresses that do not decode are skipped.\<close>

fun decode_addresses :: "'w env \<Rightarrow> ScVal list \<Rightarrow> string list" where
  "decode_addresses E [] = []"
| "decode_addresses E (addr # addrs) =
     (case DecodeAddress E addr of
        Inl e \<Rightarrow> decode_addresses E addrs
      | Inr contractID \<Rightarrow> contractID # decode_addresses E addrs)"

definition fetchMarketList :: "'w env \<Rightarrow> FactoryService \<Rightarrow> ('w, string list) act" where
  "fetchMarketList E s =
     tryM (BuildListMarketsTx E (fs_txBuilder s)
             \<lparr>lm_UserPublicKey = fs_oraclePublicKey s, lm_FactoryContract = fs_factoryContract s\<rparr>)
          (wrap ''failed to build list_markets tx: '') (\<lambda>txXDR.
     tryM (err_first (SimulateTransaction E (fs_sorobanClient s) txXDR)) (wrap ''failed to simulate list_markets: '') (\<lambda>simResult.
     tryM (liftM (sim_return E simResult)) same (\<lambda>returnVal.
     tryM (liftM (DecodeVec E returnVal)) (wrap ''failed to decode addresses: '') (\<lambda>addresses.
     retM (decode_addresses E addresses)))))"

definition ListMarkets :: "'w env \<Rightarrow> 'w fdeps \<Rightarrow> FactoryService \<Rightarrow> ('w, string list) act" where
  "ListMarkets E D s w =
     (if fs_factoryContract s = [] then (Inl (Sentinel (Factory factory_ErrFactoryNotConfigured)), w)
      else case outside (list_hotGet D ''all'') w of ((ids, found, err), w1) \<Rightarrow>
        (if found then (Inr ids, w1)
         else tryM (fetchMarketList E s) same (\<lambda>ids w2.
              case outside (list_hotSet D ''all'' ids) w2 of (_, w3) \<Rightarrow> (Inr ids, w3)) w1))"

text \<open>The loader of the list cache, run by the library.\<close>

definition list_loader :: "'w env \<Rightarrow> FactoryService \<Rightarrow> string list \<Rightarrow> ('w, (string \<times> string list) list) act" where
  "list_loader E s keys = tryM (fetchMarketList E s) same (\<lambda>ids. retM [(''all'', ids)])"

section \<open>Prices\<close>

text \<open>The sum of the two quantities is an \<open>int64\<close> and wraps.\<close>

definition calculatePrices :: "int64 \<Rightarrow> int64 \<Rightarrow> float64 \<times> float64" where
  "calculatePrices yesSold noSold =
     (if yesSold = 0 \<and> noSold = 0 then (Fin (1/2), Fin (1/2))
      else let total = f64_of_int64 (yesSold + noSold) in
        if f64_eq total (Fin 0) then (Fin (1/2), Fin (1/2))
        else let priceYes = f64_div (f64_of_int64 yesSold) total;
                 priceNo = f64_div (f64_of_int64 noSold) total;
                 priceYes = (if f64_lt priceYes (f64_const (1/100)) then f64_const (1/100) else priceYes);
                 priceNo = (if f64_lt priceNo (f64_const (1/100)) then f64_const (1/100) else priceNo);
                 sum = f64_add priceYes priceNo
             in (f64_div priceYes sum, f64_div priceNo sum))"

section \<open>The state of one market\<close>

text \<open>The remaining methods run inside goroutines; a step is one account lookup or one simulation.\<close>

definition getMetadataHash :: "'w env \<Rightarrow> FactoryService \<Rightarrow> string \<Rightarrow> ('w world, string result) thread" where
  "getMetadataHash E s contractID =
     tryT (atomic (BuildGetMetadataHashTx E (fs_txBuilder s) \<lparr>gm_UserPublicKey = fs_oraclePublicKey s, gm_ContractID = contractID\<rparr>))
          (wrap ''failed to build get_metadata_hash tx: '') (\<lambda>txXDR.
     tryT (atomic (err_first (SimulateTransaction E (fs_sorobanClient s) txXDR))) (wrap ''failed to simulate get_metadata_hash: '') (\<lambda>simResult.
     Done (tryE (sim_return E simResult) same (\<lambda>returnVal.
           tryE (DecodeString E returnVal) (wrap ''failed to decode metadata hash: '') Inr))))"

definition getWinningOutcome :: "'w env \<Rightarrow> FactoryService \<Rightarrow> string \<Rightarrow> ('w world, string result) thread" where
  "getWinningOutcome E s contractID =
     tryT (atomic (BuildGetWinningOutcomeTx E (fs_txBuilder s) \<lparr>gw_UserPublicKey = fs_oraclePublicKey s, gw_ContractID = contractID\<rparr>))
          (wrap ''failed to build get_winning_outcome tx: '') (\<lambda>txXDR.
     tryT (atomic (err_first (SimulateTransaction E (fs_sorobanClient s) txXDR))) (wrap ''failed to simulate get_winning_outcome: '') (\<lambda>simResult.
     Done (tryE (sim_return E simResult) same (\<lambda>returnVal.
           tryE (DecodeU32 returnVal) (wrap ''failed to decode winning outcome: '') (\<lambda>outcomeU32.
           tryE (U32ToOutcome outcomeU32) (wrap ''failed to convert outcome: '') Inr)))))"

text \<open>The tuple of \<open>get_state\<close>.\<close>

definition decode_state :: "'w env \<Rightarrow> SimulateTransactionResult \<Rightarrow> (int64 \<times> int64 \<times> int64 \<times> bool) result" where
  "decode_state E simResult =
     tryE (sim_return E simResult) same (\<lambda>returnVal.
     tryE (DecodeVec E returnVal) (wrap ''failed to decode state tuple: '') (\<lambda>tuple.
     if length tuple < 4
     then Inl (ErrNew (''expected 4 elements in state tuple, got '' @ dec_int (int (length tuple))))
     else tryE (DecodeI128 (tuple ! 0)) (wrap ''failed to decode yes_sold: '') (\<lambda>yesSold.
          tryE (DecodeI128 (tuple ! 1)) (wrap ''failed to decode no_sold: '') (\<lambda>noSold.
          tryE (DecodeI128 (tuple ! 2)) (wrap ''failed to decode pool: '') (\<lambda>pool.
          tryE (DecodeBool (tuple ! 3)) (wrap ''failed to decode resolved: '') (\<lambda>resolved.
          Inr (yesSold, noSold, pool, resolved)))))))"

text \<open>An error of one of the two optional lookups is logged and leaves the string empty.\<close>

definition or_empty :: "string result \<Rightarrow> string" where
  "or_empty r = (case r of Inl e \<Rightarrow> [] | Inr x \<Rightarrow> x)"

definition fetchMarketState :: "'w env \<Rightarrow> FactoryService \<Rightarrow> string \<Rightarrow> ('w world, MarketState result) thread" where
  "fetchMarketState E s contractID =
     tryT (atomic (BuildGetStateTx E (fs_txBuilder s) \<lparr>gs_UserPublicKey = fs_oraclePublicKey s, gs_ContractID = contractID\<rparr>))
          (wrap ''failed to build get_state tx: '') (\<lambda>stateTxXDR.
     tryT (atomic (err_first (SimulateTransaction E (fs_sorobanClient s) stateTxXDR))) (wrap ''failed to simulate get_state: '') (\<lambda>simResult.
     tryT (Done (decode_state E simResult)) same (\<lambda>(yesSold, noSold, pool, resolved).
     bindT (if resolved then getWinningOutcome E s contractID else Done (Inr [])) (\<lambda>winning.
     bindT (getMetadataHash E s contractID) (\<lambda>hash.
     case calculatePrices yesSold noSold of (priceYes, priceNo) \<Rightarrow>
     Done (Inr \<lparr>st_ContractID = contractID, st_YesSold = yesSold, st_NoSold = noSold, st_Pool = pool, st_Resolved = resolved,
       st_WinningOutcome = or_empty winning, st_MetadataHash = or_empty hash, st_PriceYes = priceYes, st_PriceNo = priceNo\<rparr>))))))"

text \<open>The loader of the state cache, run by the library: the states that could be fetched.\<close>

fun state_loader :: "'w env \<Rightarrow> FactoryService \<Rightarrow> string list \<Rightarrow> 'w world \<Rightarrow> (string \<times> MarketState) list \<times> 'w world" where
  "state_loader E s [] w = ([], w)"
| "state_loader E s (i # ids) w =
     (case run_thread (fetchMarketState E s i) w of
        (r, w1) \<Rightarrow> case state_loader E s ids w1 of (rest, w2) \<Rightarrow>
          (case r of Inl e \<Rightarrow> (rest, w2) | Inr state \<Rightarrow> ((i, state) # rest, w2)))"

section \<open>All markets at once\<close>

record shared =
  sh_states :: "MarketState list"
  sh_firstErr :: "goerr option"

type_synonym 'w gms = "'w world \<times> shared"

definition onWorld :: "('w world \<Rightarrow> 'a \<times> 'w world) \<Rightarrow> 'w gms \<Rightarrow> 'a \<times> 'w gms" where
  "onWorld m = (\<lambda>(w, x). case m w of (r, w') \<Rightarrow> (r, (w', x)))"

definition onShared :: "(shared \<Rightarrow> shared) \<Rightarrow> 'w gms \<Rightarrow> unit \<times> 'w gms" where
  "onShared f = (\<lambda>(w, x). ((), (w, f x)))"

primrec liftT :: "('w world, 'a) thread \<Rightarrow> ('w gms, 'a) thread" where
  "liftT (Done x) = Done x"
| "liftT (Step f) = Step (\<lambda>p. case map_prod liftT (\<lambda>w'. (w', snd p)) (f (fst p)) of (t, q) \<Rightarrow> (t, q))"

definition state_worker :: "'w env \<Rightarrow> 'w fdeps \<Rightarrow> FactoryService \<Rightarrow> nat \<Rightarrow> string \<Rightarrow> ('w gms, unit) thread" where
  "state_worker E D s idx contractID =
     bindT (atomic (onWorld (StateCache_Get D contractID))) (\<lambda>(cached, hit).
     if hit then atomic (onShared (\<lambda>x. x\<lparr>sh_states := (sh_states x)[idx := cached]\<rparr>))
     else bindT (liftT (fetchMarketState E s contractID)) (\<lambda>r.
       case r of
         Inl err \<Rightarrow> atomic (onShared (\<lambda>x. if sh_firstErr x = None
             then x\<lparr>sh_firstErr := Some (wrap (''failed to get state for '' @ contractID @ '': '') err)\<rparr> else x))
       | Inr state \<Rightarrow>
           bindT (atomic (onWorld (StateCache_Set D contractID state))) (\<lambda>_.
           atomic (onShared (\<lambda>x. x\<lparr>sh_states := (sh_states x)[idx := state]\<rparr>)))))"

definition GetMarketStates :: "'w env \<Rightarrow> 'w fdeps \<Rightarrow> nat list \<Rightarrow> FactoryService \<Rightarrow> string list \<Rightarrow> ('w, MarketState list) act" where
  "GetMarketStates E D sched s contractIDs w =
     (case schedule sched (map (\<lambda>(i, cid). state_worker E D s i cid) (enumerate 0 contractIDs))
        (w, \<lparr>sh_states = replicate (length contractIDs) zero_MarketState, sh_firstErr = None\<rparr>) of
      (_, w', x) \<Rightarrow>
        (let validStates = filter (\<lambda>st. st_ContractID st \<noteq> []) (sh_states x) in
         case sh_firstErr x of
           Some err \<Rightarrow>
             if validStates = [] \<and> contractIDs \<noteq> []
             then (Inl (wrap ''failed to fetch any market states: '' err), w')
             else (Inr validStates, w')
         | None \<Rightarrow> (Inr validStates, w')))"

section \<open>Deployment\<close>

record DeployMarketRequest =
  dq_LiquidityParam :: float64
  dq_MetadataHash :: string
  dq_InitialFunding :: float64

definition DeployMarketRequest_Validate :: "DeployMarketRequest \<Rightarrow> unit result" where
  "DeployMarketRequest_Validate r =
     (if f64_le (dq_LiquidityParam r) (Fin 0) then Inl (Sentinel (Model model_ErrInvalidLiquidityParam))
      else if dq_MetadataHash r = [] then Inl (Sentinel (Factory factory_ErrInvalidMetadataHash))
      else let minFunding = f64_mul (dq_LiquidityParam r) (f64_const (7/10)) in
        if f64_lt (dq_InitialFunding r) minFunding
        then Inl (ErrNew (''initial funding must be at least '' @ fmt_fixed 2 minFunding @ '' (70% of liquidity parameter)''))
        else Inr ())"

definition svc_BuildDeployMarketTx :: "'w env \<Rightarrow> 'w fdeps \<Rightarrow> FactoryService \<Rightarrow> DeployMarketRequest \<Rightarrow> ('w, TransactionResult) act" where
  "svc_BuildDeployMarketTx E D s req =
     (if fs_factoryContract s = [] then failM (Sentinel (Factory factory_ErrFactoryNotConfigured))
      else
      tryM (liftM (DeployMarketRequest_Validate req)) (wrap ''deploy request validation failed: '') (\<lambda>_.
      tryM (outside (rand_Read D)) (wrap ''failed to generate salt: '') (\<lambda>salt.
      tryM (liftM (safeFloatToInt64 E (f64_mul (dq_LiquidityParam req) float_ScaleFactor))) (wrap ''invalid liquidity parameter: '') (\<lambda>liquidityParam.
      tryM (liftM (safeFloatToInt64 E (f64_mul (dq_InitialFunding req) float_ScaleFactor))) (wrap ''invalid initial funding: '') (\<lambda>initialFunding.
      tryM (BuildDeployMarketTx E (fs_txBuilder s)
              \<lparr>dm_OraclePublicKey = fs_oraclePublicKey s, dm_FactoryContract = fs_factoryContract s, dm_LiquidityParam = liquidityParam,
               dm_MetadataHash = dq_MetadataHash req, dm_InitialFunding = initialFunding, dm_Salt = salt\<rparr>)
           (wrap ''failed to build deploy transaction: '') (\<lambda>txXDR.
      tryM (SimulateAndPrepareTx E (fs_txBuilder s) txXDR) (wrap ''failed to simulate transaction: '') (\<lambda>preparedXDR.
      retM \<lparr>tr_XDR = preparedXDR,
            tr_Description = ''Deploy new market (b='' @ fmt_fixed 2 (dq_LiquidityParam req) @ '', funding='' @ fmt_fixed 2 (dq_InitialFunding req) @ '')'',
            tr_SignWith = fs_oraclePublicKey s, tr_SubmitURL = RPCURL (fs_sorobanClient s)\<rparr>)))))))"

section \<open>Prices are probabilities\<close>

text \<open>Dividing two positive numbers by their rounded sum: the quotients add up to one, up to rounding.\<close>

lemma share_of_sum:
  assumes a: "rnd a = a" "2 powi (- 7) \<le> a" "a \<le> 2 powi 63" and b: "0 < b" "b \<le> 2 powi 63"
  shows "a \<le> rnd (a + b)" "f64_div (Fin a) (Fin (rnd (a + b))) = Fin (rnd (a / rnd (a + b)))"
    "0 < rnd (a / rnd (a + b))" "rnd (a / rnd (a + b)) \<le> 1"
    "\<bar>rnd (a / rnd (a + b)) - a / rnd (a + b)\<bar> \<le> a / rnd (a + b) * 2 powi (- 53)"
proof -
  let ?s = "rnd (a + b)"
  have a0: "0 < a" using a(2) powi_pos [of "- 7"] by linarith
  show as: "a \<le> ?s" using a b by (intro f64.R_ge_fixed) simp_all
  have "(2::rat) powi 64 = 2 powi 63 + 2 powi 63" using powi_Suc [of 63] by simp
  then have "\<bar>a + b\<bar> \<le> 2 powi 64" using a b a0 by linarith
  then have "\<bar>?s\<bar> \<le> 2 powi 64" by (intro round64_bounded(2)) simp_all
  then have s: "0 < ?s" "?s \<le> 2 powi 64" using as a0 by linarith+
  have "2 powi (- 7) / 2 powi 64 \<le> a / ?s" using a(2) s a0 by (intro frac_le) (simp_all only: less_imp_le powi_pos)
  moreover have "(2::rat) powi (- 7) / 2 powi 64 = 2 powi (- 71)" using powi_diff [of "- 7" 64] by simp
  ultimately have lo: "2 powi (- 71) \<le> a / ?s" by (simp only:)
  have hi: "a / ?s \<le> 1" using as s by simp
  have q0: "0 < a / ?s" using a0 s by simp
  have "\<bar>a / ?s\<bar> \<le> 2 powi 0" using hi q0 by simp
  from round64_bounded(1) [OF this] show "f64_div (Fin a) (Fin ?s) = Fin (rnd (a / ?s))" using s by simp
  show "rnd (a / ?s) \<le> 1" using hi by (intro f64.R_le_fixed) simp_all
  have "2 powi (- 71) \<le> rnd (a / ?s)" using lo by (intro f64.R_ge_fixed rnd_powi) simp_all
  then show "0 < rnd (a / ?s)" using powi_pos [of "- 71"] by linarith
  have "(2::rat) powi (- 1022) \<le> 2 powi (- 71)" by (simp only: powi_le_iff)
  then have "2 powi (- 1022) \<le> \<bar>a / ?s\<bar>" using lo q0 by linarith
  from rnd_rel_err [OF this] show "\<bar>rnd (a / ?s) - a / ?s\<bar> \<le> a / ?s * 2 powi (- 53)" using q0 by simp
qed

lemma shares_add_up:
  assumes a: "rnd a = a" "2 powi (- 7) \<le> a" "a \<le> 2 powi 63" and b: "rnd b = b" "2 powi (- 7) \<le> b" "b \<le> 2 powi 63"
  shows "\<bar>rnd (a / rnd (a + b)) + rnd (b / rnd (a + b)) - 1\<bar> \<le> 2 powi (- 51)"
proof -
  let ?s = "rnd (a + b)" and ?u = "2 powi (- 53) :: rat"
  have p: "0 < a" "0 < b" using a(2) b(2) powi_pos [of "- 7"] by linarith+
  note A = share_of_sum [OF a p(2) b(3)]
  note B = share_of_sum [OF b p(1) a(3), unfolded add.commute [of b a]]
  have s: "0 < ?s" using A(1) p by linarith
  have u: "0 < ?u" "?u \<le> 1/4" "2 powi (- 51) = 4 * ?u" by (simp_all add: power_int_minus)
  have "(2::rat) powi (- 1022) \<le> 2 powi (- 7)" by (simp only: powi_le_iff)
  then have "2 powi (- 1022) \<le> \<bar>a + b\<bar>" using a(2) p by linarith
  from rnd_rel_err [OF this] have err: "\<bar>?s - (a + b)\<bar> \<le> (a + b) * ?u" using p by simp
  define r where "r = (a + b) / ?s"
  have "(a + b) * (1 - ?u) \<le> ?s" using err unfolding abs_le_iff by (simp add: algebra_simps)
  moreover have "(a + b) * (3/4) \<le> (a + b) * (1 - ?u)" using u p by (intro mult_left_mono) simp_all
  ultimately have "(a + b) * (3/4) \<le> ?s" by linarith
  then have r: "0 < r" "r \<le> 4/3" using s p by (simp_all add: r_def field_simps)
  have "r - 1 = ((a + b) - ?s) / ?s" using s by (simp add: r_def diff_divide_distrib)
  then have "\<bar>r - 1\<bar> = \<bar>?s - (a + b)\<bar> / ?s" using s by (simp add: abs_minus_commute)
  also have "\<dots> \<le> (a + b) * ?u / ?s" using err s by (intro divide_right_mono) simp_all
  finally have r1: "\<bar>r - 1\<bar> \<le> r * ?u" by (simp add: r_def)
  have "a / ?s + b / ?s = r" by (simp add: r_def add_divide_distrib)
  then have "\<bar>rnd (a / ?s) + rnd (b / ?s) - r\<bar> \<le> a / ?s * ?u + b / ?s * ?u" using A(5) B(5) unfolding abs_le_iff by linarith
  also have "\<dots> = r * ?u" by (simp add: r_def add_divide_distrib algebra_simps)
  finally have "\<bar>rnd (a / ?s) + rnd (b / ?s) - 1\<bar> \<le> r * ?u + r * ?u" using r1 unfolding abs_le_iff by linarith
  also have "\<dots> \<le> 4/3 * ?u + 4/3 * ?u" using r u by (intro add_mono mult_right_mono) simp_all
  also have "\<dots> \<le> 2 powi (- 51)" using u by simp
  finally show ?thesis .
qed

lemma clamp_value: "f64_const (1/100) = Fin (rnd (1/100))" "2 powi (- 7) \<le> rnd (1/100)" "rnd (1/100) \<le> 1"
proof -
  have "\<bar>1/100 :: rat\<bar> \<le> 2 powi 0" by simp
  from round64_bounded(1) [OF this] show "f64_const (1/100) = Fin (rnd (1/100))" by (simp add: f64_const_def)
  show "2 powi (- 7) \<le> rnd (1/100)" by (intro f64.R_ge_fixed rnd_powi) (simp_all add: power_int_minus)
  show "rnd (1/100) \<le> 1" by (intro f64.R_le_fixed) simp_all
qed

text \<open>The clamped ratio of a quantity to a nonzero total.\<close>

lemma clamped_ratio:
  assumes "sint t \<noteq> 0"
  obtains a where "(let p = f64_div (f64_of_int64 y) (f64_of_int64 t) in if f64_lt p (f64_const (1/100)) then f64_const (1/100) else p) = Fin a"
    "rnd a = a" "2 powi (- 7) \<le> a" "a \<le> 2 powi 63"
proof -
  let ?y = "rnd (of_int (sint y))" and ?t = "rnd (of_int (sint t))"
  have "1 \<le> \<bar>sint t\<bar>" using assms by linarith
  then have "(1::rat) \<le> \<bar>of_int (sint t)\<bar>" by (metis of_int_1_le_iff of_int_abs)
  then have "1 \<le> rnd (\<bar>of_int (sint t)\<bar>)" by (intro f64.R_ge_fixed) simp_all
  then have t: "1 \<le> \<bar>?t\<bar>" by (cases "0 \<le> sint t") simp_all
  have "\<bar>?y / ?t\<bar> = \<bar>?y\<bar> / \<bar>?t\<bar>" by (rule abs_divide)
  also have "\<dots> \<le> \<bar>?y\<bar> / 1" using t by (intro divide_left_mono) auto
  also have "\<dots> \<le> 2 powi 63" using f64_of_int64_Fin(2) [of y] by simp
  finally have b: "\<bar>?y / ?t\<bar> \<le> 2 powi 63" .
  have p: "f64_div (f64_of_int64 y) (f64_of_int64 t) = Fin (rnd (?y / ?t))"
    using t round64_bounded(1) [OF b] by (auto simp: f64_of_int64_Fin(1))
  have hi: "rnd (?y / ?t) \<le> 2 powi 63" using round64_bounded(2) [OF b] by simp
  have one: "(1::rat) \<le> 2 powi 63" by simp
  show ?thesis
  proof (cases "rnd (?y / ?t) < rnd (1/100)")
    case True
    then show ?thesis using clamp_value one by (intro that [of "rnd (1/100)"]) (simp_all add: p)
  next
    case False
    then show ?thesis using clamp_value hi by (intro that [of "rnd (?y / ?t)"]) (simp_all add: p)
  qed
qed

text \<open>
  C30 (calculatePrices_probabilities): the two displayed prices are positive and at most one, and they add
  up to one with an error of at most \<open>2^-51\<close>, for all \<open>int64\<close> quantities: negative ones and ones
  whose sum wraps around included.
\<close>

theorem calculatePrices_probabilities:
  "\<exists>p q. calculatePrices yesSold noSold = (Fin p, Fin q) \<and> 0 < p \<and> p \<le> 1 \<and> 0 < q \<and> q \<le> 1 \<and> \<bar>p + q - 1\<bar> \<le> 2 powi (- 51)"
proof (cases "(yesSold = 0 \<and> noSold = 0) \<or> f64_eq (f64_of_int64 (yesSold + noSold)) (Fin 0)")
  case True
  then have "calculatePrices yesSold noSold = (Fin (1/2), Fin (1/2))" by (auto simp: calculatePrices_def Let_def)
  then show ?thesis by (intro exI [of _ "1/2"] conjI) simp_all
next
  case False
  then have t: "sint (yesSold + noSold) \<noteq> 0" by (auto simp: f64_of_int64_Fin)
  obtain a where a: "(let p = f64_div (f64_of_int64 yesSold) (f64_of_int64 (yesSold + noSold)) in
      if f64_lt p (f64_const (1/100)) then f64_const (1/100) else p) = Fin a" "rnd a = a" "2 powi (- 7) \<le> a" "a \<le> 2 powi 63"
    using clamped_ratio [OF t] .
  obtain b where b: "(let p = f64_div (f64_of_int64 noSold) (f64_of_int64 (yesSold + noSold)) in
      if f64_lt p (f64_const (1/100)) then f64_const (1/100) else p) = Fin b" "rnd b = b" "2 powi (- 7) \<le> b" "b \<le> 2 powi 63"
    using clamped_ratio [OF t] .
  have p: "0 < a" "0 < b" using a(3) b(3) powi_pos [of "- 7"] by linarith+
  have "(2::rat) powi 64 = 2 powi 63 + 2 powi 63" using powi_Suc [of 63] by simp
  then have "\<bar>a + b\<bar> \<le> 2 powi 64" using a b p by linarith
  from round64_bounded(1) [OF this] have s: "f64_add (Fin a) (Fin b) = Fin (rnd (a + b))" by simp
  note A = share_of_sum [OF a(2-4) p(2) b(4)]
  note B = share_of_sum [OF b(2-4) p(1) a(4), unfolded add.commute [of b a]]
  have "calculatePrices yesSold noSold = (Fin (rnd (a / rnd (a + b))), Fin (rnd (b / rnd (a + b))))"
    using False a(1) b(1) s A(2) B(2) unfolding calculatePrices_def Let_def by auto
  then show ?thesis using A(3,4) B(3,4) shares_add_up [OF a(2-4) b(2-4)] by blast
qed

section \<open>Every interleaving of the goroutines\<close>

text \<open>
  What the state cache is relied on for: it gives back only states that were stored for the same contract,
  by \<open>Set\<close> or by the background loader.  \<open>I\<close> says so of the outside, for a property
  \<open>good\<close> of states; requests to the network leave the cache alone.
\<close>

definition cache_laws :: "'w env \<Rightarrow> 'w fdeps \<Rightarrow> ('w \<Rightarrow> bool) \<Rightarrow> (string \<Rightarrow> MarketState \<Rightarrow> bool) \<Rightarrow> bool" where
  "cache_laws E D I good \<longleftrightarrow>
     (\<forall>i w v err w'. I w \<and> state_hotGet D i w = ((v, True, err), w') \<longrightarrow> good i v)
     \<and> (\<forall>i w. I w \<longrightarrow> I (snd (state_hotGet D i w)))
     \<and> (\<forall>i v w. I w \<and> good i v \<longrightarrow> I (snd (state_hotSet D i v w)))
     \<and> quiet E I"

text \<open>A state as \<open>fetchMarketState\<close> makes it.\<close>

definition good_state :: "string \<Rightarrow> MarketState \<Rightarrow> bool" where
  "good_state i st \<longleftrightarrow> st_ContractID st = i
     \<and> (st_PriceYes st, st_PriceNo st) = calculatePrices (st_YesSold st) (st_NoSold st)
     \<and> (\<not> st_Resolved st \<longrightarrow> st_WinningOutcome st = [])
     \<and> st_WinningOutcome st \<in> {[], ''YES'', ''NO''}"

lemma cache_get:
  assumes "cache_laws E D I good" "I w" "state_hotGet D i w = ((v, found, err), w')"
  shows "I w'" "found \<Longrightarrow> good i v"
proof -
  have "I (snd (state_hotGet D i w))" using assms(1,2) unfolding cache_laws_def by blast
  then show "I w'" using assms(3) by simp
  have "I w \<and> state_hotGet D i w = ((v, True, err), w') \<longrightarrow> good i v"
    using assms(1) unfolding cache_laws_def by (elim conjE) (erule allE)+
  then show "good i v" if found using assms(2,3) that by simp
qed

lemma cache_set:
  assumes "cache_laws E D I good" "I w" "good i v" "state_hotSet D i v w = (u, w')" shows "I w'"
proof -
  have "I (snd (state_hotSet D i v w))" using assms(1-3) unfolding cache_laws_def by blast
  then show ?thesis using assms(4) by simp
qed

lemma thread_ok_liftT:
  "thread_ok P Q t \<Longrightarrow> thread_ok (\<lambda>p. P (fst p) \<and> R (snd p)) Q (liftT t)"
proof (induction t)
  case (Step f)
  have "thread_ok (\<lambda>p. P (fst p) \<and> R (snd p)) Q (liftT t)" if "P w" "f w = (t, w')" for w t w'
    using Step.IH [OF step_range [of f, OF that(2)], of t] thread_ok_Step [OF Step.prems that] by simp
  moreover have "P w'" if "P w" "f w = (t, w')" for w t w'
    using thread_ok_Step [OF Step.prems that] by simp
  ultimately show ?case by (simp add: map_prod_def split: prod.splits) blast
qed simp

lemma thread_ok_keep: "preserves P m \<Longrightarrow> thread_ok P (\<lambda>r. \<forall>x. r = Inr x \<longrightarrow> True) (atomic m)"
  using thread_keeps_atomic by simp

lemma getWinningOutcome_ok:
  assumes "quiet E I"
  shows "thread_ok (\<lambda>w. I (w_ext w)) (\<lambda>r. \<forall>x. r = Inr x \<longrightarrow> x \<in> {''YES'', ''NO''}) (getWinningOutcome E s cid)"
  unfolding getWinningOutcome_def using assms
  by (intro thread_ok_tryT [where A = "\<lambda>_. True"] thread_ok_keep winning_outcome.build_quiet preserves_intros)
    (auto simp: tryE_Inr_iff U32ToOutcome_def split: if_splits)

lemma getMetadataHash_ok:
  assumes "quiet E I" shows "thread_ok (\<lambda>w. I (w_ext w)) (\<lambda>_. True) (getMetadataHash E s cid)"
  unfolding getMetadataHash_def using assms by (intro preserves_intros metadata_hash.build_quiet)

lemma fetchMarketState_ok:
  assumes q: "quiet E I"
  shows "thread_ok (\<lambda>w. I (w_ext w)) (\<lambda>r. \<forall>st. r = Inr st \<longrightarrow> good_state cid st) (fetchMarketState E s cid)"
proof -
  let ?P = "\<lambda>w. I (w_ext w)"
  have fin: "thread_ok ?P (\<lambda>r. \<forall>st. r = Inr st \<longrightarrow> good_state cid st)
      (case calculatePrices y n of (py, pn) \<Rightarrow> Done (Inr \<lparr>st_ContractID = cid, st_YesSold = y, st_NoSold = n, st_Pool = pool,
         st_Resolved = resolved, st_WinningOutcome = or_empty win, st_MetadataHash = or_empty hash, st_PriceYes = py, st_PriceNo = pn\<rparr>))"
    if "\<forall>x. win = Inr x \<longrightarrow> x \<in> {[], ''YES'', ''NO''} \<and> (\<not> resolved \<longrightarrow> x = [])" for y n pool resolved win hash
    using that by (auto simp: good_state_def or_empty_def split: prod.splits sum.splits)
  have win: "thread_ok ?P (\<lambda>win. \<forall>x. win = Inr x \<longrightarrow> x \<in> {[], ''YES'', ''NO''} \<and> (\<not> resolved \<longrightarrow> x = []))
      (if resolved then getWinningOutcome E s cid else Done (Inr []))" for resolved
    by (cases resolved) (auto intro: thread_ok_weaken [OF getWinningOutcome_ok [OF q]])
  have rest: "thread_ok ?P (\<lambda>r. \<forall>st. r = Inr st \<longrightarrow> good_state cid st)
      (bindT (if resolved then getWinningOutcome E s cid else Done (Inr [])) (\<lambda>win. bindT (getMetadataHash E s cid) (\<lambda>hash.
       case calculatePrices y n of (py, pn) \<Rightarrow> Done (Inr \<lparr>st_ContractID = cid, st_YesSold = y, st_NoSold = n, st_Pool = pool,
         st_Resolved = resolved, st_WinningOutcome = or_empty win, st_MetadataHash = or_empty hash, st_PriceYes = py, st_PriceNo = pn\<rparr>))))"
    for y n pool resolved
    by (rule thread_ok_bindT [OF win], rule thread_ok_bindT [OF getMetadataHash_ok [OF q]]) (rule fin)
  show ?thesis
    unfolding fetchMarketState_def using q
    by (intro thread_ok_tryT [where A = "\<lambda>_. True"] thread_ok_keep get_state.build_quiet preserves_intros)
      (simp_all only: split_paired_all prod.case rest thread_ok.simps HOL.simp_thms)
qed

text \<open>
  A relation between contracts and the results of fetching them that every fetch satisfies, whatever happens in between,
  and that the states in the cache satisfy.
\<close>

definition sound_states :: "'w env \<Rightarrow> 'w fdeps \<Rightarrow> FactoryService \<Rightarrow> ('w \<Rightarrow> bool) \<Rightarrow> (string \<Rightarrow> MarketState result \<Rightarrow> bool) \<Rightarrow> bool" where
  "sound_states E D s I ok \<longleftrightarrow> cache_laws E D I (\<lambda>i st. ok i (Inr st))
     \<and> (\<forall>cid. thread_ok (\<lambda>w. I (w_ext w)) (ok cid) (fetchMarketState E s cid))"

text \<open>
  The shared variables while the goroutines run: every entry of the slice is still empty or is a state of its own contract, and
  the first error is the error of a fetch.
\<close>

definition state_error :: "string \<Rightarrow> goerr \<Rightarrow> goerr" where
  "state_error cid err = wrap (''failed to get state for '' @ cid @ '': '') err"

definition states_inv :: "(string \<Rightarrow> MarketState result \<Rightarrow> bool) \<Rightarrow> string list \<Rightarrow> shared \<Rightarrow> bool" where
  "states_inv ok ids x \<longleftrightarrow> list_all2 (\<lambda>i st. st = zero_MarketState \<or> ok i (Inr st)) ids (sh_states x)
     \<and> (\<forall>e. sh_firstErr x = Some e \<longrightarrow> (\<exists>i err. i \<in> set ids \<and> ok i (Inl err) \<and> e = state_error i err))"

lemma states_inv_update:
  assumes "states_inv ok ids x" "idx < length ids" "ok (ids ! idx) (Inr st)"
  shows "states_inv ok ids (x\<lparr>sh_states := (sh_states x)[idx := st]\<rparr>)"
  using assms list_all2_update_cong [of _ ids "sh_states x" "ids ! idx" st idx] by (simp add: states_inv_def)

lemma guarantees_liftT:
  assumes "thread_ok P Q t" "\<And>R w w' x. R \<in> S \<Longrightarrow> R (w, x) = R (w', x)"
  shows "guarantees (\<lambda>p. P (fst p) \<and> I (snd p)) S Q (liftT t)"
  using assms(1)
proof (induction t)
  case (Step f)
  have "guarantees (\<lambda>p. P (fst p) \<and> I (snd p)) S Q (liftT t)" if "P w" "f w = (t, w')" for w t w'
    using Step.IH [OF step_range [of f, OF that(2)], of t] thread_ok_Step [OF Step.prems that] by simp
  moreover have "P w'" if "P w" "f w = (t, w')" for w t w'
    using thread_ok_Step [OF Step.prems that] by simp
  moreover have "keeps_goals S (w, x) (w', x)" for w x w' using assms(2) [of _ w x w'] by (auto simp: keeps_goals_def)
  ultimately show ?case by (simp add: map_prod_def split: prod.splits) blast
qed simp

text \<open>The goal of one goroutine: its entry of the slice is the state of its contract.\<close>

definition filled :: "(string \<Rightarrow> MarketState result \<Rightarrow> bool) \<Rightarrow> string list \<Rightarrow> nat \<Rightarrow> 'w gms \<Rightarrow> bool" where
  "filled ok ids i p \<longleftrightarrow> ok (ids ! i) (Inr (sh_states (snd p) ! i))"

lemma filled_update:
  assumes "idx < length (sh_states x)" "ok (ids ! idx) (Inr st)" "filled ok ids i (w, x)"
  shows "filled ok ids i (w', x\<lparr>sh_states := (sh_states x)[idx := st]\<rparr>)"
  using assms by (cases "i = idx") (simp_all add: filled_def)

abbreviation worker_inv :: "(string \<Rightarrow> MarketState result \<Rightarrow> bool) \<Rightarrow> ('w \<Rightarrow> bool) \<Rightarrow> string list \<Rightarrow> 'w gms \<Rightarrow> bool" where
  "worker_inv ok I ids \<equiv> \<lambda>p. I (w_ext (fst p)) \<and> states_inv ok ids (snd p)"

lemma worker_store:
  assumes "worker_inv ok I ids p" "idx < length ids" "ok (ids ! idx) (Inr st)"
    and r: "onShared (\<lambda>x. x\<lparr>sh_states := (sh_states x)[idx := st]\<rparr>) p = (u, p')"
  shows "worker_inv ok I ids p'" "keeps_goals (range (filled ok ids)) p p'" "filled ok ids idx p'"
proof -
  have len: "length (sh_states (snd p)) = length ids" using assms(1) by (auto simp: states_inv_def dest: list_all2_lengthD)
  show "worker_inv ok I ids p'" using assms by (auto simp: onShared_def split: prod.splits intro: states_inv_update)
  show "keeps_goals (range (filled ok ids)) p p'"
    using assms len by (auto simp: onShared_def keeps_goals_def split: prod.splits intro: filled_update)
  show "filled ok ids idx p'" using assms len by (auto simp: onShared_def filled_def split: prod.splits)
qed

lemma worker_steps:
  assumes c: "sound_states E D s I ok" and idx: "idx < length ids" "ids ! idx = cid"
  defines "S \<equiv> range (filled ok ids)"
  shows "guarantees (worker_inv ok I ids) S (\<lambda>(v, hit). hit \<longrightarrow> ok cid (Inr v)) (atomic (onWorld (StateCache_Get D cid)))"
    "guarantees (worker_inv ok I ids) S (ok cid) (liftT (fetchMarketState E s cid))"
    "ok cid (Inr st) \<Longrightarrow> guarantees (worker_inv ok I ids) S (\<lambda>_. True) (atomic (onWorld (StateCache_Set D cid st)))"
    "ok cid (Inr st) \<Longrightarrow> guarantees (worker_inv ok I ids) S (\<lambda>_. True)
       (atomic (onShared (\<lambda>x. x\<lparr>sh_states := (sh_states x)[idx := st]\<rparr>)))"
    "ok cid (Inl e) \<Longrightarrow> guarantees (worker_inv ok I ids) S (\<lambda>_. True)
       (atomic (onShared (\<lambda>x. if sh_firstErr x = None then x\<lparr>sh_firstErr := Some (state_error cid e)\<rparr> else x)))"
proof -
  have cl: "cache_laws E D I (\<lambda>i st. ok i (Inr st))" and f: "thread_ok (\<lambda>w. I (w_ext w)) (ok cid) (fetchMarketState E s cid)"
    using c by (simp_all add: sound_states_def)
  have world: "keeps_goals S (w, x) (w', x)" for w w' :: "'a world" and x by (auto simp: S_def keeps_goals_def filled_def)
  show "guarantees (worker_inv ok I ids) S (\<lambda>(v, hit). hit \<longrightarrow> ok cid (Inr v)) (atomic (onWorld (StateCache_Get D cid)))"
    by (intro guarantees_atomic)
      (auto simp: onWorld_def StateCache_Get_def outside_def world split: prod.splits if_splits dest: cache_get [OF cl])
  show "guarantees (worker_inv ok I ids) S (\<lambda>_. True) (atomic (onWorld (StateCache_Set D cid st)))" if "ok cid (Inr st)"
    using that by (intro guarantees_atomic)
      (auto simp: onWorld_def StateCache_Set_def outside_def world split: prod.splits dest: cache_set [OF cl])
  show "guarantees (worker_inv ok I ids) S (\<lambda>_. True) (atomic (onShared (\<lambda>x. x\<lparr>sh_states := (sh_states x)[idx := st]\<rparr>)))"
    if "ok cid (Inr st)" unfolding S_def using worker_store [where ok = ok, OF _ idx(1)] that idx(2) by (intro guarantees_atomic) blast
  have "cid \<in> set ids" using idx by auto
  then show "guarantees (worker_inv ok I ids) S (\<lambda>_. True)
      (atomic (onShared (\<lambda>x. if sh_firstErr x = None then x\<lparr>sh_firstErr := Some (state_error cid e)\<rparr> else x)))" if "ok cid (Inl e)"
    using that by (intro guarantees_atomic) (auto simp: onShared_def states_inv_def S_def keeps_goals_def filled_def split: if_splits, blast)
  show "guarantees (worker_inv ok I ids) S (ok cid) (liftT (fetchMarketState E s cid))"
    using f by (intro guarantees_liftT) (auto simp: S_def filled_def)
qed

lemma state_worker_guarantees:
  assumes c: "sound_states E D s I ok" and idx: "idx < length ids" "ids ! idx = cid"
  shows "guarantees (worker_inv ok I ids) (range (filled ok ids)) (\<lambda>_. True) (state_worker E D s idx cid)"
  unfolding state_worker_def state_error_def [symmetric]
  by (rule guarantees_bindT [OF worker_steps(1) [OF assms]])
    (auto split: prod.splits sum.splits
      intro!: worker_steps(4,5) [OF assms] guarantees_bindT [OF worker_steps(2) [OF assms]] guarantees_bindT [OF worker_steps(3) [OF assms]])

lemmas state_worker_ok = state_worker_guarantees [THEN guarantees_ok]

text \<open>A market whose state can be had: it is always in the cache, or no fetch of it fails.\<close>

definition readable :: "'w env \<Rightarrow> 'w fdeps \<Rightarrow> FactoryService \<Rightarrow> ('w \<Rightarrow> bool) \<Rightarrow> string \<Rightarrow> bool" where
  "readable E D s I cid \<longleftrightarrow>
     (\<forall>w. I w \<longrightarrow> (\<exists>v. fst (state_hotGet D cid w) = (v, True, None)))
     \<or> thread_ok (\<lambda>w. I (w_ext w)) (\<lambda>r. \<exists>st. r = Inr st) (fetchMarketState E s cid)"

lemma state_worker_fills:
  assumes c: "sound_states E D s I ok" and idx: "idx < length ids" "ids ! idx = cid"
    and "readable E D s I cid" "worker_inv ok I ids p"
  shows "establishes (worker_inv ok I ids) (filled ok ids idx) (state_worker E D s idx cid) p"
proof -
  note steps = worker_steps [OF c idx, THEN guarantees_ok]
  have store: "establishes (worker_inv ok I ids) (filled ok ids idx) (atomic (onShared (\<lambda>x. x\<lparr>sh_states := (sh_states x)[idx := st]\<rparr>))) p"
    if "ok cid (Inr st)" for st p
    using worker_store(3) [where ok = ok, OF _ idx(1)] that idx(2) by (intro establishes_atomic) blast
  from assms(4) consider (hit) "\<forall>w. I w \<longrightarrow> (\<exists>v. fst (state_hotGet D cid w) = (v, True, None))"
    | (fetch) "thread_ok (\<lambda>w. I (w_ext w)) (\<lambda>r. \<exists>st. r = Inr st) (fetchMarketState E s cid)" unfolding readable_def by blast
  then show ?thesis
  proof cases
    case hit
    have "snd (fst (onWorld (StateCache_Get D cid) p))" if "worker_inv ok I ids p" for p :: "'a gms"
      using hit [THEN spec, of "w_ext (fst p)"] that
      by (auto simp: onWorld_def StateCache_Get_def outside_def split: prod.splits)
    from thread_ok_atomic_result [where Q' = snd, OF steps(1) this] show ?thesis
      unfolding state_worker_def by (rule establishes_bindT) (use assms(5) store in auto)
  next
    case fetch
    have "thread_ok (worker_inv ok I ids) (\<lambda>r. \<exists>st. r = Inr st) (liftT (fetchMarketState E s cid))"
      using fetch by (rule thread_ok_liftT)
    note f = thread_ok_conj [OF steps(2) this]
    show ?thesis
      unfolding state_worker_def
      by (rule establishes_bindT [OF steps(1) _ assms(5)])
        (auto intro!: store establishes_bindT [OF f] establishes_bindT [OF steps(3)])
  qed
qed

lemma states_inv_subseq:
  assumes "list_all2 (\<lambda>i st. st = zero_MarketState \<or> ok i (Inr st)) ids sts" "\<And>i st. ok i (Inr st) \<Longrightarrow> st_ContractID st = i"
  shows "subseq (map st_ContractID (filter (\<lambda>st. st_ContractID st \<noteq> []) sts)) ids
    \<and> list_all (\<lambda>st. ok (st_ContractID st) (Inr st)) (filter (\<lambda>st. st_ContractID st \<noteq> []) sts)"
  using assms(1) by (induction rule: list_all2_induct) (auto simp: zero_MarketState_def dest: assms(2))

lemma states_inv_start: "states_inv ok ids \<lparr>sh_states = replicate (length ids) zero_MarketState, sh_firstErr = None\<rparr>"
  by (simp add: states_inv_def list_all2_conv_all_nth)

lemma GetMarketStates_slice:
  assumes c: "sound_states E D s I ok" and I: "I (w_ext w)"
    and sc: "schedule sched (map (\<lambda>(i, cid). state_worker E D s i cid) (enumerate 0 ids))
      (w, \<lparr>sh_states = replicate (length ids) zero_MarketState, sh_firstErr = None\<rparr>) = (u, w1, x)"
  shows "worker_inv ok I ids (w1, x)"
proof -
  have "preserves (worker_inv ok I ids) (schedule sched (map (\<lambda>(i, cid). state_worker E D s i cid) (enumerate 0 ids)))"
    using state_worker_ok [OF c] by (intro preserves_schedule) (auto simp: in_set_enumerate_eq)
  from preservesD [OF this _ sc] show ?thesis using I states_inv_start by simp
qed

text \<open>What a fetch of a contract can give, whatever else happens to the outside during it.\<close>

definition fetch_gives :: "'w env \<Rightarrow> FactoryService \<Rightarrow> ('w \<Rightarrow> bool) \<Rightarrow> string \<Rightarrow> MarketState result \<Rightarrow> bool" where
  "fetch_gives E s I cid r \<longleftrightarrow> may_return (\<lambda>w. I (w_ext w)) (fetchMarketState E s cid) r"

lemma fetch_gives_good: "quiet E I \<Longrightarrow> fetch_gives E s I cid (Inr st) \<Longrightarrow> good_state cid st"
  unfolding fetch_gives_def using may_return_ok [OF fetchMarketState_ok] by blast

lemma sound_fetch_gives:
  assumes "cache_laws E D I (\<lambda>i st. fetch_gives E s I i (Inr st))" shows "sound_states E D s I (fetch_gives E s I)"
proof -
  have q: "quiet E I" using assms by (simp add: cache_laws_def)
  have "thread_ok (\<lambda>w. I (w_ext w)) (\<lambda>_. True) (fetchMarketState E s cid)" for cid
    using fetchMarketState_ok [OF q] by (rule thread_ok_weaken) simp
  from thread_ok_may_return [OF this] show ?thesis using assms unfolding sound_states_def fetch_gives_def by blast
qed

lemma sound_good_state: "cache_laws E D I good_state \<Longrightarrow> sound_states E D s I (\<lambda>i r. \<forall>st. r = Inr st \<longrightarrow> good_state i st)"
  using fetchMarketState_ok [of E I] by (simp add: sound_states_def cache_laws_def)

text \<open>
  C15 (GetMarketStates_every_schedule): whatever the interleaving of the goroutines and of the background
  refreshes, the states that \<open>GetMarketStates\<close> returns are states of the requested contracts in the
  order of the request, and each is, in all its fields, a result that \<open>fetchMarketState\<close> can give for that contract: no state is attributed to another contract,
  its prices are the calculated ones, and a market that is not resolved has no winning outcome.  An error that is
  returned is the error that a fetch of one of the requested contracts can give, with the two messages in front of it.  The cache, which holds only
  results of fetches, keeps doing so.
\<close>

theorem GetMarketStates_every_schedule:
  assumes c: "cache_laws E D I (\<lambda>i st. fetch_gives E s I i (Inr st))" and I: "I (w_ext w)"
    and run: "GetMarketStates E D sched s ids w = (r, w')"
  shows "(\<forall>sts. r = Inr sts \<longrightarrow> subseq (map st_ContractID sts) ids
        \<and> list_all (\<lambda>st. fetch_gives E s I (st_ContractID st) (Inr st) \<and> good_state (st_ContractID st) st) sts)
    \<and> (\<forall>e. r = Inl e \<longrightarrow> (\<exists>i err. i \<in> set ids \<and> fetch_gives E s I i (Inl err)
        \<and> e = wrap ''failed to fetch any market states: '' (wrap (''failed to get state for '' @ i @ '': '') err)))
    \<and> I (w_ext w')"
proof -
  let ?ts = "map (\<lambda>(i, cid). state_worker E D s i cid) (enumerate 0 ids)"
  let ?x = "\<lparr>sh_states = replicate (length ids) zero_MarketState, sh_firstErr = None\<rparr>"
  obtain u w1 x where sc: "schedule sched ?ts (w, ?x) = (u, w1, x)" by (cases "schedule sched ?ts (w, ?x)") auto
  have inv: "I (w_ext w1)" "states_inv (fetch_gives E s I) ids x" using GetMarketStates_slice [OF sound_fetch_gives [OF c] I sc] by simp_all
  have good: "fetch_gives E s I i (Inr st) \<Longrightarrow> good_state i st" for i st
    using c fetch_gives_good [of E I s i st] by (simp add: cache_laws_def)
  let ?v = "filter (\<lambda>st. st_ContractID st \<noteq> []) (sh_states x)"
  have v: "subseq (map st_ContractID ?v) ids \<and> list_all (\<lambda>st. fetch_gives E s I (st_ContractID st) (Inr st)) ?v"
    using inv(2) good by (intro states_inv_subseq) (auto simp: states_inv_def good_state_def)
  then have "list_all (\<lambda>st. fetch_gives E s I (st_ContractID st) (Inr st) \<and> good_state (st_ContractID st) st) ?v"
    using good by (auto simp: list_all_iff)
  moreover have "\<exists>i err. i \<in> set ids \<and> fetch_gives E s I i (Inl err) \<and> e = wrap (''failed to get state for '' @ i @ '': '') err"
    if "sh_firstErr x = Some e" for e
    using inv(2) that by (auto simp: states_inv_def state_error_def)
  ultimately show ?thesis
    using run sc v inv(1) by (auto simp: GetMarketStates_def Let_def split: option.splits if_splits)
qed

definition cached_state :: "string \<Rightarrow> MarketState" where
  "cached_state i = zero_MarketState\<lparr>st_ContractID := i, st_PriceYes := Fin (1/2), st_PriceNo := Fin (1/2)\<rparr>"

definition cached_deps :: "'w fdeps" where
  "cached_deps = \<lparr>state_hotGet = (\<lambda>i w. ((cached_state i, True, None), w)), state_hotSet = (\<lambda>_ _ w. ((), w)),
     list_hotGet = (\<lambda>_ w. (([], False, None), w)), list_hotSet = (\<lambda>_ _ w. ((), w)), rand_Read = (\<lambda>w. (Inr (replicate 32 1), w))\<rparr>"

definition demo_factory :: FactoryService where
  "demo_factory = NewFactoryService demo_client (ms_txBuilder trade_service) trade_contract trade_user"

text \<open>
  C16 (GetMarketStates_complete): no market is lost.  When every requested market is readable, every interleaving of the
  goroutines ends with one state per request, in the order of the requests; a market is left out only after a fetch of it
  failed.
\<close>

theorem GetMarketStates_complete:
  assumes c: "cache_laws E D I good_state" and I: "I (w_ext w)"
    and ids: "list_all (readable E D s I) ids" "[] \<notin> set ids"
  shows "\<exists>sts. fst (GetMarketStates E D sched s ids w) = Inr sts \<and> map st_ContractID sts = ids \<and> list_all2 good_state ids sts"
proof -
  let ?ok = "\<lambda>i r. \<forall>st. r = Inr st \<longrightarrow> good_state i st"
  have c: "sound_states E D s I ?ok" using c by (rule sound_good_state)
  let ?ts = "map (\<lambda>(i, cid). state_worker E D s i cid) (enumerate 0 ids)"
  let ?x = "\<lparr>sh_states = replicate (length ids) zero_MarketState, sh_firstErr = None\<rparr>"
  let ?Rs = "map (filled ?ok ids) [0..<length ids]"
  have P: "worker_inv ?ok I ids (w, ?x)" using I by (simp add: states_inv_start)
  obtain u w1 x where sc: "schedule sched ?ts (w, ?x) = (u, w1, x)" by (cases "schedule sched ?ts (w, ?x)") auto
  have g: "list_all (guarantees (worker_inv ?ok I ids) (range (filled ?ok ids)) (\<lambda>_. True)) ?ts"
    using state_worker_guarantees [OF c] by (auto simp: list_all_iff in_set_enumerate_eq)
  have e: "list_all2 (\<lambda>R t. establishes (worker_inv ?ok I ids) R t (w, ?x)) ?Rs ?ts"
    using state_worker_fills [OF c _ refl _ P] ids(1)
    by (auto simp: list_all2_conv_all_nth nth_enumerate_eq list_all_length)
  have "list_all (\<lambda>R. R (w1, x)) ?Rs" by (rule schedule_establishes [OF e g _ P sc]) auto
  moreover have "worker_inv ?ok I ids (w1, x)" using GetMarketStates_slice [OF c I sc] .
  ultimately have all: "list_all2 good_state ids (sh_states x)"
    by (auto simp: list_all_length filled_def states_inv_def list_all2_conv_all_nth)
  have ids': "map st_ContractID (sh_states x) = ids"
    using all by (induction rule: list_all2_induct) (auto simp: good_state_def)
  then have "filter (\<lambda>st. st_ContractID st \<noteq> []) (sh_states x) = sh_states x"
    using ids(2) by (force simp: filter_id_conv)
  then show ?thesis
    using sc ids' all by (auto simp: GetMarketStates_def Let_def split: option.splits)
qed

text \<open>One market in the cache, another one that is fetched from a node that knows its state.\<close>

definition state_env :: "unit env" where
  "state_env = trade_env\<lparr>xdr_MarshalEnvelope := (\<lambda>_. Inr ''X''),
     xdr_UnmarshalScVal := (\<lambda>_. Inr (ScVal ScvVec None None None None None None
       (Some (Some [EncodeI128 3, EncodeI128 1, EncodeI128 5, EncodeBool False])) None))\<rparr>"

definition mixed_deps :: "unit fdeps" where
  "mixed_deps = cached_deps\<lparr>state_hotGet := (\<lambda>i w. ((cached_state i, i = ''A'', None), w))\<rparr>"

lemma state_env_build: "BuildGetStateTx state_env (fs_txBuilder demo_factory) \<lparr>gs_UserPublicKey = trade_user, gs_ContractID = trade_contract\<rparr> w = (Inr ''X'', w)"
  using trade_strkey(1)
  by (simp add: BuildGetStateTx_def demo_factory_def NewFactoryService_def trade_service_def NewMarketService_def NewBuilder_def
      with_invoker_def tryM_apply GetAccount_def outside_def state_env_def trade_env_simps BuildInvokeTx_def)

lemma state_env_simulate: "SimulateTransaction state_env c x w = (Ret demo_sim, w\<lparr>w_requestID := w_requestID w + 1\<rparr>)"
  by (simp add: SimulateTransaction_def call_def post_request_def Let_def tryM_apply unmarshal_result_def outside_def
      state_env_def trade_env_simps demo_sim_def)

lemma state_env_decode: "decode_state state_env demo_sim = Inr (3, 1, 5, False)"
  by (simp add: decode_state_def sim_return_def demo_sim_def ParseReturnValue_def state_env_def trade_env_simps DecodeVec_def
      i128.dec_enc bool.dec_enc numeral_eq_Suc)

lemma state_env_fetch:
  "thread_ok (\<lambda>_. True) (\<lambda>r. \<exists>st. r = Inr st) (fetchMarketState state_env demo_factory trade_contract)"
proof -
  have u: "fs_oraclePublicKey demo_factory = trade_user" by (simp add: demo_factory_def NewFactoryService_def)
  have "thread_ok (\<lambda>_. True) (\<lambda>r. \<exists>st. r = Inr st) (bindT (getMetadataHash state_env demo_factory trade_contract) (\<lambda>hash.
      case calculatePrices 3 1 of (py, pn) \<Rightarrow> Done (Inr \<lparr>st_ContractID = trade_contract, st_YesSold = 3, st_NoSold = 1, st_Pool = 5,
        st_Resolved = False, st_WinningOutcome = or_empty (Inr []), st_MetadataHash = or_empty hash, st_PriceYes = py, st_PriceNo = pn\<rparr>)))"
    by (rule thread_ok_bindT [OF thread_ok_True]) (simp split: prod.splits)
  then show ?thesis
    by (simp add: fetchMarketState_def tryT_def atomic_def u state_env_build err_first_def state_env_simulate state_env_decode)
qed

theorem GetMarketStates_complete_witness:
  "\<exists>sts. fst (GetMarketStates state_env mixed_deps [1, 0, 1] demo_factory [''A'', trade_contract] \<lparr>w_requestID = 1, w_ext = ()\<rparr>) = Inr sts
     \<and> map st_ContractID sts = [''A'', trade_contract]"
proof -
  have "cache_laws state_env mixed_deps (\<lambda>_. True) (\<lambda>i st. good_state i st)"
    by (auto simp: cache_laws_def mixed_deps_def cached_state_def zero_MarketState_def good_state_def calculatePrices_def quiet_def)
  moreover have "list_all (readable state_env mixed_deps demo_factory (\<lambda>_. True)) [''A'', trade_contract]"
    using state_env_fetch by (simp add: readable_def mixed_deps_def)
  ultimately show ?thesis
    using GetMarketStates_complete [of state_env mixed_deps "\<lambda>_. True" "\<lparr>w_requestID = 1, w_ext = ()\<rparr>" demo_factory "[''A'', trade_contract]" "[1, 0, 1]"]
    by (auto simp: trade_contract_def)
qed

text \<open>A cache that holds the state that the node gives for one market.\<close>

definition node_state :: MarketState where
  "node_state = (case fst (run_thread (fetchMarketState state_env demo_factory trade_contract) demo_world) of Inr st \<Rightarrow> st | Inl e \<Rightarrow> zero_MarketState)"

definition node_deps :: "unit fdeps" where
  "node_deps = cached_deps\<lparr>state_hotGet := (\<lambda>i w. ((node_state, i = trade_contract, None), w))\<rparr>"

lemma node_state_fetched: "fetch_gives state_env demo_factory (\<lambda>_. True) trade_contract (Inr node_state)"
proof -
  obtain r w where r: "run_thread (fetchMarketState state_env demo_factory trade_contract) demo_world = (r, w)"
    by (cases "run_thread (fetchMarketState state_env demo_factory trade_contract) demo_world")
  from run_thread_ok [OF state_env_fetch TrueI r] obtain st where st: "r = Inr st" by blast
  from run_thread_may_return [OF thread_ok_True TrueI r] show ?thesis using r st by (simp add: fetch_gives_def node_state_def)
qed

theorem GetMarketStates_every_schedule_witness:
  "\<exists>w'. GetMarketStates state_env node_deps [1, 0, 1] demo_factory [trade_contract, trade_contract] demo_world = (Inr [node_state, node_state], w')
     \<and> fetch_gives state_env demo_factory (\<lambda>_. True) trade_contract (Inr node_state) \<and> good_state trade_contract node_state"
proof -
  have c: "cache_laws state_env node_deps (\<lambda>_. True) (\<lambda>i st. fetch_gives state_env demo_factory (\<lambda>_. True) i (Inr st))"
    using node_state_fetched by (auto simp: cache_laws_def node_deps_def quiet_def)
  have i: "st_ContractID node_state = trade_contract" "trade_contract \<noteq> []"
    using fetch_gives_good [OF _ node_state_fetched] by (auto simp: quiet_def good_state_def trade_contract_def)
  obtain w' where r: "GetMarketStates state_env node_deps [1, 0, 1] demo_factory [trade_contract, trade_contract] demo_world
      = (Inr [node_state, node_state], w')"
    by (simp add: GetMarketStates_def state_worker_def atomic_def onWorld_def onShared_def StateCache_Get_def outside_def
        node_deps_def cached_deps_def i Let_def numeral_2_eq_2)
  from GetMarketStates_every_schedule [OF c _ r] show ?thesis using r i by simp
qed

section \<open>Deployment\<close>

lemma ln2_bound: "ln (2::real) < 6999 / 10000"
proof -
  let ?x = "6999 / 40000 :: real"
  have "1 + ?x + ?x\<^sup>2 / 2 \<le> exp ?x" by (rule exp_lower_Taylor_quadratic) simp
  then have "(1 + ?x + ?x\<^sup>2 / 2) ^ 4 \<le> exp ?x ^ 4" by (intro power_mono) (simp_all add: power2_eq_square)
  moreover have "exp ?x ^ 4 = exp (6999 / 10000 :: real)" by (simp add: exp_of_nat_mult [symmetric])
  moreover have "(2::real) < (1 + ?x + ?x\<^sup>2 / 2) ^ 4" by (simp add: power2_eq_square power4_eq_xxxx)
  ultimately have "2 < exp (6999 / 10000 :: real)" by linarith
  then have "ln (2::real) < ln (exp (6999 / 10000))" by (subst ln_less_cancel_iff) simp_all
  then show ?thesis by simp
qed

text \<open>The minimum funding that \<open>Validate\<close> computes, rounding included.\<close>

lemma min_funding:
  assumes "2 powi (- 1000) \<le> x"
  shows "x * (6999 / 10000) \<le> rnd (x * rnd (7/10))"
proof -
  let ?u = "2 powi (- 53) :: rat"
  have u: "0 < ?u" "?u \<le> 1 / 100000" by (simp_all add: power_int_minus)
  have x: "0 < x" using assms powi_pos [of "- 1000"] by linarith
  have "(2::rat) powi (- 1022) \<le> 2 powi (- 1)" by (simp only: powi_le_iff)
  then have "2 powi (- 1022) \<le> \<bar>7/10 :: rat\<bar>" by (simp add: power_int_minus)
  from rnd_rel_err [OF this] have c: "7/10 * (1 - ?u) \<le> rnd (7/10)" unfolding abs_le_iff by (simp add: algebra_simps)
  have "rnd (2 powi (- 1)) = 2 powi (- 1)" by (intro rnd_powi) simp
  then have half: "1/2 \<le> rnd (7/10)" by (intro f64.R_ge_fixed) (simp_all add: power_int_minus)
  have "(2::rat) powi (- 1022) \<le> 2 powi (- 1001)" by (simp only: powi_le_iff)
  also have "\<dots> = 2 powi (- 1000) * (1/2)" using powi_Suc [of "- 1001"] by simp
  also have "\<dots> \<le> x * rnd (7/10)" using assms half x by (intro mult_mono) simp_all
  finally have "2 powi (- 1022) \<le> \<bar>x * rnd (7/10)\<bar>" by simp
  from rnd_rel_err [OF this] have "x * rnd (7/10) * (1 - ?u) \<le> rnd (x * rnd (7/10))"
    using x half unfolding abs_le_iff by (simp add: algebra_simps)
  moreover have "x * (7/10 * (1 - ?u)) * (1 - ?u) \<le> x * rnd (7/10) * (1 - ?u)"
    using c x u by (intro mult_right_mono mult_left_mono) simp_all
  moreover have "x * (6999 / 10000) \<le> x * (7/10 * (1 - ?u)) * (1 - ?u)"
  proof -
    have "(1 - 1/100000) * (1 - 1/100000) \<le> (1 - ?u) * (1 - ?u)" using u by (intro mult_mono) simp_all
    moreover have "6999 / 10000 \<le> 7/10 * z" if "(1 - 1/100000) * (1 - 1/100000) \<le> z" for z :: rat
      using that by simp
    ultimately have "6999 / 10000 \<le> 7/10 * ((1 - ?u) * (1 - ?u))" by blast
    then have "x * (6999 / 10000) \<le> x * (7/10 * ((1 - ?u) * (1 - ?u)))" using x by (intro mult_left_mono) simp_all
    then show ?thesis by (simp only: mult.assoc)
  qed
  ultimately show ?thesis by linarith
qed

lemma DeployMarketRequest_Validate_funding:
  assumes v: "DeployMarketRequest_Validate r = Inr u" and x: "dq_LiquidityParam r = Fin x" "f64_ok (Fin x)"
    and y: "dq_InitialFunding r = Fin y"
  shows "0 < x" "rnd (x * rnd (7/10)) \<le> y"
proof -
  show x0: "0 < x" using v x by (auto simp: DeployMarketRequest_Validate_def split: if_splits)
  have c: "f64_const (7/10) = Fin (rnd (7/10))" "rnd (7/10) \<le> 1" "0 \<le> rnd (7/10)"
    using round64_bounded(1) [of "7/10" 0] by (simp_all add: f64_const_def f64.R_le_fixed f64.R_nonneg)
  have "x * rnd (7/10) \<le> x * 1" using c x0 by (intro mult_left_mono) simp_all
  then have "rnd (x * rnd (7/10)) \<le> x" using x by (intro f64.R_le_fixed) simp_all
  moreover have "0 \<le> rnd (x * rnd (7/10))" using x0 c by (intro f64.R_nonneg mult_nonneg_nonneg) simp_all
  ultimately have "\<bar>rnd (x * rnd (7/10))\<bar> < 2 ^ 1024" using x by (simp add: abs_less_iff del: power_numeral)
  from round64_Fin [OF this] show "rnd (x * rnd (7/10)) \<le> y"
    using v x y by (simp add: DeployMarketRequest_Validate_def c(1) Let_def not_less split: if_splits)
qed

text \<open>The funding of a request is finite and covers the worst loss \<open>b * ln 2\<close> of its market maker.\<close>

definition covers_loss :: "DeployMarketRequest \<Rightarrow> bool" where
  "covers_loss r \<longleftrightarrow> (\<exists>x y. dq_LiquidityParam r = Fin x \<and> dq_InitialFunding r = Fin y \<and> 0 < x
     \<and> (2 powi (- 1000) \<le> x \<longrightarrow> InitialLiquidity real_arith \<lparr>calc_b = of_rat x\<rparr> \<le> of_rat y))"

lemma validate_covers_loss:
  assumes "DeployMarketRequest_Validate r = Inr u" "dq_LiquidityParam r = Fin x" "f64_ok (Fin x)" "dq_InitialFunding r = Fin y"
  shows "covers_loss r"
proof -
  have x: "0 < x" and y: "rnd (x * rnd (7/10)) \<le> y" using DeployMarketRequest_Validate_funding [OF assms] by simp_all
  have "InitialLiquidity real_arith \<lparr>calc_b = of_rat x\<rparr> \<le> of_rat y" if "2 powi (- 1000) \<le> x"
  proof -
    have "x * (6999 / 10000) \<le> y" using min_funding [OF that] y by linarith
    then have "(of_rat (x * (6999 / 10000)) :: real) \<le> of_rat y" by (simp only: of_rat_less_eq)
    then have "of_rat x * (6999 / 10000) \<le> (of_rat y :: real)" by (simp add: of_rat_mult of_rat_divide)
    moreover have "of_rat x * ln 2 \<le> of_rat x * (6999 / 10000 :: real)" using ln2_bound x by (intro mult_left_mono) simp_all
    ultimately show ?thesis by (simp add: InitialLiquidity_def real_arith_def)
  qed
  with x assms show ?thesis unfolding covers_loss_def by blast
qed

lemma validate_finite:
  assumes "DeployMarketRequest_Validate r = Inr u" "dq_LiquidityParam r \<noteq> NaN" "dq_InitialFunding r \<notin> {NaN, PosInf}"
  shows "\<exists>x y. dq_LiquidityParam r = Fin x \<and> dq_InitialFunding r = Fin y"
proof -
  have c: "f64_const (7/10) = Fin (rnd (7/10))" using round64_bounded(1) [of "7/10" 0] by (simp add: f64_const_def)
  have "rnd (2 powi (- 1)) = 2 powi (- 1)" by (intro rnd_powi) simp
  then have "1/2 \<le> rnd (7/10)" by (intro f64.R_ge_fixed) (simp_all add: power_int_minus)
  then have inf: "f64_inf (rnd (7/10)) = PosInf" by (simp add: f64_inf_def)
  have "round64 z = PosInf \<or> round64 z = NegInf \<or> (\<exists>q. round64 z = Fin q)" for z by (simp add: round64_def Let_def)
  then have neg: "f64_lt NegInf (round64 z)" if "0 < z" for z
    using that rnd_nonneg [of z] by (auto simp: round64_def Let_def)
  have half: "0 < rnd (7/10)" using \<open>1/2 \<le> rnd (7/10)\<close> by linarith
  show ?thesis
    using assms inf neg half
    by (cases "dq_LiquidityParam r"; cases "dq_InitialFunding r")
      (auto simp: DeployMarketRequest_Validate_def c Let_def f64_le_def f64_eq_def not_less mult_pos_pos split: if_splits)
qed



text \<open>
  The transaction of \<open>BuildDeployMarketTx\<close> comes from the oracle,
  names it as the signer, and its only operation is \<open>deploy_market\<close> on the configured factory, with the
  oracle, the scaled liquidity parameter, the metadata hash, the scaled funding and the random salt.
\<close>

lemma svc_BuildDeployMarketTx_InrE:
  assumes sdk: "sdk_laws E" and ok: "svc_BuildDeployMarketTx E D s req w = (Inr tr, w')"
  obtains a l f salt w1 where
    "invokes E (tr_XDR tr) (fs_oraclePublicKey s) (fs_factoryContract s) ''deploy_market''
        [a, EncodeI128 l, EncodeString (dq_MetadataHash req), EncodeI128 f, EncodeBytes32 salt]"
    "EncodeAddress E (fs_oraclePublicKey s) = Inr a" "outside (rand_Read D) w = (Inr salt, w1)"
    "safeFloatToInt64 E (f64_mul (dq_LiquidityParam req) float_ScaleFactor) = Inr l"
    "safeFloatToInt64 E (f64_mul (dq_InitialFunding req) float_ScaleFactor) = Inr f"
    "DeployMarketRequest_Validate req = Inr ()" "HasFactory s" "tr_SignWith tr = fs_oraclePublicKey s"
proof -
  obtain salt w1 l f x w2 where fc: "fs_factoryContract s \<noteq> []" and v: "DeployMarketRequest_Validate req = Inr ()"
    and salt: "outside (rand_Read D) w = (Inr salt, w1)"
    and l: "safeFloatToInt64 E (f64_mul (dq_LiquidityParam req) float_ScaleFactor) = Inr l"
    and f: "safeFloatToInt64 E (f64_mul (dq_InitialFunding req) float_ScaleFactor) = Inr f"
    and b: "BuildDeployMarketTx E (fs_txBuilder s)
        \<lparr>dm_OraclePublicKey = fs_oraclePublicKey s, dm_FactoryContract = fs_factoryContract s, dm_LiquidityParam = l,
         dm_MetadataHash = dq_MetadataHash req, dm_InitialFunding = f, dm_Salt = salt\<rparr> w1 = (Inr x, w2)"
    and p: "SimulateAndPrepareTx E (fs_txBuilder s) x w2 = (Inr (tr_XDR tr), w')"
    and sg: "tr_SignWith tr = fs_oraclePublicKey s"
    using ok by (auto simp: svc_BuildDeployMarketTx_def tryM_Inr_iff split: if_splits)
  obtain a where "EncodeAddress E (fs_oraclePublicKey s) = Inr a"
    "invokes E (tr_XDR tr) (fs_oraclePublicKey s) (fs_factoryContract s) ''deploy_market''
        [a, EncodeI128 l, EncodeString (dq_MetadataHash req), EncodeI128 f, EncodeBytes32 salt]"
    using deploy.build_and_prepare [OF sdk b p] by (auto simp: tryE_Inr_iff)
  then show ?thesis using that fc v salt l f sg unfolding HasFactory_def by blast
qed

definition deploy_tx :: Transaction where
  "deploy_tx = trade_tx ''deploy_market'' [address_ScVal (account_address (replicate 32 7)), EncodeI128 20000000, EncodeString ''bafy'',
     EncodeI128 20000000, EncodeBytes32 (replicate 32 1)]"

definition deploy_prepared_tx :: Transaction where
  "deploy_prepared_tx = deploy_tx\<lparr>tx_Fee := 4342, tx_Ext := Some []\<rparr>"

definition deploy_env :: "unit env" where
  "deploy_env = trade_env\<lparr>
     xdr_MarshalEnvelope := (\<lambda>e. if e = EnvelopeTx deploy_tx then Inr ''D2'' else if e = EnvelopeTx deploy_prepared_tx then Inr ''D3''
       else Inl (ErrNew ''xdr'')),
     xdr_UnmarshalEnvelope := (\<lambda>x. if x = ''D2'' then Inr (EnvelopeTx deploy_tx) else if x = ''D3'' then Inr (EnvelopeTx deploy_prepared_tx)
       else Inl (ErrNew ''xdr''))\<rparr>"

lemma deploy_env_laws: "sdk_laws deploy_env"
  by (auto simp: sdk_laws_def deploy_env_def trade_env_def)

lemma deploy_validate: "DeployMarketRequest_Validate \<lparr>dq_LiquidityParam = Fin 2, dq_MetadataHash = ''bafy'', dq_InitialFunding = Fin 2\<rparr> = Inr ()"
proof -
  have r: "0 \<le> rnd (7/10)" "rnd (7/10) \<le> 1" by (intro f64.R_nonneg f64.R_le_fixed; simp)+
  have "rnd (2 * rnd (7/10)) \<le> 2" using r rnd_of_int [of 2] by (intro f64.R_le_fixed) simp_all
  moreover have "f64_const (7/10) = Fin (rnd (7/10))" using round64_bounded(1) [of "7/10" 0] by (simp add: f64_const_def)
  moreover have "round64 (2 * rnd (7/10)) = Fin (rnd (2 * rnd (7/10)))" using r round64_bounded(1) [of "2 * rnd (7/10)" 1] by simp
  ultimately show ?thesis by (simp add: DeployMarketRequest_Validate_def Let_def not_less)
qed

lemma deploy_runs:
  "\<exists>tr w'. svc_BuildDeployMarketTx deploy_env cached_deps demo_factory
     \<lparr>dq_LiquidityParam = Fin 2, dq_MetadataHash = ''bafy'', dq_InitialFunding = Fin 2\<rparr> demo_world = (Inr tr, w')"
proof -
  have same: "GetAccount deploy_env hc k w = (Inr (demo_account\<lparr>ac_AccountID := k\<rparr>), w)"
    "EncodeAddress deploy_env trade_user = EncodeAddress trade_env trade_user"
    "safeFloatToInt64 deploy_env (Fin 20000000) = safeFloatToInt64 trade_env (Fin 20000000)" for hc k w
    by (simp_all add: GetAccount_def outside_def EncodeAddress_def safeFloatToInt64_def deploy_env_def trade_env_simps)
  have sim: "SimulateTransaction deploy_env c x w = (Ret demo_sim, w\<lparr>w_requestID := w_requestID w + 1\<rparr>)" for c x w
    by (simp add: SimulateTransaction_def call_def post_request_def Let_def tryM_apply unmarshal_result_def outside_def
        deploy_env_def trade_env_simps demo_sim_def)
  have inv: "BuildInvokeTx deploy_env ci \<lparr>ip_SourceAccount = demo_account\<lparr>ac_AccountID := trade_user\<rparr>, ip_ContractID = trade_contract,
     ip_FunctionName = ''deploy_market'', ip_Args = [address_ScVal (account_address (replicate 32 7)), EncodeI128 20000000,
       EncodeString ''bafy'', EncodeI128 20000000, EncodeBytes32 (replicate 32 1)], ip_Auth = []\<rparr> = Inr ''D2''" for ci
    using trade_strkey(1) by (simp add: BuildInvokeTx_def deploy_env_def trade_env_simps deploy_tx_def trade_tx_def)
  have "attach_to deploy_env demo_sim [] deploy_tx = Inr ''D3''"
    by (simp add: attach_to_def demo_sim_def ParseInt64_def Let_def is_digit_def digits_val_def update_auth_def MaxUint32_def
        deploy_env_def deploy_prepared_tx_def deploy_tx_def trade_tx_def)
  then have "attach_resources deploy_env ''D2'' demo_sim = Inr ''D3''" by (simp add: attach_resources_def deploy_env_def demo_sim_def)
  moreover have "trade_contract \<noteq> []" by (simp add: trade_contract_def)
  ultimately show ?thesis
    using deploy_validate
    by (simp add: svc_BuildDeployMarketTx_def demo_factory_def NewFactoryService_def cached_deps_def outside_def
        BuildDeployMarketTx_def SimulateAndPrepareTx_def SimulateAndPrepare_def same sim inv trade_service_simps)
qed

section \<open>Nothing is submitted\<close>

text \<open>The caches and the random source keep a property of the outside.\<close>

definition deps_keep :: "'w fdeps \<Rightarrow> ('w \<Rightarrow> bool) \<Rightarrow> bool" where
  "deps_keep D P \<longleftrightarrow>
     (\<forall>i w. P w \<longrightarrow> P (snd (state_hotGet D i w))) \<and> (\<forall>i v w. P w \<longrightarrow> P (snd (state_hotSet D i v w)))
     \<and> (\<forall>i w. P w \<longrightarrow> P (snd (list_hotGet D i w))) \<and> (\<forall>i v w. P w \<longrightarrow> P (snd (list_hotSet D i v w)))
     \<and> (\<forall>w. P w \<longrightarrow> P (snd (rand_Read D w)))"

lemma deps_keep_outside:
  assumes "deps_keep D P"
  shows "preserves (\<lambda>w. P (w_ext w)) (outside (state_hotGet D i))" "preserves (\<lambda>w. P (w_ext w)) (outside (state_hotSet D i v))"
    "preserves (\<lambda>w. P (w_ext w)) (outside (list_hotGet D i))" "preserves (\<lambda>w. P (w_ext w)) (outside (list_hotSet D i ids))"
    "preserves (\<lambda>w. P (w_ext w)) (outside (rand_Read D))"
  using assms unfolding deps_keep_def by (intro preserves_outside; blast)+

lemma preserves_fetchMarketList [preserves_intros]:
  "quiet E P \<Longrightarrow> preserves (\<lambda>w. P (w_ext w)) (fetchMarketList E s)"
  unfolding fetchMarketList_def by (intro preserves_intros list_markets.build_quiet)

lemma preserves_then: "preserves P m \<Longrightarrow> (\<And>x. preserves P (k x)) \<Longrightarrow> preserves P (\<lambda>s. case m s of (x, s') \<Rightarrow> k x s')"
  unfolding preserves_def by (auto split: prod.splits)

lemma preserves_ListMarkets:
  assumes "quiet E P" "deps_keep D P" shows "preserves (\<lambda>w. P (w_ext w)) (ListMarkets E D s)"
proof -
  have store: "preserves (\<lambda>w. P (w_ext w)) (\<lambda>w2. case outside (list_hotSet D ''all'' ids) w2 of (_, w3) \<Rightarrow> (Inr ids, w3))" for ids
    using deps_keep_outside(4) [OF assms(2), of "''all''" ids] unfolding preserves_def by (auto split: prod.splits)
  have "preserves (\<lambda>w. P (w_ext w)) (\<lambda>w. case outside (list_hotGet D ''all'') w of (x, w1) \<Rightarrow>
      (case x of (ids, found, err) \<Rightarrow> \<lambda>w1. if found then (Inr ids, w1)
         else tryM (fetchMarketList E s) same (\<lambda>ids w2. case outside (list_hotSet D ''all'' ids) w2 of (_, w3) \<Rightarrow> (Inr ids, w3)) w1) w1)"
    (is "preserves _ ?m")
  proof (rule preserves_then [OF deps_keep_outside(3) [OF assms(2)]])
    fix x :: "string list \<times> bool \<times> goerr option"
    obtain ids found err where x: "x = (ids, found, err)" by (cases x)
    have "preserves (\<lambda>w. P (w_ext w)) (tryM (fetchMarketList E s) same
        (\<lambda>ids w2. case outside (list_hotSet D ''all'' ids) w2 of (_, w3) \<Rightarrow> (Inr ids, w3)))"
      using assms by (intro preserves_intros store)
    then show "preserves (\<lambda>w. P (w_ext w)) (case x of (ids, found, err) \<Rightarrow> \<lambda>w1. if found then (Inr ids, w1)
         else tryM (fetchMarketList E s) same (\<lambda>ids w2. case outside (list_hotSet D ''all'' ids) w2 of (_, w3) \<Rightarrow> (Inr ids, w3)) w1)"
      unfolding x by (simp add: preserves_def)
  qed
  moreover have "ListMarkets E D s w = (if fs_factoryContract s = [] then (Inl (Sentinel (Factory factory_ErrFactoryNotConfigured)), w)
      else ?m w)" for w
    by (simp add: ListMarkets_def split: prod.splits)
  ultimately show ?thesis by (simp add: preserves_def)
qed

lemma preserves_StateCache:
  assumes "deps_keep D P"
  shows "preserves (\<lambda>w. P (w_ext w)) (StateCache_Get D cid)" "preserves (\<lambda>w. P (w_ext w)) (StateCache_Set D cid v)"
proof -
  show "preserves (\<lambda>w. P (w_ext w)) (StateCache_Get D cid)"
    unfolding preserves_def StateCache_Get_def
    by (auto split: prod.splits dest: preservesD [OF deps_keep_outside(1) [OF assms]])
  show "preserves (\<lambda>w. P (w_ext w)) (StateCache_Set D cid v)"
    unfolding StateCache_Set_def by (rule deps_keep_outside(2) [OF assms])
qed

lemma state_worker_keeps:
  assumes "quiet E P" "deps_keep D P"
  shows "thread_ok (\<lambda>p. P (w_ext (fst p))) (\<lambda>_. True) (state_worker E D s i cid)"
proof -
  let ?P = "\<lambda>p :: 'a gms. P (w_ext (fst p))"
  have "thread_ok (\<lambda>w. P (w_ext w)) (\<lambda>_. True) (fetchMarketState E s cid)"
    by (rule thread_ok_weaken [OF fetchMarketState_ok [OF assms(1)]]) simp
  from thread_ok_liftT [OF this, of "\<lambda>_. True"] have fetch: "thread_ok ?P (\<lambda>_. True) (liftT (fetchMarketState E s cid))" by simp
  have onS: "thread_ok ?P (\<lambda>_. True) (atomic (onShared f))" for f
    by (intro thread_ok_atomic) (auto simp: onShared_def)
  have set: "thread_ok ?P (\<lambda>_. True) (atomic (onWorld (StateCache_Set D cid v)))" for v
    by (intro thread_ok_atomic) (auto simp: onWorld_def split: prod.splits dest: preservesD [OF preserves_StateCache(2) [OF assms(2)]])
  have get: "thread_ok ?P (\<lambda>_. True) (atomic (onWorld (StateCache_Get D cid)))"
    by (intro thread_ok_atomic) (auto simp: onWorld_def split: prod.splits dest: preservesD [OF preserves_StateCache(1) [OF assms(2)]])
  show ?thesis
    unfolding state_worker_def
    by (rule thread_ok_bindT [OF get])
      (auto split: prod.splits sum.splits intro!: onS thread_ok_bindT [OF fetch] thread_ok_bindT [OF set])
qed

text \<open>
  Nor does the factory service submit anything: listing the markets, fetching their states under any schedule
  and building a deployment keep every property of the outside that the caches and all requests other than
  \<open>sendTransaction\<close> keep.
\<close>

lemma preserves_factory_service:
  assumes "quiet E P" "deps_keep D P"
  shows "preserves (\<lambda>w. P (w_ext w)) (ListMarkets E D s)"
    "preserves (\<lambda>w. P (w_ext w)) (GetMarketStates E D sched s ids)"
    "preserves (\<lambda>w. P (w_ext w)) (svc_BuildDeployMarketTx E D s req)"
proof -
  show "preserves (\<lambda>w. P (w_ext w)) (ListMarkets E D s)" using assms by (rule preserves_ListMarkets)
  have "preserves (\<lambda>p :: 'a gms. P (w_ext (fst p))) (schedule sched (map (\<lambda>(i, cid). state_worker E D s i cid) (enumerate 0 ids)))"
    using state_worker_keeps [OF assms] by (intro preserves_schedule) auto
  then show "preserves (\<lambda>w. P (w_ext w)) (GetMarketStates E D sched s ids)"
    unfolding preserves_def GetMarketStates_def
    by (auto simp: Let_def split: prod.splits option.splits) (metis fst_conv snd_conv)+
  show "preserves (\<lambda>w. P (w_ext w)) (svc_BuildDeployMarketTx E D s req)"
    unfolding svc_BuildDeployMarketTx_def using assms by (intro preserves_intros deploy.build_quiet deps_keep_outside)
qed

lemma cached_deps_keep: "deps_keep (cached_deps :: 'w fdeps) P"
  by (simp add: deps_keep_def cached_deps_def)

end
