(* ===== verification/Event_Service.thy ===== *)
theory Event_Service
  imports Factory_Service
begin

text \<open>
  \<open>internal/service/events.go\<close>: the trade events of a contract, read from the RPC server, parsed and
  cached.  The cache of the library \<open>samber/hot\<close> is the record \<open>ev_deps\<close>.
\<close>

section \<open>Events\<close>

definition lookbackLedgers :: uint32 where "lookbackLedgers = 17280"

type_synonym TradeKind = string

definition TradeKindBuy :: TradeKind where "TradeKindBuy = ''buy''"
definition TradeKindSell :: TradeKind where "TradeKindSell = ''sell''"

record TradeEvent =
  te_Kind :: TradeKind
  te_User :: string
  te_Outcome :: string
  te_Amount :: float64
  te_Cost :: float64
  te_Timestamp :: time
  te_Ledger :: uint32

record EventService =
  es_sorobanClient :: Client
  es_cache :: hot_settings

definition eventCacheTTL :: int where "eventCacheTTL = 300000000000"
definition eventCacheSize :: nat where "eventCacheSize = 500"

definition NewEventService :: "Client \<Rightarrow> EventService" where
  "NewEventService sorobanClient = 
     \<lparr>es_sorobanClient = sorobanClient,
      es_cache = \<lparr>hot_Size = eventCacheSize, hot_TTL = eventCacheTTL, hot_Revalidation = None, hot_KeepOnError = False\<rparr>\<rparr>"

record 'w ev_deps =
  ev_hotGet :: "string \<Rightarrow> 'w \<Rightarrow> (TradeEvent list \<times> bool \<times> goerr option) \<times> 'w"
  ev_hotSet :: "string \<Rightarrow> TradeEvent list \<Rightarrow> 'w \<Rightarrow> unit \<times> 'w"

definition encodeSymbolBase64 :: "'w env \<Rightarrow> string \<Rightarrow> string result" where
  "encodeSymbolBase64 E s = tryE (xdr_MarshalScVal E (EncodeSymbol s)) (wrap ''failed to marshal symbol: '') Inr"

definition topic_symbol :: "'w env \<Rightarrow> ScVal \<Rightarrow> string result" where
  "topic_symbol E kindVal =
     (case sv_Sym kindVal of
        Some kind \<Rightarrow> if sv_Type kindVal = ScvSymbol then Inr kind
                     else Inl (ErrNew (''expected symbol topic, got '' @ fmt_ScValType E (sv_Type kindVal)))
      | None \<Rightarrow> Inl (ErrNew (''expected symbol topic, got '' @ fmt_ScValType E (sv_Type kindVal))))"

definition parseTradeEvent :: "'w env \<Rightarrow> ContractEvent \<Rightarrow> TradeEvent result" where
  "parseTradeEvent E evt =
     (if length (ce_Topic evt) < 3
      then Inl (ErrNew (''expected at least 3 topics, got '' @ dec_int (int (length (ce_Topic evt)))))
      else
      tryE (ParseReturnValue E (ce_Topic evt ! 0)) (wrap ''failed to parse kind topic: '') (\<lambda>kindVal.
      tryE (topic_symbol E kindVal) same (\<lambda>kind.
      tryE (ParseReturnValue E (ce_Topic evt ! 1)) (wrap ''failed to parse user topic: '') (\<lambda>userVal.
      tryE (DecodeAddress E userVal) (wrap ''failed to decode user address: '') (\<lambda>user.
      tryE (ParseReturnValue E (ce_Topic evt ! 2)) (wrap ''failed to parse outcome topic: '') (\<lambda>outcomeVal.
      tryE (DecodeU32 outcomeVal) (wrap ''failed to decode outcome: '') (\<lambda>outcomeU32.
      tryE (U32ToOutcome outcomeU32) (wrap ''failed to convert outcome: '') (\<lambda>outcome.
      tryE (ParseReturnValue E (ce_Value evt)) (wrap ''failed to parse event data: '') (\<lambda>dataVal.
      tryE (DecodeVec E dataVal) (wrap ''failed to decode event data tuple: '') (\<lambda>dataTuple.
      if length dataTuple < 2
      then Inl (ErrNew (''expected 2 data elements, got '' @ dec_int (int (length dataTuple))))
      else
      tryE (DecodeI128 (dataTuple ! 0)) (wrap ''failed to decode amount: '') (\<lambda>amount.
      tryE (DecodeI128 (dataTuple ! 1)) (wrap ''failed to decode cost: '') (\<lambda>cost.
      tryE (time_ParseRFC3339 E (ce_LedgerClosedAt evt))
           (wrap (''failed to parse ledger close time '' @ fmt_q E (ce_LedgerClosedAt evt) @ '': '')) (\<lambda>ts.
      Inr \<lparr>te_Kind = kind, te_User = user, te_Outcome = outcome,
           te_Amount = f64_div (f64_of_int64 amount) float_ScaleFactor,
           te_Cost = f64_div (f64_of_int64 cost) float_ScaleFactor,
           te_Timestamp = ts, te_Ledger = ce_Ledger evt\<rparr>)))))))))))))"

text \<open>The variables of the loop over the events of the answer.\<close>

record parse_state =
  ps_events :: "TradeEvent list"
  ps_parseErrors :: nat
  ps_lastParseErr :: "goerr option"
  ps_successfulEvents :: nat

definition parse_step :: "'w env \<Rightarrow> ContractEvent \<Rightarrow> parse_state \<Rightarrow> parse_state" where
  "parse_step E evt s =
     (if \<not> ce_InSuccessfulContractCall evt then s
      else let s' = s\<lparr>ps_successfulEvents := ps_successfulEvents s + 1\<rparr> in
        case parseTradeEvent E evt of
          Inl err \<Rightarrow> s'\<lparr>ps_parseErrors := ps_parseErrors s' + 1, ps_lastParseErr := Some err\<rparr>
        | Inr parsed \<Rightarrow> s'\<lparr>ps_events := ps_events s' @ [parsed]\<rparr>)"

definition collect_events :: "'w env \<Rightarrow> ContractEvent list \<Rightarrow> TradeEvent list result" where
  "collect_events E evts =
     (let s = fold (parse_step E) evts \<lparr>ps_events = [], ps_parseErrors = 0, ps_lastParseErr = None, ps_successfulEvents = 0\<rparr> in
      if ps_parseErrors s > 0 \<and> ps_events s = [] \<and> ps_successfulEvents s > 0
      then Inl (case ps_lastParseErr s of
                  Some e \<Rightarrow> wrap (''all '' @ dec_nat (ps_parseErrors s) @ '' events failed to parse: '') e
                | None \<Rightarrow> ErrNew (''all '' @ dec_nat (ps_parseErrors s) @ '' events failed to parse: %!w(<nil>)''))
      else Inr (ps_events s))"

definition event_params :: "uint32 \<Rightarrow> string \<Rightarrow> string \<Rightarrow> string \<Rightarrow> GetEventsParams" where
  "event_params startLedger contractID buyTopicXDR sellTopicXDR =
     \<lparr>ge_StartLedger = startLedger,
      ge_Filters = [\<lparr>ef_Type = ''contract'', ef_ContractIDs = [contractID], ef_Topics = [[buyTopicXDR, ''*'', ''*'']]\<rparr>,
                    \<lparr>ef_Type = ''contract'', ef_ContractIDs = [contractID], ef_Topics = [[sellTopicXDR, ''*'', ''*'']]\<rparr>],
      ge_Pagination = Some \<lparr>ep_Limit = 200, ep_Cursor = []\<rparr>\<rparr>"

definition start_ledger :: "uint32 \<Rightarrow> uint32" where
  "start_ledger sequence = (if sequence > lookbackLedgers then sequence - lookbackLedgers else 0)"

definition fetchEvents :: "'w env \<Rightarrow> EventService \<Rightarrow> string \<Rightarrow> ('w, TradeEvent list) act" where
  "fetchEvents E s contractID =
     tryM (GetLatestLedger E (es_sorobanClient s)) (wrap ''failed to get latest ledger: '') (\<lambda>latestLedger.
     tryM (liftM (encodeSymbolBase64 E ''buy'')) (wrap ''failed to encode buy topic: '') (\<lambda>buyTopicXDR.
     tryM (liftM (encodeSymbolBase64 E ''sell'')) (wrap ''failed to encode sell topic: '') (\<lambda>sellTopicXDR.
     tryM (GetEvents E (es_sorobanClient s) (event_params (start_ledger (ll_Sequence latestLedger)) contractID buyTopicXDR sellTopicXDR))
          (wrap ''failed to get events: '') (\<lambda>result.
     liftM (collect_events E (ger_Events result))))))"

text \<open>\<open>slices.Clone\<close> copies, so that the cached slice is not shared with the caller.\<close>

definition GetTradeEvents :: "'w env \<Rightarrow> 'w ev_deps \<Rightarrow> EventService \<Rightarrow> string \<Rightarrow> ('w, TradeEvent list) act" where
  "GetTradeEvents E D s contractID w =
     (case outside (ev_hotGet D contractID) w of ((cached, found, err), w1) \<Rightarrow>
        (if found \<and> err = None then (Inr cached, w1)
         else tryM (fetchEvents E s contractID) same (\<lambda>events w2.
              case outside (ev_hotSet D contractID events) w2 of (_, w3) \<Rightarrow> (Inr events, w3)) w1))"

section \<open>What is reported\<close>

text \<open>The events that belong to successful calls and parse, in order.\<close>

definition parsed_events :: "'w env \<Rightarrow> ContractEvent list \<Rightarrow> TradeEvent list" where
  "parsed_events E evts = concat (map (\<lambda>evt. if ce_InSuccessfulContractCall evt
     then (case parseTradeEvent E evt of Inl e \<Rightarrow> [] | Inr x \<Rightarrow> [x]) else []) evts)"

lemma fold_parse_step:
  "ps_events (fold (parse_step E) evts s) = ps_events s @ parsed_events E evts
   \<and> ps_parseErrors (fold (parse_step E) evts s) =
       ps_parseErrors s + length (filter (\<lambda>evt. ce_InSuccessfulContractCall evt \<and> (\<exists>e. parseTradeEvent E evt = Inl e)) evts)
   \<and> ps_successfulEvents (fold (parse_step E) evts s) = ps_successfulEvents s + length (filter ce_InSuccessfulContractCall evts)"
  by (induction evts arbitrary: s) (auto simp: parse_step_def parsed_events_def Let_def split: sum.splits)

lemma parseTradeEvent_outcome: "parseTradeEvent E evt = Inr x \<Longrightarrow> te_Outcome x \<in> {''YES'', ''NO''} \<and> te_Ledger x = ce_Ledger evt"
  by (auto simp: parseTradeEvent_def tryE_Inr_iff U32ToOutcome_def split: if_splits)

lemma parsed_events_Nil:
  "parsed_events E evts = [] \<longleftrightarrow> (\<forall>evt \<in> set evts. ce_InSuccessfulContractCall evt \<longrightarrow> (\<exists>e. parseTradeEvent E evt = Inl e))"
  by (induction evts) (auto simp: parsed_events_def split: sum.splits)

lemma collect_events_Inl:
  "(\<exists>e. collect_events E evts = Inl e) \<longleftrightarrow> (\<exists>evt \<in> set evts. ce_InSuccessfulContractCall evt) \<and> parsed_events E evts = []"
proof -
  let ?s0 = "\<lparr>ps_events = [], ps_parseErrors = 0, ps_lastParseErr = None, ps_successfulEvents = 0\<rparr>"
  have "(\<exists>e. collect_events E evts = Inl e) \<longleftrightarrow>
      filter (\<lambda>evt. ce_InSuccessfulContractCall evt \<and> (\<exists>e. parseTradeEvent E evt = Inl e)) evts \<noteq> []
      \<and> parsed_events E evts = [] \<and> filter ce_InSuccessfulContractCall evts \<noteq> []"
    using fold_parse_step [of E evts ?s0] by (simp add: collect_events_def Let_def)
  also have "\<dots> \<longleftrightarrow> (\<exists>evt \<in> set evts. ce_InSuccessfulContractCall evt) \<and> parsed_events E evts = []"
    unfolding parsed_events_Nil filter_empty_conv by blast
  finally show ?thesis .
qed

lemma collect_events_Inr: "collect_events E evts = Inr xs \<Longrightarrow> xs = parsed_events E evts"
  using fold_parse_step [of E evts "\<lparr>ps_events = [], ps_parseErrors = 0, ps_lastParseErr = None, ps_successfulEvents = 0\<rparr>"]
  by (auto simp: collect_events_def Let_def split: if_splits)

lemma fetchEvents_InrE:
  assumes "fetchEvents E s cid w = (Inr events, w')"
  obtains ll w1 b sl r where "GetLatestLedger E (es_sorobanClient s) w = (Inr ll, w1)"
    "GetEvents E (es_sorobanClient s) (event_params (start_ledger (ll_Sequence ll)) cid b sl) w1 = (Inr r, w')"
    "events = parsed_events E (ger_Events r)"
  using assms by (auto simp: fetchEvents_def tryM_Inr_iff dest!: collect_events_Inr)

text \<open>
  C31 (fetchEvents_exact): the reported events are exactly the events of the server's answer that belong to
  successful contract calls and parse, in its order; each has a valid outcome.  The request starts 17280
  ledgers back, or at zero on a younger chain, without wrapping around.  Parsing fails as a whole exactly when
  some event of a successful call was seen and none of them parsed.
\<close>

theorem fetchEvents_exact:
  "(fetchEvents E s cid w = (Inr events, w') \<longrightarrow>
      (\<exists>ll w1 b sl r. GetLatestLedger E (es_sorobanClient s) w = (Inr ll, w1)
         \<and> GetEvents E (es_sorobanClient s) (event_params (start_ledger (ll_Sequence ll)) cid b sl) w1 = (Inr r, w')
         \<and> events = parsed_events E (ger_Events r) \<and> list_all (\<lambda>x. te_Outcome x \<in> {''YES'', ''NO''}) events))
   \<and> uint (start_ledger sq) = max 0 (uint sq - 17280)
   \<and> ((\<exists>e. collect_events E evts = Inl e) \<longleftrightarrow> (\<exists>evt \<in> set evts. ce_InSuccessfulContractCall evt) \<and> parsed_events E evts = [])"
proof (intro conjI)
  have outs: "list_all (\<lambda>x. te_Outcome x \<in> {''YES'', ''NO''}) (parsed_events E evts)" for evts
    using parseTradeEvent_outcome [of E] by (auto simp: list_all_iff parsed_events_def split: sum.splits if_splits)
  then show "fetchEvents E s cid w = (Inr events, w') \<longrightarrow>
      (\<exists>ll w1 b sl r. GetLatestLedger E (es_sorobanClient s) w = (Inr ll, w1)
         \<and> GetEvents E (es_sorobanClient s) (event_params (start_ledger (ll_Sequence ll)) cid b sl) w1 = (Inr r, w')
         \<and> events = parsed_events E (ger_Events r) \<and> list_all (\<lambda>x. te_Outcome x \<in> {''YES'', ''NO''}) events)"
    by (blast elim: fetchEvents_InrE)
  show "uint (start_ledger sq) = max 0 (uint sq - 17280)"
    by (auto simp: start_ledger_def lookbackLedgers_def word_less_def uint_sub_if')
qed (rule collect_events_Inl)

section \<open>Nothing is submitted\<close>

text \<open>The cache keeps \<open>P\<close> of the outside, for lists of events with \<open>G\<close>; and those that are fetched have it.\<close>

definition ev_keep :: "(TradeEvent list \<Rightarrow> bool) \<Rightarrow> 'w ev_deps \<Rightarrow> ('w \<Rightarrow> bool) \<Rightarrow> bool" where
  "ev_keep G D P \<longleftrightarrow> (\<forall>i w. P w \<longrightarrow> P (snd (ev_hotGet D i w))) \<and> (\<forall>i v w. P w \<and> G v \<longrightarrow> P (snd (ev_hotSet D i v w)))"

definition fetched :: "(TradeEvent list \<Rightarrow> bool) \<Rightarrow> 'w env \<Rightarrow> bool" where
  "fetched G E \<longleftrightarrow> (\<forall>s cid w events w'. fetchEvents E s cid w = (Inr events, w') \<longrightarrow> G events)"

lemma fetched_True [simp]: "fetched (\<lambda>_. True) E"
  by (simp add: fetched_def)

lemma preserves_GetTradeEvents:
  assumes "quiet E P" "ev_keep G D P" "fetched G E" shows "preserves (\<lambda>w. P (w_ext w)) (GetTradeEvents E D s cid)"
proof -
  have f: "preserves (\<lambda>w. P (w_ext w)) (fetchEvents E s cid)"
    unfolding fetchEvents_def using assms(1) by (intro preserves_intros)
  have get: "preserves (\<lambda>w. P (w_ext w)) (outside (ev_hotGet D cid))"
    "\<And>v. G v \<Longrightarrow> preserves (\<lambda>w. P (w_ext w)) (outside (ev_hotSet D cid v))"
    using assms(2) unfolding ev_keep_def by (intro preserves_outside; blast)+
  have G: "G events" if "fetchEvents E s cid w = (Inr events, w')" for w events w'
    using assms(3) that unfolding fetched_def by blast
  show ?thesis
    unfolding preserves_def GetTradeEvents_def
    by (auto simp: tryM_apply split: prod.splits sum.splits dest: preservesD [OF get(1)] preservesD [OF f])
      (metis preservesD [OF get(1)] preservesD [OF get(2)] preservesD [OF f] G)+
qed

text \<open>As many events as the node returned, at most.\<close>

lemma length_parsed_events: "length (parsed_events E evts) \<le> length evts"
  by (induction evts) (auto simp: parsed_events_def split: sum.splits)

lemma fetched_length:
  assumes "\<And>x r. json_Events E x = Inr r \<Longrightarrow> length (ger_Events r) \<le> n"
  shows "fetched (\<lambda>events. length events \<le> n) E"
proof -
  have "length (ger_Events r) \<le> n" if "GetEvents E c p w = (Inr r, w')" for c p w r w'
    using that assms by (auto simp: GetEvents_def tryM_Inr_iff unmarshal_result_def)
  then show ?thesis
    unfolding fetched_def using length_parsed_events [of E] by (blast elim: fetchEvents_InrE intro: order_trans)
qed

definition demo_event :: ContractEvent where
  "demo_event = \<lparr>ce_Type = ''contract'', ce_Ledger = 42, ce_LedgerClosedAt = ''2025-01-01T00:00:00Z'', ce_ContractID = ''C'', ce_ID = ''1'',
     ce_PagingToken = [], ce_InSuccessfulContractCall = True, ce_Topic = [''k'', ''u'', ''n''], ce_Value = ''v''\<rparr>"

definition event_env :: "unit env" where
  "event_env = demo_env\<lparr>
     json_LatestLedger := (\<lambda>_. Inr \<lparr>ll_ID = [], ll_ProtocolVersion = 22, ll_Sequence = 20000\<rparr>),
     json_Events := (\<lambda>_. Inr \<lparr>ger_Events = [demo_event, demo_event\<lparr>ce_Topic := []\<rparr>], ger_LatestLedger = 20000\<rparr>),
     xdr_MarshalScVal := (\<lambda>_. Inr ''AAAA''),
     base64_Decode := (\<lambda>s. Inr (if s = ''k'' then [1] else if s = ''u'' then [2] else if s = ''n'' then [3] else [4])),
     xdr_UnmarshalScVal := (\<lambda>b. Inr (if b = [1] then EncodeSymbol ''buy'' else if b = [2] then address_ScVal (account_address (replicate 32 7))
       else if b = [3] then EncodeU32 0 else ScVal ScvVec None None None None None None
         (Some (Some [EncodeI128 20000000, EncodeI128 5000000])) None)),
     time_ParseRFC3339 := (\<lambda>_. Inr 1735689600000000000)\<rparr>"

lemma demo_event_parses: "\<exists>x. parseTradeEvent event_env demo_event = Inr x"
  by (simp add: parseTradeEvent_def demo_event_def ParseReturnValue_def event_env_def demo_env_def key_env_def topic_symbol_def
      EncodeSymbol_def DecodeAddress_def address_ScVal_def account_address_def u32.dec_enc i128.dec_enc U32ToOutcome_def OutcomeYes32_def
      DecodeVec_def)

theorem fetchEvents_exact_witness:
  "\<exists>x w'. fetchEvents event_env (NewEventService demo_client) ''C'' demo_world = (Inr [x], w') \<and> te_Outcome x \<in> {''YES'', ''NO''}
     \<and> uint (start_ledger 20000) = 2720"
proof -
  obtain x where x: "parseTradeEvent event_env demo_event = Inr x" using demo_event_parses by blast
  have bad: "\<exists>e. parseTradeEvent event_env (demo_event\<lparr>ce_Topic := []\<rparr>) = Inl e" by (simp add: parseTradeEvent_def)
  have c: "collect_events event_env [demo_event, demo_event\<lparr>ce_Topic := []\<rparr>] = Inr [x]"
    using x bad by (auto simp: collect_events_def parse_step_def Let_def demo_event_def)
  obtain w' where r: "fetchEvents event_env (NewEventService demo_client) ''C'' demo_world = (Inr [x], w')"
    using c by (simp add: fetchEvents_def GetLatestLedger_def GetEvents_def call_def post_request_def Let_def tryM_apply unmarshal_result_def
        outside_def encodeSymbolBase64_def event_env_def demo_env_def key_env_def null_env_def NewEventService_def)
  have "list_all (\<lambda>x. te_Outcome x \<in> {''YES'', ''NO''}) [x]" "uint (start_ledger 20000) = max 0 (uint (20000 :: uint32) - 17280)"
    using fetchEvents_exact [of event_env "NewEventService demo_client" "''C''" demo_world "[x]" w' 20000 "[]"] r by blast+
  then show ?thesis using r by simp
qed

end
