(* ===== verification/Chart.thy ===== *)
theory Chart
  imports Model
begin

text \<open>
  \<open>internal/chart/ascii.go\<close>: the text charts of the market page.  A rune of the canvas is its UTF-8
  encoding, so that \<open>string(row)\<close> is \<open>concat\<close>.  A run-time panic is \<open>None\<close>: \<open>make\<close> with a negative length, a
  slice expression out of range, \<open>strings.Repeat\<close> with a negative count.  The argument \<open>impl\<close> is the
  implementation-defined result of an overflowing conversion of a float to an integer.  Times are instants and
  are printed in UTC, the zone in which the RPC server reports them.
\<close>

section \<open>Characters and widths\<close>

definition DefaultWidth :: int where "DefaultWidth = 60"
definition DefaultHeight :: int where "DefaultHeight = 15"

definition FullBlock :: string where "FullBlock = [CHR 0xE2, CHR 0x96, CHR 0x88]"
definition LightShade :: string where "LightShade = [CHR 0xE2, CHR 0x96, CHR 0x91]"
definition VerticalBar :: string where "VerticalBar = [CHR 0xE2, CHR 0x94, CHR 0x82]"
definition HorizontalBar :: string where "HorizontalBar = [CHR 0xE2, CHR 0x94, CHR 0x80]"
definition Corner :: string where "Corner = [CHR 0xE2, CHR 0x94, CHR 0x94]"
definition Newline :: string where "Newline = [CHR 0x0A]"

definition Repeat :: "string \<Rightarrow> int \<Rightarrow> string option" where
  "Repeat s n = (if n < 0 then None else Some (concat (replicate (nat n) s)))"

definition f64_of_len :: "int \<Rightarrow> float64" where
  "f64_of_len n = f64_of_int64 (word_of_int n)"

text \<open>\<open>t.Format("15:04")\<close> for an instant in UTC, in nanoseconds since 1970.\<close>

definition two_digits :: "nat \<Rightarrow> string" where
  "two_digits n = (if n < 10 then ''0'' @ dec_nat n else dec_nat n)"

definition Format_1504 :: "time \<Rightarrow> string" where
  "Format_1504 t = two_digits (nat (t div 3600000000000 mod 24)) @ '':'' @ two_digits (nat (t div 60000000000 mod 60))"

section \<open>Sampling\<close>

text \<open>\<open>points[idx]\<close> with the guard of the loop; a negative index panics.\<close>

definition sample_at :: "(float64 \<Rightarrow> int64) \<Rightarrow> PricePoint list \<Rightarrow> float64 \<Rightarrow> nat \<Rightarrow> PricePoint option" where
  "sample_at impl points step i =
     (let idx = sint (f64_to_int64 impl (f64_mul (f64_of_len (int i)) step));
          idx = (if idx \<ge> int (length points) then int (length points) - 1 else idx)
      in if idx < 0 then None else Some (points ! nat idx))"

fun sample_loop :: "(float64 \<Rightarrow> int64) \<Rightarrow> PricePoint list \<Rightarrow> float64 \<Rightarrow> nat list \<Rightarrow> PricePoint list option" where
  "sample_loop impl points step [] = Some []"
| "sample_loop impl points step (i # is) =
     (case sample_at impl points step i of None \<Rightarrow> None
      | Some p \<Rightarrow> map_option (\<lambda>ps. p # ps) (sample_loop impl points step is))"

definition samplePoints :: "(float64 \<Rightarrow> int64) \<Rightarrow> PricePoint list \<Rightarrow> int \<Rightarrow> PricePoint list option" where
  "samplePoints impl points targetCount =
     (if int (length points) \<le> targetCount then Some points
      else if targetCount < 0 then None
      else let step = f64_div (f64_of_len (int (length points))) (f64_of_len targetCount)
           in sample_loop impl points step [0..<nat targetCount])"

section \<open>The price chart\<close>

type_synonym canvas = "string list list"

definition set_cell :: "nat \<Rightarrow> nat \<Rightarrow> string \<Rightarrow> canvas \<Rightarrow> canvas" where
  "set_cell y x v c = c[y := (c ! y)[x := v]]"

definition draw_below :: "nat \<Rightarrow> nat \<Rightarrow> canvas \<Rightarrow> canvas" where
  "draw_below x yy c = (if c ! yy ! x = '' '' then set_cell yy x VerticalBar c else c)"

definition labelWidth :: int where "labelWidth = 6"
definition minPrice :: float64 where "minPrice = f64_const 0"
definition maxPrice :: float64 where "maxPrice = f64_const 1"

text \<open>The row of a point, in the 64-bit integers of the code.\<close>

definition point_row :: "(float64 \<Rightarrow> int64) \<Rightarrow> int \<Rightarrow> PricePoint \<Rightarrow> int" where
  "point_row impl height point =
     (let normalizedPrice = f64_div (f64_sub (pp_PriceYes point) minPrice) (f64_sub maxPrice minPrice)
      in sint ((word_of_int (height - 1) :: int64) - f64_to_int64 impl (f64_mul normalizedPrice (f64_of_len (height - 1)))))"

definition plot_point :: "(float64 \<Rightarrow> int64) \<Rightarrow> int \<Rightarrow> int \<Rightarrow> nat \<times> PricePoint \<Rightarrow> canvas \<Rightarrow> canvas" where
  "plot_point impl width height ip c =
     (let y = point_row impl height (snd ip); x = labelWidth + int (fst ip)
      in if y \<ge> 0 \<and> y < height \<and> x < width
         then fold (draw_below (nat x)) [Suc (nat y)..<nat height] (set_cell (nat y) (nat x) FullBlock c)
         else c)"

definition row_label :: "int \<Rightarrow> nat \<Rightarrow> string" where
  "row_label height i =
     (let price = f64_sub maxPrice (f64_mul (f64_div (f64_of_len (int i)) (f64_of_len (height - 1))) (f64_sub maxPrice minPrice))
      in pad_left 4 (fmt_fixed 0 (f64_mul price (f64_const 100))) @ ''%'')"

text \<open>The text built from the canvas.\<close>

definition chart_text :: "PricePoint list \<Rightarrow> int \<Rightarrow> int \<Rightarrow> (nat \<Rightarrow> string) \<Rightarrow> string" where
  "chart_text points width height row =
     (let dataWidth = width - labelWidth;
          first = Format_1504 (pp_Timestamp (hd points));
          last = Format_1504 (pp_Timestamp (last points));
          padding = max 0 (dataWidth - int (length first) - int (length last))
      in ''YES Price (Probability)'' @ Newline @ concat (replicate (nat width) HorizontalBar) @ Newline
         @ concat (map (\<lambda>i. row_label height i @ '' '' @ VerticalBar @ row i @ Newline) [0..<nat height])
         @ replicate (nat labelWidth) (CHR '' '') @ Corner @ concat (replicate (nat dataWidth) HorizontalBar) @ Newline
         @ replicate (nat (labelWidth + 1)) (CHR '' '') @ first @ replicate (nat padding) (CHR '' '') @ last @ Newline)"

definition RenderPriceChart :: "(float64 \<Rightarrow> int64) \<Rightarrow> PricePoint list \<Rightarrow> int \<Rightarrow> int \<Rightarrow> string option" where
  "RenderPriceChart impl points width height =
     (if points = [] then Some ''No price data available''
      else let width = (if width \<le> 0 then DefaultWidth else width);
               height = (if height \<le> 0 then DefaultHeight else height);
               canvas = replicate (nat height) (replicate (nat width) '' '');
               dataWidth = width - labelWidth
           in case samplePoints impl points dataWidth of None \<Rightarrow> None
              | Some sampledPoints \<Rightarrow>
                  let canvas = fold (plot_point impl width height) (List.enumerate 0 sampledPoints) canvas
                  in if dataWidth < 0 then None
                     else Some (chart_text points width height (\<lambda>i. concat (drop (nat labelWidth) (canvas ! i)))))"

section \<open>The bar and the sample history\<close>

definition RenderSimpleBar :: "(float64 \<Rightarrow> int64) \<Rightarrow> float64 \<Rightarrow> float64 \<Rightarrow> int \<Rightarrow> string option" where
  "RenderSimpleBar impl priceYes priceNo width =
     (let width = (if width \<le> 0 then 50 else width);
          yesWidth = sint (f64_to_int64 impl (f64_mul priceYes (f64_of_len width)));
          noWidth = sint ((word_of_int width :: int64) - word_of_int yesWidth)
      in case (Repeat FullBlock yesWidth, Repeat LightShade noWidth, Repeat LightShade yesWidth, Repeat FullBlock noWidth) of
           (Some yy, Some yn, Some ny, Some nn) \<Rightarrow>
             Some (''YES '' @ pad_left 5 (fmt_fixed 1 (f64_mul priceYes (f64_const 100))) @ ''% '' @ yy @ yn @ Newline
               @ ''NO  '' @ pad_left 5 (fmt_fixed 1 (f64_mul priceNo (f64_const 100))) @ ''% '' @ ny @ nn @ Newline)
         | _ \<Rightarrow> None)"

definition history_price :: "nat \<Rightarrow> float64 \<Rightarrow> float64" where
  "history_price i price =
     (let change = f64_div (f64_sub (f64_of_len (int (i mod 7))) (f64_const 3)) (f64_const 100);
          price = f64_add price change;
          price = (if f64_lt price (f64_const (5/100)) then f64_const (5/100) else price)
      in if f64_lt (f64_const (95/100)) price then f64_const (95/100) else price)"

text \<open>\<open>nows\<close> are the successive readings of the clock.\<close>

fun history_loop :: "int \<Rightarrow> nat \<Rightarrow> float64 \<Rightarrow> time list \<Rightarrow> PricePoint list" where
  "history_loop hours i price [] = []"
| "history_loop hours i price (now # nows) =
     (let price = history_price i price
      in \<lparr>pp_Timestamp = now - (hours - int i) * 3600000000000, pp_PriceYes = price\<rparr> # history_loop hours (Suc i) price nows)"

definition GenerateSampleHistory :: "(nat \<Rightarrow> time) \<Rightarrow> int \<Rightarrow> float64 \<Rightarrow> PricePoint list option" where
  "GenerateSampleHistory clock hours startPrice =
     (if hours < 0 then None else Some (history_loop hours 0 startPrice (map clock [0..<nat hours])))"

section \<open>Sampling never leaves the slice\<close>

lemma f64_of_len_exact: "0 \<le> n \<Longrightarrow> n \<le> 2 ^ 31 \<Longrightarrow> f64_of_len n = Fin (of_int n)"
  using f64_of_int64_exact [of "word_of_int n"] by (simp add: f64_of_len_def sint_word_of_int64)

lemma round64_between:
  assumes "0 \<le> x" "x \<le> 2 powi k" "- 1074 \<le> k" "k < 1024"
  shows "round64 x = Fin (rnd x)" "0 \<le> rnd x" "rnd x \<le> 2 powi k"
  using round64_bounded [of x k] assms rnd_nonneg [of x] by auto

lemma f64_to_int64_nonneg:
  assumes "0 \<le> x" "x \<le> 2 powi 62"
  shows "sint (f64_to_int64 impl (Fin x)) = \<lfloor>x\<rfloor>" "0 \<le> \<lfloor>x\<rfloor>"
    "f64_to_int64 impl (Fin x) = word_of_int \<lfloor>x\<rfloor>"
proof -
  have "x \<le> of_int (2 ^ 62)" using assms(2) by simp
  then have "\<lfloor>x\<rfloor> \<le> 2 ^ 62" by linarith
  moreover show "0 \<le> \<lfloor>x\<rfloor>" using assms(1) by simp
  ultimately show "sint (f64_to_int64 impl (Fin x)) = \<lfloor>x\<rfloor>"
    "f64_to_int64 impl (Fin x) = word_of_int \<lfloor>x\<rfloor>"
    using f64_to_int64_Fin [of x impl] assms(1) by (simp_all add: rat_trunc_def f64_to_int64_def)
qed

text \<open>The sampled points, without the machine integers: one point of each of the equal parts of the history.\<close>

definition sample_index :: "nat \<Rightarrow> int \<Rightarrow> nat \<Rightarrow> nat" where
  "sample_index n t i = min (n - 1) (nat \<lfloor>rnd (of_nat i * rnd (of_nat n / of_int t))\<rfloor>)"

definition reference_samples :: "PricePoint list \<Rightarrow> int \<Rightarrow> PricePoint list" where
  "reference_samples points t =
     (if int (length points) \<le> t then points else map (\<lambda>i. points ! sample_index (length points) t i) [0..<nat t])"

lemma sample_index_mono:
  assumes "0 \<le> t" "i \<le> j" shows "sample_index n t i \<le> sample_index n t j"
proof -
  have "0 \<le> rnd (of_nat n / of_int t)" using assms(1) by (intro rnd_nonneg) simp
  then have "rnd (of_nat i * rnd (of_nat n / of_int t)) \<le> rnd (of_nat j * rnd (of_nat n / of_int t))"
    using assms(2) by (intro rnd_mono mult_right_mono) simp_all
  then have "nat \<lfloor>rnd (of_nat i * rnd (of_nat n / of_int t))\<rfloor> \<le> nat \<lfloor>rnd (of_nat j * rnd (of_nat n / of_int t))\<rfloor>"
    by (intro nat_mono floor_mono)
  then show ?thesis unfolding sample_index_def by (rule min.mono [OF order_refl])
qed

lemma sample_index_start: "sample_index n t 0 = 0"
  by (simp add: sample_index_def)

lemma sample_index_less: "0 < n \<Longrightarrow> sample_index n t i < n"
  by (simp add: sample_index_def)

lemma sample_at_in_range:
  assumes "length points \<le> 2 ^ 31" "0 < t" "t < int (length points)" "int i < t"
  shows "sample_at impl points (f64_div (f64_of_len (int (length points))) (f64_of_len t)) i =
    Some (points ! sample_index (length points) t i)"
proof -
  let ?n = "of_int (int (length points)) :: rat"
  have n: "?n \<le> 2 powi 31" using assms(1) by (simp add: power_int_def)
  have q: "0 \<le> ?n / of_int t" "?n / of_int t \<le> 2 powi 31"
    using assms(2) n by (auto simp: divide_le_eq intro: order_trans [OF n] mult_right_mono [of 1 "of_int t" "2 powi 31", simplified])
  note s = round64_between [OF q]
  have lens: "f64_of_len (int (length points)) = Fin ?n" "f64_of_len t = Fin (of_int t)" "f64_of_len (int i) = Fin (of_int (int i))"
    by (rule f64_of_len_exact; use assms in simp)+
  have i: "of_int (int i) \<le> (2 powi 31 :: rat)" using assms n by (metis less_imp_le of_int_le_iff order_trans)
  have pb: "0 \<le> of_int (int i) * rnd (?n / of_int t)" "of_int (int i) * rnd (?n / of_int t) \<le> 2 powi 62"
    using mult_mono [OF i s(3)] s(2) by (auto simp flip: power_int_add)
  note r = round64_between [OF pb]
  have m: "f64_mul (f64_of_len (int i)) (f64_div (f64_of_len (int (length points))) (f64_of_len t)) =
      Fin (rnd (of_int (int i) * rnd (?n / of_int t)))"
    using assms(2) s(1) r(1) by (simp only: lens f64_div.simps f64_mul.simps) simp
  note idx = f64_to_int64_nonneg [OF r(2,3)]
  define k where "k = \<lfloor>rnd (of_int (int i) * rnd (?n / of_int t))\<rfloor>"
  have k: "sample_index (length points) t i = min (length points - 1) (nat k)" "0 \<le> k"
    using idx(2) by (simp_all add: sample_index_def k_def)
  have "nat (int (length points) - 1) = min (length points - 1) (nat k)" if "int (length points) \<le> k" using that by linarith
  moreover have "nat k = min (length points - 1) (nat k)" if "k < int (length points)" using that k(2) by linarith
  ultimately show ?thesis using idx(1) k assms unfolding sample_at_def Let_def m k_def [symmetric] by auto
qed

lemma sample_loop_map:
  "(\<And>i. i \<in> set is \<Longrightarrow> sample_at impl points step i = Some (f i)) \<Longrightarrow> sample_loop impl points step is = Some (map f is)"
  by (induction "is") simp_all

lemma samplePoints_reference:
  assumes "length points \<le> 2 ^ 31" "0 \<le> t"
  shows "samplePoints impl points t = Some (reference_samples points t)"
proof (cases "int (length points) \<le> t")
  case False
  let ?step = "f64_div (f64_of_len (int (length points))) (f64_of_len t)"
  have "sample_at impl points ?step i = Some (points ! sample_index (length points) t i)" if "i \<in> set [0..<nat t]" for i
    using sample_at_in_range [of points t i impl] that assms False by auto
  then have "sample_loop impl points ?step [0..<nat t] = Some (map (\<lambda>i. points ! sample_index (length points) t i) [0..<nat t])"
    by (rule sample_loop_map)
  then show ?thesis using False assms(2) by (simp add: samplePoints_def reference_samples_def Let_def)
qed (simp add: samplePoints_def reference_samples_def)

lemma reference_samples_props:
  assumes "0 \<le> t"
  shows "int (length (reference_samples points t)) = min t (int (length points))" "set (reference_samples points t) \<subseteq> set points"
proof -
  show "int (length (reference_samples points t)) = min t (int (length points))" using assms by (simp add: reference_samples_def)
  have "points ! sample_index (length points) t i \<in> set points" if "t < int (length points)" for i
    using that assms by (intro nth_mem sample_index_less) linarith
  then show "set (reference_samples points t) \<subseteq> set points" by (auto simp: reference_samples_def)
qed

lemma RenderPriceChart_no_panic:
  assumes "length points \<le> 2 ^ 31" "6 \<le> width" shows "\<exists>t. RenderPriceChart impl points width height = Some t"
proof -
  have "samplePoints impl points (width - 6) = Some (reference_samples points (width - 6))"
    using samplePoints_reference [OF assms(1)] assms(2) by simp
  then show ?thesis using assms(2) by (simp add: RenderPriceChart_def Let_def labelWidth_def)
qed

section \<open>The canvas\<close>

definition shape :: "nat \<Rightarrow> nat \<Rightarrow> canvas \<Rightarrow> bool" where
  "shape h w c \<longleftrightarrow> length c = h \<and> list_all (\<lambda>row. length row = w) c"

lemma shape_row: "shape h w c \<Longrightarrow> r < h \<Longrightarrow> length (c ! r) = w"
  by (simp add: shape_def list_all_length)

lemma shape_set_cell: "shape h w c \<Longrightarrow> shape h w (set_cell y x v c)"
  by (cases "y < h") (auto simp: shape_def set_cell_def list_all_length nth_list_update)

lemma set_cell_nth:
  assumes "shape h w c" "y < h" "x < w"
  shows "set_cell y x v c ! r ! x' = (if r = y \<and> x' = x then v else c ! r ! x')"
  using assms shape_row [OF assms(1), of y] by (auto simp: set_cell_def shape_def nth_list_update)

lemma fold_draw_below:
  assumes "shape h w c" "x < w" "n \<le> h"
  shows "shape h w (fold (draw_below x) [a..<n] c)
    \<and> (\<forall>r x'. fold (draw_below x) [a..<n] c ! r ! x' =
         (if x' = x \<and> a \<le> r \<and> r < n \<and> c ! r ! x = '' '' then VerticalBar else c ! r ! x'))"
  using assms(3)
proof (induction n)
  case (Suc n)
  define d where "d = fold (draw_below x) [a..<n] c"
  have IH: "shape h w d" "\<And>r x'. d ! r ! x' = (if x' = x \<and> a \<le> r \<and> r < n \<and> c ! r ! x = '' '' then VerticalBar else c ! r ! x')"
    using Suc by (auto simp: d_def)
  show ?case
  proof (cases "a \<le> n")
    case True
    then have e: "fold (draw_below x) [a..<Suc n] c = draw_below x n d" by (simp add: d_def)
    have "n < h" using Suc.prems by simp
    note s = set_cell_nth [OF IH(1) this assms(2)]
    show ?thesis unfolding e
      using shape_set_cell [OF IH(1), of n x VerticalBar] IH(1) True by (auto simp: draw_below_def s IH(2) less_Suc_eq)
  qed (use Suc assms in auto)
qed (use assms in simp)

text \<open>The reference: column by column, blanks above the row of the point, the block, bars below.\<close>

definition column_cell :: "int \<Rightarrow> nat \<Rightarrow> string" where
  "column_cell y r = (if int r < y then '' '' else if int r = y then FullBlock else VerticalBar)"

lemma plot_point_cell:
  assumes c: "shape h w c" and y: "0 \<le> point_row impl (int h) p" "point_row impl (int h) p < int h"
    and x: "6 + i < w" and blank: "\<And>r. r < h \<Longrightarrow> c ! r ! (6 + i) = '' ''"
  shows "shape h w (plot_point impl (int w) (int h) (i, p) c)"
    "r < h \<Longrightarrow> plot_point impl (int w) (int h) (i, p) c ! r ! x' =
       (if x' = 6 + i then column_cell (point_row impl (int h) p) r else c ! r ! x')"
proof -
  let ?y = "nat (point_row impl (int h) p)" and ?x = "6 + i"
  have yh: "?y < h" using y by linarith
  have e: "plot_point impl (int w) (int h) (i, p) c = fold (draw_below ?x) [Suc ?y..<h] (set_cell ?y ?x FullBlock c)"
    using y x by (simp add: plot_point_def Let_def labelWidth_def nat_add_distrib)
  note d = fold_draw_below [OF shape_set_cell [OF c] x order_refl, where a = "Suc ?y"]
  show "shape h w (plot_point impl (int w) (int h) (i, p) c)" using d e by simp
  assume r: "r < h"
  have v: "fold (draw_below ?x) [Suc ?y..<h] (set_cell ?y ?x FullBlock c) ! r ! x' =
      (if x' = ?x \<and> Suc ?y \<le> r \<and> r < h \<and> set_cell ?y ?x FullBlock c ! r ! ?x = '' '' then VerticalBar
       else set_cell ?y ?x FullBlock c ! r ! x')"
    using d by blast
  show "plot_point impl (int w) (int h) (i, p) c ! r ! x' =
       (if x' = 6 + i then column_cell (point_row impl (int h) p) r else c ! r ! x')"
    unfolding e v set_cell_nth [OF c yh x] using y r blank [OF r] by (auto simp: column_cell_def)
qed

lemma plot_cells:
  assumes "shape h w c" "\<And>p. p \<in> set ps \<Longrightarrow> 0 \<le> point_row impl (int h) p \<and> point_row impl (int h) p < int h"
    "6 + n + length ps \<le> w" "\<And>r x. r < h \<Longrightarrow> 6 + n \<le> x \<Longrightarrow> x < w \<Longrightarrow> c ! r ! x = '' ''"
  shows "shape h w (fold (plot_point impl (int w) (int h)) (List.enumerate n ps) c)
    \<and> (\<forall>r<h. \<forall>x. fold (plot_point impl (int w) (int h)) (List.enumerate n ps) c ! r ! x =
         (if 6 + n \<le> x \<and> x < 6 + n + length ps then column_cell (point_row impl (int h) (ps ! (x - 6 - n))) r else c ! r ! x))"
  using assms
proof (induction ps arbitrary: n c)
  case (Cons p ps)
  let ?c = "plot_point impl (int w) (int h) (n, p) c"
  have y: "0 \<le> point_row impl (int h) p" "point_row impl (int h) p < int h" "6 + n < w" using Cons.prems by auto
  note pc = plot_point_cell [OF Cons.prems(1) y(1,2,3)]
  have blank: "\<And>r. r < h \<Longrightarrow> c ! r ! (6 + n) = '' ''" using Cons.prems(3,4) by simp
  have "shape h w (fold (plot_point impl (int w) (int h)) (List.enumerate (Suc n) ps) ?c)
    \<and> (\<forall>r<h. \<forall>x. fold (plot_point impl (int w) (int h)) (List.enumerate (Suc n) ps) ?c ! r ! x =
         (if 6 + Suc n \<le> x \<and> x < 6 + Suc n + length ps then column_cell (point_row impl (int h) (ps ! (x - 6 - Suc n))) r else ?c ! r ! x))"
    by (rule Cons.IH) (use Cons.prems pc [OF blank] in auto)
  then show ?case using pc(2) [OF blank] by (auto simp: nth_Cons' not_le)
qed auto

section \<open>What is drawn\<close>

text \<open>A price that \<open>float64\<close> can hold and that is a probability.\<close>

definition probability :: "float64 \<Rightarrow> bool" where
  "probability f \<longleftrightarrow> f64_ok f \<and> f64_le (Fin 0) f \<and> f64_le f (Fin 1)"

text \<open>The row of the price \<open>q\<close> on a chart of the given height: the highest row whose label does not exceed it.\<close>

definition price_row :: "int \<Rightarrow> float64 \<Rightarrow> int" where
  "price_row height f = (case f of Fin q \<Rightarrow> height - 1 - \<lfloor>rnd (q * of_int (height - 1))\<rfloor> | _ \<Rightarrow> 0)"

lemma probability_Fin: "probability f \<Longrightarrow> \<exists>q. f = Fin q \<and> rnd q = q \<and> 0 \<le> q \<and> q \<le> 1"
  by (cases f) (auto simp: probability_def)

lemma point_row_price:
  assumes p: "probability (pp_PriceYes pt)" and h: "0 < height" "height \<le> 2 ^ 31"
  shows "point_row impl height pt = price_row height (pp_PriceYes pt)"
    "0 \<le> price_row height (pp_PriceYes pt)" "price_row height (pp_PriceYes pt) < height"
proof -
  from p obtain q where q: "pp_PriceYes pt = Fin q" "rnd q = q" "0 \<le> q" "q \<le> 1" using probability_Fin by blast
  let ?m = "of_int (height - 1) :: rat"
  have m: "0 \<le> ?m" "?m \<le> 2 powi 31" "rnd ?m = ?m"
    using h rnd_of_int [of "height - 1"] by (auto simp: power_int_def)
  have b: "0 \<le> q * ?m" "q * ?m \<le> ?m" using m(1) q(3,4) by (auto simp: mult_left_le_one_le)
  have r: "0 \<le> rnd (q * ?m)" "rnd (q * ?m) \<le> ?m" using b m(3) by (auto intro: f64.R_nonneg f64.R_le_fixed)
  have fl: "0 \<le> \<lfloor>rnd (q * ?m)\<rfloor>" "\<lfloor>rnd (q * ?m)\<rfloor> \<le> height - 1"
    using r(1) floor_mono [OF r(2)] by (auto simp del: of_int_diff)
  have row_word: "sint (word_of_int (height - 1 - k) :: int64) = height - 1 - k" if "0 \<le> k" "k \<le> height - 1" for k
    using that h by (intro sint_word_of_int64) auto
  have "q * ?m \<le> 2 powi 31" using b m by linarith
  then have "f64_mul (Fin q) (f64_of_len (height - 1)) = Fin (rnd (q * ?m))"
    using round64_between [of "q * ?m" 31] b h f64_of_len_exact [of "height - 1"] by simp
  moreover have "f64_div (f64_sub (Fin q) minPrice) (f64_sub maxPrice minPrice) = Fin q"
    using q round64_between [of q 0] round64_between [of 1 0]
    by (simp add: minPrice_def maxPrice_def f64_sub_def f64_const_def round64_def)
  moreover have "rnd (q * ?m) \<le> 2 powi 62" using r m by simp
  then have "f64_to_int64 impl (Fin (rnd (q * ?m))) = word_of_int \<lfloor>rnd (q * ?m)\<rfloor>"
    using f64_to_int64_nonneg(3) r by blast
  moreover have "sint (word_of_int (height - 1 - \<lfloor>rnd (q * ?m)\<rfloor>) :: int64) = height - 1 - \<lfloor>rnd (q * ?m)\<rfloor>"
    by (rule row_word [OF fl])
  ultimately show "point_row impl height pt = price_row height (pp_PriceYes pt)"
    by (simp add: point_row_def price_row_def q(1) Let_def wi_hom_syms)
  show "0 \<le> price_row height (pp_PriceYes pt)" "price_row height (pp_PriceYes pt) < height"
    using fl unfolding price_row_def q(1) float64.case by linarith+
qed

definition reference_row :: "int \<Rightarrow> int \<Rightarrow> PricePoint list \<Rightarrow> nat \<Rightarrow> string" where
  "reference_row dataWidth height sampled r =
     concat (map (\<lambda>i. if i < length sampled then column_cell (price_row height (pp_PriceYes (sampled ! i))) r else '' '')
       [0..<nat dataWidth])"

lemma plotted_row:
  assumes s: "list_all (\<lambda>pt. probability (pp_PriceYes pt)) sampled" "int (length sampled) \<le> width - 6"
    and h: "0 < height" "height \<le> 2 ^ 31" and r: "int r < height"
  shows "concat (drop 6 (fold (plot_point impl width height) (List.enumerate 0 sampled)
           (replicate (nat height) (replicate (nat width) '' '')) ! r)) = reference_row (width - 6) height sampled r"
proof -
  let ?blank = "replicate (nat height) (replicate (nat width) '' '')"
  let ?c = "fold (plot_point impl width height) (List.enumerate 0 sampled) ?blank"
  have w: "6 + length sampled \<le> nat width" "int (nat width) = width" using s(2) by linarith+
  have hh: "int (nat height) = height" "r < nat height" using h r by auto
  have row: "0 \<le> point_row impl height pt \<and> point_row impl height pt < height \<and>
      point_row impl height pt = price_row height (pp_PriceYes pt)" if "pt \<in> set sampled" for pt
    using point_row_price(1) [of pt height impl] point_row_price(2,3) [of pt height] that s(1) h by (simp add: list_all_iff)
  obtain H W where HW: "height = int H" "width = int W" using w(2) hh(1) by metis
  have "shape (nat height) (nat width) ?c \<and> (\<forall>r<nat height. \<forall>x. ?c ! r ! x =
      (if 6 \<le> x \<and> x < 6 + length sampled then column_cell (point_row impl height (sampled ! (x - 6))) r else ?blank ! r ! x))"
  proof -
    have bounds: "\<And>pt. pt \<in> set sampled \<Longrightarrow> 0 \<le> point_row impl (int H) pt \<and> point_row impl (int H) pt < int H"
      using row unfolding HW by blast
    have "shape H W (replicate H (replicate W '' ''))" by (simp add: shape_def list_all_iff)
    from plot_cells [OF this bounds, where n = 0] show ?thesis using w(1) unfolding HW by simp
  qed
  then have c: "length (?c ! r) = nat width" "\<And>x. ?c ! r ! x =
      (if 6 \<le> x \<and> x < 6 + length sampled then column_cell (point_row impl height (sampled ! (x - 6))) r else ?blank ! r ! x)"
    using hh(2) shape_row by blast+
  have "drop 6 (?c ! r) = map (\<lambda>i. if i < length sampled then column_cell (price_row height (pp_PriceYes (sampled ! i))) r else '' '')
      [0..<nat (width - 6)]"
    using c row w hh by (intro nth_equalityI) auto
  then show ?thesis by (simp add: reference_row_def)
qed

text \<open>
  C34 (RenderPriceChart_draws): on a non-empty history of at most \<open>2^31\<close> prices between 0 and 1 and a chart at most \<open>2^31\<close>
  rows high, the function panics exactly when the width is between 1 and 5; otherwise it returns the
  text whose plot is the reference plot of the reference samples, from left to right: blank
  above the row of a sample's price, a block at it and bars below, however the canvas was filled.  The samples are the
  whole history when it fits; otherwise one point for each column, starting with the first and never going back in time.
\<close>

theorem RenderPriceChart_draws:
  assumes "points \<noteq> []" "length points \<le> 2 ^ 31" "list_all (\<lambda>pt. probability (pp_PriceYes pt)) points" "height \<le> 2 ^ 31"
    and w: "w = (if width \<le> 0 then 60 else width)" and h: "h = (if height \<le> 0 then 15 else height)"
  shows "RenderPriceChart impl points width height =
      (if 1 \<le> width \<and> width \<le> 5 then None
       else Some (chart_text points w h (reference_row (w - 6) h (reference_samples points (w - 6)))))
    \<and> (6 \<le> w \<longrightarrow> sample_index (length points) (w - 6) 0 = 0
        \<and> (\<forall>i j. i \<le> j \<longrightarrow> sample_index (length points) (w - 6) i \<le> sample_index (length points) (w - 6) j))"
proof (intro conjI impI)
  have h': "0 < h" "h \<le> 2 ^ 31" using assms(4) by (auto simp: h)
  show "RenderPriceChart impl points width height =
      (if 1 \<le> width \<and> width \<le> 5 then None
       else Some (chart_text points w h (reference_row (w - 6) h (reference_samples points (w - 6)))))"
  proof (cases "w < 6")
    case True
    then have "samplePoints impl points (w - 6) = None" by (simp add: samplePoints_def)
    then show ?thesis using True assms(1)
      by (auto simp: RenderPriceChart_def Let_def w DefaultWidth_def labelWidth_def split: if_splits)
  next
    case False
    define sampled where "sampled = reference_samples points (w - 6)"
    have s: "samplePoints impl points (w - 6) = Some sampled" "int (length sampled) \<le> w - 6" "set sampled \<subseteq> set points"
      using samplePoints_reference [OF assms(2), of "w - 6" impl] reference_samples_props [of "w - 6" points] False
      by (auto simp: sampled_def)
    have ok: "list_all (\<lambda>pt. probability (pp_PriceYes pt)) sampled" using s assms(3) by (auto simp: list_all_iff)
    note rows = plotted_row [OF ok s(2) h', where impl = impl]
    have "RenderPriceChart impl points width height = Some (chart_text points w h (\<lambda>i. concat (drop 6
        (fold (plot_point impl w h) (List.enumerate 0 sampled) (replicate (nat h) (replicate (nat w) '' '')) ! i))))"
      unfolding RenderPriceChart_def Let_def DefaultWidth_def DefaultHeight_def labelWidth_def w [symmetric] h [symmetric]
      using assms(1) s(1) False by simp
    also have "\<dots> = Some (chart_text points w h (reference_row (w - 6) h sampled))"
    proof -
      have "map (\<lambda>i. row_label h i @ '' '' @ VerticalBar @ concat (drop 6
          (fold (plot_point impl w h) (List.enumerate 0 sampled) (replicate (nat h) (replicate (nat w) '' '')) ! i)) @ Newline) [0..<nat h] =
          map (\<lambda>i. row_label h i @ '' '' @ VerticalBar @ reference_row (w - 6) h sampled i @ Newline) [0..<nat h]"
        by (rule map_cong [OF refl]) (use rows in auto)
      then show ?thesis by (simp only: chart_text_def Let_def)
    qed
    finally have "RenderPriceChart impl points width height = Some (chart_text points w h (reference_row (w - 6) h sampled))" .
    moreover have "\<not> (1 \<le> width \<and> width \<le> 5)" using False by (auto simp: w split: if_splits)
    ultimately show ?thesis unfolding sampled_def by simp
  qed
qed (simp_all add: sample_index_start sample_index_mono)

theorem RenderPriceChart_draws_witness:
  "RenderPriceChart (\<lambda>_. 0) [\<lparr>pp_Timestamp = 0, pp_PriceYes = Fin (1/2)\<rparr>] 60 15 =
      Some (chart_text [\<lparr>pp_Timestamp = 0, pp_PriceYes = Fin (1/2)\<rparr>] 60 15
        (reference_row 54 15 [\<lparr>pp_Timestamp = 0, pp_PriceYes = Fin (1/2)\<rparr>]))"
proof -
  have "rnd (1/2) = 1/2" using rnd_powi [of "- 1"] by (simp add: power_int_def)
  then have "list_all (\<lambda>pt. probability (pp_PriceYes pt)) [\<lparr>pp_Timestamp = 0, pp_PriceYes = Fin (1/2)\<rparr>]"
    by (simp add: probability_def)
  from RenderPriceChart_draws [of "[\<lparr>pp_Timestamp = 0, pp_PriceYes = Fin (1/2)\<rparr>]" 15 60 60 15 "\<lambda>_. 0", OF _ _ this]
  show ?thesis by (simp add: reference_samples_def)
qed

end
