(* ===== verification/Handler_Errors.thy ===== *)
theory Handler_Errors
  imports Model
begin

text \<open>
  The error translation of \<open>internal/handler/market.go\<close>: \<open>mapError\<close>, \<open>mapContractError\<close> and
  \<open>extractLastErrorCode\<close>.
\<close>

section \<open>Contract error codes\<close>

definition code_marker :: string where "code_marker = ''Error(Contract, #''"

text \<open>
  The loop from position \<open>i\<close>.  \<open>strconv.Atoi\<close> accepts a sign and rejects what does not fit in an \<open>int\<close>.
  The \<open>i++\<close> of the loop comes on top of the jump behind the marker.
\<close>

function code_loop :: "string \<Rightarrow> nat \<Rightarrow> int \<Rightarrow> int" where
  "code_loop errStr i lastCode =
     (if i < length errStr then
        (case Index (drop i errStr) code_marker of
           None \<Rightarrow> lastCode
         | Some idx \<Rightarrow>
             let i' = i + idx + length code_marker in
             (case Index (drop i' errStr) '')'' of
                None \<Rightarrow> lastCode
              | Some e \<Rightarrow>
                  code_loop errStr (i' + 1) (case ParseInt64 (take e (drop i' errStr)) of Some code \<Rightarrow> code | None \<Rightarrow> lastCode)))
      else lastCode)"
  by pat_completeness auto
termination
  by (relation "measure (\<lambda>(s, i, c). length s - i)") auto

declare code_loop.simps [simp del]

definition extractLastErrorCode :: "string \<Rightarrow> int" where
  "extractLastErrorCode errStr = code_loop errStr 0 (- 1)"

section \<open>Responses for errors\<close>

record errorResponse =
  er_Message :: string
  er_Status :: int

definition resp :: "string \<Rightarrow> int \<Rightarrow> errorResponse" where
  "resp m s = \<lparr>er_Message = m, er_Status = s\<rparr>"

definition mapContractError :: "string \<Rightarrow> errorResponse" where
  "mapContractError errStr =
     (let code = extractLastErrorCode errStr in
      if code = 15 then resp ''Insufficient pool balance.'' 400
      else if code = 14 then resp ''Contract storage corrupted.'' 500
      else if code = 13 then resp ''Nothing to claim. You either have no winning tokens or already claimed.'' 400
      else if code = 12 then resp ''Arithmetic overflow.'' 400
      else if code = 11 then resp ''Invalid liquidity parameter.'' 400
      else if code = 10 then resp ''Transaction failed. Check that your account has enough EURMTL and the collateral token trustline.'' 400
      else if code = 9 then resp ''Return amount too low.'' 400
      else if code = 8 then resp ''Slippage exceeded. Price moved unfavorably.'' 400
      else if code = 7 then resp ''Insufficient token balance.'' 400
      else if code = 6 then resp ''Invalid amount.'' 400
      else if code = 5 then resp ''Invalid outcome. Must be YES (0) or NO (1).'' 400
      else if code = 4 then resp ''Market has not been resolved yet.'' 400
      else if code = 3 then resp ''Market has already been resolved.'' 409
      else if code = 2 then resp ''Contract is not initialized.'' 400
      else if code = 1 then resp ''Contract is already initialized.'' 409
      else if code < 0 then resp ''Contract error occurred. Please try again.'' 400
      else resp (''Contract error #'' @ dec_int code @ '' occurred.'') 400)"

definition mapError :: "goerr \<Rightarrow> errorResponse" where
  "mapError err =
     (if errors_Is err (Service service_ErrMarketNotFound) then resp ''Market not found'' 404
      else if errors_Is err (Service service_ErrMarketResolved) then resp ''Market has already been resolved'' 409
      else if errors_Is err (Factory factory_ErrFactoryNotConfigured) then resp ''Factory contract not configured'' 503
      else if errors_Is err (Factory factory_ErrInvalidMetadataHash) then resp ''Invalid metadata hash'' 400
      else if errors_Is err (Service service_ErrInvalidOutcome) then resp ''Invalid outcome: must be YES or NO'' 400
      else if errors_Is err (Model model_ErrEmptyQuestion) then resp ''Question is required'' 400
      else if errors_Is err (Model model_ErrQuestionTooLong)
        then resp (''Question exceeds maximum length ('' @ dec_nat MaxQuestionLength @ '' characters)'') 400
      else if errors_Is err (Model model_ErrDescriptionTooLong)
        then resp (''Description exceeds maximum length ('' @ dec_nat MaxDescriptionLength @ '' characters)'') 400
      else if errors_Is err (Model model_ErrInvalidLiquidityParam) then resp ''Liquidity parameter must be a positive number'' 400
      else if errors_Is err (Model model_ErrInvalidShareAmount) then resp ''Share amount must be a positive number'' 400
      else if errors_Is err (Model model_ErrCloseTimeInPast) then resp ''Close time must be in the future'' 400
      else if errors_Is err (Model model_ErrInvalidPublicKey) then resp ''Invalid Stellar public key format'' 400
      else if errors_Is err (Model model_ErrInvalidSlippage) then resp ''Slippage must be between 0 and 10%'' 400
      else if errors_Is err (Lmsr lmsr_ErrInvalidOutcome) then resp ''Invalid outcome: must be YES or NO'' 400
      else if errors_Is err (Lmsr lmsr_ErrNegativeAmount) then resp ''Amount must be positive'' 400
      else if errors_Is err (Lmsr lmsr_ErrInsufficientTokens) then resp ''Insufficient tokens available'' 400
      else if errors_Is err (Lmsr lmsr_ErrNegativeQuantities) then resp ''Invalid market state: negative quantities'' 400
      else if errors_Is err (Lmsr lmsr_ErrInvalidLiquidity) then resp ''Invalid liquidity parameter'' 400
      else if errors_Is err (Stellar stellar_ErrAccountNotFound)
        then resp ''Stellar account not found. Please ensure the account exists and is funded.'' 400
      else if errors_Is err (Soroban soroban_ErrRPCError)
        then resp ''Failed to communicate with the blockchain. Please try again later.'' 502
      else if errors_Is err (Soroban soroban_ErrSimulationFailed)
        then (if Contains (Error err) code_marker then mapContractError (Error err)
              else resp ''Transaction simulation failed. Your parameters may be invalid.'' 400)
      else if errors_Is err (Soroban soroban_ErrTransactionFailed)
        then resp ''Transaction failed. Please check your parameters and try again.'' 400
      else if errors_Is err (Soroban soroban_ErrTimeout) then resp ''Request timed out. Please try again.'' 504
      else if errors_Is err CtxDeadlineExceeded then resp ''Request timed out. Please try again.'' 504
      else if errors_Is err CtxCanceled then resp ''Request was cancelled.'' 400
      else if Contains (Error err) code_marker then mapContractError (Error err)
      else resp ''An unexpected error occurred. Please try again later.'' 500)"

section \<open>The last code is the one reported\<close>

lemma Index_first: "Index s sub = Some i \<Longrightarrow> j < i \<Longrightarrow> \<not> prefix sub (drop j s)"
proof (induction s arbitrary: i j)
  case (Cons c s)
  then obtain k where k: "Index s sub = Some k" "i = Suc k" "\<not> prefix sub (c # s)" by (auto split: if_splits)
  then show ?case using Cons.IH [of k "j - 1"] Cons.prems(2) by (cases j) auto
qed (auto split: if_splits)

lemma Index_None: "Index s sub = None \<Longrightarrow> \<not> prefix sub (drop j s)"
proof
  assume n: "Index s sub = None" and p: "prefix sub (drop j s)"
  then obtain r where "drop j s = sub @ r" by (auto elim: prefixE)
  then have "s = take j s @ sub @ r" by (metis append_take_drop_id)
  then show False using Index_append [of "take j s" sub r] n by simp
qed

lemma Index_upto: "prefix sub (drop j s) \<Longrightarrow> \<exists>i \<le> j. Index s sub = Some i"
  by (metis Index_None Index_first not_le not_None_eq)

lemma length_marker: "length code_marker = 17"
  by (simp add: code_marker_def)

text \<open>The marker has no border: two of its occurrences do not overlap.\<close>

lemma marker_no_overlap:
  assumes "prefix code_marker (drop p s)" "prefix code_marker (drop q s)" "p < q"
  shows "p + length code_marker \<le> q"
proof (rule ccontr)
  assume "\<not> p + length code_marker \<le> q"
  then have d: "0 < q - p" "q - p < 17" using assms(3) by (auto simp: length_marker)
  obtain r where r: "drop p s = code_marker @ r" using assms(1) by (auto elim: prefixE)
  have "drop q s = drop (q - p) (drop p s)" using assms(3) by simp
  then have "drop q s ! 0 = code_marker ! (q - p)" using d r by (auto simp: nth_append length_marker)
  moreover have "drop q s ! 0 = CHR ''E''" using assms(2) by (auto simp: code_marker_def elim: prefixE)
  moreover have "\<forall>k \<in> {1..<17}. code_marker ! k \<noteq> CHR ''E''"
    by (simp add: code_marker_def atLeastLessThan_nat_numeral)
  moreover have "q - p \<in> {1..<17}" using d by simp
  ultimately show False by metis
qed


lemma code_loop_None: "Index (drop i s) code_marker = None \<Longrightarrow> code_loop s i c = c"
  by (subst code_loop.simps) simp

lemma code_loop_Some:
  assumes "Index (drop i s) code_marker = Some idx" "Index (drop (i + idx + 17) s) '')'' = Some e"
  shows "code_loop s i c = code_loop s (i + idx + 18)
           (case ParseInt64 (take e (drop (i + idx + 17) s)) of Some code \<Rightarrow> code | None \<Rightarrow> c)"
proof -
  have "i < length s" using Index_sound [OF assms(1)] by (auto simp: length_marker)
  with assms show ?thesis by (subst code_loop.simps) (simp add: length_marker add.commute)
qed

lemma Index_char: "CHR '')'' \<notin> set d \<Longrightarrow> Index (d @ '')'' @ b) '')'' = Some (length d)"
  by (induction d) auto

lemma Index_drop_None: "Index s sub = None \<Longrightarrow> Index (drop i s) sub = None"
proof -
  assume n: "Index s sub = None"
  have "\<not> prefix sub (drop j (drop i s))" for j using Index_None [OF n, of "j + i"] by simp
  then show ?thesis using Index_sound [of "drop i s" sub] by (cases "Index (drop i s) sub") auto
qed

lemma code_loop_last:
  assumes s: "s = a @ code_marker @ digits @ '')'' @ b" and n: "ParseInt64 digits = Some n" and d: "CHR '')'' \<notin> set digits"
    and b: "\<not> Contains (digits @ '')'' @ b) code_marker" and a: "\<not> suffix code_marker a"
  shows "i \<le> length a \<Longrightarrow> code_loop s i c = n"
proof (induction "length a - i" arbitrary: i c rule: less_induct)
  case less
  have last: "prefix code_marker (drop (length a) s)" by (simp add: s)
  then have "prefix code_marker (drop (length a - i) (drop i s))" using less.prems by simp
  then obtain idx where idx: "Index (drop i s) code_marker = Some idx" "i + idx \<le> length a"
    using Index_upto [of code_marker "length a - i" "drop i s"] less.prems by auto
  have here: "prefix code_marker (drop (i + idx) s)" using Index_sound [OF idx(1)] by (simp add: add.commute)
  show ?case
  proof (cases "i + idx = length a")
    case True
    then have rest: "drop (i + idx + 17) s = digits @ '')'' @ b" by (simp add: s length_marker)
    have e: "Index (drop (i + idx + 17) s) '')'' = Some (length digits)" unfolding rest by (rule Index_char [OF d])
    have "Index (digits @ '')'' @ b) code_marker = None" using b by (simp add: Contains_def)
    from Index_drop_None [OF this, of 1] have "Index (drop (i + idx + 18) s) code_marker = None"
      unfolding rest [symmetric] by (simp add: add.commute)
    then show ?thesis unfolding code_loop_Some [OF idx(1) e] by (simp add: rest n code_loop_None)
  next
    case False
    then have le: "i + idx + 17 \<le> length a" using marker_no_overlap [OF here last] idx(2) by (simp add: length_marker)
    have ne: "i + idx + 17 \<noteq> length a"
    proof
      assume eq: "i + idx + 17 = length a"
      have "take 17 (drop (i + idx) s) = code_marker" using here by (auto simp: length_marker elim: prefixE)
      moreover have "take 17 (drop (i + idx) s) = drop (i + idx) a" using eq by (simp add: s length_marker take_drop [symmetric])
      ultimately show False using a by (metis suffix_drop)
    qed
    have "prefix '')'' (drop (length a + 17 + length digits - (i + idx + 17)) (drop (i + idx + 17) s))"
      using le by (simp add: s length_marker)
    then obtain e where "Index (drop (i + idx + 17) s) '')'' = Some e" using Index_upto by blast
    from code_loop_Some [OF idx(1) this] show ?thesis using less.hyps le ne by simp
  qed
qed

text \<open>
  If the text ends in one more well-formed \<open>Error(Contract, #N)\<close>, after which the marker
  does not occur again, and the marker does not stand directly before it, then N is the extracted code, whatever
  markers and other text come before; a text without the marker gives -1.
\<close>

lemma extractLastErrorCode_last:
  assumes "ParseInt64 digits = Some n" "CHR '')'' \<notin> set digits"
    "\<not> Contains (digits @ '')'' @ b) code_marker" "\<not> suffix code_marker a"
  shows "extractLastErrorCode (a @ code_marker @ digits @ '')'' @ b) = n
    \<and> (\<not> Contains t code_marker \<longrightarrow> extractLastErrorCode t = - 1)"
  using code_loop_last [OF refl assms, of 0 "- 1"] code_loop_None [of 0 t "- 1"]
  by (simp add: extractLastErrorCode_def Contains_def)

section \<open>Status by sentinel\<close>

text \<open>The reference table; \<open>None\<close> for the sentinels that are not listed and for failed simulations, which depend on the text.\<close>

fun sentinel_status :: "sentinel \<Rightarrow> int option" where
  "sentinel_status (Service service_ErrMarketNotFound) = Some 404"
| "sentinel_status (Service service_ErrMarketResolved) = Some 409"
| "sentinel_status (Service service_ErrInvalidOutcome) = Some 400"
| "sentinel_status (Service _) = None"
| "sentinel_status (Factory factory_ErrFactoryNotConfigured) = Some 503"
| "sentinel_status (Factory factory_ErrInvalidMetadataHash) = Some 400"
| "sentinel_status (Model model_ErrInvalidOutcome) = None"
| "sentinel_status (Model _) = Some 400"
| "sentinel_status (Lmsr lmsr_ErrInvalidOutcome) = Some 400"
| "sentinel_status (Lmsr lmsr_ErrNegativeAmount) = Some 400"
| "sentinel_status (Lmsr lmsr_ErrInvalidLiquidity) = Some 400"
| "sentinel_status (Lmsr lmsr_ErrNegativeQuantities) = Some 400"
| "sentinel_status (Lmsr lmsr_ErrInsufficientTokens) = Some 400"
| "sentinel_status (Stellar stellar_ErrAccountNotFound) = Some 400"
| "sentinel_status (Stellar _) = None"
| "sentinel_status (Soroban soroban_ErrRPCError) = Some 502"
| "sentinel_status (Soroban soroban_ErrTransactionFailed) = Some 400"
| "sentinel_status (Soroban soroban_ErrTimeout) = Some 504"
| "sentinel_status (Soroban _) = None"
| "sentinel_status CtxDeadlineExceeded = Some 504"
| "sentinel_status CtxCanceled = Some 400"
| "sentinel_status SorobanInvalidOutcome = None"
| "sentinel_status IpfsInvalidCID = None"

lemma errors_Is_iff: "errors_Is err s \<Longrightarrow> errors_Is err t \<longleftrightarrow> t = s"
  using errors_Is_unique by blast

lemma mapError_listed: "errors_Is err s \<Longrightarrow> sentinel_status s = Some st \<Longrightarrow> er_Status (mapError err) = st"
  by (cases s rule: sentinel_status.cases) (simp_all add: mapError_def errors_Is_iff resp_def)

lemma mapContractError_status: "er_Status (mapContractError t) \<in> {400, 409, 500}"
  by (simp add: mapContractError_def Let_def resp_def)

lemma sentinel_status_range: "sentinel_status s = Some st \<Longrightarrow> st \<in> {400, 404, 409, 502, 503, 504}"
  by (cases s rule: sentinel_status.cases) auto

lemma mapError_unlisted:
  assumes "\<And>s. errors_Is err s \<Longrightarrow> sentinel_status s = None"
  shows "mapError err = (if Contains (Error err) code_marker then mapContractError (Error err)
    else if errors_Is err (Soroban soroban_ErrSimulationFailed)
         then resp ''Transaction simulation failed. Your parameters may be invalid.'' 400
    else resp ''An unexpected error occurred. Please try again later.'' 500)"
proof -
  have no: "errors_Is err s \<longleftrightarrow> False" if "sentinel_status s \<noteq> None" for s using assms [of s] that by auto
  show ?thesis by (simp add: mapError_def no)
qed

lemma mapError_status: "er_Status (mapError err) \<in> {400, 404, 409, 500, 502, 503, 504}"
proof (cases "\<exists>s st. errors_Is err s \<and> sentinel_status s = Some st")
  case True
  then show ?thesis using mapError_listed sentinel_status_range by fastforce
next
  case False
  then have "\<And>s. errors_Is err s \<Longrightarrow> sentinel_status s = None" by (meson option.exhaust)
  from mapError_unlisted [of err, OF this] show ?thesis using mapContractError_status [of "Error err"] by (auto simp: resp_def)
qed

text \<open>The status for a contract error code: a conflict for the two errors about a repeated call, an internal error for corrupted storage.\<close>

definition code_status :: "int \<Rightarrow> int" where
  "code_status code = (if code = 1 \<or> code = 3 then 409 else if code = 14 then 500 else 400)"

lemma mapContractError_code: "er_Status (mapContractError t) = code_status (extractLastErrorCode t)"
  by (simp add: mapContractError_def code_status_def Let_def resp_def)



end
