(* ===== verification/Handler_Views.thy ===== *)
theory Handler_Views
  imports Http Ipfs Event_Service Chart Handler_Errors
begin

text \<open>
  The part of \<open>internal/handler/market.go\<close> and \<open>internal/template/template.go\<close> that prepares what is shown: the
  handler's state, the data handed to the templates, the functions available in them, the market views and the points of the price
  chart.
\<close>

section \<open>The handler and its surroundings\<close>

text \<open>A pointer that the code compares with nil is an option.\<close>

record MarketHandler =
  mh_marketService :: MarketService
  mh_factoryService :: "FactoryService option"
  mh_eventService :: "EventService option"
  mh_ipfsClient :: "IpfsClient option"
  mh_oraclePublicKey :: string
  mh_networkPassphrase :: string

definition NewMarketHandler ::
  "MarketService \<Rightarrow> FactoryService option \<Rightarrow> EventService option \<Rightarrow> IpfsClient option \<Rightarrow> string \<Rightarrow> string \<Rightarrow> MarketHandler" where
  "NewMarketHandler marketService factoryService eventService ipfsClient oraclePublicKey networkPassphrase =
     \<lparr>mh_marketService = marketService, mh_factoryService = factoryService, mh_eventService = eventService,
      mh_ipfsClient = ipfsClient, mh_oraclePublicKey = oraclePublicKey, mh_networkPassphrase = networkPassphrase\<rparr>"

definition networkName :: "MarketHandler \<Rightarrow> string" where
  "networkName h = (if Contains (mh_networkPassphrase h) ''Test'' then ''testnet'' else ''public'')"

record MarketView =
  mv_ID :: string
  mv_Question :: string
  mv_Description :: string
  mv_PriceYes :: float64
  mv_PriceNo :: float64
  mv_YesSold :: float64
  mv_NoSold :: float64
  mv_IsResolved :: bool
  mv_Resolution :: string
  mv_LiquidityParam :: float64
  mv_MetadataHash :: string
  mv_MetadataError :: string

definition shortID :: "string \<Rightarrow> string" where
  "shortID i = (if length i \<le> 19 then i else take 8 i @ ''...'' @ drop (length i - 8) i)"

text \<open>The data of each template; the entries \<open>ActiveNav\<close>, \<open>Network\<close> and \<open>AccountID\<close> occur in all of them.\<close>

record page_common =
  pc_ActiveNav :: string
  pc_Network :: string
  pc_AccountID :: string

record market_page =
  mp_Market :: Market
  mp_OraclePublicKey :: string
  mp_PriceChart :: string
  mp_TradeEvents :: "TradeEvent list"
  mp_EventsError :: string
  mp_UserBalance :: "UserBalance option"
  mp_BalanceError :: string

record outcome_page =
  op_Market :: Market
  op_Outcome :: string
  op_OutcomePrice :: float64
  op_OGTitle :: string
  op_OGDescription :: string
  op_UserBalance :: "UserBalance option"
  op_BalanceError :: string
  op_NetworkPassphrase :: string

datatype page =
    MarketsPage page_common "MarketView list" string "string option"
  | MarketPage page_common market_page
  | QuotePage page_common Quote string
  | TransactionPage page_common TransactionResult string string
  | OutcomePage page_common outcome_page
  | OraclePage page_common string float64 string "MarketView list" string
  | ErrorPage page_common int string

text \<open>
  What the handlers call outside the sources: the caches of the services, the address check of the SDK, \<open>strconv.ParseFloat\<close>,
  the path of \<open>url.Parse\<close>, the JSON codecs, the HTTP client of the wallet service, \<open>url.QueryEscape\<close>, and the execution of a
  template, which writes some chunks and may then fail.
\<close>

record 'w hdeps =
  hd_factory :: "'w fdeps"
  hd_events :: "'w ev_deps"
  hd_ipfs :: "'w ipfs_deps"
  keypair_ParseAddress :: "string \<Rightarrow> unit result"
  strconv_ParseFloat :: "string \<Rightarrow> float64 result"
  url_ParsePath :: "string \<Rightarrow> string result"
  url_QueryEscape :: "string \<Rightarrow> string"
  json_Metadata :: "string \<Rightarrow> MarketMetadata result"
  json_QuoteAnswer :: "float64 \<Rightarrow> float64 \<Rightarrow> string result"
  json_MarshalURI :: "string \<Rightarrow> string result"
  json_WalletURL :: "string \<Rightarrow> string result"
  wallet_Do :: "http_client \<Rightarrow> http_request \<Rightarrow> 'w \<Rightarrow> http_response result \<times> 'w"
  tmpl_Execute :: "string \<Rightarrow> page \<Rightarrow> string list \<times> goerr option"

section \<open>Templates\<close>

definition Render :: "'w hdeps \<Rightarrow> string \<Rightarrow> page \<Rightarrow> ResponseWriter \<Rightarrow> goerr option \<times> ResponseWriter" where
  "Render D name data w = (case tmpl_Execute D (name @ ''.html'') data of (chunks, err) \<Rightarrow> (err, fold Write chunks w))"

definition tmpl_mul :: "float64 \<Rightarrow> float64 \<Rightarrow> float64" where "tmpl_mul a b = f64_mul a b"
definition tmpl_div :: "float64 \<Rightarrow> float64 \<Rightarrow> float64" where
  "tmpl_div a b = (if f64_eq b (Fin 0) then Fin 0 else f64_div a b)"
definition tmpl_add :: "float64 \<Rightarrow> float64 \<Rightarrow> float64" where "tmpl_add a b = f64_add a b"
definition tmpl_sub :: "float64 \<Rightarrow> float64 \<Rightarrow> float64" where "tmpl_sub a b = f64_sub a b"

definition labURL :: "'w hdeps \<Rightarrow> string \<Rightarrow> string \<Rightarrow> string" where
  "labURL D xdr networkPassphrase =
     ''https://lab.stellar.org/transaction/cli-sign?'' @ ''networkPassphrase='' @ url_QueryEscape D networkPassphrase
     @ ''&xdr='' @ url_QueryEscape D xdr"

text \<open>A negative length panics.\<close>

definition truncate :: "string \<Rightarrow> int \<Rightarrow> string option" where
  "truncate s n = (if int (length s) \<le> n then Some s else if n < 0 then None else Some (take (nat n) s @ ''...''))"

definition tmpl_shortID :: "string \<Rightarrow> string" where
  "tmpl_shortID s = (if length s \<le> 19 then s else take 8 s @ ''...'' @ drop (length s - 8) s)"

definition stellarURI :: "'w hdeps \<Rightarrow> string \<Rightarrow> string" where
  "stellarURI D xdr = ''web+stellar:tx?xdr='' @ url_QueryEscape D xdr"

definition isTestnet :: "string \<Rightarrow> bool" where
  "isTestnet passphrase \<longleftrightarrow> Contains passphrase ''Test''"

definition tmpl_networkName :: "string \<Rightarrow> string" where
  "tmpl_networkName passphrase = (if Contains passphrase ''Test'' then ''testnet'' else ''public'')"

section \<open>Market views\<close>

definition scaled :: "int64 \<Rightarrow> float64" where
  "scaled v = f64_div (f64_of_int64 v) float_ScaleFactor"

definition base_view :: "MarketState \<Rightarrow> MarketView" where
  "base_view s = \<lparr>mv_ID = st_ContractID s, mv_Question = [], mv_Description = [], mv_PriceYes = st_PriceYes s,
     mv_PriceNo = st_PriceNo s, mv_YesSold = scaled (st_YesSold s), mv_NoSold = scaled (st_NoSold s),
     mv_IsResolved = st_Resolved s, mv_Resolution = [], mv_LiquidityParam = Fin 0,
     mv_MetadataHash = st_MetadataHash s, mv_MetadataError = []\<rparr>"

text \<open>
  The goroutine of one state.  Fetching its metadata is one step: the goroutines share nothing but the cache of the IPFS
  client, which a concurrent step can only fill.
\<close>

definition view_worker :: "'w env \<Rightarrow> 'w hdeps \<Rightarrow> MarketHandler \<Rightarrow> MarketState \<Rightarrow> ('w world, MarketView) thread" where
  "view_worker E D h s =
     (case mh_ipfsClient h of
        Some c \<Rightarrow>
          if st_MetadataHash s \<noteq> [] then
            bindT (atomic (GetJSON E (hd_ipfs D) c (st_MetadataHash s) (json_Metadata D))) (\<lambda>r.
            case r of
              Inl err \<Rightarrow> Done ((base_view s)\<lparr>mv_Question := ''Market '' @ shortID (st_ContractID s),
                           mv_MetadataError := ''Failed to load market details from IPFS''\<rparr>)
            | Inr metadata \<Rightarrow> Done ((base_view s)\<lparr>mv_Question := md_Question metadata, mv_Description := md_Description metadata\<rparr>))
          else Done ((base_view s)\<lparr>mv_Question := ''Market '' @ shortID (st_ContractID s)\<rparr>)
      | None \<Rightarrow> Done ((base_view s)\<lparr>mv_Question := ''Market '' @ shortID (st_ContractID s)\<rparr>))"

text \<open>Each goroutine writes its own element of the slice, so the result is the list of their results.\<close>

definition buildMarketViews :: "'w env \<Rightarrow> 'w hdeps \<Rightarrow> nat list \<Rightarrow> MarketHandler \<Rightarrow> MarketState list \<Rightarrow> 'w world \<Rightarrow> MarketView list \<times> 'w world" where
  "buildMarketViews E D sched h states w = schedule sched (map (view_worker E D h) states) w"

section \<open>The points of the price chart\<close>

definition apply_event :: "TradeEvent \<Rightarrow> float64 \<times> float64 \<Rightarrow> float64 \<times> float64" where
  "apply_event evt q = (case q of (yesSold, noSold) \<Rightarrow>
     if te_Kind evt = TradeKindBuy then
       (if te_Outcome evt = ''YES'' then (f64_add yesSold (te_Amount evt), noSold) else (yesSold, f64_add noSold (te_Amount evt)))
     else if te_Kind evt = TradeKindSell then
       (if te_Outcome evt = ''YES'' then (f64_sub yesSold (te_Amount evt), noSold) else (yesSold, f64_sub noSold (te_Amount evt)))
     else (yesSold, noSold))"

definition clamp_zero :: "float64 \<Rightarrow> float64" where
  "clamp_zero x = (if f64_lt x (Fin 0) then Fin 0 else x)"

definition approx_price :: "float64 \<Rightarrow> float64 \<Rightarrow> float64" where
  "approx_price yesSold noSold =
     (let total = f64_add yesSold noSold;
          priceYes = (if f64_lt (Fin 0) total then f64_div yesSold total else f64_const (1/2));
          priceYes = (if f64_lt priceYes (f64_const (1/100)) then f64_const (1/100) else priceYes)
      in if f64_lt (f64_const (99/100)) priceYes then f64_const (99/100) else priceYes)"

fun chart_points :: "float64 \<times> float64 \<Rightarrow> TradeEvent list \<Rightarrow> PricePoint list" where
  "chart_points q [] = []"
| "chart_points q (evt # evts) =
     (case apply_event evt q of (y, n) \<Rightarrow>
        let yesSold = clamp_zero y; noSold = clamp_zero n
        in \<lparr>pp_Timestamp = te_Timestamp evt, pp_PriceYes = approx_price yesSold noSold\<rparr> # chart_points (yesSold, noSold) evts)"

definition eventsToChartPoints :: "TradeEvent list \<Rightarrow> PricePoint list" where
  "eventsToChartPoints events = chart_points (Fin 0, Fin 0) events"

section \<open>The points are probabilities\<close>

text \<open>A quantity after \<open>k\<close> events: a non-negative finite number that has not grown out of range.\<close>

definition sold_ok :: "nat \<Rightarrow> float64 \<Rightarrow> bool" where
  "sold_ok k f \<longleftrightarrow> (\<exists>x. f = Fin x \<and> rnd x = x \<and> 0 \<le> x \<and> x \<le> 2 powi (64 + int k))"

definition amount_ok :: "float64 \<Rightarrow> bool" where
  "amount_ok f \<longleftrightarrow> (case f of Fin a \<Rightarrow> \<bar>a\<bar> \<le> 2 powi 63 | _ \<Rightarrow> False)"

lemma powi_mono: "a \<le> b \<Longrightarrow> (2::rat) powi a \<le> 2 powi b"
  by (simp add: powi_le_iff)

lemma sold_ok_Suc: "sold_ok k f \<Longrightarrow> sold_ok (Suc k) f"
  using powi_mono [of "64 + int k" "64 + int (Suc k)"] by (force simp: sold_ok_def)

lemma sold_ok_step:
  assumes s: "sold_ok k f" and a: "amount_ok a" and k: "k < 900"
  shows "sold_ok (Suc k) (clamp_zero (f64_add f a))" "sold_ok (Suc k) (clamp_zero (f64_sub f a))"
proof -
  from s obtain x where x: "f = Fin x" "0 \<le> x" "x \<le> 2 powi (64 + int k)" by (auto simp: sold_ok_def)
  from a obtain v where v: "a = Fin v" "\<bar>v\<bar> \<le> 2 powi 63" by (auto simp: amount_ok_def split: float64.splits)
  have one: "sold_ok (Suc k) (clamp_zero (round64 (x + d)))" if "\<bar>d\<bar> \<le> 2 powi 63" for d
  proof -
    have "(2::rat) powi 63 \<le> 2 powi (64 + int k)" by (rule powi_mono) simp
    moreover have "(2::rat) powi (64 + int (Suc k)) = 2 * 2 powi (64 + int k)" using powi_Suc [of "64 + int k"] by (simp add: algebra_simps)
    ultimately have "\<bar>x + d\<bar> \<le> 2 powi (64 + int (Suc k))" using that x by linarith
    note r = round64_bounded [OF this]
    have "round64 (x + d) = Fin (rnd (x + d))" "\<bar>rnd (x + d)\<bar> \<le> 2 powi (64 + int (Suc k))" using r k by auto
    then show ?thesis by (auto simp: clamp_zero_def sold_ok_def)
  qed
  show "sold_ok (Suc k) (clamp_zero (f64_add f a))" "sold_ok (Suc k) (clamp_zero (f64_sub f a))"
    using one [of v] one [of "- v"] v(2) by (simp_all add: x(1) v(1) f64_sub_def)
qed

lemma clamp_zero_ok: "sold_ok k f \<Longrightarrow> clamp_zero f = f"
  by (auto simp: sold_ok_def clamp_zero_def)

lemma apply_event_ok:
  assumes "sold_ok k y" "sold_ok k n" "amount_ok (te_Amount evt)" "k < 900" "apply_event evt (y, n) = (y', n')"
  shows "sold_ok (Suc k) (clamp_zero y') \<and> sold_ok (Suc k) (clamp_zero n')"
  using assms(5) sold_ok_step [OF assms(1,3,4)] sold_ok_step [OF assms(2,3,4)] assms(1,2)
  by (auto simp: apply_event_def sold_ok_Suc clamp_zero_ok split: if_splits)

lemma price_constants:
  "f64_const (1/100) = Fin (rnd (1/100))" "f64_const (99/100) = Fin (rnd (99/100))" "f64_const (1/2) = Fin (1/2)"
  "0 \<le> rnd (1/100)" "rnd (1/100) \<le> 1/2" "1/2 \<le> rnd (99/100)" "rnd (99/100) \<le> 1"
proof -
  have half: "rnd (1/2) = 1/2" using rnd_powi [of "- 1"] by (simp add: power_int_def)
  show "f64_const (1/100) = Fin (rnd (1/100))" "f64_const (99/100) = Fin (rnd (99/100))" "f64_const (1/2) = Fin (1/2)"
    using round64_bounded(1) [of _ 0] half by (simp_all add: f64_const_def)
  show "0 \<le> rnd (1/100)" "rnd (1/100) \<le> 1/2" "1/2 \<le> rnd (99/100)" "rnd (99/100) \<le> 1"
    by (rule f64.R_nonneg f64.R_le_fixed [OF half] f64.R_ge_fixed [OF half] f64.R_le_fixed [OF rnd_1]; simp)+
qed

lemma approx_price_bounds:
  assumes "sold_ok k y" "sold_ok k n" "k \<le> 900"
  shows "f64_le (f64_const (1/100)) (approx_price y n) \<and> f64_le (approx_price y n) (f64_const (99/100))"
proof -
  from assms(1,2) obtain a b where ab: "y = Fin a" "n = Fin b" "rnd a = a" "0 \<le> a" "0 \<le> b"
    "a \<le> 2 powi (64 + int k)" "b \<le> 2 powi (64 + int k)" by (auto simp: sold_ok_def)
  have "(2::rat) powi (65 + int k) = 2 * 2 powi (64 + int k)" using powi_Suc [of "64 + int k"] by (simp add: algebra_simps)
  then have "\<bar>a + b\<bar> \<le> 2 powi (65 + int k)" using ab by linarith
  then have t: "f64_add y n = Fin (rnd (a + b))" using round64_bounded(1) [of "a + b" "65 + int k"] assms(3) by (simp add: ab)
  have le: "a \<le> rnd (a + b)" using rnd_mono [of a "a + b"] ab by simp
  have q: "f64_div y (Fin (rnd (a + b))) = Fin (rnd (a / rnd (a + b)))" if "0 < rnd (a + b)"
  proof -
    have "0 \<le> a / rnd (a + b)" "a / rnd (a + b) \<le> 1" using that le ab by auto
    then show ?thesis using that round64_bounded(1) [of "a / rnd (a + b)" 0] by (simp add: ab)
  qed
  show ?thesis
    unfolding approx_price_def t Let_def using price_constants(4-7) by (auto simp: q price_constants(1-3))
qed

lemma chart_points_ok:
  assumes "list_all (\<lambda>e. amount_ok (te_Amount e)) evts" "k + length evts \<le> 900" "sold_ok k y" "sold_ok k n"
  shows "map pp_Timestamp (chart_points (y, n) evts) = map te_Timestamp evts
    \<and> list_all (\<lambda>pt. f64_le (f64_const (1/100)) (pp_PriceYes pt) \<and> f64_le (pp_PriceYes pt) (f64_const (99/100))) (chart_points (y, n) evts)"
  using assms
proof (induction evts arbitrary: k y n)
  case (Cons e evts)
  obtain y' n' where a: "apply_event e (y, n) = (y', n')" by (cases "apply_event e (y, n)")
  have ok: "sold_ok (Suc k) (clamp_zero y') \<and> sold_ok (Suc k) (clamp_zero n')"
    using apply_event_ok [OF Cons.prems(3,4) _ _ a] Cons.prems(1,2) by simp
  then show ?case
    using Cons.IH [of "Suc k" "clamp_zero y'" "clamp_zero n'"] Cons.prems(1,2)
      approx_price_bounds [of "Suc k" "clamp_zero y'" "clamp_zero n'"] by (simp add: a Let_def)
qed simp

text \<open>The amounts of parsed events are in range.\<close>

lemma scaled_amount_ok: "amount_ok (f64_div (f64_of_int64 v) float_ScaleFactor)"
proof -
  have s: "float_ScaleFactor = Fin 10000000"
    using f64_of_int64_exact [of ScaleFactor] by (simp add: float_ScaleFactor_def ScaleFactor_def)
  let ?x = "rnd (of_int (sint v))"
  have x: "\<bar>?x\<bar> \<le> 2 powi 63" by (rule f64_of_int64_Fin(2))
  then have "\<bar>?x / 10000000\<bar> \<le> 2 powi 63" by simp
  from round64_bounded [OF this] show ?thesis
    by (simp add: amount_ok_def f64_of_int64_Fin(1) s)
qed

lemma parseTradeEvent_amount: "parseTradeEvent E evt = Inr x \<Longrightarrow> amount_ok (te_Amount x)"
  by (auto simp: parseTradeEvent_def tryE_Inr_iff scaled_amount_ok split: if_splits)

text \<open>The chart of the market page is always drawn.\<close>

lemma length_chart_points [simp]: "length (chart_points q events) = length events"
  by (induction events arbitrary: q) (simp_all add: Let_def split: prod.splits)

lemma market_chart_drawn:
  "length events \<le> 2 ^ 31 \<Longrightarrow> \<exists>t. RenderPriceChart impl (eventsToChartPoints events) DefaultWidth DefaultHeight = Some t"
  by (rule RenderPriceChart_no_panic) (simp_all add: DefaultWidth_def eventsToChartPoints_def)

text \<open>
  For at most 200 trades, the most one request for events returns, the chart has one point per trade, in their
  order and with their times, every price lies between 0.01 and 0.99 and is a number, whatever mixture of buys
  and sells came before the window; and the chart of the market page is always drawn.  The amounts of parsed events
  are in the range that is needed.
\<close>

lemma eventsToChartPoints_prices:
  assumes "list_all (\<lambda>e. amount_ok (te_Amount e)) events" "length events \<le> 200"
  shows "map pp_Timestamp (eventsToChartPoints events) = map te_Timestamp events
    \<and> list_all (\<lambda>pt. f64_le (f64_const (1/100)) (pp_PriceYes pt) \<and> f64_le (pp_PriceYes pt) (f64_const (99/100))) (eventsToChartPoints events)
    \<and> (\<exists>t. RenderPriceChart impl (eventsToChartPoints events) DefaultWidth DefaultHeight = Some t)
    \<and> (parseTradeEvent E evt = Inr x \<longrightarrow> amount_ok (te_Amount x))"
proof -
  have "sold_ok 0 (Fin 0)" by (simp add: sold_ok_def)
  then show ?thesis
    using chart_points_ok [OF assms(1), of 0] assms(2) market_chart_drawn [of events] parseTradeEvent_amount [of E evt x]
    by (simp add: eventsToChartPoints_def)
qed

definition demo_trade :: "string \<Rightarrow> float64 \<Rightarrow> TradeEvent" where
  "demo_trade k a = \<lparr>te_Kind = k, te_User = ''G'', te_Outcome = ''YES'', te_Amount = a, te_Cost = Fin 1, te_Timestamp = 7, te_Ledger = 1\<rparr>"

end
