(* ===== verification/Handler.thy ===== *)
theory Handler
  imports Handler_Views
begin

text \<open>
  The HTTP handlers of \<open>internal/handler/market.go\<close>.  A handler reads a request, acts on the world and returns the response.
  Logging is not modelled.  Where a handler starts goroutines, its argument \<open>sch\<close> gives their schedules, in the order of the
  calls.
\<close>

section \<open>Cookies, pages, errors\<close>

definition cookieMaxAge :: int where "cookieMaxAge = 10 * 365 * 24 * 3600"

definition accountIDFromCookie :: "'w hdeps \<Rightarrow> Request \<Rightarrow> string" where
  "accountIDFromCookie D r =
     (case rq_Cookie r ''account_id'' of
        Inl err \<Rightarrow> []
      | Inr v \<Rightarrow> if v = [] then [] else (case keypair_ParseAddress D v of Inl err \<Rightarrow> [] | Inr _ \<Rightarrow> v))"

definition setAccountIDCookie :: "string \<Rightarrow> ResponseWriter \<Rightarrow> ResponseWriter" where
  "setAccountIDCookie accountID w =
     SetCookie \<lparr>ck_Name = ''account_id'', ck_Value = accountID, ck_Path = ''/'', ck_MaxAge = cookieMaxAge,
       ck_HttpOnly = True, ck_SameSite = SameSiteLax\<rparr> w"

definition common :: "'w hdeps \<Rightarrow> MarketHandler \<Rightarrow> Request \<Rightarrow> string \<Rightarrow> page_common" where
  "common D h r nav = \<lparr>pc_ActiveNav = nav, pc_Network = networkName h, pc_AccountID = accountIDFromCookie D r\<rparr>"

text \<open>The end of every page handler: a failed template is answered with 500 if nothing was sent yet.\<close>

definition render_or_500 :: "'w hdeps \<Rightarrow> string \<Rightarrow> page \<Rightarrow> ResponseWriter" where
  "render_or_500 D name data =
     (case Render D name data new_writer of
        (None, w) \<Rightarrow> w
      | (Some err, w) \<Rightarrow> http_Error ''Internal Server Error'' 500 w)"

definition plain_error :: "string \<Rightarrow> int \<Rightarrow> ResponseWriter" where
  "plain_error msg code = http_Error msg code new_writer"

definition writeError :: "'w hdeps \<Rightarrow> MarketHandler \<Rightarrow> Request \<Rightarrow> goerr \<Rightarrow> ResponseWriter" where
  "writeError D h r err =
     (let er = mapError err
      in snd (Render D ''error'' (ErrorPage (common D h r []) (er_Status er) (er_Message er)) (WriteHeader (er_Status er) new_writer)))"

text \<open>The messages that are encoded need no escaping.\<close>

definition writeJSONError :: "string \<Rightarrow> int \<Rightarrow> ResponseWriter" where
  "writeJSONError msg st =
     Write (''{'' @ [CHR 0x22] @ ''error'' @ [CHR 0x22] @ '':'' @ [CHR 0x22] @ msg @ [CHR 0x22] @ ''}'' @ [CHR 0x0A])
       (WriteHeader st (SetContentType ''application/json'' new_writer))"

text \<open>\<open>v, err := strconv.ParseFloat(s, 64)\<close> with the test \<open>err != nil || v <= 0\<close>: NaN passes it.\<close>

definition parse_positive :: "'w hdeps \<Rightarrow> string \<Rightarrow> float64 option" where
  "parse_positive D s =
     (case strconv_ParseFloat D s of Inl err \<Rightarrow> None | Inr v \<Rightarrow> if f64_le v (Fin 0) then None else Some v)"

section \<open>Panics\<close>

text \<open>
  \<open>None\<close> in place of an answer is a panic of the handler; the server then drops the connection.  The panics are the run-time errors of
  the handlers' own expressions: using an optional service that is nil, indexing a slice out of range, and the panic of the chart.
\<close>

definition deref :: "'a option \<Rightarrow> ('a \<Rightarrow> 's \<Rightarrow> 'r option \<times> 's) \<Rightarrow> 's \<Rightarrow> 'r option \<times> 's" where
  "deref p k s = (case p of None \<Rightarrow> (None, s) | Some x \<Rightarrow> k x s)"

definition index_at :: "'a list \<Rightarrow> nat \<Rightarrow> ('a \<Rightarrow> 's \<Rightarrow> 'r option \<times> 's) \<Rightarrow> 's \<Rightarrow> 'r option \<times> 's" where
  "index_at xs i k s = (if i < length xs then k (xs ! i) s else (None, s))"

definition unless_panic :: "('s \<Rightarrow> 'a option \<times> 's) \<Rightarrow> ('a \<Rightarrow> 's \<Rightarrow> 'r option \<times> 's) \<Rightarrow> 's \<Rightarrow> 'r option \<times> 's" where
  "unless_panic m k s = (case m s of (None, s') \<Rightarrow> (None, s') | (Some x, s') \<Rightarrow> k x s')"

definition returns :: "ResponseWriter \<times> 'w world \<Rightarrow> ResponseWriter option \<times> 'w world" where
  "returns p = map_prod Some (\<lambda>s. s) p"

text \<open>\<open>h.factoryService != nil && h.factoryService.HasFactory()\<close>\<close>

definition factory_ready :: "MarketHandler \<Rightarrow> bool" where
  "factory_ready h \<longleftrightarrow> (case mh_factoryService h of None \<Rightarrow> False | Some f \<Rightarrow> HasFactory f)"

section \<open>The list of markets\<close>

definition handleListMarkets :: "'w env \<Rightarrow> 'w hdeps \<Rightarrow> MarketHandler \<Rightarrow> (nat \<Rightarrow> nat list) \<Rightarrow> Request \<Rightarrow> 'w world \<Rightarrow> ResponseWriter option \<times> 'w world" where
  "handleListMarkets E D h sch r s =
     (if \<not> factory_ready h
      then (Some (render_or_500 D ''markets'' (MarketsPage (common D h r ''markets'') [] (mh_oraclePublicKey h) (Some ''Factory contract not configured''))), s)
      else deref (mh_factoryService h) (\<lambda>f s.
        case ListMarkets E (hd_factory D) f s of
          (Inl err, s1) \<Rightarrow>
            (Some (render_or_500 D ''markets'' (MarketsPage (common D h r ''markets'') [] (mh_oraclePublicKey h) (Some ''Failed to fetch markets from factory''))), s1)
        | (Inr contractIDs, s1) \<Rightarrow>
          (case GetMarketStates E (hd_factory D) (sch 0) f contractIDs s1 of (res, s2) \<Rightarrow>
           let states = (case res of Inl err \<Rightarrow> [] | Inr sts \<Rightarrow> sts) in
           case buildMarketViews E D (sch 1) h states s2 of (markets, s3) \<Rightarrow>
             (Some (render_or_500 D ''markets'' (MarketsPage (common D h r ''markets'') markets (mh_oraclePublicKey h) None)), s3))) s)"

section \<open>One market\<close>

definition state_market :: "MarketState \<Rightarrow> Market" where
  "state_market st = zero_Market\<lparr>mk_ID := st_ContractID st, mk_YesSold := scaled (st_YesSold st), mk_NoSold := scaled (st_NoSold st),
     mk_PriceYes := st_PriceYes st, mk_PriceNo := st_PriceNo st,
     mk_Resolution := (if st_Resolved st \<and> st_WinningOutcome st \<noteq> [] then st_WinningOutcome st else [])\<rparr>"

text \<open>The metadata of the detail page; the outcome page takes only the question and the description.\<close>

definition full_metadata :: "MarketMetadata \<Rightarrow> Market \<Rightarrow> Market" where
  "full_metadata metadata m = m\<lparr>mk_Question := md_Question metadata, mk_Description := md_Description metadata,
     mk_ResolutionSource := md_ResolutionSource metadata, mk_Category := md_Category metadata,
     mk_EndDate := md_EndDate metadata, mk_CreatedAt := md_CreatedAt metadata\<rparr>"

definition brief_metadata :: "MarketMetadata \<Rightarrow> Market \<Rightarrow> Market" where
  "brief_metadata metadata m = m\<lparr>mk_Question := md_Question metadata, mk_Description := md_Description metadata\<rparr>"

definition load_metadata ::
  "'w env \<Rightarrow> 'w hdeps \<Rightarrow> MarketHandler \<Rightarrow> (MarketMetadata \<Rightarrow> Market \<Rightarrow> Market) \<Rightarrow> string \<Rightarrow> MarketState \<Rightarrow> 'w world \<Rightarrow> Market option \<times> 'w world" where
  "load_metadata E D h fill contractID st s =
     (let market = state_market st; fallback = market\<lparr>mk_Question := ''Market '' @ shortID contractID\<rparr> in
      if st_MetadataHash st \<noteq> [] \<and> mh_ipfsClient h \<noteq> None
      then deref (mh_ipfsClient h) (\<lambda>c s.
        case GetJSON E (hd_ipfs D) c (st_MetadataHash st) (json_Metadata D) s of
          (Inl err, s') \<Rightarrow> (Some (fallback\<lparr>mk_MetadataHash := st_MetadataHash st\<rparr>), s')
        | (Inr metadata, s') \<Rightarrow> (Some ((fill metadata market)\<lparr>mk_MetadataHash := st_MetadataHash st\<rparr>), s')) s
      else (Some fallback, s))"

definition EmDash :: string where "EmDash = [CHR 0xE2, CHR 0x80, CHR 0x94]"

definition balance_failed :: string where
  "balance_failed = ''Failed to load balance '' @ EmDash @ '' please try again.''"

definition load_balance ::
  "'w env \<Rightarrow> MarketHandler \<Rightarrow> nat list \<Rightarrow> string \<Rightarrow> string \<Rightarrow> 'w world \<Rightarrow> (UserBalance option \<times> string) \<times> 'w world" where
  "load_balance E h sched contractID accountID s =
     (case GetBalance E sched (mh_marketService h) contractID accountID s of
        (Inl err, s') \<Rightarrow> ((None, balance_failed), s')
      | (Inr balance, s') \<Rightarrow> ((Some balance, []), s'))"

definition load_events ::
  "'w env \<Rightarrow> 'w hdeps \<Rightarrow> MarketHandler \<Rightarrow> string \<Rightarrow> 'w world \<Rightarrow> (TradeEvent list \<times> string \<times> string) option \<times> 'w world" where
  "load_events E D h contractID s =
     (if mh_eventService h \<noteq> None
      then deref (mh_eventService h) (\<lambda>es s.
        case GetTradeEvents E (hd_events D) es contractID s of
          (Inl err, s') \<Rightarrow> (Some ([], [], ''Failed to load trade history.''), s')
        | (Inr events, s') \<Rightarrow>
            if events = [] then (Some (events, [], []), s')
            else (map_option (\<lambda>chart. (events, chart, []))
                    (RenderPriceChart (conv_impl E) (eventsToChartPoints events) DefaultWidth DefaultHeight), s')) s
      else (Some ([], [], []), s))"

definition handleMarketDetail :: "'w env \<Rightarrow> 'w hdeps \<Rightarrow> MarketHandler \<Rightarrow> (nat \<Rightarrow> nat list) \<Rightarrow> Request \<Rightarrow> 'w world \<Rightarrow> ResponseWriter option \<times> 'w world" where
  "handleMarketDetail E D h sch r s =
     (let contractID = rq_PathValue r ''id'' in
      if contractID = [] then (Some (plain_error ''Contract ID required'' 400), s)
      else if \<not> factory_ready h then (Some (plain_error ''Factory contract not configured'' 503), s)
      else deref (mh_factoryService h) (\<lambda>f s.
        case GetMarketStates E (hd_factory D) (sch 0) f [contractID] s of
          (Inl err, s1) \<Rightarrow> (Some (writeError D h r err), s1)
        | (Inr states, s1) \<Rightarrow>
          if length states = 0 then (Some (plain_error ''Market not found'' 404), s1)
          else index_at states 0 (\<lambda>st.
           unless_panic (load_metadata E D h full_metadata contractID st) (\<lambda>market s2.
           let accountKey = TrimSpace (rq_QueryGet r ''account'');
               accountID = (if accountKey \<noteq> [] then accountKey else accountIDFromCookie D r) in
           case (if accountID = [] then ((None, []), s2)
                 else case keypair_ParseAddress D accountID of
                   Inl err \<Rightarrow> ((None, ''Invalid Stellar public key format.''), s2)
                 | Inr _ \<Rightarrow> load_balance E h (sch 1) contractID accountID s2) of
             ((userBalance, balanceError), s3) \<Rightarrow>
           unless_panic (load_events E D h contractID) (\<lambda>loaded s4. case loaded of (tradeEvents, priceChart, eventsError) \<Rightarrow>
                (Some (render_or_500 D ''market'' (MarketPage
                   \<lparr>pc_ActiveNav = ''markets'', pc_Network = networkName h, pc_AccountID = accountID\<rparr>
                   \<lparr>mp_Market = market, mp_OraclePublicKey = mh_oraclePublicKey h, mp_PriceChart = priceChart, mp_TradeEvents = tradeEvents,
                    mp_EventsError = eventsError, mp_UserBalance = userBalance, mp_BalanceError = balanceError\<rparr>)), s4)) s3)) s1) s)"

definition path_outcome :: "string \<Rightarrow> string option" where
  "path_outcome path = (if suffix ''/yes'' path then Some ''YES'' else if suffix ''/no'' path then Some ''NO'' else None)"

definition handleOutcomePage :: "'w env \<Rightarrow> 'w hdeps \<Rightarrow> MarketHandler \<Rightarrow> (nat \<Rightarrow> nat list) \<Rightarrow> Request \<Rightarrow> 'w world \<Rightarrow> ResponseWriter option \<times> 'w world" where
  "handleOutcomePage E D h sch r s =
     (let contractID = rq_PathValue r ''id'' in
      if contractID = [] then (Some (plain_error ''Contract ID required'' 400), s)
      else (case path_outcome (rq_URLPath r) of
        None \<Rightarrow> (Some (plain_error ''Invalid outcome'' 400), s)
      | Some outcome \<Rightarrow>
        if \<not> factory_ready h then (Some (plain_error ''Factory contract not configured'' 503), s)
        else deref (mh_factoryService h) (\<lambda>f s.
           case GetMarketStates E (hd_factory D) (sch 0) f [contractID] s of
             (Inl err, s1) \<Rightarrow> (Some (writeError D h r err), s1)
           | (Inr states, s1) \<Rightarrow>
             if length states = 0 then (Some (plain_error ''Market not found'' 404), s1)
             else index_at states 0 (\<lambda>st.
              unless_panic (load_metadata E D h brief_metadata contractID st) (\<lambda>market s2.
              let accountID = accountIDFromCookie D r in
              case (if accountID = [] then ((None, []), s2) else load_balance E h (sch 1) contractID accountID s2) of
                ((userBalance, balanceError), s3) \<Rightarrow>
              let price = (if outcome = ''YES'' then mk_PriceYes market else mk_PriceNo market) in
              (Some (render_or_500 D ''outcome'' (OutcomePage
                 \<lparr>pc_ActiveNav = ''markets'', pc_Network = networkName h, pc_AccountID = accountID\<rparr>
                 \<lparr>op_Market = market, op_Outcome = outcome, op_OutcomePrice = price,
                  op_OGTitle = ''Vote '' @ outcome @ '': '' @ mk_Question market,
                  op_OGDescription = outcome @ '' is at '' @ fmt_fixed 0 (f64_mul price (f64_const 100)) @ ''% '' @ EmDash @ '' Trade on Total'',
                  op_UserBalance = userBalance, op_BalanceError = balanceError, op_NetworkPassphrase = mh_networkPassphrase h\<rparr>)), s3))) s1) s))"

section \<open>Quotes\<close>

definition handleGetQuote :: "'w env \<Rightarrow> 'w hdeps \<Rightarrow> MarketHandler \<Rightarrow> Request \<Rightarrow> 'w world \<Rightarrow> ResponseWriter \<times> 'w world" where
  "handleGetQuote E D h r s =
     (case rq_ParseForm r of Inl err \<Rightarrow> (plain_error ''Invalid form data'' 400, s) | Inr _ \<Rightarrow>
      (let contractID = rq_PathValue r ''id'' in
      case ParseOutcome (rq_FormValue r ''outcome'') of
        Inl err \<Rightarrow> (plain_error ''Invalid outcome: must be YES or NO'' 400, s)
      | Inr outcome \<Rightarrow>
        (case parse_positive D (rq_FormValue r ''amount'') of
           None \<Rightarrow> (plain_error ''Invalid amount'' 400, s)
         | Some amount \<Rightarrow>
           (case GetQuote E (mh_marketService h) contractID outcome amount s of
              (Inl err, s') \<Rightarrow> (writeError D h r err, s')
            | (Inr quote, s') \<Rightarrow> (render_or_500 D ''quote'' (QuotePage (common D h r ''markets'') quote contractID), s')))))"

text \<open>
  \<open>json.NewEncoder(w).Encode\<close> writes the encoded text and a newline, or nothing when encoding fails.
\<close>

definition handleAPIQuote :: "'w env \<Rightarrow> 'w hdeps \<Rightarrow> MarketHandler \<Rightarrow> Request \<Rightarrow> 'w world \<Rightarrow> ResponseWriter \<times> 'w world" where
  "handleAPIQuote E D h r s =
     (let contractID = rq_PathValue r ''id'' in
      if contractID = [] then (writeJSONError ''contract ID required'' 400, s)
      else (case ParseOutcome (rq_FormValue r ''outcome'') of
        Inl err \<Rightarrow> (writeJSONError ''invalid outcome'' 400, s)
      | Inr outcome \<Rightarrow>
        (case parse_positive D (rq_FormValue r ''amount'') of
           None \<Rightarrow> (writeJSONError ''invalid amount'' 400, s)
         | Some amount \<Rightarrow>
           (case GetQuote E (mh_marketService h) contractID outcome amount s of
              (Inl err, s') \<Rightarrow> (writeJSONError ''quote unavailable'' 502, s')
            | (Inr quote, s') \<Rightarrow>
                let w = SetContentType ''application/json'' new_writer in
                (case json_QuoteAnswer D (scaled (q_Cost quote)) (q_PriceAfter quote) of
                   Inl err \<Rightarrow> (w, s')
                 | Inr body \<Rightarrow> (Write (body @ [CHR 0x0A]) w, s'))))))"

section \<open>Trades\<close>

text \<open>The form of a trade: the public key, the outcome, the amount and the slippage, checked in this order.\<close>

definition parse_slippage :: "'w hdeps \<Rightarrow> string \<Rightarrow> ResponseWriter + float64" where
  "parse_slippage D slippageStr =
     (if slippageStr = [] then Inr DefaultSlippage
      else case strconv_ParseFloat D slippageStr of
        Inl err \<Rightarrow> Inl (plain_error ''Invalid slippage: must be a number'' 400)
      | Inr s \<Rightarrow>
          if f64_le s (Fin 0) \<or> f64_lt MaxSlippage s
          then Inl (plain_error ''Invalid slippage: must be between 0 and 10% (e.g., 0.01 for 1%)'' 400)
          else Inr s)"

definition trade_form :: "'w hdeps \<Rightarrow> Request \<Rightarrow> ResponseWriter + TradeRequest" where
  "trade_form D r =
     (case rq_ParseForm r of Inl err \<Rightarrow> Inl (plain_error ''Invalid form data'' 400) | Inr _ \<Rightarrow>
      (let userPubKey = TrimSpace (rq_FormValue r ''user_public_key'') in
      case keypair_ParseAddress D userPubKey of
        Inl err \<Rightarrow> Inl (plain_error ''Invalid Stellar public key'' 400)
      | Inr _ \<Rightarrow>
        (case ParseOutcome (rq_FormValue r ''outcome'') of
           Inl err \<Rightarrow> Inl (plain_error ''Invalid outcome: must be YES or NO'' 400)
         | Inr outcome \<Rightarrow>
           (case parse_positive D (rq_FormValue r ''amount'') of
              None \<Rightarrow> Inl (plain_error ''Invalid amount'' 400)
            | Some amount \<Rightarrow>
              (case parse_slippage D (rq_FormValue r ''slippage'') of
                 Inl w \<Rightarrow> Inl w
               | Inr slippage \<Rightarrow>
                   Inr \<lparr>tq_UserPublicKey = userPubKey, tq_ContractID = rq_PathValue r ''id'', tq_Outcome = outcome,
                        tq_ShareAmount = amount, tq_Slippage = slippage\<rparr>)))))"

text \<open>The end of every handler that builds a transaction.\<close>

definition tx_page :: "'w hdeps \<Rightarrow> MarketHandler \<Rightarrow> Request \<Rightarrow> string \<Rightarrow> string \<Rightarrow> TransactionResult result \<times> 'w world \<Rightarrow> ResponseWriter \<times> 'w world" where
  "tx_page D h r nav marketID res =
     (case res of
        (Inl err, s') \<Rightarrow> (writeError D h r err, s')
      | (Inr result, s') \<Rightarrow>
          (render_or_500 D ''transaction'' (TransactionPage (common D h r nav) result marketID (mh_networkPassphrase h)), s'))"

definition handleBuildBuyTx :: "'w env \<Rightarrow> 'w hdeps \<Rightarrow> MarketHandler \<Rightarrow> Request \<Rightarrow> 'w world \<Rightarrow> ResponseWriter \<times> 'w world" where
  "handleBuildBuyTx E D h r s =
     (case trade_form D r of
        Inl w \<Rightarrow> (w, s)
      | Inr req \<Rightarrow> tx_page D h r ''markets'' (tq_ContractID req) (svc_BuildBuyTx E (mh_marketService h) req s))"

definition handleBuildSellTx :: "'w env \<Rightarrow> 'w hdeps \<Rightarrow> MarketHandler \<Rightarrow> Request \<Rightarrow> 'w world \<Rightarrow> ResponseWriter \<times> 'w world" where
  "handleBuildSellTx E D h r s =
     (case trade_form D r of
        Inl w \<Rightarrow> (w, s)
      | Inr req \<Rightarrow> tx_page D h r ''markets'' (tq_ContractID req) (svc_BuildSellTx E (mh_marketService h) req s))"

definition handleResolveMarket :: "'w env \<Rightarrow> 'w hdeps \<Rightarrow> MarketHandler \<Rightarrow> Request \<Rightarrow> 'w world \<Rightarrow> ResponseWriter \<times> 'w world" where
  "handleResolveMarket E D h r s =
     (case rq_ParseForm r of Inl err \<Rightarrow> (plain_error ''Invalid form data'' 400, s) | Inr _ \<Rightarrow>
      (let contractID = rq_PathValue r ''id'' in
      case ParseOutcome (rq_FormValue r ''outcome'') of
        Inl err \<Rightarrow> (plain_error ''Invalid outcome: must be YES or NO'' 400, s)
      | Inr outcome \<Rightarrow>
          tx_page D h r ''oracle'' contractID (svc_BuildResolveTx E (mh_marketService h)
            \<lparr>rq_OraclePublicKey = mh_oraclePublicKey h, rq_ContractID = contractID, rq_WinningOutcome = outcome\<rparr> s)))"

definition handleBuildClaimTx :: "'w env \<Rightarrow> 'w hdeps \<Rightarrow> MarketHandler \<Rightarrow> Request \<Rightarrow> 'w world \<Rightarrow> ResponseWriter \<times> 'w world" where
  "handleBuildClaimTx E D h r s =
     (case rq_ParseForm r of Inl err \<Rightarrow> (plain_error ''Invalid form data'' 400, s) | Inr _ \<Rightarrow>
      (let contractID = rq_PathValue r ''id''; userPubKey = TrimSpace (rq_FormValue r ''user_public_key'') in
      case keypair_ParseAddress D userPubKey of
        Inl err \<Rightarrow> (plain_error ''Invalid Stellar public key'' 400, s)
      | Inr _ \<Rightarrow>
          tx_page D h r ''markets'' contractID (svc_BuildClaimTx E (mh_marketService h)
            \<lparr>cq_UserPublicKey = userPubKey, cq_ContractID = contractID\<rparr> s)))"

definition handleBuildWithdrawTx :: "'w env \<Rightarrow> 'w hdeps \<Rightarrow> MarketHandler \<Rightarrow> Request \<Rightarrow> 'w world \<Rightarrow> ResponseWriter \<times> 'w world" where
  "handleBuildWithdrawTx E D h r s =
     (case rq_ParseForm r of Inl err \<Rightarrow> (plain_error ''Invalid form data'' 400, s) | Inr _ \<Rightarrow>
      (let contractID = rq_PathValue r ''id''; oraclePubKey = TrimSpace (rq_FormValue r ''oracle_public_key'') in
      case keypair_ParseAddress D oraclePubKey of
        Inl err \<Rightarrow> (plain_error ''Invalid Stellar public key'' 400, s)
      | Inr _ \<Rightarrow>
          tx_page D h r ''oracle'' contractID (svc_BuildWithdrawTx E (mh_marketService h)
            \<lparr>wq_OraclePublicKey = oraclePubKey, wq_ContractID = contractID\<rparr> s)))"

section \<open>The oracle\<close>

definition handleRedirectToOracle :: "Request \<Rightarrow> ResponseWriter" where
  "handleRedirectToOracle r = http_Redirect ''/oracle'' 301 new_writer"

definition oracle_markets :: "'w env \<Rightarrow> 'w hdeps \<Rightarrow> MarketHandler \<Rightarrow> (nat \<Rightarrow> nat list) \<Rightarrow> FactoryService \<Rightarrow> 'w world \<Rightarrow> (MarketView list \<times> string) \<times> 'w world" where
  "oracle_markets E D h sch f s =
     (case ListMarkets E (hd_factory D) f s of
        (Inl err, s1) \<Rightarrow> (([], ''Failed to load markets from factory''), s1)
      | (Inr contractIDs, s1) \<Rightarrow>
        (case GetMarketStates E (hd_factory D) (sch 0) f contractIDs s1 of
           (Inl err, s2) \<Rightarrow> (([], ''Failed to load market states''), s2)
         | (Inr states, s2) \<Rightarrow> (case buildMarketViews E D (sch 1) h states s2 of (markets, s3) \<Rightarrow> ((markets, []), s3))))"

definition handleOracleAdmin :: "'w env \<Rightarrow> 'w hdeps \<Rightarrow> MarketHandler \<Rightarrow> (nat \<Rightarrow> nat list) \<Rightarrow> Request \<Rightarrow> 'w world \<Rightarrow> ResponseWriter option \<times> 'w world" where
  "handleOracleAdmin E D h sch r s =
     (let page = (\<lambda>factoryContract markets marketsError.
            render_or_500 D ''oracle'' (OraclePage (common D h r ''oracle'') (mh_oraclePublicKey h) (f64_const 100) factoryContract markets marketsError)) in
      if factory_ready h
      then deref (mh_factoryService h) (\<lambda>f s.
        case oracle_markets E D h sch f s of ((markets, marketsError), s') \<Rightarrow> (Some (page (FactoryContractID f) markets marketsError), s')) s
      else (Some (page [] [] []), s))"

definition handleBuildDeployTx :: "'w env \<Rightarrow> 'w hdeps \<Rightarrow> MarketHandler \<Rightarrow> Request \<Rightarrow> 'w world \<Rightarrow> ResponseWriter option \<times> 'w world" where
  "handleBuildDeployTx E D h r s =
     (if \<not> factory_ready h then (Some (plain_error ''Factory contract not configured'' 503), s)
      else (case rq_ParseForm r of Inl err \<Rightarrow> (Some (plain_error ''Invalid form data'' 400), s) | Inr _ \<Rightarrow>
        (let metadataHash = TrimSpace (rq_FormValue r ''metadata_hash'') in
        if metadataHash = [] then (Some (plain_error ''Metadata hash is required (upload metadata to IPFS first)'' 400), s)
        else (case ValidateCID metadataHash of
          Inl err \<Rightarrow> (Some (plain_error ''Invalid IPFS hash format (must be CIDv0 Qm... or CIDv1 b...)'' 400), s)
        | Inr _ \<Rightarrow>
          (case parse_positive D (rq_FormValue r ''liquidity_param'') of
             None \<Rightarrow> (Some (plain_error ''Invalid liquidity parameter'' 400), s)
           | Some liquidityParam \<Rightarrow>
             (case parse_positive D (rq_FormValue r ''initial_funding'') of
                None \<Rightarrow> (Some (plain_error ''Invalid initial funding'' 400), s)
              | Some initialFunding \<Rightarrow>
                  deref (mh_factoryService h) (\<lambda>f s. returns (tx_page D h r ''oracle'' ''new'' (svc_BuildDeployMarketTx E (hd_factory D) f
                    \<lparr>dq_LiquidityParam = liquidityParam, dq_MetadataHash = metadataHash, dq_InitialFunding = initialFunding\<rparr> s))) s))))))"

section \<open>Account, health, wallet\<close>

definition handleSetAccount :: "'w hdeps \<Rightarrow> Request \<Rightarrow> ResponseWriter" where
  "handleSetAccount D r =
     (case rq_ParseForm r of Inl err \<Rightarrow> plain_error ''Invalid form data'' 400 | Inr _ \<Rightarrow>
      (let accountID = TrimSpace (rq_FormValue r ''account_id'');
          referer = rq_HeaderGet r ''Referer'';
          redirect = (if referer \<noteq> [] then (case url_ParsePath D referer of Inr path \<Rightarrow> if path \<noteq> [] then path else ''/'' | Inl err \<Rightarrow> ''/'')
                      else ''/'') in
      if accountID = [] then
        http_Redirect redirect 303 (SetCookie \<lparr>ck_Name = ''account_id'', ck_Value = [], ck_Path = ''/'', ck_MaxAge = - 1,
          ck_HttpOnly = False, ck_SameSite = SameSiteDefault\<rparr> new_writer)
      else (case keypair_ParseAddress D accountID of
        Inl err \<Rightarrow> plain_error ''Invalid Stellar public key'' 400
      | Inr _ \<Rightarrow> http_Redirect redirect 303 (setAccountIDCookie accountID new_writer))))"

definition handleHealth :: "Request \<Rightarrow> ResponseWriter" where
  "handleHealth r = Write ''OK'' (WriteHeader 200 new_writer)"

definition mtlWalletAPI :: string where "mtlWalletAPI = ''https://eurmtl.me/remote/sep07/add''"
definition maxWalletURILen :: nat where "maxWalletURILen = 64 * 1024"

definition mtlWalletClient :: http_client where
  "mtlWalletClient = \<lparr>hcl_Timeout = 10000000000, hcl_FollowRedirects = False\<rparr>"

definition wallet_request :: "string \<Rightarrow> http_request" where
  "wallet_request jsonBody = \<lparr>hq_Method = ''POST'', hq_URL = mtlWalletAPI, hq_Headers = [(''Content-Type'', ''application/json'')], hq_Body = jsonBody\<rparr>"

text \<open>The answer of the wallet service; at most 64 KB of it are read.\<close>

definition wallet_answer :: "'w hdeps \<Rightarrow> http_response \<Rightarrow> ResponseWriter" where
  "wallet_answer D answer =
     (case ReadAll (LimitReader 65536 (hr_Body answer)) of Inl err \<Rightarrow> writeJSONError ''failed to read wallet response'' 502 | Inr body \<Rightarrow>
      (if hr_StatusCode answer \<ge> 400 then writeJSONError ''MTL Wallet returned an error'' 502
      else (case json_WalletURL D body of
        Inl err \<Rightarrow> writeJSONError ''unexpected wallet response'' 502
      | Inr url \<Rightarrow>
          if url \<noteq> [] \<and> \<not> prefix ''https://'' url then writeJSONError ''unexpected wallet response'' 502
          else Write body (SetContentType ''application/json'' new_writer))))"

definition handleMTLWallet :: "'w env \<Rightarrow> 'w hdeps \<Rightarrow> MarketHandler \<Rightarrow> Request \<Rightarrow> 'w world \<Rightarrow> ResponseWriter \<times> 'w world" where
  "handleMTLWallet E D h r s =
     (if Contains (mh_networkPassphrase h) ''Test'' then (writeJSONError ''MTL Wallet is only available on mainnet'' 400, s)
      else let uri = rq_FormValue r ''uri'' in
      if uri = [] \<or> \<not> prefix ''web+stellar:tx?'' uri then (writeJSONError ''invalid Stellar URI'' 400, s)
      else if length uri > maxWalletURILen then (writeJSONError ''URI too large'' 400, s)
      else (case json_MarshalURI D uri of
        Inl err \<Rightarrow> (writeJSONError ''internal error'' 500, s)
      | Inr jsonBody \<Rightarrow>
        (case http_NewRequest E (wallet_request jsonBody) of
           Inl err \<Rightarrow> (writeJSONError ''internal error'' 500, s)
         | Inr _ \<Rightarrow>
           (case outside (wallet_Do D mtlWalletClient (wallet_request jsonBody)) s of
              (Inl err, s') \<Rightarrow> (writeJSONError ''MTL Wallet is temporarily unavailable'' 502, s')
            | (Inr answer, s') \<Rightarrow> (wallet_answer D answer, s')))))"

section \<open>Routes\<close>

datatype endpoint =
    EpListMarkets | EpMarketDetail | EpGetQuote | EpBuildBuyTx | EpBuildSellTx | EpResolveMarket | EpBuildClaimTx
  | EpBuildWithdrawTx | EpOutcomePage | EpSetAccount | EpOracleAdmin | EpRedirectToOracle | EpBuildDeployTx | EpHealth
  | EpAPIQuote | EpMTLWallet

definition RegisterRoutes :: "(string \<times> endpoint) list" where
  "RegisterRoutes =
     [(''GET /'', EpListMarkets), (''GET /markets'', EpListMarkets), (''GET /market/{id}'', EpMarketDetail),
      (''POST /market/{id}/quote'', EpGetQuote), (''POST /market/{id}/buy'', EpBuildBuyTx),
      (''POST /market/{id}/sell'', EpBuildSellTx), (''POST /market/{id}/resolve'', EpResolveMarket),
      (''POST /market/{id}/claim'', EpBuildClaimTx), (''POST /market/{id}/withdraw'', EpBuildWithdrawTx),
      (''GET /market/{id}/yes'', EpOutcomePage), (''GET /market/{id}/no'', EpOutcomePage),
      (''POST /account'', EpSetAccount), (''GET /oracle'', EpOracleAdmin), (''GET /deploy'', EpRedirectToOracle),
      (''POST /deploy'', EpBuildDeployTx), (''GET /health'', EpHealth), (''POST /api/quote/{id}'', EpAPIQuote),
      (''POST /api/mtl-wallet'', EpMTLWallet)]"

fun serve :: "'w env \<Rightarrow> 'w hdeps \<Rightarrow> MarketHandler \<Rightarrow> (nat \<Rightarrow> nat list) \<Rightarrow> endpoint \<Rightarrow> Request \<Rightarrow> 'w world \<Rightarrow> ResponseWriter option \<times> 'w world" where
  "serve E D h sch EpListMarkets r s = handleListMarkets E D h sch r s"
| "serve E D h sch EpMarketDetail r s = handleMarketDetail E D h sch r s"
| "serve E D h sch EpGetQuote r s = returns (handleGetQuote E D h r s)"
| "serve E D h sch EpBuildBuyTx r s = returns (handleBuildBuyTx E D h r s)"
| "serve E D h sch EpBuildSellTx r s = returns (handleBuildSellTx E D h r s)"
| "serve E D h sch EpResolveMarket r s = returns (handleResolveMarket E D h r s)"
| "serve E D h sch EpBuildClaimTx r s = returns (handleBuildClaimTx E D h r s)"
| "serve E D h sch EpBuildWithdrawTx r s = returns (handleBuildWithdrawTx E D h r s)"
| "serve E D h sch EpOutcomePage r s = handleOutcomePage E D h sch r s"
| "serve E D h sch EpSetAccount r s = (Some (handleSetAccount D r), s)"
| "serve E D h sch EpOracleAdmin r s = handleOracleAdmin E D h sch r s"
| "serve E D h sch EpRedirectToOracle r s = (Some (handleRedirectToOracle r), s)"
| "serve E D h sch EpBuildDeployTx r s = handleBuildDeployTx E D h r s"
| "serve E D h sch EpHealth r s = (Some (handleHealth r), s)"
| "serve E D h sch EpAPIQuote r s = returns (handleAPIQuote E D h r s)"
| "serve E D h sch EpMTLWallet r s = returns (handleMTLWallet E D h r s)"

end
