(* ===== verification/Cmd_Total.thy ===== *)
theory Cmd_Total
  imports Handler Config
begin

text \<open>
  \<open>cmd/total/main.go\<close> and \<open>internal/logger/logger.go\<close>: the configuration, the wiring of the services and the
  warm-up of the cache.  The environment variables (after \<open>godotenv.Load\<close>) are a function from names to values, with
  the empty string for a variable that is not set.  The level of the logger is computed; logging itself is not modelled.
\<close>

section \<open>Configuration\<close>

text \<open>
  \<open>strings.ToLower\<close> on the strings its result is compared with: the ASCII letters, and the two other code points whose
  lower case is an ASCII letter, U+0130 (capital i with a dot) and U+212A (the Kelvin sign).
\<close>

definition lower_ascii :: "char \<Rightarrow> char" where
  "lower_ascii c = (if 65 \<le> (of_char c :: nat) \<and> (of_char c :: nat) \<le> 90 then char_of ((of_char c :: nat) + 32) else c)"

fun ToLower :: "string \<Rightarrow> string" where
  "ToLower (c # s) =
     (if prefix [CHR 0xC4, CHR 0xB0] (c # s) then CHR ''i'' # ToLower (drop 1 s)
      else if prefix [CHR 0xE2, CHR 0x84, CHR 0xAA] (c # s) then CHR ''k'' # ToLower (drop 2 s)
      else lower_ascii c # ToLower s)"
| "ToLower [] = []"

datatype Level = LevelDebug | LevelInfo | LevelWarn | LevelError

definition ParseLevel :: "string \<Rightarrow> Level" where
  "ParseLevel s =
     (let l = ToLower s in
      if l = ''debug'' then LevelDebug
      else if l = ''info'' then LevelInfo
      else if l = ''warn'' \<or> l = ''warning'' then LevelWarn
      else if l = ''error'' then LevelError
      else LevelInfo)"

text \<open>The default logger that \<open>Setup\<close> installs: JSON lines on the standard output, from a level on.\<close>

datatype log_sink = Stdout

record slog_logger =
  lg_Level :: Level
  lg_JSON :: bool
  lg_Output :: log_sink

definition Setup :: "Level \<Rightarrow> slog_logger" where
  "Setup level = \<lparr>lg_Level = level, lg_JSON = True, lg_Output = Stdout\<rparr>"

record appConfig =
  ac_Port :: string
  ac_LogLevel :: string
  ac_Network :: string
  ac_NetworkConfig :: NetworkConfig
  ac_OraclePublicKey :: string
  ac_FactoryContract :: string
  ac_PinataAPIKey :: string
  ac_PinataAPISecret :: string

definition getEnv :: "(string \<Rightarrow> string) \<Rightarrow> string \<Rightarrow> string \<Rightarrow> string" where
  "getEnv vars key defaultValue = (if vars key \<noteq> [] then vars key else defaultValue)"

definition parseConfig :: "(string \<Rightarrow> string) \<Rightarrow> appConfig" where
  "parseConfig vars =
     (let network = ToLower (getEnv vars ''NETWORK'' ''testnet'') in
      \<lparr>ac_Port = getEnv vars ''PORT'' DefaultPort, ac_LogLevel = getEnv vars ''LOG_LEVEL'' ''info'', ac_Network = network,
       ac_NetworkConfig = GetNetworkConfig network, ac_OraclePublicKey = getEnv vars ''ORACLE_PUBLIC_KEY'' [],
       ac_FactoryContract = getEnv vars ''MARKET_FACTORY_CONTRACT'' [], ac_PinataAPIKey = getEnv vars ''PINATA_API_KEY'' [],
       ac_PinataAPISecret = getEnv vars ''PINATA_API_SECRET'' []\<rparr>)"

section \<open>Wiring\<close>

text \<open>What \<open>run\<close> has built when it starts the server: the logger, the address, the handler, and the clients for the warm-up.\<close>

record app =
  app_Logger :: slog_logger
  app_Addr :: string
  app_Handler :: MarketHandler
  app_Factory :: FactoryService
  app_Ipfs :: IpfsClient

text \<open>\<open>template.New\<close>, of the result of parsing the embedded files.\<close>

record Template =
  tmpl_parsed :: unit

definition Template_New :: "unit result \<Rightarrow> Template result" where
  "Template_New parsed = tryE parsed (wrap ''failed to parse templates: '') (\<lambda>t. Inr \<lparr>tmpl_parsed = t\<rparr>)"

definition wire :: "appConfig \<Rightarrow> unit result \<Rightarrow> ('w, app) act" where
  "wire cfg templates s =
     (if ac_OraclePublicKey cfg = [] then (Inl (ErrNew ''ORACLE_PUBLIC_KEY environment variable is required''), s)
      else if ac_FactoryContract cfg = [] then (Inl (ErrNew ''MARKET_FACTORY_CONTRACT environment variable is required''), s)
      else
      let net = ac_NetworkConfig cfg in
      tryM (liftM (NewHorizonClient (nc_HorizonURL net) (nc_NetworkPassphrase net))) (wrap ''failed to create Stellar client: '') (\<lambda>stellarClient s1.
      case NewClient (nc_SorobanRPCURL net) s1 of (sorobanClient, s2) \<Rightarrow>
      let txBuilder = NewBuilder stellarClient (nc_NetworkPassphrase net) DefaultBaseFee (Some sorobanClient);
          marketService = NewMarketService sorobanClient txBuilder (ac_OraclePublicKey cfg);
          factoryService = NewFactoryService sorobanClient txBuilder (ac_FactoryContract cfg) (ac_OraclePublicKey cfg);
          ipfsClient = Ipfs_NewClient (ac_PinataAPIKey cfg) (ac_PinataAPISecret cfg);
          eventService = NewEventService sorobanClient
      in tryM (liftM (Template_New templates)) (wrap ''failed to load templates: '') (\<lambda>_.
         retM \<lparr>app_Logger = Setup (ParseLevel (ac_LogLevel cfg)), app_Addr = '':'' @ ac_Port cfg,
               app_Handler = NewMarketHandler marketService (Some factoryService) (Some eventService) (Some ipfsClient)
                 (ac_OraclePublicKey cfg) (nc_NetworkPassphrase net),
               app_Factory = factoryService, app_Ipfs = ipfsClient\<rparr>) s2) s)"

text \<open>How serving ends: the server fails, or a signal arrives and the server is shut down with some result.\<close>

datatype serving = ServerError goerr | Signalled "unit result"

definition run :: "(string \<Rightarrow> string) \<Rightarrow> unit result \<Rightarrow> (app \<Rightarrow> 'w world \<Rightarrow> serving \<times> 'w world) \<Rightarrow> ('w, unit) act" where
  "run vars templates serving =
     tryM (wire (parseConfig vars) templates) same (\<lambda>a s.
     case serving a s of
       (ServerError err, s') \<Rightarrow> (Inl (wrap ''server error: '' err), s')
     | (Signalled shutdown, s') \<Rightarrow> tryM (liftM shutdown) (wrap ''server shutdown failed: '') retM s')"

text \<open>\<open>main\<close>: the status with which the process ends.\<close>

definition total_main :: "(string \<Rightarrow> string) \<Rightarrow> unit result \<Rightarrow> (app \<Rightarrow> 'w world \<Rightarrow> serving \<times> 'w world) \<Rightarrow> 'w world \<Rightarrow> int \<times> 'w world" where
  "total_main vars templates serving s = (case run vars templates serving s of (Inl err, s') \<Rightarrow> (1, s') | (Inr _, s') \<Rightarrow> (0, s'))"

section \<open>Warm-up\<close>

definition warmupIPFSCache :: "'w env \<Rightarrow> 'w hdeps \<Rightarrow> nat list \<Rightarrow> FactoryService \<Rightarrow> IpfsClient \<Rightarrow> 'w world \<Rightarrow> unit \<times> 'w world" where
  "warmupIPFSCache E D sched factoryService ipfsClient s =
     (case ListMarkets E (hd_factory D) factoryService s of
        (Inl err, s1) \<Rightarrow> ((), s1)
      | (Inr markets, s1) \<Rightarrow>
        if markets = [] then ((), s1)
        else (case GetMarketStates E (hd_factory D) sched factoryService markets s1 of
                (Inl err, s2) \<Rightarrow> ((), s2)
              | (Inr states, s2) \<Rightarrow>
                  (let hashes = filter (\<lambda>hash. hash \<noteq> []) (map st_MetadataHash states) in
                   if hashes \<noteq> [] then Warmup E (hd_ipfs D) ipfsClient hashes s2 else ((), s2))))"

section \<open>One network for everything\<close>

lemma network_strings:
  "Contains MainnetNetworkPassphrase ''Test'' = False" "Contains TestnetNetworkPassphrase ''Test'' = True"
  "MainnetHorizonURL \<noteq> []" "MainnetNetworkPassphrase \<noteq> []" "TestnetHorizonURL \<noteq> []" "TestnetNetworkPassphrase \<noteq> []"
  by (simp_all add: Contains_def network_constants)

lemma network_fields:
  fixes main :: bool
  defines "net \<equiv> (if main then GetNetworkConfig ''mainnet'' else GetNetworkConfig ''testnet'')"
  shows "nc_NetworkPassphrase net = (if main then MainnetNetworkPassphrase else TestnetNetworkPassphrase)"
    "nc_SorobanRPCURL net = (if main then MainnetSorobanRPCURL else TestnetSorobanRPCURL)"
    "nc_HorizonURL net = (if main then MainnetHorizonURL else TestnetHorizonURL)"
    "Contains (nc_NetworkPassphrase net) ''Test'' \<longleftrightarrow> \<not> main"
    "nc_HorizonURL net \<noteq> []" "nc_NetworkPassphrase net \<noteq> []"
  unfolding net_def by (simp_all add: GetNetworkConfig_def network_strings)

text \<open>
  What \<open>wire\<close> returns, field by field.  A transaction builder is on a network if it looks up accounts at the network's Horizon server,
  and signs for and simulates on the network, itself and through the invoker that it creates.
\<close>

definition builder_on :: "string \<Rightarrow> string \<Rightarrow> string \<Rightarrow> Builder \<Rightarrow> bool" where
  "builder_on horizon passphrase rpc b \<longleftrightarrow>
     HorizonURL (bl_client b) = horizon \<and> NetworkPassphrase (bl_client b) = passphrase \<and> bl_networkPassphrase b = passphrase
     \<and> map_option RPCURL (bl_sorobanClient b) = Some rpc
     \<and> map_option (\<lambda>ci. (RPCURL (ci_client ci), ci_networkPassphrase ci)) (bl_contractInvoker b) = Some (rpc, passphrase)"

definition wired :: "appConfig \<Rightarrow> app \<Rightarrow> bool" where
  "wired cfg a \<longleftrightarrow> (let net = ac_NetworkConfig cfg; h = app_Handler a; ms = mh_marketService h; f = app_Factory a in
     mh_networkPassphrase h = nc_NetworkPassphrase net \<and> mh_factoryService h = Some f
     \<and> builder_on (nc_HorizonURL net) (nc_NetworkPassphrase net) (nc_SorobanRPCURL net) (ms_txBuilder ms)
     \<and> builder_on (nc_HorizonURL net) (nc_NetworkPassphrase net) (nc_SorobanRPCURL net) (fs_txBuilder f)
     \<and> map_option (\<lambda>es. RPCURL (es_sorobanClient es)) (mh_eventService h) = Some (nc_SorobanRPCURL net)
     \<and> RPCURL (ms_sorobanClient ms) = nc_SorobanRPCURL net \<and> RPCURL (fs_sorobanClient f) = nc_SorobanRPCURL net
     \<and> fs_factoryContract f = ac_FactoryContract cfg)"

lemma wire_built:
  assumes "nc_HorizonURL (ac_NetworkConfig cfg) \<noteq> []" "nc_NetworkPassphrase (ac_NetworkConfig cfg) \<noteq> []"
  shows "fst (wire cfg templates s) = Inr a \<Longrightarrow> wired cfg a"
    "(\<exists>a. fst (wire cfg templates s) = Inr a) \<longleftrightarrow> ac_OraclePublicKey cfg \<noteq> [] \<and> ac_FactoryContract cfg \<noteq> [] \<and> templates = Inr ()"
  using assms
  by (cases templates; auto simp: wire_def wired_def Let_def NewHorizonClient_def NewClient_def NewMarketHandler_def
      NewMarketService_def NewFactoryService_def NewBuilder_def NewEventService_def
      NewContractInvoker_def builder_on_def HorizonURL_def NetworkPassphrase_def RPCURL_def Template_New_def split: if_splits)+

lemma total_main_fails: "\<not> (\<exists>a. fst (wire (parseConfig vars) templates s) = Inr a) \<Longrightarrow> fst (total_main vars templates serving s) = 1"
  by (auto simp: total_main_def run_def tryM_apply split: prod.splits sum.splits)

text \<open>
  C38 (wire_one_network): the server starts exactly if the oracle key and the factory contract are configured and the templates load; otherwise the process ends with status 1.
  All its parts then agree on one network: the main network if the variable \<open>NETWORK\<close> reads mainnet in any
  case, the test network otherwise.  The pages name that network; the market, factory and event services use its RPC server; and the transaction
  builders of the market and factory services look up accounts at its Horizon server, sign for it, and simulate on its RPC server.
\<close>

theorem wire_one_network:
  "((\<exists>a. fst (wire (parseConfig vars) templates s) = Inr a) \<longleftrightarrow>
      vars ''ORACLE_PUBLIC_KEY'' \<noteq> [] \<and> vars ''MARKET_FACTORY_CONTRACT'' \<noteq> [] \<and> templates = Inr ())
   \<and> ((\<exists>a. fst (wire (parseConfig vars) templates s) = Inr a) \<or> fst (total_main vars templates serving s) = 1)
   \<and> (fst (wire (parseConfig vars) templates s) = Inr a \<longrightarrow>
      (let main = (ToLower (vars ''NETWORK'') = ''mainnet'');
           net = (if main then MainnetNetworkPassphrase else TestnetNetworkPassphrase);
           rpc = (if main then MainnetSorobanRPCURL else TestnetSorobanRPCURL);
           horizon = (if main then MainnetHorizonURL else TestnetHorizonURL);
           ms = mh_marketService (app_Handler a); f = app_Factory a
       in networkName (app_Handler a) = (if main then ''public'' else ''testnet'')
          \<and> mh_networkPassphrase (app_Handler a) = net \<and> mh_factoryService (app_Handler a) = Some f
          \<and> builder_on horizon net rpc (ms_txBuilder ms) \<and> builder_on horizon net rpc (fs_txBuilder f)
          \<and> map_option (\<lambda>es. RPCURL (es_sorobanClient es)) (mh_eventService (app_Handler a)) = Some rpc
          \<and> RPCURL (ms_sorobanClient ms) = rpc \<and> RPCURL (fs_sorobanClient f) = rpc \<and> HasFactory f))"
proof -
  let ?main = "ToLower (vars ''NETWORK'') = ''mainnet''"
  define net where "net = ac_NetworkConfig (parseConfig vars)"
  have "ToLower (getEnv vars ''NETWORK'' ''testnet'') = ''mainnet'' \<longleftrightarrow> ?main" by (simp add: getEnv_def lower_ascii_def)
  then have net: "net = (if ?main then GetNetworkConfig ''mainnet'' else GetNetworkConfig ''testnet'')"
    unfolding net_def parseConfig_def Let_def GetNetworkConfig_def by simp
  note vals = network_fields [of ?main, folded net]
  have keys: "ac_OraclePublicKey (parseConfig vars) = vars ''ORACLE_PUBLIC_KEY''" "ac_FactoryContract (parseConfig vars) = vars ''MARKET_FACTORY_CONTRACT''"
    by (simp_all add: parseConfig_def Let_def getEnv_def)
  note built = wire_built [of "parseConfig vars" templates s, folded net_def, OF vals(5,6)]
  have "wired (parseConfig vars) a \<Longrightarrow> fs_factoryContract (app_Factory a) = vars ''MARKET_FACTORY_CONTRACT''"
    by (simp add: wired_def Let_def keys)
  with built vals(4) total_main_fails [of vars templates s serving] show ?thesis
    unfolding wired_def net_def [symmetric] Let_def networkName_def HasFactory_def keys vals(1,2,3) [symmetric]
    by auto
qed

definition demo_vars :: "string \<Rightarrow> string" where
  "demo_vars k = (if k = ''NETWORK'' then ''MainNet'' else if k = ''ORACLE_PUBLIC_KEY'' then ''G'' else if k = ''MARKET_FACTORY_CONTRACT'' then ''C'' else [])"

theorem wire_one_network_witness:
  "\<exists>a. fst (wire (parseConfig demo_vars) (Inr ()) (\<lparr>w_requestID = 0, w_ext = ()\<rparr> :: unit world)) = Inr a \<and> networkName (app_Handler a) = ''public''
     \<and> builder_on MainnetHorizonURL MainnetNetworkPassphrase MainnetSorobanRPCURL (fs_txBuilder (app_Factory a))"
proof -
  let ?s = "\<lparr>w_requestID = 0, w_ext = ()\<rparr> :: unit world"
  obtain a where a: "fst (wire (parseConfig demo_vars) (Inr ()) ?s) = Inr a"
    using wire_one_network [of demo_vars "Inr ()" ?s] by (auto simp: demo_vars_def)
  have "ToLower (demo_vars ''NETWORK'') = ''mainnet''" by (simp add: demo_vars_def) code_simp
  with wire_one_network [of demo_vars "Inr ()" ?s _ a] a show ?thesis by (simp add: Let_def)
qed

end
