(* ===== verification/Handler_Safety.thy ===== *)
theory Handler_Safety
  imports Cmd_Total
begin

text \<open>
  What the handlers guarantee: the statuses of their answers, the requests they pass on, and that no sequence of requests
  makes the server submit a transaction.
\<close>

section \<open>Statuses\<close>

lemma rw_sent_fold_Write: "rw_sent w = Some st \<Longrightarrow> rw_sent (fold Write chunks w) = Some st"
  by (induction chunks arbitrary: w) auto

lemma status_writeError: "status (writeError D h r err) = er_Status (mapError err)"
  by (simp add: writeError_def Render_def Let_def status_def rw_sent_fold_Write split: prod.splits)

lemma status_writeError_ge: "400 \<le> status (writeError D h r err)"
  using mapError_status [of err] by (auto simp: status_writeError)

lemma status_plain_error [simp]: "status (plain_error msg st) = st"
  by (simp add: plain_error_def)

lemma status_writeJSONError [simp]: "status (writeJSONError msg st) = st"
  by (simp add: writeJSONError_def status_def)

section \<open>Nothing is submitted\<close>

text \<open>
  A property of the outside that everything the server calls keeps, except a \<open>sendTransaction\<close> request of the RPC
  client and a submission to Horizon; \<open>G\<close> is what the lists of events that are cached satisfy.
\<close>

definition server_keeps_on :: "(TradeEvent list \<Rightarrow> bool) \<Rightarrow> 'w env \<Rightarrow> 'w hdeps \<Rightarrow> MarketHandler \<Rightarrow> ('w \<Rightarrow> bool) \<Rightarrow> bool" where
  "server_keeps_on G E D h P \<longleftrightarrow> quiet E P \<and> deps_keep (hd_factory D) P \<and> ev_keep G (hd_events D) P
     \<and> (case mh_ipfsClient h of None \<Rightarrow> True | Some c \<Rightarrow> gateway_keeps E (hd_ipfs D) c P)
     \<and> (\<forall>b w. P w \<longrightarrow> P (snd (wallet_Do D mtlWalletClient (wallet_request b) w)))"

abbreviation server_keeps :: "'w env \<Rightarrow> 'w hdeps \<Rightarrow> MarketHandler \<Rightarrow> ('w \<Rightarrow> bool) \<Rightarrow> bool" where
  "server_keeps \<equiv> server_keeps_on (\<lambda>_. True)"

lemma preserves_buildMarketViews:
  assumes "server_keeps_on G E D h P" shows "preserves (\<lambda>w. P (w_ext w)) (buildMarketViews E D sched h states)"
proof -
  have "thread_ok (\<lambda>w. P (w_ext w)) (\<lambda>_. True) (view_worker E D h st)" for st
  proof (cases "mh_ipfsClient h")
    case (Some c)
    then have k: "gateway_keeps E (hd_ipfs D) c P" using assms by (simp add: server_keeps_on_def)
    have "thread_ok (\<lambda>w. P (w_ext w)) (\<lambda>_. True) (atomic (GetJSON E (hd_ipfs D) c (st_MetadataHash st) (json_Metadata D)))"
      using preserves_GetJSON [OF k] by (rule thread_keeps_atomic)
    then show ?thesis using Some by (auto simp: view_worker_def intro!: thread_ok_bindT split: sum.splits)
  qed (simp add: view_worker_def)
  then show ?thesis unfolding buildMarketViews_def by (intro preserves_schedule) auto
qed

lemma preserves_deref: "(\<And>x. p = Some x \<Longrightarrow> preserves Q (k x)) \<Longrightarrow> preserves Q (deref p k)"
  by (auto simp: preserves_def deref_def split: option.splits)

lemma preserves_index_at: "(\<And>x. preserves Q (k x)) \<Longrightarrow> preserves Q (index_at xs i k)"
  by (auto simp: preserves_def index_at_def)

lemma preserves_unless_panic: "preserves Q m \<Longrightarrow> (\<And>x. preserves Q (k x)) \<Longrightarrow> preserves Q (unless_panic m k)"
  by (auto simp: preserves_def unless_panic_def split: prod.splits option.splits)

lemma preserves_load_metadata:
  assumes "server_keeps_on G E D h P" shows "preserves (\<lambda>w. P (w_ext w)) (load_metadata E D h fill cid st)"
proof (cases "mh_ipfsClient h")
  case (Some c)
  then have k: "gateway_keeps E (hd_ipfs D) c P" using assms by (simp add: server_keeps_on_def)
  show ?thesis using Some preservesD [OF preserves_GetJSON [OF k]]
    unfolding preserves_def load_metadata_def by (auto simp: Let_def deref_def split: prod.splits sum.splits)
qed (simp add: load_metadata_def preserves_def)

lemma preserves_load_balance:
  assumes "server_keeps_on G E D h P" shows "preserves (\<lambda>w. P (w_ext w)) (load_balance E h sched cid acc)"
proof -
  have "quiet E P" using assms by (simp add: server_keeps_on_def)
  from preservesD [OF preserves_GetBalance [OF this]] show ?thesis
    unfolding preserves_def load_balance_def by (auto split: prod.splits sum.splits)
qed

lemma preserves_load_events:
  assumes "server_keeps_on G E D h P" "fetched G E" shows "preserves (\<lambda>w. P (w_ext w)) (load_events E D h cid)"
proof -
  have "quiet E P" "ev_keep G (hd_events D) P" "fetched G E" using assms by (simp_all add: server_keeps_on_def)
  from preservesD [OF preserves_GetTradeEvents [OF this]] show ?thesis
    unfolding preserves_def load_events_def by (auto simp: deref_def split: prod.splits sum.splits option.splits)
qed

text \<open>The calls a handler makes, one after the other: each keeps the property.\<close>

lemma server_calls:
  assumes "server_keeps_on G E D h P"
  shows "preserves (\<lambda>w. P (w_ext w)) (ListMarkets E (hd_factory D) f)"
    "preserves (\<lambda>w. P (w_ext w)) (GetMarketStates E (hd_factory D) sched f ids)"
    "preserves (\<lambda>w. P (w_ext w)) (svc_BuildDeployMarketTx E (hd_factory D) f dreq)"
    "preserves (\<lambda>w. P (w_ext w)) (svc_BuildBuyTx E ms req)" "preserves (\<lambda>w. P (w_ext w)) (svc_BuildSellTx E ms req)"
    "preserves (\<lambda>w. P (w_ext w)) (svc_BuildResolveTx E ms rreq)" "preserves (\<lambda>w. P (w_ext w)) (svc_BuildClaimTx E ms creq)"
    "preserves (\<lambda>w. P (w_ext w)) (svc_BuildWithdrawTx E ms wreq)" "preserves (\<lambda>w. P (w_ext w)) (GetQuote E ms cid out amt)"
    "preserves (\<lambda>w. P (w_ext w)) (outside (wallet_Do D mtlWalletClient (wallet_request b)))"
proof -
  have q: "quiet E P" and d: "deps_keep (hd_factory D) P" and w: "\<And>w. P w \<Longrightarrow> P (snd (wallet_Do D mtlWalletClient (wallet_request b) w))"
    using assms by (simp_all add: server_keeps_on_def)
  note preserves_market_service [OF q]
  then show "preserves (\<lambda>w. P (w_ext w)) (svc_BuildBuyTx E ms req)" "preserves (\<lambda>w. P (w_ext w)) (svc_BuildSellTx E ms req)"
    "preserves (\<lambda>w. P (w_ext w)) (svc_BuildResolveTx E ms rreq)" "preserves (\<lambda>w. P (w_ext w)) (svc_BuildClaimTx E ms creq)"
    "preserves (\<lambda>w. P (w_ext w)) (svc_BuildWithdrawTx E ms wreq)" "preserves (\<lambda>w. P (w_ext w)) (GetQuote E ms cid out amt)"
    by blast+
  show "preserves (\<lambda>w. P (w_ext w)) (outside (wallet_Do D mtlWalletClient (wallet_request b)))" using w by (rule preserves_outside)
  show "preserves (\<lambda>w. P (w_ext w)) (ListMarkets E (hd_factory D) f)"
    "preserves (\<lambda>w. P (w_ext w)) (GetMarketStates E (hd_factory D) sched f ids)"
    "preserves (\<lambda>w. P (w_ext w)) (svc_BuildDeployMarketTx E (hd_factory D) f dreq)"
    by (rule preserves_factory_service [OF q d])+
qed

text \<open>Rules for the shapes of the handlers: answers, calls in sequence, and case distinctions.\<close>

lemma preserves_shapes:
  "preserves Q (\<lambda>s. (x, s))"
  "preserves Q m \<Longrightarrow> (\<And>x. preserves Q (k x)) \<Longrightarrow> preserves Q (\<lambda>s. case m s of (x, s') \<Rightarrow> k x s')"
  "preserves Q m \<Longrightarrow> preserves Q n \<Longrightarrow> preserves Q (\<lambda>s. if b then m s else n s)"
  "(\<And>e. preserves Q (f e)) \<Longrightarrow> (\<And>y. preserves Q (g y)) \<Longrightarrow> preserves Q (\<lambda>s. case v of Inl e \<Rightarrow> f e s | Inr y \<Rightarrow> g y s)"
  "preserves Q m \<Longrightarrow> (\<And>y. preserves Q (g y)) \<Longrightarrow> preserves Q (\<lambda>s. case u of None \<Rightarrow> m s | Some y \<Rightarrow> g y s)"
  "preserves Q m \<Longrightarrow> (\<And>y ys. preserves Q (g' y ys)) \<Longrightarrow> preserves Q (\<lambda>s. case l of [] \<Rightarrow> m s | y # ys \<Rightarrow> g' y ys s)"
  "(\<And>a b. preserves Q (k' a b)) \<Longrightarrow> preserves Q (\<lambda>s. case p of (a, b) \<Rightarrow> k' a b s)"
  by (auto simp: preserves_def split: prod.splits sum.splits option.splits list.splits)

lemma preserves_tx_page: "preserves Q m \<Longrightarrow> preserves Q (\<lambda>s. tx_page D h r nav i (m s))"
  unfolding tx_page_def by (intro preserves_shapes)

lemma preserves_returns: "preserves Q m \<Longrightarrow> preserves Q (\<lambda>s. returns (m s))"
  by (simp add: preserves_def returns_def)

lemma preserves_handlers:
  assumes k: "server_keeps_on G E D h P" and f: "fetched G E"
  shows "preserves (\<lambda>w. P (w_ext w)) (\<lambda>s. handleListMarkets E D h sch r s)"
    "preserves (\<lambda>w. P (w_ext w)) (\<lambda>s. handleMarketDetail E D h sch r s)"
    "preserves (\<lambda>w. P (w_ext w)) (\<lambda>s. handleOutcomePage E D h sch r s)"
    "preserves (\<lambda>w. P (w_ext w)) (\<lambda>s. handleOracleAdmin E D h sch r s)"
    "preserves (\<lambda>w. P (w_ext w)) (\<lambda>s. handleMTLWallet E D h r s)"
    "preserves (\<lambda>w. P (w_ext w)) (\<lambda>s. handleBuildDeployTx E D h r s)"
  unfolding handleListMarkets_def handleMarketDetail_def handleOutcomePage_def handleOracleAdmin_def oracle_markets_def
    handleMTLWallet_def handleBuildDeployTx_def Let_def
  by (intro preserves_shapes preserves_deref preserves_index_at preserves_unless_panic preserves_returns preserves_tx_page server_calls [OF k] preserves_buildMarketViews [OF k] preserves_load_metadata [OF k]
      preserves_load_balance [OF k] preserves_load_events [OF k f])+

lemma preserves_form_handlers:
  assumes k: "server_keeps_on G E D h P"
  shows "preserves (\<lambda>w. P (w_ext w)) (\<lambda>s. handleGetQuote E D h r s)" "preserves (\<lambda>w. P (w_ext w)) (\<lambda>s. handleAPIQuote E D h r s)"
    "preserves (\<lambda>w. P (w_ext w)) (\<lambda>s. handleBuildBuyTx E D h r s)" "preserves (\<lambda>w. P (w_ext w)) (\<lambda>s. handleBuildSellTx E D h r s)"
    "preserves (\<lambda>w. P (w_ext w)) (\<lambda>s. handleResolveMarket E D h r s)" "preserves (\<lambda>w. P (w_ext w)) (\<lambda>s. handleBuildClaimTx E D h r s)"
    "preserves (\<lambda>w. P (w_ext w)) (\<lambda>s. handleBuildWithdrawTx E D h r s)"
  unfolding handleGetQuote_def handleAPIQuote_def handleBuildBuyTx_def handleBuildSellTx_def handleResolveMarket_def
    handleBuildClaimTx_def handleBuildWithdrawTx_def Let_def
  by (intro preserves_shapes preserves_tx_page server_calls [OF k])+

lemma preserves_serve:
  assumes "server_keeps_on G E D h P" "fetched G E" shows "preserves (\<lambda>w. P (w_ext w)) (\<lambda>s. serve E D h sch ep r s)"
  by (cases ep) (simp_all add: preserves_returns preserves_handlers [OF assms] preserves_form_handlers [OF assms(1)] preserves_shapes(1))

lemma preserves_warmup:
  assumes k: "server_keeps_on G E D h P" and c: "mh_ipfsClient h = Some c"
  shows "preserves (\<lambda>w. P (w_ext w)) (\<lambda>s. warmupIPFSCache E D sched f c s)"
proof -
  have "gateway_keeps E (hd_ipfs D) c P" using k c by (simp add: server_keeps_on_def)
  then have w: "preserves (\<lambda>w. P (w_ext w)) (Warmup E (hd_ipfs D) c hashes)" for hashes
    using preserves_warmup_from [of E "hd_ipfs D" c P] by (simp add: preserves_def Warmup_def)
  show ?thesis unfolding warmupIPFSCache_def Let_def by (intro preserves_shapes server_calls [OF k] w)
qed

text \<open>
  The server as a state machine: in each step it answers one request, at any endpoint and under any schedule, or
  runs the warm-up of the cache.
\<close>

inductive server_run :: "'w env \<Rightarrow> 'w hdeps \<Rightarrow> MarketHandler \<Rightarrow> 'w world \<Rightarrow> 'w world \<Rightarrow> bool" for E D h s where
  start: "server_run E D h s s"
| request: "server_run E D h s t \<Longrightarrow> serve E D h sch ep r t = (answer, u) \<Longrightarrow> server_run E D h s u"
| warmup: "server_run E D h s t \<Longrightarrow> mh_ipfsClient h = Some c \<Longrightarrow> warmupIPFSCache E D sched f c t = (x, u) \<Longrightarrow> server_run E D h s u"

lemma server_run_keeps:
  assumes k: "server_keeps_on G E D h P" and f: "fetched G E" and run: "server_run E D h s t" and P: "P (w_ext s)"
  shows "P (w_ext t)"
  using run
proof (induction rule: server_run.induct)
  case (request t sch ep r answer u)
  then show ?case using preservesD [OF preserves_serve [OF k f], of t sch ep r answer u] by simp
next
  case (warmup t c sched f x u)
  then show ?case using preservesD [OF preserves_warmup [OF k warmup(2)], of t sched f x u] by simp
qed (rule P)

text \<open>
  C4 (server_never_submits): no sequence of requests and warm-ups, at whatever endpoints, with whatever contents and under whatever schedules
  of the goroutines, makes the server submit a transaction: it keeps every property of the outside that
  the caches, the IPFS gateway, the wallet service, the account lookups and all RPC requests other than \<open>sendTransaction\<close> keep.
\<close>

theorem server_never_submits:
  assumes "server_keeps E D h P" "P (w_ext s)" "server_run E D h s t"
  shows "P (w_ext t)"
  using server_run_keeps [OF assms(1) fetched_True assms(3,2)] .

definition demo_hdeps :: "'w hdeps" where
  "demo_hdeps = \<lparr>hd_factory = cached_deps,
     hd_events = \<lparr>ev_hotGet = (\<lambda>_ w. (([], False, None), w)), ev_hotSet = (\<lambda>_ _ w. ((), w))\<rparr>,
     hd_ipfs = log_deps, keypair_ParseAddress = (\<lambda>k. if length k = 56 then Inr () else Inl (ErrNew ''address'')),
     strconv_ParseFloat = (\<lambda>s. if s = ''2'' then Inr (Fin 2) else if s = ''0.0625'' then Inr (Fin (1/16)) else Inl (ErrNew ''syntax'')), url_ParsePath = (\<lambda>s. Inr s),
     url_QueryEscape = (\<lambda>s. s), json_Metadata = (\<lambda>_. Inl (ErrNew ''json'')), json_QuoteAnswer = (\<lambda>_ _. Inr ''{}''),
     json_MarshalURI = (\<lambda>u. Inr u), json_WalletURL = (\<lambda>_. Inr ''https://eurmtl.me/x''),
     wallet_Do = (\<lambda>_ _ w. (Inr \<lparr>hr_StatusCode = 200, hr_Status = ''200 OK'', hr_Body = all_of ''{}''\<rparr>, w)),
     tmpl_Execute = (\<lambda>name data. ([name], None))\<rparr>"

definition demo_handler :: MarketHandler where
  "demo_handler = NewMarketHandler trade_service (Some demo_factory) None None trade_user ''net''"

definition demo_request :: Request where
  "demo_request = \<lparr>rq_ParseForm = Inr (), rq_PathValue = (\<lambda>_. trade_contract),
     rq_FormValue = (\<lambda>k. if k = ''outcome'' then ''YES'' else if k = ''amount'' then ''2'' else if k = ''slippage'' then ''0.0625'' else trade_user),
     rq_QueryGet = (\<lambda>_. []), rq_Cookie = (\<lambda>_. Inl (ErrNew ''no cookie'')), rq_HeaderGet = (\<lambda>_. []), rq_URLPath = []\<rparr>"

theorem server_never_submits_witness:
  "w_ext (snd (serve count_env demo_hdeps demo_handler (\<lambda>_. [1, 0]) EpBuildBuyTx demo_request \<lparr>w_requestID = 1, w_ext = 0\<rparr>)) = 0"
proof -
  have k: "server_keeps count_env demo_hdeps demo_handler (\<lambda>n. n = 0)"
    using count_env_quiet cached_deps_keep
    by (simp add: server_keeps_on_def demo_hdeps_def demo_handler_def NewMarketHandler_def ev_keep_def)
  have "server_run count_env demo_hdeps demo_handler \<lparr>w_requestID = 1, w_ext = 0\<rparr>
      (snd (serve count_env demo_hdeps demo_handler (\<lambda>_. [1, 0]) EpBuildBuyTx demo_request \<lparr>w_requestID = 1, w_ext = 0\<rparr>))"
    by (rule server_run.request [OF server_run.start prod.collapse [symmetric]])
  from server_never_submits [OF k _ this] show ?thesis by simp
qed

section \<open>Every request is answered\<close>

text \<open>
  The panics of the model are those of the handlers' own expressions: a nil service, an index out of range, and the chart.
  For the chart, the event cache gives back lists that were stored, and the node
  keeps to the limit of the request for events, so that the lists are no longer than what the chart can handle.
\<close>

definition chartable :: "TradeEvent list \<Rightarrow> bool" where
  "chartable events \<longleftrightarrow> length events \<le> 2 ^ 31"

definition event_laws :: "'w env \<Rightarrow> 'w ev_deps \<Rightarrow> ('w \<Rightarrow> bool) \<Rightarrow> bool" where
  "event_laws E D I \<longleftrightarrow> (\<forall>x r. json_Events E x = Inr r \<longrightarrow> length (ger_Events r) \<le> 2 ^ 31)
     \<and> (\<forall>i w v err w'. I w \<and> ev_hotGet D i w = ((v, True, err), w') \<longrightarrow> chartable v)"

lemma event_laws_fetched: "event_laws E D I \<Longrightarrow> fetched chartable E"
  using fetched_length [of E "2 ^ 31"] by (simp add: event_laws_def chartable_def [abs_def])

lemma GetTradeEvents_chartable:
  assumes laws: "event_laws E D I" and "I (w_ext w)" and r: "GetTradeEvents E D s cid w = (Inr events, w')"
  shows "chartable events"
proof -
  obtain v found err u where g: "ev_hotGet D cid (w_ext w) = ((v, found, err), u)" by (cases "ev_hotGet D cid (w_ext w)") auto
  have "chartable v" if found
    using laws [unfolded event_laws_def, THEN conjunct2, rule_format, of "w_ext w" cid v err u] assms(2) g that by simp
  moreover have "chartable xs" if "fetchEvents E s cid w1 = (Inr xs, w2)" for w1 xs w2
    using event_laws_fetched [OF laws] that unfolding fetched_def by blast
  ultimately show ?thesis
    using r g by (auto simp: GetTradeEvents_def outside_def tryM_apply split: if_splits prod.splits sum.splits)
qed

lemma load_events_answers:
  assumes "event_laws E (hd_events D) I" "I (w_ext s)"
  shows "\<exists>x s'. load_events E D h cid s = (Some x, s')"
proof (cases "mh_eventService h")
  case (Some es)
  obtain res s' where r: "GetTradeEvents E (hd_events D) es cid s = (res, s')" by (cases "GetTradeEvents E (hd_events D) es cid s")
  show ?thesis
  proof (cases res)
    case (Inr events)
    then have "length events \<le> 2 ^ 31" using GetTradeEvents_chartable [OF assms] r by (simp add: chartable_def)
    from market_chart_drawn [OF this, of "conv_impl E"] show ?thesis using Some r Inr by (auto simp: load_events_def deref_def)
  qed (use Some r in \<open>simp add: load_events_def deref_def\<close>)
qed (simp add: load_events_def)

text \<open>A handler that answers in every state with \<open>Q\<close>, and rules for the shapes of the handlers, as \<open>preserves_shapes\<close>.\<close>

definition answers :: "('s \<Rightarrow> bool) \<Rightarrow> ('s \<Rightarrow> 'a option \<times> 's) \<Rightarrow> bool" where
  "answers Q m \<longleftrightarrow> (\<forall>s. Q s \<longrightarrow> (\<exists>x s'. m s = (Some x, s')))"

lemma answersI: "(\<And>s. Q s \<Longrightarrow> \<exists>x s'. m s = (Some x, s')) \<Longrightarrow> answers Q m"
  by (simp add: answers_def)

lemma answersD: "answers Q m \<Longrightarrow> Q s \<Longrightarrow> \<exists>x s'. m s = (Some x, s')"
  by (simp add: answers_def)

lemma answers_shapes:
  "answers Q (\<lambda>s. (Some x, s))"
  "preserves Q m \<Longrightarrow> (\<And>x. answers Q (k x)) \<Longrightarrow> answers Q (\<lambda>s. case m s of (x, s') \<Rightarrow> k x s')"
  "(b \<Longrightarrow> answers Q m') \<Longrightarrow> (\<not> b \<Longrightarrow> answers Q n) \<Longrightarrow> answers Q (\<lambda>s. if b then m' s else n s)"
  "(\<And>e. answers Q (f e)) \<Longrightarrow> (\<And>y. answers Q (g y)) \<Longrightarrow> answers Q (\<lambda>s. case v of Inl e \<Rightarrow> f e s | Inr y \<Rightarrow> g y s)"
  "answers Q m' \<Longrightarrow> (\<And>y. answers Q (g y)) \<Longrightarrow> answers Q (\<lambda>s. case u of None \<Rightarrow> m' s | Some y \<Rightarrow> g y s)"
  "answers Q m' \<Longrightarrow> (\<And>y ys. answers Q (g' y ys)) \<Longrightarrow> answers Q (\<lambda>s. case l of [] \<Rightarrow> m' s | y # ys \<Rightarrow> g' y ys s)"
  "(\<And>a b. answers Q (k' a b)) \<Longrightarrow> answers Q (\<lambda>s. case p of (a, b) \<Rightarrow> k' a b s)"
proof -
  show "answers Q (\<lambda>s. case m s of (x, s') \<Rightarrow> k x s')" if m: "preserves Q m" and k: "\<And>x. answers Q (k x)"
  proof (rule answersI)
    fix s assume "Q s"
    moreover obtain x s' where "m s = (x, s')" by (cases "m s")
    ultimately show "\<exists>y u. (case m s of (x, s') \<Rightarrow> k x s') = (Some y, u)" using preservesD [OF m] answersD [OF k] by simp
  qed
qed (auto simp: answers_def split: sum.splits option.splits list.splits prod.splits)

lemma answers_guarded:
  "p \<noteq> None \<Longrightarrow> (\<And>x. answers Q (k x)) \<Longrightarrow> answers Q (deref p k)"
  "i < length xs \<Longrightarrow> (\<And>x. answers Q (k x)) \<Longrightarrow> answers Q (index_at xs i k)"
  "answers Q (\<lambda>s. returns (n s))"
  by (auto simp: answers_def deref_def index_at_def returns_def) (metis map_prod_simp surj_pair)

lemma answers_unless_panic:
  assumes m: "answers Q m" "preserves Q m" and k: "\<And>x. answers Q (k x)" shows "answers Q (unless_panic m k)"
proof (rule answersI)
  fix s assume Q: "Q s"
  from answersD [OF m(1) Q] obtain x s' where x: "m s = (Some x, s')" by blast
  with Q have "Q s'" using preservesD [OF m(2)] by blast
  from answersD [OF k this] show "\<exists>y u. unless_panic m k s = (Some y, u)" using x by (simp add: unless_panic_def)
qed

lemma factory_ready_not_nil: "factory_ready h \<Longrightarrow> mh_factoryService h \<noteq> None"
  by (auto simp: factory_ready_def split: option.splits)

lemma load_metadata_answers: "answers Q (load_metadata E D h fill cid st)"
  by (auto simp: answers_def load_metadata_def Let_def deref_def split: prod.splits sum.splits option.splits)

lemma handlers_answer:
  assumes k: "server_keeps_on chartable E D h I" and laws: "event_laws E (hd_events D) I"
  shows "answers (\<lambda>w. I (w_ext w)) (\<lambda>s. handleMarketDetail E D h sch r s)"
    "answers (\<lambda>w. I (w_ext w)) (\<lambda>s. handleOutcomePage E D h sch r s)"
    "answers (\<lambda>w. I (w_ext w)) (\<lambda>s. handleListMarkets E D h sch r s)"
    "answers (\<lambda>w. I (w_ext w)) (\<lambda>s. handleOracleAdmin E D h sch r s)"
    "answers (\<lambda>w. I (w_ext w)) (\<lambda>s. handleBuildDeployTx E D h r s)"
proof -
  have ev: "answers (\<lambda>w. I (w_ext w)) (load_events E D h cid)" for cid
    using load_events_answers [OF laws] by (auto intro: answersI)
  note calls = server_calls [OF k] preserves_buildMarketViews [OF k] preserves_load_metadata [OF k] preserves_load_balance [OF k]
    preserves_load_events [OF k event_laws_fetched [OF laws]]
  note shapes = answers_shapes answers_guarded answers_unless_panic preserves_shapes load_metadata_answers ev calls
  show "answers (\<lambda>w. I (w_ext w)) (\<lambda>s. handleMarketDetail E D h sch r s)"
    "answers (\<lambda>w. I (w_ext w)) (\<lambda>s. handleOutcomePage E D h sch r s)"
    "answers (\<lambda>w. I (w_ext w)) (\<lambda>s. handleListMarkets E D h sch r s)"
    "answers (\<lambda>w. I (w_ext w)) (\<lambda>s. handleOracleAdmin E D h sch r s)"
    "answers (\<lambda>w. I (w_ext w)) (\<lambda>s. handleBuildDeployTx E D h r s)"
    unfolding handleMarketDetail_def handleOutcomePage_def handleListMarkets_def handleOracleAdmin_def oracle_markets_def
      handleBuildDeployTx_def Let_def
    by (intro shapes; simp add: factory_ready_not_nil)+
qed


definition event_hdeps :: "unit hdeps" where
  "event_hdeps = demo_hdeps\<lparr>hd_events := \<lparr>ev_hotGet = (\<lambda>_ w. (([demo_trade ''buy'' (Fin 2)], True, None), w)), ev_hotSet = (\<lambda>_ _ w. ((), w))\<rparr>\<rparr>"

definition event_handler :: MarketHandler where
  "event_handler = NewMarketHandler trade_service (Some demo_factory) (Some (NewEventService demo_client)) None trade_user ''net''"


section \<open>The pages of transactions\<close>

lemma tx_page_ok:
  assumes "tx_page D h r nav i m = (w, s')" "status w < 400"
  shows "\<exists>tr. m = (Inr tr, s') \<and> w = render_or_500 D ''transaction'' (TransactionPage (common D h r nav) tr i (mh_networkPassphrase h))"
  using assms status_writeError_ge [of D h r] by (auto simp: tx_page_def not_less [symmetric] split: prod.splits sum.splits)

lemma parse_positive_Some: "parse_positive D s = Some v \<longleftrightarrow> strconv_ParseFloat D s = Inr v \<and> \<not> f64_le v (Fin 0)"
  by (auto simp: parse_positive_def split: sum.splits)

lemma trade_form_Inl: "trade_form D r = Inl w \<Longrightarrow> status w = 400"
  by (auto simp: trade_form_def parse_slippage_def Let_def split: sum.splits option.splits if_splits)

text \<open>The request that a form stands for.  A slippage that is NaN passes the comparisons of the handler.\<close>

definition matches_form :: "'w hdeps \<Rightarrow> Request \<Rightarrow> TradeRequest \<Rightarrow> bool" where
  "matches_form D r req \<longleftrightarrow> rq_ParseForm r = Inr ()
     \<and> tq_UserPublicKey req = TrimSpace (rq_FormValue r ''user_public_key'') \<and> keypair_ParseAddress D (tq_UserPublicKey req) = Inr ()
     \<and> tq_ContractID req = rq_PathValue r ''id'' \<and> ParseOutcome (rq_FormValue r ''outcome'') = Inr (tq_Outcome req)
     \<and> strconv_ParseFloat D (rq_FormValue r ''amount'') = Inr (tq_ShareAmount req) \<and> \<not> f64_le (tq_ShareAmount req) (Fin 0)
     \<and> (if rq_FormValue r ''slippage'' = [] then tq_Slippage req = DefaultSlippage
        else strconv_ParseFloat D (rq_FormValue r ''slippage'') = Inr (tq_Slippage req)
          \<and> \<not> f64_le (tq_Slippage req) (Fin 0) \<and> \<not> f64_lt MaxSlippage (tq_Slippage req))"

lemma trade_form_Inr: "trade_form D r = Inr req \<longleftrightarrow> matches_form D r req"
  by (cases req) (auto simp: matches_form_def trade_form_def parse_slippage_def Let_def parse_positive_def split: sum.splits option.splits if_splits)

definition tx_view :: "'w hdeps \<Rightarrow> MarketHandler \<Rightarrow> Request \<Rightarrow> string \<Rightarrow> string \<Rightarrow> TransactionResult \<Rightarrow> ResponseWriter" where
  "tx_view D h r nav i tr = render_or_500 D ''transaction'' (TransactionPage (common D h r nav) tr i (mh_networkPassphrase h))"

lemma tx_page_view: "tx_page D h r nav i m = (w, s') \<Longrightarrow> status w < 400 \<Longrightarrow> \<exists>tr. m = (Inr tr, s') \<and> w = tx_view D h r nav i tr"
  unfolding tx_view_def by (rule tx_page_ok)

text \<open>
  C18 (trade_pages): a trade is answered without an error only with the page of the transaction that the market service built from
  exactly the form: the trimmed key, which is a valid address, the market of the path, the parsed outcome, the parsed amount,
  which is not zero or negative, and the slippage, which is the default for an empty field and otherwise the parsed number, not zero, negative or
  above ten per cent.  A form that stands for no such request is answered with 400 and nothing else happens.
\<close>

theorem trade_pages:
  assumes "status w < 400"
  shows "(handleBuildBuyTx E D h r s = (w, s') \<longrightarrow>
      (\<exists>req tr. svc_BuildBuyTx E (mh_marketService h) req s = (Inr tr, s') \<and> w = tx_view D h r ''markets'' (rq_PathValue r ''id'') tr
         \<and> matches_form D r req))
    \<and> (handleBuildSellTx E D h r s = (w, s') \<longrightarrow>
      (\<exists>req tr. svc_BuildSellTx E (mh_marketService h) req s = (Inr tr, s') \<and> w = tx_view D h r ''markets'' (rq_PathValue r ''id'') tr
         \<and> matches_form D r req))
    \<and> ((\<forall>req. \<not> matches_form D r req) \<longrightarrow>
        (\<exists>e. handleBuildBuyTx E D h r s = (e, s) \<and> handleBuildSellTx E D h r s = (e, s) \<and> status e = 400))"
proof (intro conjI impI)
  assume "handleBuildBuyTx E D h r s = (w, s')"
  then obtain req where req: "trade_form D r = Inr req"
    and "tx_page D h r ''markets'' (tq_ContractID req) (svc_BuildBuyTx E (mh_marketService h) req s) = (w, s')"
    using assms trade_form_Inl [of D r] by (auto simp: handleBuildBuyTx_def split: sum.splits)
  from tx_page_view [OF this(2) assms] req [unfolded trade_form_Inr] matches_form_def [of D r req]
  show "\<exists>req tr. svc_BuildBuyTx E (mh_marketService h) req s = (Inr tr, s') \<and> w = tx_view D h r ''markets'' (rq_PathValue r ''id'') tr
         \<and> matches_form D r req" by auto
next
  assume "handleBuildSellTx E D h r s = (w, s')"
  then obtain req where req: "trade_form D r = Inr req"
    and "tx_page D h r ''markets'' (tq_ContractID req) (svc_BuildSellTx E (mh_marketService h) req s) = (w, s')"
    using assms trade_form_Inl [of D r] by (auto simp: handleBuildSellTx_def split: sum.splits)
  from tx_page_view [OF this(2) assms] req [unfolded trade_form_Inr] matches_form_def [of D r req]
  show "\<exists>req tr. svc_BuildSellTx E (mh_marketService h) req s = (Inr tr, s') \<and> w = tx_view D h r ''markets'' (rq_PathValue r ''id'') tr
         \<and> matches_form D r req" by auto
next
  assume "\<forall>req. \<not> matches_form D r req"
  then obtain e where "trade_form D r = Inl e" using trade_form_Inr [of D r] by (cases "trade_form D r") auto
  then show "\<exists>e. handleBuildBuyTx E D h r s = (e, s) \<and> handleBuildSellTx E D h r s = (e, s) \<and> status e = 400"
    by (auto simp: handleBuildBuyTx_def handleBuildSellTx_def trade_form_Inl)
qed

lemma demo_form: "trade_form demo_hdeps demo_request = Inr trade_request"
proof -
  have "TrimSpace trade_user = trade_user" "TrimSpace ''YES'' = ''YES''"
    by (simp_all add: TrimSpace_def trade_user_def strip_fix space_encodings_def numeral_eq_Suc)
  moreover have "\<not> f64_lt MaxSlippage (Fin (1/16))"
    using trade_validate by (auto simp: TradeRequest_Validate_def trade_request_def tryE_Inr_iff split: if_splits)
  moreover have "length trade_user = 56" by (simp add: trade_user_def)
  ultimately show ?thesis
    by (simp add: trade_form_def Let_def demo_request_def demo_hdeps_def parse_positive_def parse_slippage_def ParseOutcome_def
        upper_ascii_def trade_request_def OutcomeYes_def)
qed

theorem trade_pages_witness:
  "\<exists>w s' req tr. handleBuildBuyTx trade_env demo_hdeps demo_handler demo_request demo_world = (w, s') \<and> status w = 200
     \<and> svc_BuildBuyTx trade_env trade_service req demo_world = (Inr tr, s') \<and> matches_form (demo_hdeps :: unit hdeps) demo_request req"
proof -
  obtain tr s' where tr: "svc_BuildBuyTx trade_env trade_service trade_request demo_world = (Inr tr, s')"
    using trade_runs(1) [of demo_world] by blast
  have ms: "mh_marketService demo_handler = trade_service" by (simp add: demo_handler_def NewMarketHandler_def)
  obtain w where w: "handleBuildBuyTx trade_env demo_hdeps demo_handler demo_request demo_world = (w, s')" "status w = 200"
    by (simp add: handleBuildBuyTx_def demo_form ms tr tx_page_def render_or_500_def Render_def)
      (simp add: demo_hdeps_def status_def)
  have "status w < 400" using w(2) by simp
  from trade_pages [OF this, of trade_env demo_hdeps demo_handler demo_request demo_world s'] w show ?thesis
    unfolding ms by blast
qed

section \<open>The wallet proxy\<close>



section \<open>The account cookie\<close>

text \<open>
  C37 (account_cookie_roundtrip): setting an account stores exactly the trimmed key in a cookie of its own, out of reach of
  scripts; every later request that sends the cookie back is recognised as that account.  Conversely a cookie counts only if it
  is a valid address, and an invalid key is rejected with 400 and sets no cookie.
\<close>

theorem account_cookie_roundtrip:
  assumes "rq_ParseForm r = Inr ()" "TrimSpace (rq_FormValue r ''account_id'') = k" "k \<noteq> []"
  shows "(keypair_ParseAddress D k = Inr () \<longrightarrow>
      (\<exists>c. rw_Cookies (handleSetAccount D r) = [c] \<and> ck_Value c = k \<and> ck_HttpOnly c \<and> status (handleSetAccount D r) = 303
         \<and> (rq_Cookie r' (ck_Name c) = Inr (ck_Value c) \<longrightarrow> accountIDFromCookie D r' = k)))
    \<and> (keypair_ParseAddress D k = Inl e \<longrightarrow> rw_Cookies (handleSetAccount D r) = [] \<and> status (handleSetAccount D r) = 400)
    \<and> (accountIDFromCookie D r' \<noteq> [] \<longrightarrow> keypair_ParseAddress D (accountIDFromCookie D r') = Inr ())"
proof (intro conjI impI)
  assume "keypair_ParseAddress D k = Inr ()"
  then show "\<exists>c. rw_Cookies (handleSetAccount D r) = [c] \<and> ck_Value c = k \<and> ck_HttpOnly c \<and> status (handleSetAccount D r) = 303
         \<and> (rq_Cookie r' (ck_Name c) = Inr (ck_Value c) \<longrightarrow> accountIDFromCookie D r' = k)"
    using assms by (simp add: handleSetAccount_def Let_def setAccountIDCookie_def SetCookie_def http_Redirect_def WriteHeader_def new_writer_def
        accountIDFromCookie_def status_def)
next
  assume "keypair_ParseAddress D k = Inl e"
  then show "rw_Cookies (handleSetAccount D r) = []" "status (handleSetAccount D r) = 400"
    using assms by (simp_all add: handleSetAccount_def Let_def)
      (simp add: plain_error_def http_Error_def Write_def WriteHeader_def SetContentType_def new_writer_def)
qed (auto simp: accountIDFromCookie_def split: sum.splits if_splits)

theorem account_cookie_roundtrip_witness:
  "\<exists>c. rw_Cookies (handleSetAccount demo_hdeps demo_request) = [c] \<and> ck_Value c = trade_user"
proof -
  have "TrimSpace (rq_FormValue demo_request ''account_id'') = trade_user" "trade_user \<noteq> []"
    by (simp_all add: demo_request_def TrimSpace_def trade_user_def strip_fix space_encodings_def numeral_eq_Suc)
  moreover have "keypair_ParseAddress demo_hdeps trade_user = Inr ()" by (simp add: demo_hdeps_def trade_user_def)
  ultimately show ?thesis
    using account_cookie_roundtrip [of demo_request trade_user demo_hdeps demo_request "ErrNew []"] by (simp add: demo_request_def) blast
qed

text \<open>
  After setting an account the browser is sent to the path of the referring page.  That path is not
  checked further: if it starts with two slashes, the target names another host, although only targets of the same origin are meant.
\<close>

lemma handleSetAccount_redirect:
  assumes "rq_ParseForm r = Inr ()" "TrimSpace (rq_FormValue r ''account_id'') = []" "rq_HeaderGet r ''Referer'' \<noteq> []"
    "url_ParsePath D (rq_HeaderGet r ''Referer'') = Inr (''//'' @ host @ ''/'' @ rest)"
  shows "status (handleSetAccount D r) = 303 \<and> rw_Location (handleSetAccount D r) = ''//'' @ host @ ''/'' @ rest"
  using assms by (simp add: handleSetAccount_def Let_def SetCookie_def http_Redirect_def WriteHeader_def new_writer_def status_def)

end
