(* ===== verification/Rust.thy ===== *)
theory Rust
  imports Prelude "HOL-Library.Signed_Division"
begin

text \<open>
  What the contracts under \<open>src/contracts\<close> use of Rust: the integers \<open>i128\<close> with their checked and their
  trapping operations, the operator \<open>?\<close>, \<open>Option::ok_or\<close> and panics.  The contracts are built with
  \<open>overflow-checks = true\<close>, so that an operator whose result does not fit panics in the release build as well.  An
  \<open>i128\<close> is an integer; every operation checks the range.
\<close>

section \<open>Results\<close>

text \<open>A call fails with an error of the contract, or it panics.\<close>

datatype 'e failure = Err 'e | Panic

type_synonym ('e, 'a) rust = "'e failure + 'a"

text \<open>The operator \<open>?\<close>.\<close>

abbreviation question :: "('e, 'a) rust \<Rightarrow> ('a \<Rightarrow> ('e, 'b) rust) \<Rightarrow> ('e, 'b) rust" where
  "question r k \<equiv> tryE r (\<lambda>e. e) k"

abbreviation questionM :: "('w, 'e failure, 'a) io \<Rightarrow> ('a \<Rightarrow> ('w, 'e failure, 'b) io) \<Rightarrow> ('w, 'e failure, 'b) io" where
  "questionM m k \<equiv> tryM m (\<lambda>e. e) k"

lemma tryE_cong [fundef_cong]:
  assumes "r = r'" "\<And>e. r' = Inl e \<Longrightarrow> w e = w' e" "\<And>x. r' = Inr x \<Longrightarrow> k x = k' x"
  shows "tryE r w k = tryE r' w' k'"
  using assms by (cases r') simp_all

definition ok_or :: "'a option \<Rightarrow> 'e \<Rightarrow> ('e, 'a) rust" where
  "ok_or x e = (case x of None \<Rightarrow> Inl (Err e) | Some y \<Rightarrow> Inr y)"

lemma ok_or_Inr_iff [simp]: "ok_or x e = Inr y \<longleftrightarrow> x = Some y"
  by (simp add: ok_or_def split: option.splits)

lemma ok_or_simps [simp]: "ok_or (Some y) e = Inr y" "ok_or None e = Inl (Err e)"
  by (simp_all add: ok_or_def)

section \<open>Integers of 128 bits\<close>

definition i128_MAX :: int where "i128_MAX = 2 ^ 127 - 1"

definition i128_MIN :: int where "i128_MIN = - (2 ^ 127)"

definition in_i128 :: "int \<Rightarrow> bool" where
  "in_i128 x \<longleftrightarrow> i128_MIN \<le> x \<and> x \<le> i128_MAX"

definition checked :: "int \<Rightarrow> int option" where
  "checked x = (if in_i128 x then Some x else None)"

definition checked_add :: "int \<Rightarrow> int \<Rightarrow> int option" where "checked_add a b = checked (a + b)"

definition checked_sub :: "int \<Rightarrow> int \<Rightarrow> int option" where "checked_sub a b = checked (a - b)"

definition checked_mul :: "int \<Rightarrow> int \<Rightarrow> int option" where "checked_mul a b = checked (a * b)"

definition checked_div :: "int \<Rightarrow> int \<Rightarrow> int option" where
  "checked_div a b = (if b = 0 then None else checked (a sdiv b))"

text \<open>The operators \<open>+\<close>, \<open>-\<close>, \<open>*\<close>, \<open>/\<close>, negation and \<open>abs\<close>, which panic.\<close>

definition or_panic :: "'a option \<Rightarrow> ('e, 'a) rust" where
  "or_panic x = (case x of None \<Rightarrow> Inl Panic | Some y \<Rightarrow> Inr y)"

definition add_i128 :: "int \<Rightarrow> int \<Rightarrow> ('e, int) rust" where "add_i128 a b = or_panic (checked_add a b)"

definition sub_i128 :: "int \<Rightarrow> int \<Rightarrow> ('e, int) rust" where "sub_i128 a b = or_panic (checked_sub a b)"

definition mul_i128 :: "int \<Rightarrow> int \<Rightarrow> ('e, int) rust" where "mul_i128 a b = or_panic (checked_mul a b)"

definition div_i128 :: "int \<Rightarrow> int \<Rightarrow> ('e, int) rust" where "div_i128 a b = or_panic (checked_div a b)"

definition abs_i128 :: "int \<Rightarrow> ('e, int) rust" where "abs_i128 a = or_panic (checked \<bar>a\<bar>)"

definition neg_i128 :: "int \<Rightarrow> ('e, int) rust" where "neg_i128 a = or_panic (checked (- a))"

lemma or_panic_Inr_iff [simp]: "or_panic x = Inr y \<longleftrightarrow> x = Some y"
  by (simp add: or_panic_def split: option.splits)

lemma checked_Some_iff [simp]: "checked x = Some y \<longleftrightarrow> in_i128 x \<and> y = x"
  by (auto simp: checked_def)

lemmas i128_ops = checked_add_def checked_sub_def checked_mul_def checked_div_def
  add_i128_def sub_i128_def mul_i128_def div_i128_def abs_i128_def neg_i128_def

lemmas i128_range = in_i128_def i128_MIN_def i128_MAX_def

section \<open>Division towards zero\<close>

lemma sdiv_nonneg [simp]: "0 \<le> (a::int) \<Longrightarrow> 0 < b \<Longrightarrow> a sdiv b = a div b"
  by (cases "a = 0") (simp_all add: signed_divide_int_def)

lemma sdiv_minus: "0 \<le> (a::int) \<Longrightarrow> 0 < b \<Longrightarrow> (- a) sdiv b = - (a div b)"
  by (cases "a = 0") (simp_all add: signed_divide_int_def)

lemma mult_div_bounds:
  assumes "0 < (b::int)" shows "b * (a div b) \<le> a" "a < b * (a div b) + b"
  using mult_div_mod_eq [of b a] pos_mod_bound [OF assms, of a] pos_mod_sign [OF assms, of a] by linarith+

lemma mult_sdiv_bounds:
  assumes "0 < (b::int)"
  shows "a - b < b * (a sdiv b)" "b * (a sdiv b) < a + b"
proof -
  have "\<bar>a smod b\<bar> < b" using assms by (simp add: signed_modulo_int_def abs_mult sgn_if)
  moreover have "b * (a sdiv b) + a smod b = a" by (rule mult_sdiv_smod_eq)
  ultimately show "a - b < b * (a sdiv b)" "b * (a sdiv b) < a + b" by linarith+
qed

lemma sdiv_mono: assumes "0 < (b::int)" "a \<le> a'" shows "a sdiv b \<le> a' sdiv b"
proof -
  consider "0 \<le> a" | "a < 0" "0 \<le> a'" | "a' < 0" using assms by linarith
  then show ?thesis
  proof cases
    case 1 then show ?thesis using assms by (simp add: zdiv_mono1)
  next
    case 2
    have "a sdiv b = - ((- a) div b)" using sdiv_minus [of "- a" b] 2 assms by simp
    moreover have "0 \<le> (- a) div b" "0 \<le> a' div b" using 2 assms by (simp_all add: pos_imp_zdiv_nonneg_iff)
    ultimately show ?thesis using 2 assms by simp
  next
    case 3
    have "a sdiv b = - ((- a) div b)" "a' sdiv b = - ((- a') div b)"
      using sdiv_minus [of "- a" b] sdiv_minus [of "- a'" b] 3 assms by simp_all
    moreover have "(- a') div b \<le> (- a) div b" using assms by (intro zdiv_mono1) simp_all
    ultimately show ?thesis by simp
  qed
qed

end
