(* ===== verification/Contract_Lmsr.thy ===== *)
theory Contract_Lmsr
  imports Rust
begin

text \<open>
  The pricing of the market contract: \<open>src/contracts/lmsr_market/src/error.rs\<close>, the constants of \<open>storage.rs\<close>, and
  \<open>lmsr.rs\<close>: the fixed-point exponential and logarithm, the cost function, trades and prices.

  The approximations are coarse (the alternating series of the logarithm is cut off after 30 terms, the exponential after 20), but
  the cost function keeps the two laws the contract rests on, the locale \<open>cost_rule\<close>: it covers the larger
  quantity up to a rounding error, and it starts at the initial liquidity.
\<close>

section \<open>Errors and constants\<close>

datatype MarketError = AlreadyInitialized | NotInitialized | AlreadyResolved | NotResolved | InvalidOutcome | InvalidAmount
  | InsufficientBalance | SlippageExceeded | ReturnTooLow | Unauthorized | InvalidLiquidity | Overflow | NothingToClaim
  | StorageCorrupted | InsufficientPool

fun MarketError_code :: "MarketError \<Rightarrow> int" where
  "MarketError_code AlreadyInitialized = 1"
| "MarketError_code NotInitialized = 2"
| "MarketError_code AlreadyResolved = 3"
| "MarketError_code NotResolved = 4"
| "MarketError_code InvalidOutcome = 5"
| "MarketError_code InvalidAmount = 6"
| "MarketError_code InsufficientBalance = 7"
| "MarketError_code SlippageExceeded = 8"
| "MarketError_code ReturnTooLow = 9"
| "MarketError_code Unauthorized = 10"
| "MarketError_code InvalidLiquidity = 11"
| "MarketError_code Overflow = 12"
| "MarketError_code NothingToClaim = 13"
| "MarketError_code StorageCorrupted = 14"
| "MarketError_code InsufficientPool = 15"

type_synonym 'a market_result = "(MarketError, 'a) rust"

definition OUTCOME_YES :: uint32 where "OUTCOME_YES = 0"

definition OUTCOME_NO :: uint32 where "OUTCOME_NO = 1"

definition is_valid_outcome :: "uint32 \<Rightarrow> bool" where
  "is_valid_outcome outcome \<longleftrightarrow> outcome = OUTCOME_YES \<or> outcome = OUTCOME_NO"

definition SCALE_FACTOR :: int where "SCALE_FACTOR = 10000000"

definition LN2_SCALED :: int where "LN2_SCALED = 6931472"

definition CLAIM_FEE_BPS :: int where "CLAIM_FEE_BPS = 200"

definition BPS_DENOMINATOR :: int where "BPS_DENOMINATOR = 10000"

section \<open>The exponential\<close>

definition EXP_ITERATIONS :: nat where "EXP_ITERATIONS = 20"

fun exp_loop :: "int \<Rightarrow> nat list \<Rightarrow> int \<Rightarrow> int \<Rightarrow> int market_result" where
  "exp_loop x [] result term = Inr result"
| "exp_loop x (n # ns) result term =
     question (ok_or (checked_mul term x) Overflow) (\<lambda>term.
     question (mul_i128 (int n) SCALE_FACTOR) (\<lambda>d.
     question (ok_or (checked_div term d) Overflow) (\<lambda>term.
     question (ok_or (checked_add result term) Overflow) (\<lambda>result.
     question (abs_i128 term) (\<lambda>a.
     if a < 1 then Inr result else exp_loop x ns result term)))))"

definition exp_scaled :: "int \<Rightarrow> int market_result" where
  "exp_scaled x =
     (if x < - 20 * SCALE_FACTOR then Inr 1
      else if x > 20 * SCALE_FACTOR then Inl (Err Overflow)
      else question (exp_loop x [1..<EXP_ITERATIONS + 1] SCALE_FACTOR SCALE_FACTOR) (\<lambda>result. Inr (max result 0)))"

section \<open>The logarithm\<close>

text \<open>The two loops that bring the argument into the range from 1 to 2 and count the powers of two.\<close>

function scale_down :: "int \<Rightarrow> int \<Rightarrow> (int \<times> int) market_result" where
  "scale_down normalized n =
     (if normalized \<ge> 2 * SCALE_FACTOR
      then question (ok_or (checked_div normalized 2) Overflow) (\<lambda>normalized'.
           question (add_i128 n 1) (\<lambda>n'. scale_down normalized' n'))
      else Inr (normalized, n))"
  by pat_completeness auto
termination
  by (relation "measure (\<lambda>(x, n). nat x)") (auto simp: i128_ops SCALE_FACTOR_def)

function scale_up :: "int \<Rightarrow> int \<Rightarrow> (int \<times> int) market_result" where
  "scale_up normalized n =
     (if normalized < SCALE_FACTOR \<and> normalized > 0
      then question (ok_or (checked_mul normalized 2) Overflow) (\<lambda>normalized'.
           question (sub_i128 n 1) (\<lambda>n'. scale_up normalized' n'))
      else Inr (normalized, n))"
  by pat_completeness auto
termination
  by (relation "measure (\<lambda>(x, n). nat (SCALE_FACTOR - x))") (auto simp: i128_ops)

declare scale_down.simps [simp del] scale_up.simps [simp del]

fun ln_loop :: "int \<Rightarrow> nat list \<Rightarrow> int \<Rightarrow> int \<Rightarrow> int \<Rightarrow> int market_result" where
  "ln_loop y_num [] result y_power sign = Inr result"
| "ln_loop y_num (k # ks) result y_power sign =
     question (mul_i128 sign y_power) (\<lambda>p.
     question (div_i128 p (int k)) (\<lambda>term.
     question (ok_or (checked_add result term) Overflow) (\<lambda>result.
     question (ok_or (checked_mul y_power y_num) Overflow) (\<lambda>m.
     question (ok_or (checked_div m SCALE_FACTOR) Overflow) (\<lambda>y_power.
     question (neg_i128 sign) (\<lambda>sign.
     question (abs_i128 y_power) (\<lambda>a.
     if a < 1 then Inr result else ln_loop y_num ks result y_power sign)))))))"

definition ln_scaled :: "int \<Rightarrow> int market_result" where
  "ln_scaled x =
     (if x \<le> 0 then Inl (Err Overflow)
      else if x = SCALE_FACTOR then Inr 0
      else question (scale_down x 0) (\<lambda>(normalized, n).
           question (scale_up normalized n) (\<lambda>(normalized, n).
           question (sub_i128 normalized SCALE_FACTOR) (\<lambda>y_num.
           question (ln_loop y_num [1..<31] 0 y_num 1) (\<lambda>result.
           question (ok_or (checked_mul n LN2_SCALED) Overflow) (\<lambda>adjustment.
           ok_or (checked_add result adjustment) Overflow))))))"

section \<open>Cost, trades and prices\<close>

definition over_b :: "int \<Rightarrow> int \<Rightarrow> int market_result" where
  "over_b q b = question (ok_or (checked_mul q SCALE_FACTOR) Overflow) (\<lambda>m. ok_or (checked_div m b) Overflow)"

definition contract_cost :: "int \<Rightarrow> int \<Rightarrow> int \<Rightarrow> int market_result" where
  "contract_cost q_yes q_no b =
     (if b \<le> 0 then Inl (Err InvalidLiquidity)
      else question (over_b q_yes b) (\<lambda>q_yes_over_b.
           question (over_b q_no b) (\<lambda>q_no_over_b.
           let max_q = max q_yes_over_b q_no_over_b; min_q = min q_yes_over_b q_no_over_b in
           question (ok_or (checked_sub min_q max_q) Overflow) (\<lambda>diff.
           question (exp_scaled diff) (\<lambda>exp_diff.
           question (ok_or (checked_add SCALE_FACTOR exp_diff) Overflow) (\<lambda>sum.
           question (ln_scaled sum) (\<lambda>ln_sum.
           question (ok_or (checked_add max_q ln_sum) Overflow) (\<lambda>inside.
           question (ok_or (checked_mul b inside) Overflow) (\<lambda>m.
           ok_or (checked_div m SCALE_FACTOR) Overflow)))))))))"

definition calculate_buy_cost :: "int \<Rightarrow> int \<Rightarrow> int \<Rightarrow> uint32 \<Rightarrow> int \<Rightarrow> int market_result" where
  "calculate_buy_cost q_yes q_no amount outcome b =
     (if amount \<le> 0 then Inl (Err InvalidAmount)
      else question (contract_cost q_yes q_no b) (\<lambda>cost_before.
           question (if outcome = 0 then question (ok_or (checked_add q_yes amount) Overflow) (\<lambda>q. contract_cost q q_no b)
                     else if outcome = 1 then question (ok_or (checked_add q_no amount) Overflow) (\<lambda>q. contract_cost q_yes q b)
                     else Inl (Err InvalidOutcome)) (\<lambda>cost_after.
           ok_or (checked_sub cost_after cost_before) Overflow)))"

definition calculate_sell_return :: "int \<Rightarrow> int \<Rightarrow> int \<Rightarrow> uint32 \<Rightarrow> int \<Rightarrow> int market_result" where
  "calculate_sell_return q_yes q_no amount outcome b =
     (if amount \<le> 0 then Inl (Err InvalidAmount)
      else question (contract_cost q_yes q_no b) (\<lambda>cost_before.
           question (if outcome = 0 then
                       (if q_yes < amount then Inl (Err InsufficientBalance)
                        else question (ok_or (checked_sub q_yes amount) Overflow) (\<lambda>q. contract_cost q q_no b))
                     else if outcome = 1 then
                       (if q_no < amount then Inl (Err InsufficientBalance)
                        else question (ok_or (checked_sub q_no amount) Overflow) (\<lambda>q. contract_cost q_yes q b))
                     else Inl (Err InvalidOutcome)) (\<lambda>cost_after.
           ok_or (checked_sub cost_before cost_after) Overflow)))"

definition calculate_price :: "int \<Rightarrow> int \<Rightarrow> uint32 \<Rightarrow> int \<Rightarrow> int market_result" where
  "calculate_price q_yes q_no outcome b =
     (if b \<le> 0 then Inl (Err InvalidLiquidity)
      else question (over_b q_yes b) (\<lambda>q_yes_over_b.
           question (over_b q_no b) (\<lambda>q_no_over_b.
           question (exp_scaled q_yes_over_b) (\<lambda>exp_yes.
           question (exp_scaled q_no_over_b) (\<lambda>exp_no.
           question (ok_or (checked_add exp_yes exp_no) Overflow) (\<lambda>sum.
           if sum = 0 then Inl (Err Overflow)
           else if outcome = 0 then question (ok_or (checked_mul exp_yes SCALE_FACTOR) Overflow) (\<lambda>m. ok_or (checked_div m sum) Overflow)
           else if outcome = 1 then question (ok_or (checked_mul exp_no SCALE_FACTOR) Overflow) (\<lambda>m. ok_or (checked_div m sum) Overflow)
           else Inl (Err InvalidOutcome)))))))"

definition initial_liquidity :: "int \<Rightarrow> int market_result" where
  "initial_liquidity b =
     (if b \<le> 0 then Inl (Err InvalidLiquidity)
      else question (ok_or (checked_mul b LN2_SCALED) Overflow) (\<lambda>m. ok_or (checked_div m SCALE_FACTOR) Overflow))"

section \<open>The exponential and the logarithm are not negative\<close>

lemma scale_pos [simp]: "0 < SCALE_FACTOR" "0 \<le> SCALE_FACTOR" "SCALE_FACTOR \<noteq> 0"
  by (simp_all add: SCALE_FACTOR_def)

lemma exp_scaled_nonneg: "exp_scaled x = Inr r \<Longrightarrow> 0 \<le> r"
  by (auto simp: exp_scaled_def tryE_Inr_iff split: if_splits)

lemma scale_down_range:
  "scale_down x n = Inr (y, m) \<Longrightarrow> SCALE_FACTOR \<le> x \<Longrightarrow> SCALE_FACTOR \<le> y \<and> y < 2 * SCALE_FACTOR \<and> n \<le> m"
proof (induction x n rule: scale_down.induct)
  case (1 x n)
  show ?case
  proof (cases "x \<ge> 2 * SCALE_FACTOR")
    case True
    have "0 < x" using True by (simp add: SCALE_FACTOR_def)
    then have "x sdiv 2 = x div 2" by simp
    then have "SCALE_FACTOR \<le> x sdiv 2" using True by linarith
    moreover obtain x' where x': "ok_or (checked_div x 2) Overflow = Inr x'" "x' = x sdiv 2" "scale_down x' (n + 1) = Inr (y, m)"
      "add_i128 n 1 = (Inr (n + 1) :: int market_result)"
      using "1.prems"(1) True by (subst (asm) scale_down.simps) (auto simp: tryE_Inr_iff i128_ops)
    ultimately show ?thesis using "1.IH" [OF True x'(1,4)] by auto
  next
    case False
    then show ?thesis using "1.prems" by (simp add: scale_down.simps)
  qed
qed

lemma ln_loop_lower:
  assumes "ln_loop y ks r p sign = Inr res" "sorted ks" "0 \<notin> set ks" "0 \<le> y" "y < SCALE_FACTOR" "0 \<le> p"
    and "sign = 1 \<and> base \<le> r \<or> sign = - 1 \<and> (case ks of [] \<Rightarrow> base \<le> r | k # _ \<Rightarrow> base + p div int k \<le> r)"
  shows "base \<le> res"
  using assms
proof (induction ks arbitrary: r p sign)
  case Nil
  then show ?case by auto
next
  case (Cons k ks)
  have k: "0 < int k" using Cons.prems(3) by auto
  let ?p = "p * y div SCALE_FACTOR" and ?r = "r + (sign * p) sdiv int k"
  have p: "0 \<le> ?p" "?p \<le> p"
  proof -
    show "0 \<le> ?p" using Cons.prems by (simp add: pos_imp_zdiv_nonneg_iff)
    have "p * y \<le> p * SCALE_FACTOR" using Cons.prems by (intro mult_left_mono) simp_all
    then have "?p \<le> p * SCALE_FACTOR div SCALE_FACTOR" by (intro zdiv_mono1) simp_all
    then show "?p \<le> p" by simp
  qed
  have next_sign: "- sign = 1 \<and> base \<le> ?r \<or> - sign = - 1 \<and> (case ks of [] \<Rightarrow> base \<le> ?r | k' # _ \<Rightarrow> base + ?p div int k' \<le> ?r)"
    using Cons.prems(7)
  proof
    assume s: "sign = 1 \<and> base \<le> r"
    have nn: "0 \<le> p div int k" using Cons.prems(6) k by (simp add: pos_imp_zdiv_nonneg_iff)
    have "?p div int k' \<le> p div int k" if "ks = k' # ks'" for k' ks'
    proof -
      have "int k \<le> int k'" using that Cons.prems(2) by simp
      then have "?p div int k' \<le> ?p div int k" using p k by (intro zdiv_mono2) simp_all
      also have "\<dots> \<le> p div int k" using p k by (intro zdiv_mono1) simp_all
      finally show ?thesis .
    qed
    then show ?thesis using s k nn Cons.prems(6) by (fastforce split: list.splits)
  next
    assume "sign = - 1 \<and> (case k # ks of [] \<Rightarrow> base \<le> r | k # _ \<Rightarrow> base + p div int k \<le> r)"
    then show ?thesis using k Cons.prems(6) sdiv_minus [of p "int k"] by simp
  qed
  have "p * y sdiv SCALE_FACTOR = ?p" using Cons.prems(4,6) by simp
  then have "ln_loop y ks ?r ?p (- sign) = Inr res \<or> res = ?r"
    using Cons.prems(1) k by (auto simp: tryE_Inr_iff i128_ops split: if_splits)
  then show ?case
  proof
    assume "ln_loop y ks ?r ?p (- sign) = Inr res"
    then show ?thesis using Cons.IH Cons.prems p next_sign by simp
  next
    assume "res = ?r"
    moreover have "0 \<le> ?p div int j" for j using p(1) by (cases "j = 0") (simp_all add: pos_imp_zdiv_nonneg_iff)
    ultimately show ?thesis using next_sign by (auto split: list.splits intro: order_trans [rotated])
  qed
qed

lemma ln_scaled_nonneg:
  assumes "ln_scaled x = Inr r" "SCALE_FACTOR \<le> x" shows "0 \<le> r"
proof (cases "x = SCALE_FACTOR")
  case True
  then show ?thesis using assms by (auto simp: ln_scaled_def split: if_splits)
next
  case False
  then obtain y n y' n' l where s: "scale_down x 0 = Inr (y, n)" "scale_up y n = Inr (y', n')"
    and l: "ln_loop (y' - SCALE_FACTOR) [1..<31] 0 (y' - SCALE_FACTOR) 1 = Inr l" and r: "r = l + n' * LN2_SCALED"
    using assms by (auto simp: ln_scaled_def tryE_Inr_iff i128_ops split: if_splits)
  have y: "SCALE_FACTOR \<le> y" "y < 2 * SCALE_FACTOR" "0 \<le> n" using scale_down_range [OF s(1) assms(2)] by simp_all
  then have "y' = y" "n' = n" using s(2) by (simp_all add: scale_up.simps)
  then have "0 \<le> l" using ln_loop_lower [OF l, of 0] y by simp
  then show ?thesis using r y \<open>n' = n\<close> by (simp add: LN2_SCALED_def)
qed

section \<open>The laws of the cost function\<close>

text \<open>What the contract relies on: \<open>err b\<close> is the rounding error that a liquidity parameter allows.\<close>

locale cost_rule =
  fixes C :: "int \<Rightarrow> int \<Rightarrow> int \<Rightarrow> int market_result" and L :: "int \<Rightarrow> int market_result" and err :: "int \<Rightarrow> int"
  assumes C_covers: "C x y b = Inr c \<Longrightarrow> x \<le> c + err b \<and> y \<le> c + err b"
    and C_start: "C 0 0 b = L b"
begin

text \<open>A pool that is at least the cost covers the larger quantity; funding with the initial liquidity and trades at the difference of the costs keep it so.\<close>

definition backed :: "int \<Rightarrow> int \<Rightarrow> int \<Rightarrow> int \<Rightarrow> bool" where
  "backed b x y pool \<longleftrightarrow> (\<exists>c. C x y b = Inr c \<and> c \<le> pool)"

lemma backed_start: "L b = Inr l \<Longrightarrow> l \<le> f \<Longrightarrow> backed b 0 0 f"
  by (simp add: backed_def C_start)

lemma backed_trade: "backed b x y pool \<Longrightarrow> C x y b = Inr c \<Longrightarrow> C x' y' b = Inr c' \<Longrightarrow> backed b x' y' (pool + (c' - c))"
  by (auto simp: backed_def)

lemma backed_covers: "backed b x y pool \<Longrightarrow> max x y \<le> pool + err b"
  using C_covers [of x y b] by (fastforce simp: backed_def)

end

definition rounding_error :: "int \<Rightarrow> int" where
  "rounding_error b = b div SCALE_FACTOR + 1"

lemma over_b_lower: "over_b q b = Inr r \<Longrightarrow> 0 < b \<Longrightarrow> q * SCALE_FACTOR < b * r + b"
  using mult_sdiv_bounds(1) [of b "q * SCALE_FACTOR"] by (auto simp: over_b_def tryE_Inr_iff i128_ops)

lemma contract_cost_lower:
  assumes "contract_cost x y b = Inr c"
  shows "x \<le> c + rounding_error b \<and> y \<le> c + rounding_error b"
proof -
  obtain p q e l where b: "0 < b" and p: "over_b x b = Inr p" and q: "over_b y b = Inr q"
    and e: "exp_scaled (min p q - max p q) = Inr e" and l: "ln_scaled (SCALE_FACTOR + e) = Inr l"
    and c: "c = (b * (max p q + l)) sdiv SCALE_FACTOR"
    using assms by (auto simp: contract_cost_def tryE_Inr_iff i128_ops Let_def split: if_splits)
  have "0 \<le> l" using ln_scaled_nonneg [OF l] exp_scaled_nonneg [OF e] by simp
  then have "b * max p q \<le> b * (max p q + l)" using b by (intro mult_left_mono) simp_all
  also have "\<dots> < SCALE_FACTOR * c + SCALE_FACTOR" using mult_sdiv_bounds(1) [of SCALE_FACTOR "b * (max p q + l)"] c by simp
  finally have top: "b * max p q < SCALE_FACTOR * c + SCALE_FACTOR" .
  have "b * p \<le> b * max p q" "b * q \<le> b * max p q" using b by simp_all
  then have "z * SCALE_FACTOR < SCALE_FACTOR * c + SCALE_FACTOR + b" if "z = x \<or> z = y" for z
    using that over_b_lower [OF p b] over_b_lower [OF q b] top by auto
  moreover have "z \<le> c + rounding_error b" if "z * SCALE_FACTOR < SCALE_FACTOR * c + SCALE_FACTOR + b" for z
  proof -
    have "z * SCALE_FACTOR div SCALE_FACTOR \<le> (b + (c + 1) * SCALE_FACTOR) div SCALE_FACTOR"
      using that by (intro zdiv_mono1) (simp_all add: algebra_simps)
    then show ?thesis by (simp add: rounding_error_def)
  qed
  ultimately show ?thesis by blast
qed

lemma ln_scaled_2: "ln_scaled (2 * SCALE_FACTOR) = Inr LN2_SCALED"
  by code_simp

lemma exp_scaled_0: "exp_scaled 0 = Inr SCALE_FACTOR"
  by code_simp

lemma contract_cost_start: "contract_cost 0 0 b = initial_liquidity b"
proof (cases "0 < b")
  case True
  then have "over_b 0 b = Inr 0" by (simp add: over_b_def i128_ops checked_def i128_range)
  moreover have "ln_scaled 20000000 = Inr 6931472" using ln_scaled_2 by (simp add: SCALE_FACTOR_def LN2_SCALED_def)
  ultimately show ?thesis
    using True by (simp add: contract_cost_def initial_liquidity_def Let_def exp_scaled_0 checked_sub_def checked_add_def checked_def
        i128_range SCALE_FACTOR_def LN2_SCALED_def)
qed (simp add: contract_cost_def initial_liquidity_def)

interpretation contract: cost_rule contract_cost initial_liquidity rounding_error
  using contract_cost_lower contract_cost_start by unfold_locales blast+

text \<open>A trade moves the cost function, and nothing else: the cost of a purchase is the difference, and so is the return of a sale.\<close>

definition bought :: "uint32 \<Rightarrow> int \<Rightarrow> int \<times> int \<Rightarrow> int \<times> int" where
  "bought outcome amount q = (if outcome = 0 then (fst q + amount, snd q) else (fst q, snd q + amount))"

lemma calculate_buy_cost_Inr:
  assumes "calculate_buy_cost x y amount outcome b = Inr cost"
  obtains c c' where "contract_cost x y b = Inr c" "contract_cost (fst (bought outcome amount (x, y))) (snd (bought outcome amount (x, y))) b = Inr c'"
    "cost = c' - c" "0 < amount" "is_valid_outcome outcome"
  using assms that
  by (auto simp: calculate_buy_cost_def tryE_Inr_iff i128_ops bought_def is_valid_outcome_def OUTCOME_YES_def OUTCOME_NO_def split: if_splits)

lemma calculate_sell_return_Inr:
  assumes "calculate_sell_return x y amount outcome b = Inr ret"
  obtains c c' where "contract_cost x y b = Inr c" "contract_cost (fst (bought outcome (- amount) (x, y))) (snd (bought outcome (- amount) (x, y))) b = Inr c'"
    "ret = c - c'" "0 < amount" "is_valid_outcome outcome" "amount \<le> (if outcome = 0 then x else y)"
  using assms that
  by (auto simp: calculate_sell_return_def tryE_Inr_iff i128_ops bought_def is_valid_outcome_def OUTCOME_YES_def OUTCOME_NO_def split: if_splits)

text \<open>
  The prices of the contract are between 0 and 1, and those of the two outcomes add up to 1, short of at most one unit
  of the last decimal.
\<close>

lemma calculate_price_complementary:
  assumes "calculate_price q_yes q_no OUTCOME_YES b = Inr p" "calculate_price q_yes q_no OUTCOME_NO b = Inr q"
  shows "0 \<le> p \<and> p \<le> SCALE_FACTOR \<and> 0 \<le> q \<and> q \<le> SCALE_FACTOR \<and> SCALE_FACTOR - 1 \<le> p + q \<and> p + q \<le> SCALE_FACTOR"
proof -
  obtain x y u v where e: "exp_scaled x = Inr u" "exp_scaled y = Inr v" and s: "u + v \<noteq> 0"
    and p: "p = (u * SCALE_FACTOR) sdiv (u + v)" and q: "q = (v * SCALE_FACTOR) sdiv (u + v)"
    using assms by (auto simp: calculate_price_def tryE_Inr_iff i128_ops OUTCOME_YES_def OUTCOME_NO_def split: if_splits)
  have uv: "0 \<le> u" "0 \<le> v" using e exp_scaled_nonneg by blast+
  have pos: "0 < u + v" using uv s by simp
  have "p = u * SCALE_FACTOR div (u + v)" "q = v * SCALE_FACTOR div (u + v)" using p q uv pos by (simp_all add: sdiv_nonneg mult_nonneg_nonneg)
  then have b: "(u + v) * p \<le> u * SCALE_FACTOR" "u * SCALE_FACTOR < (u + v) * p + (u + v)"
    "(u + v) * q \<le> v * SCALE_FACTOR" "v * SCALE_FACTOR < (u + v) * q + (u + v)" "0 \<le> p" "0 \<le> q"
    using mult_div_bounds [OF pos] pos uv by (simp_all add: pos_imp_zdiv_nonneg_iff)
  have "(u + v) * (p + q) \<le> (u + v) * SCALE_FACTOR" "(u + v) * SCALE_FACTOR < (u + v) * (p + q + 2)"
    using b by (simp_all add: algebra_simps)
  then have "p + q \<le> SCALE_FACTOR" "SCALE_FACTOR < p + q + 2" using pos by simp_all
  then show ?thesis using b by simp
qed

section \<open>Where the approximations break down\<close>

text \<open>The cost function, once the exponential and the logarithm are known.\<close>

lemma contract_cost_value:
  assumes "0 < b" "b \<le> 10 ^ 30" "over_b x b = Inr p" "over_b y b = Inr q" "0 \<le> p" "0 \<le> q"
    and "exp_scaled (min p q - max p q) = Inr e" "e \<le> 10 ^ 10" "ln_scaled (SCALE_FACTOR + e) = Inr l" "max p q + l \<le> 150000000"
  shows "contract_cost x y b = Inr (b * (max p q + l) div SCALE_FACTOR)"
proof -
  let ?k = "max p q + l"
  have l: "0 \<le> l" "0 \<le> e" using ln_scaled_nonneg [OF assms(9)] exp_scaled_nonneg [OF assms(7)] by simp_all
  have k: "0 \<le> ?k" using l assms(5,6) by simp
  have "b * ?k \<le> 10 ^ 30 * 150000000" using assms(1,2,10) k by (intro mult_mono) simp_all
  moreover have nn: "0 \<le> b * ?k" using assms(1) k by simp
  moreover have "b * ?k div SCALE_FACTOR \<le> b * ?k" "0 \<le> b * ?k div SCALE_FACTOR"
    using nn by (simp_all add: SCALE_FACTOR_def div_le_dividend pos_imp_zdiv_nonneg_iff)
  ultimately have "in_i128 (b * ?k)" "in_i128 (b * ?k div SCALE_FACTOR)" by (simp_all add: i128_range)
  moreover have "in_i128 (min p q - max p q)" "in_i128 (SCALE_FACTOR + e)" "in_i128 ?k"
    using l k assms(5,6,8,10) by (auto simp: i128_range SCALE_FACTOR_def)
  ultimately show ?thesis using assms(1,3,4,7,9) nn by (simp add: contract_cost_def Let_def i128_ops checked_def)
qed

lemma over_b_multiple:
  assumes "0 < b" "b \<le> 10 ^ 30" "0 \<le> k" "k \<le> 10"
  shows "over_b (b * k) b = Inr (k * SCALE_FACTOR)"
proof -
  have "b * k \<le> 10 ^ 30 * 10" using assms by (intro mult_mono) simp_all
  moreover have "0 \<le> b * k" using assms by simp
  ultimately have "in_i128 (b * k * SCALE_FACTOR)" by (simp add: i128_range SCALE_FACTOR_def)
  moreover have "b * k * SCALE_FACTOR sdiv b = k * SCALE_FACTOR" using assms by (simp add: mult.assoc)
  ultimately show ?thesis using assms by (simp add: over_b_def i128_ops checked_def i128_range SCALE_FACTOR_def)
qed

lemma contract_cost_percent:
  assumes "0 < b" "b \<le> 10 ^ 30" "100 dvd b"
  shows "contract_cost (b div 100) 0 b = Inr (b * 6860802 div SCALE_FACTOR)" "contract_cost 0 (b div 100) b = Inr (b * 6860802 div SCALE_FACTOR)"
proof -
  obtain a where b: "b = 100 * a" using assms(3) by (elim dvdE)
  have q: "over_b (b div 100) b = Inr 100000" "over_b 0 b = Inr 0"
    using assms(1,2) b by (simp_all add: over_b_def i128_ops checked_def i128_range SCALE_FACTOR_def)
  have e: "exp_scaled (- 100000) = Inr 9900499" "ln_scaled (SCALE_FACTOR + 9900499) = Inr 6760802" by code_simp+
  show "contract_cost (b div 100) 0 b = Inr (b * 6860802 div SCALE_FACTOR)" "contract_cost 0 (b div 100) b = Inr (b * 6860802 div SCALE_FACTOR)"
    using contract_cost_value [OF assms(1,2) q] contract_cost_value [OF assms(1,2) q(2,1)] e by simp_all
qed

lemma contract_cost_multiples:
  assumes "0 < b" "b \<le> 10 ^ 30"
  shows "contract_cost (b * 5) 0 b = Inr (b * 50067230 div SCALE_FACTOR)" "contract_cost (b * 10) 0 b = Inr (b * 126669929 div SCALE_FACTOR)"
proof -
  have q: "over_b (b * 5) b = Inr 50000000" "over_b (b * 10) b = Inr 100000000" "over_b 0 b = Inr 0"
    using over_b_multiple [OF assms, of 5] over_b_multiple [OF assms, of 10] over_b_multiple [OF assms, of 0] by (simp_all add: SCALE_FACTOR_def)
  have e: "exp_scaled (- 50000000) = Inr 67456" "ln_scaled (SCALE_FACTOR + 67456) = Inr 67230"
    "exp_scaled (- 100000000) = Inr 133968660" "ln_scaled (SCALE_FACTOR + 133968660) = Inr 26669929"
    by code_simp+
  show "contract_cost (b * 5) 0 b = Inr (b * 50067230 div SCALE_FACTOR)" "contract_cost (b * 10) 0 b = Inr (b * 126669929 div SCALE_FACTOR)"
    using contract_cost_value [OF assms q(1,3)] contract_cost_value [OF assms q(2,3)] e by simp_all
qed

lemma first_buy_negative:
  assumes "200 \<le> b" "b \<le> 10 ^ 30" "100 dvd b" "is_valid_outcome outcome"
  shows "\<exists>cost < 0. calculate_buy_cost 0 0 (b div 100) outcome b = Inr cost"
proof -
  let ?after = "b * 6860802 div SCALE_FACTOR" and ?before = "b * LN2_SCALED div SCALE_FACTOR"
  have before: "?before \<le> b" "0 \<le> ?before" "?before \<le> i128_MAX" "b * LN2_SCALED \<le> i128_MAX"
    using assms(1,2) by (simp_all add: SCALE_FACTOR_def LN2_SCALED_def i128_MAX_def)
  then have "initial_liquidity b = Inr ?before"
    using assms(1) by (simp add: initial_liquidity_def i128_ops checked_def in_i128_def i128_MIN_def LN2_SCALED_def)
  then have costs: "contract_cost (b div 100) 0 b = Inr ?after" "contract_cost 0 (b div 100) b = Inr ?after" "contract_cost 0 0 b = Inr ?before"
    using contract_cost_percent [of b] contract_cost_start [of b] assms by simp_all
  have "SCALE_FACTOR * ?after \<le> b * 6860802" "b * LN2_SCALED < SCALE_FACTOR * ?before + SCALE_FACTOR"
    using mult_div_bounds [of SCALE_FACTOR] by simp_all
  then have neg: "?after < ?before" using assms(1) by (simp add: SCALE_FACTOR_def LN2_SCALED_def)
  have "0 \<le> ?after" using assms(1) by (simp add: pos_imp_zdiv_nonneg_iff)
  then have "in_i128 (?after - ?before)" using neg before assms(2) by (simp add: i128_range)
  moreover have pos: "0 < b div 100" and "b div 100 \<le> b" using assms(1) by presburger+
  then have "in_i128 (b div 100)" using assms(2) by (simp add: i128_range)
  ultimately show ?thesis
    using costs neg assms(4) pos
    by (auto simp: calculate_buy_cost_def i128_ops checked_def is_valid_outcome_def OUTCOME_YES_def OUTCOME_NO_def)
qed

lemma large_buy_overpriced:
  assumes "200 \<le> b" "b \<le> 10 ^ 30"
  shows "\<exists>cost > b * 5. calculate_buy_cost (b * 5) 0 (b * 5) OUTCOME_YES b = Inr cost"
proof -
  let ?before = "b * 50067230 div SCALE_FACTOR" and ?after = "b * 126669929 div SCALE_FACTOR"
  have c: "contract_cost (b * 5) 0 b = Inr ?before" "contract_cost (b * 5 + b * 5) 0 b = Inr ?after"
    using contract_cost_multiples [of b] assms by (simp_all add: mult.commute [of b 10])
  have "SCALE_FACTOR * ?before \<le> b * 50067230" "b * 126669929 < SCALE_FACTOR * ?after + SCALE_FACTOR" "SCALE_FACTOR * ?after \<le> b * 126669929"
    using mult_div_bounds [of SCALE_FACTOR] by simp_all
  moreover have "0 \<le> ?before" using assms(1) by (simp add: pos_imp_zdiv_nonneg_iff)
  ultimately have "b * 5 < ?after - ?before" "?after - ?before \<le> b * 13" using assms(1) by (simp_all add: SCALE_FACTOR_def)
  moreover from this have "in_i128 (?after - ?before)" "in_i128 (b * 5 + b * 5)" using assms by (simp_all add: i128_range)
  ultimately show ?thesis using c assms(1) by (auto simp: calculate_buy_cost_def i128_ops checked_def OUTCOME_YES_def)
qed

text \<open>
  C25 (pricing_breaks_down): the approximations fail at both ends.  In a market where nothing was sold yet, a purchase of one per cent of the liquidity parameter
  has a negative cost: the logarithm of a number just below 2 is cut off after 30 terms of a series that hardly converges there, while that of 2 itself is
  exact.  And a purchase that takes the quantity from 5 to 10 times the liquidity parameter costs more than its tokens can ever pay: the exponential
  of -10 comes out as 13.4, because the series is cut off after 20 terms.
\<close>

theorem pricing_breaks_down:
  assumes "200 \<le> b" "b \<le> 10 ^ 30" "100 dvd b"
  shows "(\<exists>cost < 0. calculate_buy_cost 0 0 (b div 100) OUTCOME_YES b = Inr cost) \<and> (\<exists>cost < 0. calculate_buy_cost 0 0 (b div 100) OUTCOME_NO b = Inr cost)
    \<and> (\<exists>cost > b * 5. calculate_buy_cost (b * 5) 0 (b * 5) OUTCOME_YES b = Inr cost)"
  using first_buy_negative [OF assms] large_buy_overpriced [OF assms(1,2)] by (simp add: is_valid_outcome_def)

theorem pricing_breaks_down_witness:
  "(\<exists>cost < 0. calculate_buy_cost 0 0 10000000 OUTCOME_NO 1000000000 = Inr cost)
    \<and> (\<exists>cost > 5000000000. calculate_buy_cost 5000000000 0 5000000000 OUTCOME_YES 1000000000 = Inr cost)"
  using pricing_breaks_down [of 1000000000] by simp

end
