(* ===== verification/Contract_Market.thy ===== *)
theory Contract_Market
  imports Contract_Lmsr Sdk
begin

text \<open>
  The market contract, \<open>src/contracts/lmsr_market/src/lib.rs\<close> with the storage keys of \<open>storage.rs\<close>: its entry points as calls on the state of
  the chain, with every guard, authorization, storage access, token transfer and event in the order of the source.

  The token contract and the authorization by the host are parameters: \<open>host_transfer\<close> is the \<open>transfer\<close> of a token contract, which may panic
  (\<open>None\<close>), and \<open>auth\<close> says which addresses authorized the invocation.  A call that fails or panics leaves the chain as it was.
\<close>

section \<open>State\<close>

text \<open>The instance storage: one field per key, \<open>None\<close> when the key was never set.\<close>

record MarketStorage =
  dk_Oracle :: "ScAddress option"
  dk_CollateralToken :: "ScAddress option"
  dk_LiquidityParam :: "int option"
  dk_YesSold :: "int option"
  dk_NoSold :: "int option"
  dk_CollateralPool :: "int option"
  dk_Resolved :: "bool option"
  dk_WinningOutcome :: "uint32 option"
  dk_UnclaimedWinningTokens :: "int option"
  dk_MetadataHash :: "string option"
  dk_UserBalance :: "ScAddress \<times> uint32 \<rightharpoonup> int"

definition empty_storage :: MarketStorage where
  "empty_storage = \<lparr>dk_Oracle = None, dk_CollateralToken = None, dk_LiquidityParam = None, dk_YesSold = None, dk_NoSold = None,
     dk_CollateralPool = None, dk_Resolved = None, dk_WinningOutcome = None, dk_UnclaimedWinningTokens = None, dk_MetadataHash = None,
     dk_UserBalance = Map.empty\<rparr>"

datatype market_event = EvBuy ScAddress uint32 int int | EvSell ScAddress uint32 int int | EvResolve ScAddress uint32
  | EvClaim ScAddress int | EvWithdraw ScAddress int

record 'l chain =
  ch_storage :: MarketStorage
  ch_tokens :: 'l
  ch_events :: "market_event list"

record 'l host =
  host_self :: ScAddress
  host_transfer :: "ScAddress \<Rightarrow> ScAddress \<Rightarrow> ScAddress \<Rightarrow> int \<Rightarrow> 'l \<Rightarrow> 'l option"

type_synonym auth = "ScAddress \<Rightarrow> bool"

type_synonym ('l, 'a) contract_act = "('l chain, MarketError failure, 'a) io"

section \<open>The host functions\<close>

definition peek :: "(MarketStorage \<Rightarrow> 'a) \<Rightarrow> ('l, 'a) contract_act" where
  "peek f s = (Inr (f (ch_storage s)), s)"

definition load :: "(MarketStorage \<Rightarrow> 'a option) \<Rightarrow> ('l, 'a) contract_act" where
  "load f s = (ok_or (f (ch_storage s)) StorageCorrupted, s)"

definition store :: "(MarketStorage \<Rightarrow> MarketStorage) \<Rightarrow> ('l, unit) contract_act" where
  "store f s = (Inr (), s\<lparr>ch_storage := f (ch_storage s)\<rparr>)"

definition require_auth :: "auth \<Rightarrow> ScAddress \<Rightarrow> ('l, unit) contract_act" where
  "require_auth auth a = (if auth a then retM () else failM Panic)"

definition transfer :: "'l host \<Rightarrow> ScAddress \<Rightarrow> ScAddress \<Rightarrow> ScAddress \<Rightarrow> int \<Rightarrow> ('l, unit) contract_act" where
  "transfer H token sender receiver amount s =
     (case host_transfer H token sender receiver amount (ch_tokens s) of
        None \<Rightarrow> (Inl Panic, s)
      | Some l \<Rightarrow> (Inr (), s\<lparr>ch_tokens := l\<rparr>))"

definition publish :: "market_event \<Rightarrow> ('l, unit) contract_act" where
  "publish e s = (Inr (), s\<lparr>ch_events := ch_events s @ [e]\<rparr>)"

text \<open>\<open>get(&DataKey::UserBalance(user, outcome)).unwrap_or(0)\<close>\<close>

definition balance_of :: "MarketStorage \<Rightarrow> ScAddress \<Rightarrow> uint32 \<Rightarrow> int" where
  "balance_of d user outcome = (case dk_UserBalance d (user, outcome) of None \<Rightarrow> 0 | Some v \<Rightarrow> v)"

definition set_balance :: "ScAddress \<Rightarrow> uint32 \<Rightarrow> int \<Rightarrow> MarketStorage \<Rightarrow> MarketStorage" where
  "set_balance user outcome v d = d\<lparr>dk_UserBalance := (dk_UserBalance d)((user, outcome) \<mapsto> v)\<rparr>"

definition require_initialized :: "('l, unit) contract_act" where
  "require_initialized =
     questionM (peek (\<lambda>d. dk_Oracle d \<noteq> None)) (\<lambda>has. if \<not> has then failM (Err NotInitialized) else retM ())"

definition require_not_resolved :: "('l, unit) contract_act" where
  "require_not_resolved = questionM (load dk_Resolved) (\<lambda>resolved. if resolved then failM (Err AlreadyResolved) else retM ())"

definition require_resolved :: "('l, unit) contract_act" where
  "require_resolved = questionM (load dk_Resolved) (\<lambda>resolved. if \<not> resolved then failM (Err NotResolved) else retM ())"

section \<open>Initialization\<close>

definition MAX_FUNDING :: int where "MAX_FUNDING = i128_MAX div 2"

definition initialize :: "'l host \<Rightarrow> auth \<Rightarrow> ScAddress \<Rightarrow> ScAddress \<Rightarrow> int \<Rightarrow> string \<Rightarrow> int \<Rightarrow> ('l, unit) contract_act" where
  "initialize H auth oracle collateral_token liquidity_param metadata_hash initial_funding =
     questionM (peek (\<lambda>d. dk_Oracle d \<noteq> None)) (\<lambda>has.
     if has then failM (Err AlreadyInitialized)
     else if liquidity_param \<le> 0 then failM (Err InvalidLiquidity)
     else questionM (liftM (initial_liquidity liquidity_param)) (\<lambda>required.
     if initial_funding < required then failM (Err InvalidAmount)
     else if initial_funding > MAX_FUNDING then failM (Err Overflow)
     else questionM (require_auth auth oracle) (\<lambda>_.
     questionM (transfer H collateral_token oracle (host_self H) initial_funding) (\<lambda>_.
     store (\<lambda>d. d\<lparr>dk_Oracle := Some oracle, dk_CollateralToken := Some collateral_token, dk_LiquidityParam := Some liquidity_param,
       dk_MetadataHash := Some metadata_hash, dk_YesSold := Some 0, dk_NoSold := Some 0, dk_CollateralPool := Some initial_funding,
       dk_Resolved := Some False\<rparr>)))))"

text \<open>The constructor turns an error into a panic.\<close>

definition constructor :: "'l host \<Rightarrow> auth \<Rightarrow> ScAddress \<Rightarrow> ScAddress \<Rightarrow> int \<Rightarrow> string \<Rightarrow> int \<Rightarrow> ('l, unit) contract_act" where
  "constructor H auth oracle collateral_token liquidity_param metadata_hash initial_funding =
     tryM (initialize H auth oracle collateral_token liquidity_param metadata_hash initial_funding) (\<lambda>_. Panic) retM"

section \<open>Trading\<close>

text \<open>The new quantity of the traded outcome, with \<open>+\<close> in a purchase and \<open>-\<close> in a sale.\<close>

definition store_sold :: "(int \<Rightarrow> int \<Rightarrow> int market_result) \<Rightarrow> uint32 \<Rightarrow> int \<Rightarrow> int \<Rightarrow> int \<Rightarrow> ('l, unit) contract_act" where
  "store_sold change outcome q_yes q_no amount =
     (if outcome = OUTCOME_YES then questionM (liftM (change q_yes amount)) (\<lambda>q. store (\<lambda>d. d\<lparr>dk_YesSold := Some q\<rparr>))
      else questionM (liftM (change q_no amount)) (\<lambda>q. store (\<lambda>d. d\<lparr>dk_NoSold := Some q\<rparr>)))"

definition buy :: "'l host \<Rightarrow> auth \<Rightarrow> ScAddress \<Rightarrow> uint32 \<Rightarrow> int \<Rightarrow> int \<Rightarrow> ('l, int) contract_act" where
  "buy H auth user outcome amount max_cost =
     questionM require_initialized (\<lambda>_.
     questionM require_not_resolved (\<lambda>_.
     if \<not> is_valid_outcome outcome then failM (Err InvalidOutcome)
     else if amount \<le> 0 then failM (Err InvalidAmount)
     else questionM (require_auth auth user) (\<lambda>_.
     questionM (load dk_LiquidityParam) (\<lambda>b.
     questionM (load dk_YesSold) (\<lambda>q_yes.
     questionM (load dk_NoSold) (\<lambda>q_no.
     questionM (liftM (calculate_buy_cost q_yes q_no amount outcome b)) (\<lambda>cost.
     if cost > max_cost then failM (Err SlippageExceeded)
     else questionM (load dk_CollateralToken) (\<lambda>collateral_token.
     questionM (transfer H collateral_token user (host_self H) cost) (\<lambda>_.
     questionM (store_sold add_i128 outcome q_yes q_no amount) (\<lambda>_.
     questionM (load dk_CollateralPool) (\<lambda>pool.
     questionM (liftM (add_i128 pool cost)) (\<lambda>pool'.
     questionM (store (\<lambda>d. d\<lparr>dk_CollateralPool := Some pool'\<rparr>)) (\<lambda>_.
     questionM (peek (\<lambda>d. balance_of d user outcome)) (\<lambda>current_balance.
     questionM (liftM (add_i128 current_balance amount)) (\<lambda>balance'.
     questionM (store (set_balance user outcome balance')) (\<lambda>_.
     questionM (publish (EvBuy user outcome amount cost)) (\<lambda>_. retM cost)))))))))))))))))"

definition sell :: "'l host \<Rightarrow> auth \<Rightarrow> ScAddress \<Rightarrow> uint32 \<Rightarrow> int \<Rightarrow> int \<Rightarrow> ('l, int) contract_act" where
  "sell H auth user outcome amount min_return =
     questionM require_initialized (\<lambda>_.
     questionM require_not_resolved (\<lambda>_.
     if \<not> is_valid_outcome outcome then failM (Err InvalidOutcome)
     else if amount \<le> 0 then failM (Err InvalidAmount)
     else questionM (require_auth auth user) (\<lambda>_.
     questionM (peek (\<lambda>d. balance_of d user outcome)) (\<lambda>current_balance.
     if current_balance < amount then failM (Err InsufficientBalance)
     else questionM (load dk_LiquidityParam) (\<lambda>b.
     questionM (load dk_YesSold) (\<lambda>q_yes.
     questionM (load dk_NoSold) (\<lambda>q_no.
     questionM (liftM (calculate_sell_return q_yes q_no amount outcome b)) (\<lambda>return_amount.
     if return_amount < min_return then failM (Err ReturnTooLow)
     else questionM (store_sold sub_i128 outcome q_yes q_no amount) (\<lambda>_.
     questionM (load dk_CollateralPool) (\<lambda>pool.
     if pool < return_amount then failM (Err InsufficientPool)
     else questionM (liftM (sub_i128 pool return_amount)) (\<lambda>pool'.
     questionM (store (\<lambda>d. d\<lparr>dk_CollateralPool := Some pool'\<rparr>)) (\<lambda>_.
     questionM (liftM (sub_i128 current_balance amount)) (\<lambda>balance'.
     questionM (store (set_balance user outcome balance')) (\<lambda>_.
     questionM (load dk_CollateralToken) (\<lambda>collateral_token.
     questionM (transfer H collateral_token (host_self H) user return_amount) (\<lambda>_.
     questionM (publish (EvSell user outcome amount return_amount)) (\<lambda>_. retM return_amount)))))))))))))))))"

section \<open>Resolution and payout\<close>

definition resolve :: "'l host \<Rightarrow> auth \<Rightarrow> ScAddress \<Rightarrow> uint32 \<Rightarrow> ('l, unit) contract_act" where
  "resolve H auth oracle winning_outcome =
     questionM require_initialized (\<lambda>_.
     questionM require_not_resolved (\<lambda>_.
     if \<not> is_valid_outcome winning_outcome then failM (Err InvalidOutcome)
     else questionM (load dk_Oracle) (\<lambda>stored_oracle.
     if oracle \<noteq> stored_oracle then failM (Err Unauthorized)
     else questionM (require_auth auth oracle) (\<lambda>_.
     questionM (store (\<lambda>d. d\<lparr>dk_Resolved := Some True, dk_WinningOutcome := Some winning_outcome\<rparr>)) (\<lambda>_.
     questionM (if winning_outcome = OUTCOME_YES then load dk_YesSold else load dk_NoSold) (\<lambda>winning_tokens.
     questionM (store (\<lambda>d. d\<lparr>dk_UnclaimedWinningTokens := Some winning_tokens\<rparr>)) (\<lambda>_.
     publish (EvResolve oracle winning_outcome))))))))"

text \<open>\<open>get(&DataKey::UnclaimedWinningTokens).unwrap_or(0)\<close>\<close>

definition unclaimed_of :: "MarketStorage \<Rightarrow> int" where
  "unclaimed_of d = (case dk_UnclaimedWinningTokens d of None \<Rightarrow> 0 | Some v \<Rightarrow> v)"

definition claim :: "'l host \<Rightarrow> auth \<Rightarrow> ScAddress \<Rightarrow> ('l, int) contract_act" where
  "claim H auth user =
     questionM require_initialized (\<lambda>_.
     questionM require_resolved (\<lambda>_.
     questionM (require_auth auth user) (\<lambda>_.
     questionM (load dk_WinningOutcome) (\<lambda>winning_outcome.
     questionM (peek (\<lambda>d. balance_of d user winning_outcome)) (\<lambda>winning_balance.
     if winning_balance \<le> 0 then failM (Err NothingToClaim)
     else questionM (liftM (ok_or (checked_mul winning_balance CLAIM_FEE_BPS) Overflow)) (\<lambda>m.
     questionM (liftM (ok_or (checked_div m BPS_DENOMINATOR) Overflow)) (\<lambda>fee.
     questionM (liftM (ok_or (checked_sub winning_balance fee) Overflow)) (\<lambda>user_payout.
     questionM (store (set_balance user winning_outcome 0)) (\<lambda>_.
     questionM (peek unclaimed_of) (\<lambda>unclaimed.
     questionM (liftM (sub_i128 unclaimed winning_balance)) (\<lambda>unclaimed'.
     questionM (store (\<lambda>d. d\<lparr>dk_UnclaimedWinningTokens := Some unclaimed'\<rparr>)) (\<lambda>_.
     questionM (load dk_CollateralPool) (\<lambda>pool.
     if pool < user_payout then failM (Err InsufficientPool)
     else questionM (liftM (sub_i128 pool user_payout)) (\<lambda>pool'.
     questionM (store (\<lambda>d. d\<lparr>dk_CollateralPool := Some pool'\<rparr>)) (\<lambda>_.
     questionM (load dk_CollateralToken) (\<lambda>collateral_token.
     questionM (transfer H collateral_token (host_self H) user user_payout) (\<lambda>_.
     questionM (publish (EvClaim user user_payout)) (\<lambda>_. retM user_payout))))))))))))))))))"

definition withdraw_remaining :: "'l host \<Rightarrow> auth \<Rightarrow> ScAddress \<Rightarrow> ('l, int) contract_act" where
  "withdraw_remaining H auth oracle =
     questionM require_initialized (\<lambda>_.
     questionM require_resolved (\<lambda>_.
     questionM (load dk_Oracle) (\<lambda>stored_oracle.
     if oracle \<noteq> stored_oracle then failM (Err Unauthorized)
     else questionM (require_auth auth oracle) (\<lambda>_.
     questionM (load dk_CollateralPool) (\<lambda>pool.
     questionM (peek unclaimed_of) (\<lambda>unclaimed.
     questionM (liftM (ok_or (checked_mul unclaimed (BPS_DENOMINATOR - CLAIM_FEE_BPS)) Overflow)) (\<lambda>m.
     questionM (liftM (ok_or (checked_div m BPS_DENOMINATOR) Overflow)) (\<lambda>reserved.
     questionM (liftM (ok_or (checked_sub pool reserved) Overflow)) (\<lambda>withdrawable.
     if withdrawable \<le> 0 then failM (Err NothingToClaim)
     else questionM (store (\<lambda>d. d\<lparr>dk_CollateralPool := Some reserved\<rparr>)) (\<lambda>_.
     questionM (load dk_CollateralToken) (\<lambda>collateral_token.
     questionM (transfer H collateral_token (host_self H) oracle withdrawable) (\<lambda>_.
     questionM (publish (EvWithdraw oracle withdrawable)) (\<lambda>_. retM withdrawable)))))))))))))"

section \<open>Reading\<close>

definition get_price :: "uint32 \<Rightarrow> ('l, int) contract_act" where
  "get_price outcome =
     questionM require_initialized (\<lambda>_.
     questionM (load dk_LiquidityParam) (\<lambda>b.
     questionM (load dk_YesSold) (\<lambda>q_yes.
     questionM (load dk_NoSold) (\<lambda>q_no.
     liftM (calculate_price q_yes q_no outcome b)))))"

definition get_quote :: "uint32 \<Rightarrow> int \<Rightarrow> ('l, int \<times> int) contract_act" where
  "get_quote outcome amount =
     questionM require_initialized (\<lambda>_.
     questionM require_not_resolved (\<lambda>_.
     if \<not> is_valid_outcome outcome then failM (Err InvalidOutcome)
     else if amount \<le> 0 then failM (Err InvalidAmount)
     else questionM (load dk_LiquidityParam) (\<lambda>b.
     questionM (load dk_YesSold) (\<lambda>q_yes.
     questionM (load dk_NoSold) (\<lambda>q_no.
     questionM (liftM (calculate_buy_cost q_yes q_no amount outcome b)) (\<lambda>cost.
     questionM (liftM (if outcome = OUTCOME_YES then question (add_i128 q_yes amount) (\<lambda>q. Inr (q, q_no))
                       else question (add_i128 q_no amount) (\<lambda>q. Inr (q_yes, q)))) (\<lambda>(new_q_yes, new_q_no).
     questionM (liftM (calculate_price new_q_yes new_q_no outcome b)) (\<lambda>price_after. retM (cost, price_after)))))))))"

definition get_sell_quote :: "uint32 \<Rightarrow> int \<Rightarrow> ('l, int \<times> int) contract_act" where
  "get_sell_quote outcome amount =
     questionM require_initialized (\<lambda>_.
     questionM require_not_resolved (\<lambda>_.
     if \<not> is_valid_outcome outcome then failM (Err InvalidOutcome)
     else if amount \<le> 0 then failM (Err InvalidAmount)
     else questionM (load dk_LiquidityParam) (\<lambda>b.
     questionM (load dk_YesSold) (\<lambda>q_yes.
     questionM (load dk_NoSold) (\<lambda>q_no.
     questionM (liftM (calculate_sell_return q_yes q_no amount outcome b)) (\<lambda>return_amount.
     questionM (liftM (if outcome = OUTCOME_YES then question (sub_i128 q_yes amount) (\<lambda>q. Inr (q, q_no))
                       else question (sub_i128 q_no amount) (\<lambda>q. Inr (q_yes, q)))) (\<lambda>(new_q_yes, new_q_no).
     questionM (liftM (calculate_price new_q_yes new_q_no outcome b)) (\<lambda>price_after. retM (return_amount, price_after)))))))))"

definition get_balance :: "ScAddress \<Rightarrow> uint32 \<Rightarrow> ('l, int) contract_act" where
  "get_balance user outcome = peek (\<lambda>d. balance_of d user outcome)"

definition get_state :: "('l, int \<times> int \<times> int \<times> bool) contract_act" where
  "get_state =
     questionM require_initialized (\<lambda>_.
     questionM (load dk_YesSold) (\<lambda>q_yes.
     questionM (load dk_NoSold) (\<lambda>q_no.
     questionM (load dk_CollateralPool) (\<lambda>pool.
     questionM (load dk_Resolved) (\<lambda>resolved. retM (q_yes, q_no, pool, resolved))))))"

definition get_oracle :: "('l, ScAddress) contract_act" where
  "get_oracle = questionM require_initialized (\<lambda>_. load dk_Oracle)"

definition get_liquidity_param :: "('l, int) contract_act" where
  "get_liquidity_param = questionM require_initialized (\<lambda>_. load dk_LiquidityParam)"

definition get_winning_outcome :: "('l, uint32) contract_act" where
  "get_winning_outcome = questionM require_initialized (\<lambda>_. questionM require_resolved (\<lambda>_. load dk_WinningOutcome))"

definition get_metadata_hash :: "('l, string) contract_act" where
  "get_metadata_hash = questionM require_initialized (\<lambda>_. load dk_MetadataHash)"

definition get_collateral_token :: "('l, ScAddress) contract_act" where
  "get_collateral_token = questionM require_initialized (\<lambda>_. load dk_CollateralToken)"

section \<open>Invocations\<close>

text \<open>A call of the contract in a transaction: an error or a panic undoes everything.\<close>

datatype market_call = Initialize ScAddress ScAddress int string int | Buy ScAddress uint32 int int | Sell ScAddress uint32 int int
  | Resolve ScAddress uint32 | Claim ScAddress | WithdrawRemaining ScAddress

fun run_call :: "'l host \<Rightarrow> auth \<Rightarrow> market_call \<Rightarrow> ('l, int option) contract_act" where
  "run_call H auth (Initialize oracle token b hash funding) = questionM (initialize H auth oracle token b hash funding) (\<lambda>_. retM None)"
| "run_call H auth (Buy user outcome amount max_cost) = questionM (buy H auth user outcome amount max_cost) (\<lambda>x. retM (Some x))"
| "run_call H auth (Sell user outcome amount min_return) = questionM (sell H auth user outcome amount min_return) (\<lambda>x. retM (Some x))"
| "run_call H auth (Resolve oracle outcome) = questionM (resolve H auth oracle outcome) (\<lambda>_. retM None)"
| "run_call H auth (Claim user) = questionM (claim H auth user) (\<lambda>x. retM (Some x))"
| "run_call H auth (WithdrawRemaining oracle) = questionM (withdraw_remaining H auth oracle) (\<lambda>x. retM (Some x))"

definition exec :: "'l host \<Rightarrow> auth \<Rightarrow> market_call \<Rightarrow> ('l, int option) contract_act" where
  "exec H auth c s = (case run_call H auth c s of (Inl e, _) \<Rightarrow> (Inl e, s) | (Inr r, s') \<Rightarrow> (Inr r, s'))"

section \<open>What a successful call did\<close>

lemma contract_iffs:
  "peek f s = (Inr x, s') \<longleftrightarrow> x = f (ch_storage s) \<and> s' = s"
  "load g s = (Inr y, s') \<longleftrightarrow> g (ch_storage s) = Some y \<and> s' = s"
  "store h s = (Inr u, s') \<longleftrightarrow> s' = s\<lparr>ch_storage := h (ch_storage s)\<rparr>"
  "require_auth auth a s = (Inr u, s') \<longleftrightarrow> auth a \<and> s' = s"
  "transfer H token a a' n s = (Inr u, s') \<longleftrightarrow> (\<exists>l. host_transfer H token a a' n (ch_tokens s) = Some l \<and> s' = s\<lparr>ch_tokens := l\<rparr>)"
  "publish e s = (Inr u, s') \<longleftrightarrow> s' = s\<lparr>ch_events := ch_events s @ [e]\<rparr>"
  by (auto simp: peek_def load_def store_def require_auth_def transfer_def publish_def split: option.splits)

lemma require_iffs:
  "require_initialized s = (Inr u, s') \<longleftrightarrow> dk_Oracle (ch_storage s) \<noteq> None \<and> s' = s"
  "require_not_resolved s = (Inr u, s') \<longleftrightarrow> dk_Resolved (ch_storage s) = Some False \<and> s' = s"
  "require_resolved s = (Inr u, s') \<longleftrightarrow> dk_Resolved (ch_storage s) = Some True \<and> s' = s"
  by (auto simp: require_initialized_def require_not_resolved_def require_resolved_def tryM_Inr_iff contract_iffs split: if_splits)

lemma balance_of_update [simp]:
  "balance_of (d\<lparr>dk_YesSold := a\<rparr>) u o' = balance_of d u o'" "balance_of (d\<lparr>dk_NoSold := a\<rparr>) u o' = balance_of d u o'"
  "balance_of (d\<lparr>dk_CollateralPool := a\<rparr>) u o' = balance_of d u o'"
  "balance_of (set_balance v p x d) u o' = (if u = v \<and> o' = p then x else balance_of d u o')"
  by (simp_all add: balance_of_def set_balance_def)

lemma set_balance_fields [simp]:
  "dk_Oracle (set_balance u w v d) = dk_Oracle d"
  "dk_CollateralToken (set_balance u w v d) = dk_CollateralToken d"
  "dk_LiquidityParam (set_balance u w v d) = dk_LiquidityParam d"
  "dk_YesSold (set_balance u w v d) = dk_YesSold d"
  "dk_NoSold (set_balance u w v d) = dk_NoSold d"
  "dk_CollateralPool (set_balance u w v d) = dk_CollateralPool d"
  "dk_Resolved (set_balance u w v d) = dk_Resolved d"
  "dk_WinningOutcome (set_balance u w v d) = dk_WinningOutcome d"
  "dk_UnclaimedWinningTokens (set_balance u w v d) = dk_UnclaimedWinningTokens d"
  "dk_MetadataHash (set_balance u w v d) = dk_MetadataHash d"
  "dk_UserBalance (set_balance u w v d) = (dk_UserBalance d)((u, w) \<mapsto> v)"
  "unclaimed_of (set_balance u w v d) = unclaimed_of d"
  by (simp_all add: set_balance_def unclaimed_of_def)

text \<open>The storage after a trade: \<open>amount\<close> is negative for a sale.\<close>

definition traded :: "ScAddress \<Rightarrow> uint32 \<Rightarrow> int \<Rightarrow> int \<times> int \<Rightarrow> int \<Rightarrow> MarketStorage \<Rightarrow> MarketStorage" where
  "traded user outcome amount q pool d = set_balance user outcome (balance_of d user outcome + amount)
     (d\<lparr>dk_YesSold := Some (fst (bought outcome amount q)), dk_NoSold := Some (snd (bought outcome amount q)), dk_CollateralPool := Some pool\<rparr>)"

lemma store_sold_Inr:
  assumes "dk_YesSold (ch_storage s) = Some y" "dk_NoSold (ch_storage s) = Some n" "is_valid_outcome outcome"
  shows "store_sold add_i128 outcome y n amount s = (Inr u, s') \<Longrightarrow> s' = s\<lparr>ch_storage := (ch_storage s)
      \<lparr>dk_YesSold := Some (fst (bought outcome amount (y, n))), dk_NoSold := Some (snd (bought outcome amount (y, n)))\<rparr>\<rparr>"
    "store_sold sub_i128 outcome y n amount s = (Inr u, s') \<Longrightarrow> s' = s\<lparr>ch_storage := (ch_storage s)
      \<lparr>dk_YesSold := Some (fst (bought outcome (- amount) (y, n))), dk_NoSold := Some (snd (bought outcome (- amount) (y, n)))\<rparr>\<rparr>"
  using assms
  by (cases s; cases "ch_storage s"; auto simp: store_sold_def tryM_Inr_iff contract_iffs i128_ops bought_def is_valid_outcome_def OUTCOME_YES_def
      OUTCOME_NO_def split: if_splits)+

lemma buy_InrE:
  assumes "buy H auth user outcome amount max_cost s = (Inr cost, s')"
  obtains b y n pool token l where "dk_Resolved (ch_storage s) = Some False" "dk_Oracle (ch_storage s) \<noteq> None" "auth user"
    "is_valid_outcome outcome" "0 < amount"
    "dk_LiquidityParam (ch_storage s) = Some b" "dk_YesSold (ch_storage s) = Some y" "dk_NoSold (ch_storage s) = Some n"
    "dk_CollateralPool (ch_storage s) = Some pool" "dk_CollateralToken (ch_storage s) = Some token"
    "calculate_buy_cost y n amount outcome b = Inr cost" "cost \<le> max_cost" "in_i128 (pool + cost)"
    "host_transfer H token user (host_self H) cost (ch_tokens s) = Some l"
    "s' = s\<lparr>ch_storage := traded user outcome amount (y, n) (pool + cost) (ch_storage s), ch_tokens := l,
       ch_events := ch_events s @ [EvBuy user outcome amount cost]\<rparr>"
  using assms that
  by (auto simp: buy_def tryM_Inr_iff contract_iffs require_iffs i128_ops traded_def not_le not_less dest!: store_sold_Inr(1) [rotated 3] split: if_splits)

lemma sell_InrE:
  assumes "sell H auth user outcome amount min_return s = (Inr ret, s')"
  obtains b y n pool token l where "dk_Resolved (ch_storage s) = Some False" "dk_Oracle (ch_storage s) \<noteq> None" "auth user"
    "is_valid_outcome outcome" "0 < amount" "amount \<le> balance_of (ch_storage s) user outcome"
    "dk_LiquidityParam (ch_storage s) = Some b" "dk_YesSold (ch_storage s) = Some y" "dk_NoSold (ch_storage s) = Some n"
    "dk_CollateralPool (ch_storage s) = Some pool" "dk_CollateralToken (ch_storage s) = Some token"
    "calculate_sell_return y n amount outcome b = Inr ret" "min_return \<le> ret" "ret \<le> pool"
    "host_transfer H token (host_self H) user ret (ch_tokens s) = Some l"
    "s' = s\<lparr>ch_storage := traded user outcome (- amount) (y, n) (pool - ret) (ch_storage s), ch_tokens := l,
       ch_events := ch_events s @ [EvSell user outcome amount ret]\<rparr>"
  using assms that
  by (auto simp: sell_def tryM_Inr_iff contract_iffs require_iffs i128_ops traded_def not_le not_less dest!: store_sold_Inr(2) [rotated 3] split: if_splits)

lemma initialize_InrE:
  assumes "initialize H auth oracle token b hash funding s = (Inr u, s')"
  obtains l required where "dk_Oracle (ch_storage s) = None" "0 < b" "initial_liquidity b = Inr required" "required \<le> funding" "funding \<le> MAX_FUNDING" "auth oracle"
    "host_transfer H token oracle (host_self H) funding (ch_tokens s) = Some l"
    "s' = s\<lparr>ch_storage := (ch_storage s)\<lparr>dk_Oracle := Some oracle, dk_CollateralToken := Some token, dk_LiquidityParam := Some b,
       dk_MetadataHash := Some hash, dk_YesSold := Some 0, dk_NoSold := Some 0, dk_CollateralPool := Some funding, dk_Resolved := Some False\<rparr>,
       ch_tokens := l\<rparr>"
  using assms that by (auto simp: initialize_def tryM_Inr_iff contract_iffs not_less not_le split: if_splits)

lemma resolve_InrE:
  assumes "resolve H auth oracle w s = (Inr u, s')"
  obtains t where "dk_Resolved (ch_storage s) = Some False" "dk_Oracle (ch_storage s) = Some oracle" "auth oracle" "is_valid_outcome w"
    "(if w = OUTCOME_YES then dk_YesSold (ch_storage s) else dk_NoSold (ch_storage s)) = Some t"
    "s' = s\<lparr>ch_storage := (ch_storage s)\<lparr>dk_Resolved := Some True, dk_WinningOutcome := Some w, dk_UnclaimedWinningTokens := Some t\<rparr>,
       ch_events := ch_events s @ [EvResolve oracle w]\<rparr>"
  using assms that by (auto simp: resolve_def tryM_Inr_iff contract_iffs require_iffs split: if_splits)

lemma claim_fee: "0 \<le> v \<Longrightarrow> v * CLAIM_FEE_BPS sdiv BPS_DENOMINATOR = v div 50"
proof -
  assume "0 \<le> v"
  then have "v * CLAIM_FEE_BPS sdiv BPS_DENOMINATOR = v * 200 div 10000" by (simp add: CLAIM_FEE_BPS_def BPS_DENOMINATOR_def)
  also have "\<dots> = v div 50" using div_mult_mult2 [of 200 v 50] by simp
  finally show ?thesis .
qed

lemma claim_reserve: "0 \<le> u \<Longrightarrow> u * (BPS_DENOMINATOR - CLAIM_FEE_BPS) sdiv BPS_DENOMINATOR = u * 49 div 50"
proof -
  assume "0 \<le> u"
  then have "u * (BPS_DENOMINATOR - CLAIM_FEE_BPS) sdiv BPS_DENOMINATOR = (u * 49) * 200 div (50 * 200)"
    by (simp add: CLAIM_FEE_BPS_def BPS_DENOMINATOR_def)
  also have "\<dots> = u * 49 div 50" by (rule div_mult_mult2) simp
  finally show ?thesis .
qed

lemma claim_InrE:
  assumes "claim H auth user s = (Inr payout, s')"
  obtains w v pool token l where "dk_Resolved (ch_storage s) = Some True" "dk_Oracle (ch_storage s) \<noteq> None" "auth user"
    "dk_WinningOutcome (ch_storage s) = Some w" "v = balance_of (ch_storage s) user w" "0 < v" "payout = v - v div 50"
    "dk_CollateralPool (ch_storage s) = Some pool" "payout \<le> pool" "dk_CollateralToken (ch_storage s) = Some token"
    "host_transfer H token (host_self H) user payout (ch_tokens s) = Some l"
    "s' = s\<lparr>ch_storage := (set_balance user w 0 (ch_storage s))\<lparr>dk_UnclaimedWinningTokens := Some (unclaimed_of (ch_storage s) - v),
         dk_CollateralPool := Some (pool - payout)\<rparr>, ch_tokens := l, ch_events := ch_events s @ [EvClaim user payout]\<rparr>"
  using assms that
  by (auto simp: claim_def tryM_Inr_iff contract_iffs require_iffs i128_ops set_balance_def unclaimed_of_def balance_of_def claim_fee not_le not_less
      split: if_splits)

lemma withdraw_InrE:
  assumes "withdraw_remaining H auth oracle s = (Inr amount, s')"
  obtains pool token l reserved where "dk_Resolved (ch_storage s) = Some True" "dk_Oracle (ch_storage s) = Some oracle" "auth oracle"
    "dk_CollateralPool (ch_storage s) = Some pool"
    "reserved = unclaimed_of (ch_storage s) * (BPS_DENOMINATOR - CLAIM_FEE_BPS) sdiv BPS_DENOMINATOR"
    "amount = pool - reserved" "0 < amount" "dk_CollateralToken (ch_storage s) = Some token"
    "host_transfer H token (host_self H) oracle amount (ch_tokens s) = Some l"
    "s' = s\<lparr>ch_storage := (ch_storage s)\<lparr>dk_CollateralPool := Some reserved\<rparr>, ch_tokens := l, ch_events := ch_events s @ [EvWithdraw oracle amount]\<rparr>"
  using assms that by (auto simp: withdraw_remaining_def tryM_Inr_iff contract_iffs require_iffs i128_ops not_le split: if_splits)

lemma exec_Inr: "exec H auth c s = (Inr r, s') \<longleftrightarrow> run_call H auth c s = (Inr r, s')"
  by (auto simp: exec_def split: prod.splits sum.splits)

lemma exec_cases:
  assumes "exec H auth c s = (Inr r, s')"
  obtains (Initialize) a token b hash funding where "c = Initialize a token b hash funding" "initialize H auth a token b hash funding s = (Inr (), s')"
    | (Buy) user outcome amount max_cost cost where "c = Buy user outcome amount max_cost" "buy H auth user outcome amount max_cost s = (Inr cost, s')" "r = Some cost"
    | (Sell) user outcome amount min_return ret where "c = Sell user outcome amount min_return" "sell H auth user outcome amount min_return s = (Inr ret, s')" "r = Some ret"
    | (Resolve) a w where "c = Resolve a w" "resolve H auth a w s = (Inr (), s')"
    | (Claim) user payout where "c = Claim user" "claim H auth user s = (Inr payout, s')" "r = Some payout"
    | (Withdraw) a amount where "c = WithdrawRemaining a" "withdraw_remaining H auth a s = (Inr amount, s')" "r = Some amount"
  using assms unfolding exec_Inr by (cases c) (auto simp: tryM_Inr_iff)

end
