(* ===== verification/Contract_Safety.thy ===== *)
theory Contract_Safety
  imports Contract_Market
begin

text \<open>
  The market contract as a state machine, and what holds in every state it can reach: the pool is covered by the contract's tokens and
  covers what the holders of the winning outcome are owed, up to a rounding error; only the oracle resolves, and once; nobody loses tokens without
  having authorized the call.
\<close>

section \<open>The machine\<close>

text \<open>
  What the contract relies on of the token (SEP-41): no balance is negative; a transfer that succeeds moves the amount, which is not negative and which the sender has, and
  changes no other balance.
\<close>

type_synonym 'l balances = "ScAddress \<Rightarrow> ScAddress \<Rightarrow> 'l \<Rightarrow> int"

definition token_laws :: "'l host \<Rightarrow> 'l balances \<Rightarrow> bool" where
  "token_laws H bal \<longleftrightarrow> (\<forall>t h l. 0 \<le> bal t h l) \<and> (\<forall>token a a' n l l'. host_transfer H token a a' n l = Some l' \<longrightarrow> 0 \<le> n \<and> n \<le> bal token a l
     \<and> (\<forall>t h. bal t h l' = bal t h l + (if t = token \<and> h = a' then n else 0) - (if t = token \<and> h = a then n else 0)))"

lemma token_lawsD:
  assumes "token_laws H bal" "host_transfer H token a a' n l = Some l'"
  shows "0 \<le> n" "n \<le> bal token a l"
    "bal t h l' = bal t h l + (if t = token \<and> h = a' then n else 0) - (if t = token \<and> h = a then n else 0)"
  using assms unfolding token_laws_def by blast+

lemma token_laws_nonneg: "token_laws H bal \<Longrightarrow> 0 \<le> bal t h l"
  by (simp add: token_laws_def)

text \<open>The contract's tokens after it received or paid an amount; the other side is not the contract itself.\<close>

lemma transfer_self:
  assumes "token_laws H bal" "a \<noteq> host_self H"
  shows "host_transfer H token a (host_self H) n l = Some l' \<Longrightarrow> 0 \<le> n \<and> bal token (host_self H) l' = bal token (host_self H) l + n"
    "host_transfer H token (host_self H) a n l = Some l' \<Longrightarrow> 0 \<le> n \<and> bal token (host_self H) l' = bal token (host_self H) l - n"
  using token_lawsD(1) [OF assms(1)] token_lawsD(3) [OF assms(1), where t = token and h = "host_self H"] assms(2) by fastforce+

text \<open>
  A step is a call of anybody, authorized by any addresses other than the contract itself, which only authorizes the calls it makes; or anything
  that happens to the tokens elsewhere, which does not take tokens from the contract.
\<close>

inductive market_step :: "'l host \<Rightarrow> 'l balances \<Rightarrow> 'l chain \<Rightarrow> 'l chain \<Rightarrow> bool" for H bal where
  call: "\<not> auth (host_self H) \<Longrightarrow> exec H auth c s = (Inr r, s') \<Longrightarrow> market_step H bal s s'"
| external: "(\<And>t. bal t (host_self H) (ch_tokens s) \<le> bal t (host_self H) l) \<Longrightarrow> market_step H bal s (s\<lparr>ch_tokens := l\<rparr>)"

definition market_run :: "'l host \<Rightarrow> 'l balances \<Rightarrow> 'l chain \<Rightarrow> 'l chain \<Rightarrow> bool" where
  "market_run H bal = (market_step H bal)\<^sup>*\<^sup>*"

section \<open>The tokens of an outcome\<close>

definition held :: "(ScAddress \<times> uint32 \<rightharpoonup> int) \<Rightarrow> uint32 \<Rightarrow> int" where
  "held B w = (\<Sum>k \<in> {k \<in> dom B. snd k = w}. the (B k))"

lemma held_empty [simp]: "held Map.empty w = 0"
  by (simp add: held_def)

lemma held_update:
  assumes "finite (dom B)"
  shows "held (B((u, w) \<mapsto> v)) w' = held B w' + (if w = w' then v - (case B (u, w) of None \<Rightarrow> 0 | Some x \<Rightarrow> x) else 0)"
proof (cases "w = w'")
  case True
  let ?K = "{k \<in> dom B. snd k = w'}" and ?k = "(u, w)"
  have fin: "finite ?K" using assms by simp
  have "{k \<in> dom (B(?k \<mapsto> v)). snd k = w'} = insert ?k (?K - {?k})" using True by auto
  then have "held (B(?k \<mapsto> v)) w' = v + (\<Sum>k \<in> ?K - {?k}. the (B k))"
    unfolding held_def using fin by (simp add: sum.insert_remove)
  moreover have "held B w' = (case B ?k of None \<Rightarrow> 0 | Some x \<Rightarrow> x) + (\<Sum>k \<in> ?K - {?k}. the (B k))"
    unfolding held_def using sum.remove [OF fin, of ?k "\<lambda>k. the (B k)"] True by (cases "B ?k") (auto simp: domIff)
  ultimately show ?thesis using True by simp
next
  case False
  then have "{k \<in> dom (B((u, w) \<mapsto> v)). snd k = w'} = {k \<in> dom B. snd k = w'}" by auto
  moreover have "(\<Sum>k \<in> {k \<in> dom B. snd k = w'}. the ((B((u, w) \<mapsto> v)) k)) = held B w'"
    unfolding held_def using False by (intro sum.cong) auto
  ultimately show ?thesis using False by (simp add: held_def)
qed

definition balances_ok :: "(ScAddress \<times> uint32 \<rightharpoonup> int) \<Rightarrow> bool" where
  "balances_ok B \<longleftrightarrow> finite (dom B) \<and> (\<forall>v \<in> ran B. 0 \<le> v)"

lemma balances_ok_update: "balances_ok B \<Longrightarrow> 0 \<le> v \<Longrightarrow> balances_ok (B(k \<mapsto> v))"
  by (auto simp: balances_ok_def ran_def)

lemma balance_of_nonneg: "balances_ok (dk_UserBalance d) \<Longrightarrow> 0 \<le> balance_of d u w"
  by (auto simp: balances_ok_def balance_of_def ran_def split: option.splits)

lemma held_bounds:
  assumes "balances_ok (dk_UserBalance d)"
  shows "0 \<le> held (dk_UserBalance d) w" "balance_of d u w \<le> held (dk_UserBalance d) w"
proof -
  let ?B = "dk_UserBalance d"
  show h: "0 \<le> held ?B w" unfolding held_def using assms by (intro sum_nonneg) (auto simp: balances_ok_def intro: ranI)
  show "balance_of d u w \<le> held ?B w"
  proof (cases "?B (u, w)")
    case (Some v)
    then have "the (?B (u, w)) \<le> held ?B w"
      unfolding held_def using assms by (intro member_le_sum) (auto simp: balances_ok_def intro: ranI)
    then show ?thesis using Some by (simp add: balance_of_def)
  qed (simp add: balance_of_def h)
qed

lemma held_set_balance:
  assumes "balances_ok (dk_UserBalance d)"
  shows "held (dk_UserBalance (set_balance u w v d)) w' = held (dk_UserBalance d) w' + (if w = w' then v - balance_of d u w else 0)"
  using held_update [of "dk_UserBalance d" u w v w'] assms by (simp add: balances_ok_def balance_of_def)


section \<open>The invariant\<close>

text \<open>The parts of the storage that an initialized contract always has.\<close>

definition funded :: "'l host \<Rightarrow> 'l balances \<Rightarrow> 'l chain \<Rightarrow> int \<Rightarrow> int \<Rightarrow> bool" where
  "funded H bal s b pool \<longleftrightarrow> (\<exists>token. dk_Oracle (ch_storage s) \<noteq> None \<and> dk_CollateralToken (ch_storage s) = Some token
     \<and> dk_LiquidityParam (ch_storage s) = Some b \<and> 0 < b \<and> dk_CollateralPool (ch_storage s) = Some pool \<and> 0 \<le> pool \<and> pool \<le> i128_MAX
     \<and> pool \<le> bal token (host_self H) (ch_tokens s) \<and> balances_ok (dk_UserBalance (ch_storage s)))"

definition open_inv :: "'l host \<Rightarrow> 'l balances \<Rightarrow> 'l chain \<Rightarrow> bool" where
  "open_inv H bal s \<longleftrightarrow> (\<exists>b pool. funded H bal s b pool \<and> dk_Resolved (ch_storage s) = Some False \<and> dk_WinningOutcome (ch_storage s) = None
     \<and> dk_YesSold (ch_storage s) = Some (held (dk_UserBalance (ch_storage s)) OUTCOME_YES)
     \<and> dk_NoSold (ch_storage s) = Some (held (dk_UserBalance (ch_storage s)) OUTCOME_NO)
     \<and> contract.backed b (held (dk_UserBalance (ch_storage s)) OUTCOME_YES) (held (dk_UserBalance (ch_storage s)) OUTCOME_NO) pool)"

definition withdrawn :: "'l chain \<Rightarrow> bool" where
  "withdrawn s \<longleftrightarrow> (\<exists>a n. EvWithdraw a n \<in> set (ch_events s))"

definition resolved_inv :: "'l host \<Rightarrow> 'l balances \<Rightarrow> 'l chain \<Rightarrow> bool" where
  "resolved_inv H bal s \<longleftrightarrow> (\<exists>b pool w u. funded H bal s b pool \<and> dk_Resolved (ch_storage s) = Some True
     \<and> dk_WinningOutcome (ch_storage s) = Some w \<and> is_valid_outcome w
     \<and> dk_UnclaimedWinningTokens (ch_storage s) = Some u \<and> u = held (dk_UserBalance (ch_storage s)) w \<and> in_i128 (u * SCALE_FACTOR)
     \<and> (withdrawn s \<or> u \<le> pool + rounding_error b))"

definition market_inv :: "'l host \<Rightarrow> 'l balances \<Rightarrow> 'l chain \<Rightarrow> bool" where
  "market_inv H bal s \<longleftrightarrow> ch_storage s = empty_storage \<or> open_inv H bal s \<or> resolved_inv H bal s"

lemma contract_cost_in_range: "contract_cost x y b = Inr c \<Longrightarrow> in_i128 (x * SCALE_FACTOR) \<and> in_i128 (y * SCALE_FACTOR)"
  by (auto simp: contract_cost_def over_b_def tryE_Inr_iff i128_ops Let_def split: if_splits)

text \<open>What the storage of a state tells about its phase.\<close>

lemma market_inv_open: "market_inv H bal s \<Longrightarrow> dk_Resolved (ch_storage s) = Some False \<Longrightarrow> open_inv H bal s"
  by (auto simp: market_inv_def resolved_inv_def empty_storage_def)

lemma market_inv_resolved: "market_inv H bal s \<Longrightarrow> dk_Resolved (ch_storage s) = Some True \<Longrightarrow> resolved_inv H bal s"
  by (auto simp: market_inv_def open_inv_def empty_storage_def)

lemma market_inv_fresh: "market_inv H bal s \<Longrightarrow> dk_Oracle (ch_storage s) = None \<Longrightarrow> ch_storage s = empty_storage"
  by (auto simp: market_inv_def open_inv_def resolved_inv_def funded_def)

lemma initialize_inv:
  assumes "market_inv H bal s" "token_laws H bal" "\<not> auth (host_self H)"
    and "initialize H auth a token b hash funding s = (Inr u, s')"
  shows "market_inv H bal s'"
  using assms(4)
proof (rule initialize_InrE)
  fix l required
  assume fresh: "dk_Oracle (ch_storage s) = None" and b: "0 < b" "initial_liquidity b = Inr required" "required \<le> funding" "funding \<le> MAX_FUNDING" "auth a"
    and tr: "host_transfer H token a (host_self H) funding (ch_tokens s) = Some l"
    and s': "s' = s\<lparr>ch_storage := (ch_storage s)\<lparr>dk_Oracle := Some a, dk_CollateralToken := Some token, dk_LiquidityParam := Some b,
       dk_MetadataHash := Some hash, dk_YesSold := Some 0, dk_NoSold := Some 0, dk_CollateralPool := Some funding, dk_Resolved := Some False\<rparr>,
       ch_tokens := l\<rparr>"
  have e: "ch_storage s = empty_storage" using market_inv_fresh assms(1) fresh .
  have "a \<noteq> host_self H" using assms(3) b by auto
  then have "funding \<le> bal token (host_self H) l" "0 \<le> funding"
    using transfer_self(1) [OF assms(2) _ tr] token_laws_nonneg [OF assms(2), of token "host_self H" "ch_tokens s"] by auto
  moreover have "contract.backed b 0 0 funding" using contract.backed_start b by blast
  moreover have "funding \<le> i128_MAX" using b(4) by (simp add: MAX_FUNDING_def i128_MAX_def)
  ultimately have "open_inv H bal s'" using b e by (simp add: s' open_inv_def funded_def empty_storage_def balances_ok_def)
  then show ?thesis by (simp add: market_inv_def)
qed

text \<open>Both trades change the storage by \<open>traded\<close> and the pool by the difference of the cost function.\<close>

lemma held_bought:
  assumes "balances_ok (dk_UserBalance d)" "is_valid_outcome outcome"
  shows "(held ((dk_UserBalance d)((user, outcome) \<mapsto> balance_of d user outcome + amount)) OUTCOME_YES,
      held ((dk_UserBalance d)((user, outcome) \<mapsto> balance_of d user outcome + amount)) OUTCOME_NO)
     = bought outcome amount (held (dk_UserBalance d) OUTCOME_YES, held (dk_UserBalance d) OUTCOME_NO)"
proof -
  have "held ((dk_UserBalance d)((user, outcome) \<mapsto> balance_of d user outcome + amount)) w = held (dk_UserBalance d) w + (if outcome = w then amount else 0)" for w
    using held_set_balance [OF assms(1), of user outcome "balance_of d user outcome + amount" w] by simp
  then show ?thesis using assms(2) by (auto simp: bought_def is_valid_outcome_def OUTCOME_YES_def OUTCOME_NO_def)
qed

lemma traded_fields [simp]:
  "dk_Oracle (traded u w a q p d) = dk_Oracle d" "dk_CollateralToken (traded u w a q p d) = dk_CollateralToken d"
  "dk_LiquidityParam (traded u w a q p d) = dk_LiquidityParam d" "dk_Resolved (traded u w a q p d) = dk_Resolved d"
  "dk_YesSold (traded u w a q p d) = Some (fst (bought w a q))" "dk_NoSold (traded u w a q p d) = Some (snd (bought w a q))"
  "dk_CollateralPool (traded u w a q p d) = Some p" "dk_WinningOutcome (traded u w a q p d) = dk_WinningOutcome d"
  "dk_UserBalance (traded u w a q p d) = (dk_UserBalance d)((u, w) \<mapsto> balance_of d u w + a)"
  by (simp_all add: traded_def)

lemma traded_inv:
  assumes "open_inv H bal s" "is_valid_outcome outcome" "0 \<le> balance_of (ch_storage s) user outcome + amount"
    and "dk_LiquidityParam (ch_storage s) = Some b" "dk_YesSold (ch_storage s) = Some y" "dk_NoSold (ch_storage s) = Some n"
    "dk_CollateralPool (ch_storage s) = Some pool" "dk_CollateralToken (ch_storage s) = Some token"
    and cost: "contract_cost y n b = Inr c" "contract_cost (fst (bought outcome amount (y, n))) (snd (bought outcome amount (y, n))) b = Inr c'"
    and pool: "0 \<le> pool + (c' - c)" "pool + (c' - c) \<le> i128_MAX"
    and tokens: "bal token (host_self H) (ch_tokens s) + (c' - c) \<le> bal token (host_self H) l"
  shows "open_inv H bal (s\<lparr>ch_storage := traded user outcome amount (y, n) (pool + (c' - c)) (ch_storage s), ch_tokens := l, ch_events := es\<rparr>)"
proof -
  let ?d = "traded user outcome amount (y, n) (pool + (c' - c)) (ch_storage s)"
  have inv: "0 < b" "pool \<le> bal token (host_self H) (ch_tokens s)" "balances_ok (dk_UserBalance (ch_storage s))" "dk_Resolved (ch_storage s) = Some False"
    "dk_Oracle (ch_storage s) \<noteq> None" "dk_WinningOutcome (ch_storage s) = None"
    "y = held (dk_UserBalance (ch_storage s)) OUTCOME_YES" "n = held (dk_UserBalance (ch_storage s)) OUTCOME_NO" "contract.backed b y n pool"
    using assms(1,4-8) unfolding open_inv_def funded_def by (metis option.inject)+
  have held: "held ((dk_UserBalance (ch_storage s))((user, outcome) \<mapsto> balance_of (ch_storage s) user outcome + amount)) OUTCOME_YES = fst (bought outcome amount (y, n))"
    "held ((dk_UserBalance (ch_storage s))((user, outcome) \<mapsto> balance_of (ch_storage s) user outcome + amount)) OUTCOME_NO = snd (bought outcome amount (y, n))"
    using held_bought [OF inv(3) assms(2), of user amount] inv(7,8) by (metis fst_conv snd_conv)+
  have "contract.backed b (fst (bought outcome amount (y, n))) (snd (bought outcome amount (y, n))) (pool + (c' - c))"
    using contract.backed_trade [OF inv(9) cost] .
  moreover have "balances_ok (dk_UserBalance ?d)" using balances_ok_update [OF inv(3) assms(3)] by (simp add: traded_def)
  moreover have "pool + (c' - c) \<le> bal token (host_self H) l" using inv(2) tokens by linarith
  ultimately show ?thesis
    using inv(1,4,5,6) assms(4,8) pool unfolding open_inv_def funded_def by (simp add: held)
qed

lemma buy_inv:
  assumes "market_inv H bal s" "token_laws H bal" "\<not> auth (host_self H)" "buy H auth user outcome amount max_cost s = (Inr cost, s')"
  shows "open_inv H bal s'"
  using assms(4)
proof (rule buy_InrE)
  fix b y n pool token l
  assume pre: "dk_Resolved (ch_storage s) = Some False" "auth user" "is_valid_outcome outcome" "0 < amount"
    and fields: "dk_LiquidityParam (ch_storage s) = Some b" "dk_YesSold (ch_storage s) = Some y" "dk_NoSold (ch_storage s) = Some n"
      "dk_CollateralPool (ch_storage s) = Some pool" "dk_CollateralToken (ch_storage s) = Some token"
    and cost: "calculate_buy_cost y n amount outcome b = Inr cost" "in_i128 (pool + cost)"
    and tr: "host_transfer H token user (host_self H) cost (ch_tokens s) = Some l"
    and s': "s' = s\<lparr>ch_storage := traded user outcome amount (y, n) (pool + cost) (ch_storage s), ch_tokens := l,
       ch_events := ch_events s @ [EvBuy user outcome amount cost]\<rparr>"
  have inv: "open_inv H bal s" using market_inv_open [OF assms(1) pre(1)] .
  have "0 \<le> pool" "balances_ok (dk_UserBalance (ch_storage s))" using inv fields by (auto simp: open_inv_def funded_def)
  moreover have "user \<noteq> host_self H" using pre(2) assms(3) by auto
  note transfer_self(1) [OF assms(2) this tr]
  moreover obtain c c' where "contract_cost y n b = Inr c" "contract_cost (fst (bought outcome amount (y, n))) (snd (bought outcome amount (y, n))) b = Inr c'"
    "cost = c' - c" using cost(1) by (rule calculate_buy_cost_Inr)
  ultimately show ?thesis
    unfolding s' using traded_inv [OF inv pre(3) _ fields, of user amount c c' l] balance_of_nonneg [of "ch_storage s" user outcome] pre(4) cost(2)
    by (simp add: in_i128_def)
qed

lemma sell_inv:
  assumes "market_inv H bal s" "token_laws H bal" "\<not> auth (host_self H)" "sell H auth user outcome amount min_return s = (Inr ret, s')"
  shows "open_inv H bal s'"
  using assms(4)
proof (rule sell_InrE)
  fix b y n pool token l
  assume pre: "dk_Resolved (ch_storage s) = Some False" "auth user" "is_valid_outcome outcome" "amount \<le> balance_of (ch_storage s) user outcome"
    and fields: "dk_LiquidityParam (ch_storage s) = Some b" "dk_YesSold (ch_storage s) = Some y" "dk_NoSold (ch_storage s) = Some n"
      "dk_CollateralPool (ch_storage s) = Some pool" "dk_CollateralToken (ch_storage s) = Some token"
    and ret: "calculate_sell_return y n amount outcome b = Inr ret" "ret \<le> pool"
    and tr: "host_transfer H token (host_self H) user ret (ch_tokens s) = Some l"
    and s': "s' = s\<lparr>ch_storage := traded user outcome (- amount) (y, n) (pool - ret) (ch_storage s), ch_tokens := l,
       ch_events := ch_events s @ [EvSell user outcome amount ret]\<rparr>"
  have inv: "open_inv H bal s" using market_inv_open [OF assms(1) pre(1)] .
  have max: "pool \<le> i128_MAX" using inv fields by (auto simp: open_inv_def funded_def)
  have "user \<noteq> host_self H" using pre(2) assms(3) by auto
  note paid = transfer_self(2) [OF assms(2) this tr]
  obtain c c' where cc: "contract_cost y n b = Inr c"
      "contract_cost (fst (bought outcome (- amount) (y, n))) (snd (bought outcome (- amount) (y, n))) b = Inr c'" "ret = c - c'"
    using ret(1) by (rule calculate_sell_return_Inr)
  then have eq: "pool - ret = pool + (c' - c)" by simp
  show ?thesis
    unfolding s' eq by (rule traded_inv [OF inv pre(3) _ fields cc(1,2)]) (use max paid cc(3) pre(4) ret(2) in linarith)+
qed

lemma resolve_inv:
  assumes "market_inv H bal s" "resolve H auth a w s = (Inr u, s')"
  shows "resolved_inv H bal s'"
  using assms(2)
proof (rule resolve_InrE)
  fix t
  assume r: "dk_Resolved (ch_storage s) = Some False" "is_valid_outcome w" "(if w = OUTCOME_YES then dk_YesSold (ch_storage s) else dk_NoSold (ch_storage s)) = Some t"
    and s': "s' = s\<lparr>ch_storage := (ch_storage s)\<lparr>dk_Resolved := Some True, dk_WinningOutcome := Some w, dk_UnclaimedWinningTokens := Some t\<rparr>,
       ch_events := ch_events s @ [EvResolve a w]\<rparr>"
  let ?h = "held (dk_UserBalance (ch_storage s))"
  obtain b pool where f: "funded H bal s b pool" and t: "t = ?h w" and bk: "contract.backed b (?h OUTCOME_YES) (?h OUTCOME_NO) pool"
    using market_inv_open [OF assms(1) r(1)] r(2,3) unfolding open_inv_def is_valid_outcome_def by (auto split: if_splits)
  have "funded H bal s' b pool" using f by (simp add: s' funded_def)
  moreover have "t \<le> pool + rounding_error b" "in_i128 (t * SCALE_FACTOR)"
    using contract.backed_covers [OF bk] bk contract_cost_in_range r(2) t unfolding contract.backed_def is_valid_outcome_def by auto
  ultimately show ?thesis using r(2) t by (auto simp: s' resolved_inv_def)
qed

lemma funded_pay:
  assumes "funded H bal s b pool" "token_laws H bal" "a \<noteq> host_self H" "dk_CollateralToken (ch_storage s) = Some token" "n \<le> pool"
    and "host_transfer H token (host_self H) a n (ch_tokens s) = Some l"
    and "dk_Oracle d = dk_Oracle (ch_storage s)" "dk_CollateralToken d = Some token" "dk_LiquidityParam d = dk_LiquidityParam (ch_storage s)"
    and "dk_CollateralPool d = Some (pool - n)" "balances_ok (dk_UserBalance d)"
  shows "funded H bal (s\<lparr>ch_storage := d, ch_tokens := l, ch_events := es\<rparr>) b (pool - n)"
  using assms transfer_self(2) [OF assms(2,3,6)] by (auto simp: funded_def)

lemma claim_inv:
  assumes "market_inv H bal s" "token_laws H bal" "\<not> auth (host_self H)" "claim H auth user s = (Inr payout, s')"
  shows "resolved_inv H bal s'"
  using assms(4)
proof (rule claim_InrE)
  fix w v pool token l
  assume pre: "dk_Resolved (ch_storage s) = Some True" "auth user" "dk_WinningOutcome (ch_storage s) = Some w"
    and v: "v = balance_of (ch_storage s) user w" "0 < v" "payout = v - v div 50" "payout \<le> pool"
    and fields: "dk_CollateralPool (ch_storage s) = Some pool" "dk_CollateralToken (ch_storage s) = Some token"
    and tr: "host_transfer H token (host_self H) user payout (ch_tokens s) = Some l"
    and s': "s' = s\<lparr>ch_storage := (set_balance user w 0 (ch_storage s))\<lparr>dk_UnclaimedWinningTokens := Some (unclaimed_of (ch_storage s) - v),
         dk_CollateralPool := Some (pool - payout)\<rparr>, ch_tokens := l, ch_events := ch_events s @ [EvClaim user payout]\<rparr>"
  obtain b u where f: "funded H bal s b pool" and u: "dk_UnclaimedWinningTokens (ch_storage s) = Some u" "u = held (dk_UserBalance (ch_storage s)) w"
    and r: "is_valid_outcome w" "in_i128 (u * SCALE_FACTOR)" "withdrawn s \<or> u \<le> pool + rounding_error b"
    using market_inv_resolved [OF assms(1) pre(1)] pre(3) fields unfolding resolved_inv_def funded_def by auto
  have ok: "balances_ok (dk_UserBalance (ch_storage s))" using f by (auto simp: funded_def)
  have "user \<noteq> host_self H" using pre(2) assms(3) by auto
  then have f': "funded H bal s' b (pool - payout)"
    unfolding s' using f assms(2) fields v(4) tr balances_ok_update [OF ok] by (intro funded_pay) auto
  have h: "held ((dk_UserBalance (ch_storage s))((user, w) \<mapsto> 0)) w = u - v"
    using held_set_balance [OF ok, of user w 0 w] v(1) u(2) by simp
  have uv: "0 \<le> u - v" "u - v \<le> u" using held_bounds(2) [OF ok, of user w] v(1,2) u(2) by simp_all
  then have "(u - v) * SCALE_FACTOR \<le> u * SCALE_FACTOR" by (intro mult_right_mono) simp_all
  moreover have "0 \<le> (u - v) * SCALE_FACTOR" using uv by simp
  ultimately have i: "in_i128 ((u - v) * SCALE_FACTOR)" using r(2) unfolding i128_range by linarith
  have "0 \<le> v div 50" using v(2) by simp
  then have "withdrawn s' \<or> u - v \<le> pool - payout + rounding_error b" using r(3) v(3) by (auto simp: s' withdrawn_def)
  then show ?thesis using f' pre u r(1) h i by (auto simp: s' resolved_inv_def unclaimed_of_def)
qed

lemma withdraw_inv:
  assumes "market_inv H bal s" "token_laws H bal" "\<not> auth (host_self H)" "withdraw_remaining H auth a s = (Inr amount, s')"
  shows "resolved_inv H bal s'"
  using assms(4)
proof (rule withdraw_InrE)
  fix pool token l reserved
  assume pre: "dk_Resolved (ch_storage s) = Some True" "auth a" 
    and fields: "dk_CollateralPool (ch_storage s) = Some pool" "dk_CollateralToken (ch_storage s) = Some token"
    and res: "reserved = unclaimed_of (ch_storage s) * (BPS_DENOMINATOR - CLAIM_FEE_BPS) sdiv BPS_DENOMINATOR" "amount = pool - reserved"
    and tr: "host_transfer H token (host_self H) a amount (ch_tokens s) = Some l"
    and s': "s' = s\<lparr>ch_storage := (ch_storage s)\<lparr>dk_CollateralPool := Some reserved\<rparr>, ch_tokens := l, ch_events := ch_events s @ [EvWithdraw a amount]\<rparr>"
  obtain b u w where f: "funded H bal s b pool" and u: "dk_UnclaimedWinningTokens (ch_storage s) = Some u" "u = held (dk_UserBalance (ch_storage s)) w"
    and r: "dk_WinningOutcome (ch_storage s) = Some w" "is_valid_outcome w" "in_i128 (u * SCALE_FACTOR)"
    using market_inv_resolved [OF assms(1) pre(1)] fields unfolding resolved_inv_def funded_def by auto
  have ok: "balances_ok (dk_UserBalance (ch_storage s))" using f by (auto simp: funded_def)
  have "0 \<le> reserved" using held_bounds(1) [OF ok, of w] u claim_reserve [of u] by (simp add: res(1) unclaimed_of_def)
  moreover have "a \<noteq> host_self H" using pre(2) assms(3) by auto
  moreover have "reserved = pool - amount" using res(2) by simp
  ultimately have "funded H bal s' b (pool - amount)"
    unfolding s' using f assms(2) fields tr ok by (intro funded_pay) auto
  moreover have "withdrawn s'" by (auto simp: s' withdrawn_def)
  ultimately show ?thesis using pre(1) u r by (auto simp: s' resolved_inv_def)
qed

lemma market_inv_tokens:
  assumes "market_inv H bal s" "\<And>t. bal t (host_self H) (ch_tokens s) \<le> bal t (host_self H) l"
  shows "market_inv H bal (s\<lparr>ch_tokens := l\<rparr>)"
proof -
  have 1: "funded H bal (s\<lparr>ch_tokens := l\<rparr>) b pool" if "funded H bal s b pool" for b pool
    using that by (auto simp: funded_def intro: order_trans [OF _ assms(2)])
  then have "open_inv H bal (s\<lparr>ch_tokens := l\<rparr>)" if "open_inv H bal s"
    using that by (simp add: open_inv_def) blast
  moreover have "resolved_inv H bal (s\<lparr>ch_tokens := l\<rparr>)" if "resolved_inv H bal s"
    using that 1 by (simp add: resolved_inv_def withdrawn_def) blast
  ultimately show ?thesis using assms(1) by (auto simp: market_inv_def)
qed

lemma market_step_inv:
  assumes "market_step H bal s s'" "token_laws H bal" "market_inv H bal s"
  shows "market_inv H bal s'"
  using assms(1)
proof cases
  case (call auth c r)
  from call(2) show ?thesis
  proof (rule exec_cases)
  qed (auto simp: market_inv_def dest: initialize_inv [where auth = auth, OF assms(3,2) call(1)] buy_inv [where auth = auth, OF assms(3,2) call(1)] sell_inv [where auth = auth, OF assms(3,2) call(1)]
      resolve_inv [OF assms(3)] claim_inv [where auth = auth, OF assms(3,2) call(1)] withdraw_inv [where auth = auth, OF assms(3,2) call(1)])
next
  case (external l)
  show ?thesis unfolding external(1) by (rule market_inv_tokens) (use assms(3) external(2) in auto)
qed

lemma market_run_inv:
  assumes "market_run H bal s s'" "token_laws H bal" "ch_storage s = empty_storage"
  shows "market_inv H bal s'"
  using assms(1) unfolding market_run_def
proof (induction rule: rtranclp_induct)
  case base
  show ?case using assms(3) by (simp add: market_inv_def)
next
  case (step s' s'')
  show ?case using market_step_inv [OF step(2) assms(2) step(3)] .
qed

section \<open>Solvency\<close>

text \<open>
  A market of which the pool is covered by its tokens and covers what is owed, up to the rounding error, until the oracle withdraws.
\<close>

definition solvent :: "'l balances \<Rightarrow> ScAddress \<Rightarrow> 'l chain \<Rightarrow> bool" where
  "solvent bal m s \<longleftrightarrow> (\<exists>token b pool. dk_CollateralToken (ch_storage s) = Some token \<and> dk_LiquidityParam (ch_storage s) = Some b
     \<and> dk_CollateralPool (ch_storage s) = Some pool \<and> 0 \<le> pool \<and> pool \<le> bal token m (ch_tokens s)
     \<and> (case dk_WinningOutcome (ch_storage s) of
          None \<Rightarrow> held (dk_UserBalance (ch_storage s)) OUTCOME_YES \<le> pool + rounding_error b
            \<and> held (dk_UserBalance (ch_storage s)) OUTCOME_NO \<le> pool + rounding_error b
        | Some w \<Rightarrow> withdrawn s \<or> held (dk_UserBalance (ch_storage s)) w \<le> pool + rounding_error b))"

lemma market_inv_solvent:
  assumes "market_inv H bal s" "dk_Oracle (ch_storage s) \<noteq> None"
  shows "solvent bal (host_self H) s"
proof -
  have "open_inv H bal s \<or> resolved_inv H bal s" using assms by (auto simp: market_inv_def empty_storage_def)
  then show ?thesis
  proof
    assume "open_inv H bal s"
    then obtain b pool where "funded H bal s b pool" "dk_WinningOutcome (ch_storage s) = None"
      "contract.backed b (held (dk_UserBalance (ch_storage s)) OUTCOME_YES) (held (dk_UserBalance (ch_storage s)) OUTCOME_NO) pool"
      unfolding open_inv_def by blast
    with contract.backed_covers [OF this(3)] show ?thesis by (auto simp: funded_def solvent_def)
  next
    assume "resolved_inv H bal s"
    then show ?thesis by (auto simp: resolved_inv_def funded_def solvent_def)
  qed
qed

text \<open>The oracle of a market never changes.\<close>

lemma exec_keeps_oracle:
  assumes "exec H auth c s = (Inr r, s')" "dk_Oracle (ch_storage s) = Some a"
  shows "dk_Oracle (ch_storage s') = Some a"
  using assms(1)
proof (cases rule: exec_cases)
  case (Initialize a' token b hash funding)
  from this(2) show ?thesis by (rule initialize_InrE) (use assms(2) in simp)
next
  case (Buy user outcome amount max_cost cost)
  from this(2) show ?thesis by (rule buy_InrE) (use assms(2) in simp)
next
  case (Sell user outcome amount min_return ret)
  from this(2) show ?thesis by (rule sell_InrE) (use assms(2) in simp)
next
  case (Resolve a' w)
  from this(2) show ?thesis by (rule resolve_InrE) (use assms(2) in simp)
next
  case (Claim user payout)
  from this(2) show ?thesis by (rule claim_InrE) (use assms(2) in \<open>simp add: set_balance_def\<close>)
next
  case (Withdraw a' amount)
  from this(2) show ?thesis by (rule withdraw_InrE) (use assms(2) in simp)
qed

text \<open>
  C2 (contract_solvent): in every state that a market reaches from its creation, the collateral pool is not negative and is covered by the contract's tokens; while
  trading goes on, and after the resolution until the oracle withdraws, the pool covers what the holders of each outcome (of the winning one) could claim, up to
  a rounding error of one unit and one ten-millionth of the liquidity parameter.
\<close>

theorem contract_solvent:
  assumes "token_laws H bal" "ch_storage s0 = empty_storage" "market_run H bal s0 s" "dk_Oracle (ch_storage s) \<noteq> None"
  shows "\<exists>token b pool. dk_CollateralToken (ch_storage s) = Some token \<and> dk_LiquidityParam (ch_storage s) = Some b \<and> dk_CollateralPool (ch_storage s) = Some pool
     \<and> 0 \<le> pool \<and> pool \<le> bal token (host_self H) (ch_tokens s)
     \<and> (case dk_WinningOutcome (ch_storage s) of
          None \<Rightarrow> held (dk_UserBalance (ch_storage s)) OUTCOME_YES \<le> pool + rounding_error b
            \<and> held (dk_UserBalance (ch_storage s)) OUTCOME_NO \<le> pool + rounding_error b
        | Some w \<Rightarrow> withdrawn s \<or> held (dk_UserBalance (ch_storage s)) w \<le> pool + rounding_error b)"
  using market_inv_solvent [OF market_run_inv [OF assms(3,1,2)] assms(4)] by (simp only: solvent_def)

text \<open>A token, for concrete runs.\<close>

type_synonym ledger = "ScAddress \<Rightarrow> ScAddress \<Rightarrow> int"

definition ledger_balance :: "ledger balances" where
  "ledger_balance t h l = max 0 (l t h)"

definition ledger_host :: "ScAddress \<Rightarrow> ledger host" where
  "ledger_host self = \<lparr>host_self = self, host_transfer = (\<lambda>token a a' n l.
     if 0 \<le> n \<and> n \<le> ledger_balance token a l
     then Some (\<lambda>t h. ledger_balance t h l + (if t = token \<and> h = a' then n else 0) - (if t = token \<and> h = a then n else 0))
     else None)\<rparr>"

lemma ledger_token: "token_laws (ledger_host self) ledger_balance"
  by (auto simp: token_laws_def ledger_balance_def ledger_host_def split: if_splits)

lemma market_run_call:
  assumes "market_run H bal s0 s" "\<not> auth (host_self H)" "fst (exec H auth c s) = Inr r"
  shows "market_run H bal s0 (snd (exec H auth c s))"
  using assms market_step.call [of auth H c s r "snd (exec H auth c s)" bal] unfolding market_run_def
  by (metis prod.collapse rtranclp.rtrancl_into_rtrancl)

lemma market_run_refl: "market_run H bal s s"
  by (simp add: market_run_def)

text \<open>A market with a liquidity parameter of 100 collateral tokens in which a user buys a little more than 100 tokens of \<open>YES\<close>.\<close>

definition account :: "bytes \<Rightarrow> ScAddress" where
  "account i = \<lparr>sa_Type = AddressTypeAccount, sa_AccountId = Some i, sa_ContractId = None\<rparr>"

definition demo_host :: "ledger host" where
  "demo_host = ledger_host (account [0])"

definition demo_auth :: auth where
  "demo_auth a \<longleftrightarrow> a \<noteq> account [0]"

definition demo_start :: "ledger chain" where
  "demo_start = \<lparr>ch_storage = empty_storage, ch_tokens = (\<lambda>t h. if h = account [0] then 0 else 10 ^ 12), ch_events = []\<rparr>"

definition demo_call :: "market_call \<Rightarrow> ledger chain \<Rightarrow> ledger chain" where
  "demo_call c s = snd (exec demo_host demo_auth c s)"

definition demo_funded :: "ledger chain" where
  "demo_funded = demo_call (Initialize (account [1]) (account [9]) 1000000000 ''Qm'' 700000000) demo_start"

definition demo_open :: "ledger chain" where
  "demo_open = demo_call (Buy (account [2]) OUTCOME_YES 1000000001 1000000000) demo_funded"

definition demo_resolved :: "ledger chain" where
  "demo_resolved = demo_call (Resolve (account [1]) OUTCOME_YES) demo_open"

lemma demo_run_call:
  assumes "market_run demo_host ledger_balance demo_start s" "fst (exec demo_host demo_auth c s) = Inr r"
  shows "market_run demo_host ledger_balance demo_start (demo_call c s)"
  unfolding demo_call_def using assms by (intro market_run_call [where r = r]) (simp_all add: demo_host_def demo_auth_def ledger_host_def)

lemma demo_start_facts:
  "token_laws demo_host ledger_balance" "ch_storage demo_start = empty_storage" "\<not> demo_auth (host_self demo_host)"
  by (simp_all only: demo_host_def ledger_token) (simp_all add: demo_start_def demo_auth_def ledger_host_def)

lemma demo_calls:
  "fst (exec demo_host demo_auth (Initialize (account [1]) (account [9]) 1000000000 ''Qm'' 700000000) demo_start) = Inr None"
  "fst (exec demo_host demo_auth (Buy (account [2]) OUTCOME_YES 1000000001 1000000000) demo_funded) = Inr (Some 620114300)"
  "fst (exec demo_host demo_auth (Resolve (account [1]) OUTCOME_YES) demo_open) = Inr None"
  by code_simp+

lemma demo_runs:
  "market_run demo_host ledger_balance demo_start demo_funded"
  "market_run demo_host ledger_balance demo_start demo_open"
  "market_run demo_host ledger_balance demo_start demo_resolved"
proof -
  show *: "market_run demo_host ledger_balance demo_start demo_funded"
    unfolding demo_funded_def by (rule demo_run_call [OF market_run_refl demo_calls(1)])
  show **: "market_run demo_host ledger_balance demo_start demo_open"
    unfolding demo_open_def by (rule demo_run_call [OF * demo_calls(2)])
  show "market_run demo_host ledger_balance demo_start demo_resolved"
    unfolding demo_resolved_def by (rule demo_run_call [OF ** demo_calls(3)])
qed

theorem contract_solvent_witness:
  "dk_Oracle (ch_storage demo_open) = Some (account [1]) \<and> held (dk_UserBalance (ch_storage demo_open)) OUTCOME_YES \<le> 1320114300 + rounding_error 1000000000"
proof -
  have f: "dk_Oracle (ch_storage demo_open) = Some (account [1])" "dk_LiquidityParam (ch_storage demo_open) = Some 1000000000"
    "dk_CollateralPool (ch_storage demo_open) = Some 1320114300" "dk_WinningOutcome (ch_storage demo_open) = None"
    by code_simp+
  from contract_solvent [OF demo_start_facts(1,2) demo_runs(2)] f show ?thesis by auto
qed

section \<open>Resolution and authorization\<close>

text \<open>A call takes collateral from nobody who did not authorize it, the contract apart.\<close>

lemma exec_takes:
  assumes "exec H auth c s = (r, s')" "token_laws H bal"
  shows "bal t h (ch_tokens s) \<le> bal t h (ch_tokens s') \<or> auth h \<or> h = host_self H"
proof (cases r)
  case (Inl e)
  then show ?thesis using assms(1) by (auto simp: exec_def split: prod.splits sum.splits)
next
  case (Inr x)
  have tok: "bal t h l \<le> bal t h l' \<or> h = a" if "host_transfer H token a a' n l = Some l'" for token a a' n l l'
    using token_lawsD [OF assms(2) that] by (simp split: if_splits)
  from assms(1) Inr have "exec H auth c s = (Inr x, s')" by simp
  then show ?thesis
  proof (cases rule: exec_cases)
    case (Initialize a token b hash funding)
    from this(2) show ?thesis by (rule initialize_InrE) (use tok in fastforce)
  next
    case (Buy user outcome amount max_cost cost)
    from this(2) show ?thesis by (rule buy_InrE) (use tok in fastforce)
  next
    case (Sell user outcome amount min_return ret)
    from this(2) show ?thesis by (rule sell_InrE) (use tok in fastforce)
  next
    case (Resolve a w)
    from this(2) show ?thesis by (rule resolve_InrE) simp
  next
    case (Claim user payout)
    from this(2) show ?thesis by (rule claim_InrE) (use tok in fastforce)
  next
    case (Withdraw a amount)
    from this(2) show ?thesis by (rule withdraw_InrE) (use tok in fastforce)
  qed
qed

text \<open>
  C11 (calls_authorized): a call changes the balance of a user in outcome tokens only with the user's authorization, and takes collateral from nobody who did not
  authorize it, the contract apart.  The winning outcome changes only by a call of \<open>resolve\<close> that the oracle authorized, on a market that is not resolved.
  Such a call that succeeds sets the requested outcome and resolves the market, and from then on no call changes either: the oracle resolves once.
\<close>

theorem calls_authorized:
  assumes "exec H auth c s = (r, s')"
  shows "(\<forall>u w. balance_of (ch_storage s') u w = balance_of (ch_storage s) u w \<or> auth u)
    \<and> (dk_WinningOutcome (ch_storage s') = dk_WinningOutcome (ch_storage s) \<or> (\<exists>a w x. c = Resolve a w \<and> r = Inr x))
    \<and> (\<forall>a w x. c = Resolve a w \<and> r = Inr x \<longrightarrow> dk_Oracle (ch_storage s) = Some a \<and> auth a \<and> dk_Resolved (ch_storage s) = Some False
         \<and> dk_Resolved (ch_storage s') = Some True \<and> dk_WinningOutcome (ch_storage s') = Some w)
    \<and> (dk_Oracle (ch_storage s) \<noteq> None \<and> dk_Resolved (ch_storage s) = Some True \<longrightarrow>
         dk_Resolved (ch_storage s') = Some True \<and> dk_WinningOutcome (ch_storage s') = dk_WinningOutcome (ch_storage s))
    \<and> (token_laws H bal \<longrightarrow> (\<forall>t h. bal t h (ch_tokens s) \<le> bal t h (ch_tokens s') \<or> auth h \<or> h = host_self H))"
proof -
  have "(\<forall>u w. balance_of (ch_storage s') u w = balance_of (ch_storage s) u w \<or> auth u)
    \<and> (dk_WinningOutcome (ch_storage s') = dk_WinningOutcome (ch_storage s) \<or> (\<exists>a w x. c = Resolve a w \<and> r = Inr x))
    \<and> (\<forall>a w x. c = Resolve a w \<and> r = Inr x \<longrightarrow> dk_Oracle (ch_storage s) = Some a \<and> auth a \<and> dk_Resolved (ch_storage s) = Some False
         \<and> dk_Resolved (ch_storage s') = Some True \<and> dk_WinningOutcome (ch_storage s') = Some w)
    \<and> (dk_Oracle (ch_storage s) \<noteq> None \<and> dk_Resolved (ch_storage s) = Some True \<longrightarrow>
         dk_Resolved (ch_storage s') = Some True \<and> dk_WinningOutcome (ch_storage s') = dk_WinningOutcome (ch_storage s))"
  proof (cases r)
    case (Inl e)
    then show ?thesis using assms by (auto simp: exec_def split: prod.splits sum.splits)
  next
    case (Inr x)
    note balance_simps = balance_of_def traded_def set_balance_def
    from assms Inr have "exec H auth c s = (Inr x, s')" by simp
    then show ?thesis
    proof (cases rule: exec_cases)
      case (Initialize a token b hash funding)
      from this(2) show ?thesis by (rule initialize_InrE) (use Initialize(1) in \<open>simp add: balance_simps\<close>)
    next
      case (Buy user outcome amount max_cost cost)
      from this(2) show ?thesis by (rule buy_InrE) (use Buy(1) in \<open>simp add: balance_simps\<close>)
    next
      case (Sell user outcome amount min_return ret)
      from this(2) show ?thesis by (rule sell_InrE) (use Sell(1) in \<open>simp add: balance_simps\<close>)
    next
      case (Resolve a w)
      from this(2) show ?thesis by (rule resolve_InrE) (use Resolve(1) Inr in \<open>simp add: balance_simps\<close>)
    next
      case (Claim user payout)
      from this(2) show ?thesis by (rule claim_InrE) (use Claim(1) in \<open>simp add: balance_simps\<close>)
    next
      case (Withdraw a amount)
      from this(2) show ?thesis by (rule withdraw_InrE) (use Withdraw(1) in \<open>simp add: balance_simps\<close>)
    qed
  qed
  then show ?thesis using exec_takes [OF assms] by blast
qed

theorem calls_authorized_witness:
  "balance_of (ch_storage demo_open) (account [2]) OUTCOME_YES \<noteq> balance_of (ch_storage demo_funded) (account [2]) OUTCOME_YES \<and> demo_auth (account [2])
   \<and> ledger_balance (account [9]) (account [0]) (ch_tokens demo_funded) \<le> ledger_balance (account [9]) (account [0]) (ch_tokens demo_open)"
proof -
  have "exec demo_host demo_auth (Buy (account [2]) OUTCOME_YES 1000000001 1000000000) demo_funded
      = (fst (exec demo_host demo_auth (Buy (account [2]) OUTCOME_YES 1000000001 1000000000) demo_funded), demo_open)"
    by (simp add: demo_open_def demo_call_def)
  from calls_authorized [OF this, of ledger_balance]
  have "balance_of (ch_storage demo_open) (account [2]) OUTCOME_YES = balance_of (ch_storage demo_funded) (account [2]) OUTCOME_YES \<or> demo_auth (account [2])"
    by blast
  moreover have "balance_of (ch_storage demo_open) (account [2]) OUTCOME_YES \<noteq> balance_of (ch_storage demo_funded) (account [2]) OUTCOME_YES"
    "ledger_balance (account [9]) (account [0]) (ch_tokens demo_funded) \<le> ledger_balance (account [9]) (account [0]) (ch_tokens demo_open)"
    by code_simp+
  ultimately show ?thesis by blast
qed

section \<open>Claims\<close>

text \<open>A token that refuses no transfer of what the sender has.\<close>

definition token_liquid :: "'l host \<Rightarrow> 'l balances \<Rightarrow> bool" where
  "token_liquid H bal \<longleftrightarrow> (\<forall>token a a' n l. 0 \<le> n \<and> n \<le> bal token a l \<longrightarrow> host_transfer H token a a' n l \<noteq> None)"

lemma claim_result:
  assumes "dk_Oracle (ch_storage s) \<noteq> None" "dk_Resolved (ch_storage s) = Some True" "dk_WinningOutcome (ch_storage s) = Some w" "auth user"
    and "v = balance_of (ch_storage s) user w" "0 < v" "in_i128 (v * CLAIM_FEE_BPS)" "in_i128 (unclaimed_of (ch_storage s) - v)"
    and "dk_CollateralPool (ch_storage s) = Some pool" "pool \<le> i128_MAX"
  shows "pool < v - v div 50 \<Longrightarrow> fst (claim H auth user s) = Inl (Err InsufficientPool)"
    "v - v div 50 \<le> pool \<Longrightarrow> dk_CollateralToken (ch_storage s) = Some token
     \<Longrightarrow> host_transfer H token (host_self H) user (v - v div 50) (ch_tokens s) \<noteq> None \<Longrightarrow> fst (claim H auth user s) = Inr (v - v div 50)"
proof -
  have fee: "v * CLAIM_FEE_BPS sdiv BPS_DENOMINATOR = v div 50" "BPS_DENOMINATOR \<noteq> 0" using claim_fee assms(6) by (simp_all add: BPS_DENOMINATOR_def)
  have "0 \<le> v div 50" "v div 50 \<le> v" "v \<le> v * CLAIM_FEE_BPS" using assms(6) by (simp_all add: CLAIM_FEE_BPS_def div_le_dividend)
  then have r: "in_i128 (v div 50)" "in_i128 (v - v div 50)" "v - v div 50 \<le> pool \<Longrightarrow> in_i128 (pool - (v - v div 50))"
    using assms(7,10) unfolding i128_range by linarith+
  note defs = claim_def tryM_def liftM_def retM_def failM_def peek_def load_def store_def require_auth_def require_initialized_def require_resolved_def
    i128_ops checked_def or_panic_def
  show "fst (claim H auth user s) = Inl (Err InsufficientPool)" if "pool < v - v div 50"
    using assms(1-4,6-9) fee r(1,2) that by (simp add: defs flip: assms(5))
  show "fst (claim H auth user s) = Inr (v - v div 50)" if "v - v div 50 \<le> pool" "dk_CollateralToken (ch_storage s) = Some token"
    "host_transfer H token (host_self H) user (v - v div 50) (ch_tokens s) \<noteq> None"
    using assms(1-4,6-9) fee r that by (auto simp: defs transfer_def publish_def simp flip: assms(5))
qed

text \<open>The bounds of what a winner can claim.\<close>

lemma resolved_claim:
  assumes "resolved_inv H bal s" "dk_WinningOutcome (ch_storage s) = Some w" "auth user" "v = balance_of (ch_storage s) user w" "0 < v"
    "dk_CollateralPool (ch_storage s) = Some pool"
  shows "pool < v - v div 50 \<Longrightarrow> fst (claim H auth user s) = Inl (Err InsufficientPool)"
    "v - v div 50 \<le> pool \<Longrightarrow> dk_CollateralToken (ch_storage s) = Some token
     \<Longrightarrow> host_transfer H token (host_self H) user (v - v div 50) (ch_tokens s) \<noteq> None \<Longrightarrow> fst (claim H auth user s) = Inr (v - v div 50)"
proof -
  obtain b u where f: "funded H bal s b pool" and u: "dk_UnclaimedWinningTokens (ch_storage s) = Some u" "u = held (dk_UserBalance (ch_storage s)) w"
      "in_i128 (u * SCALE_FACTOR)" "dk_Resolved (ch_storage s) = Some True"
    using assms(1,2,6) unfolding resolved_inv_def funded_def by auto
  have "balances_ok (dk_UserBalance (ch_storage s))" using f by (auto simp: funded_def)
  then have "v \<le> u" using held_bounds(2) [of "ch_storage s" user w] u(2) assms(4) by simp
  then have "in_i128 (v * CLAIM_FEE_BPS)" "in_i128 (unclaimed_of (ch_storage s) - v)"
    using u(1,3) assms(5) unfolding i128_range by (simp_all add: CLAIM_FEE_BPS_def SCALE_FACTOR_def unclaimed_of_def)
  moreover have "dk_Oracle (ch_storage s) \<noteq> None" "pool \<le> i128_MAX" using f by (auto simp: funded_def)
  ultimately show "pool < v - v div 50 \<Longrightarrow> fst (claim H auth user s) = Inl (Err InsufficientPool)"
    "v - v div 50 \<le> pool \<Longrightarrow> dk_CollateralToken (ch_storage s) = Some token
     \<Longrightarrow> host_transfer H token (host_self H) user (v - v div 50) (ch_tokens s) \<noteq> None \<Longrightarrow> fst (claim H auth user s) = Inr (v - v div 50)"
    using claim_result [of s w auth user v pool] u(4) assms by blast+
qed

lemma exec_claim: "fst (claim H auth user s) = Inl e \<Longrightarrow> exec H auth (Claim user) s = (Inl e, s)"
  "claim H auth user s = (Inr p, s') \<Longrightarrow> exec H auth (Claim user) s = (Inr (Some p), s')"
  by (cases "claim H auth user s"; simp add: exec_def tryM_def retM_def)+

text \<open>A winner's claim before the withdrawal, in any reachable state.\<close>

lemma claim_succeeds:
  assumes "token_laws H bal" "token_liquid H bal" "ch_storage s0 = empty_storage" "market_run H bal s0 s"
    and "dk_WinningOutcome (ch_storage s) = Some w" "\<not> withdrawn s" "dk_LiquidityParam (ch_storage s) = Some b" "dk_CollateralToken (ch_storage s) = Some token"
    and "auth user" "user \<noteq> host_self H" "v = balance_of (ch_storage s) user w" "50 * rounding_error b \<le> v"
  shows "\<exists>s'. exec H auth (Claim user) s = (Inr (Some (v - v div 50)), s') \<and> balance_of (ch_storage s') user w = 0
     \<and> bal token user (ch_tokens s') = bal token user (ch_tokens s) + (v - v div 50)"
proof -
  have inv: "resolved_inv H bal s"
    using market_run_inv [OF assms(4,1,3)] assms(5) by (auto simp: market_inv_def open_inv_def empty_storage_def)
  then obtain pool u where f: "funded H bal s b pool" and u: "u = held (dk_UserBalance (ch_storage s)) w" "u \<le> pool + rounding_error b"
    using assms(5-7) unfolding resolved_inv_def funded_def by auto
  have ok: "balances_ok (dk_UserBalance (ch_storage s))" and b: "0 < b" using f by (auto simp: funded_def)
  have "v \<le> u" using held_bounds(2) [OF ok, of user w] u(1) assms(11) by simp
  moreover have e: "0 < rounding_error b" using b by (simp add: rounding_error_def add_pos_nonneg pos_imp_zdiv_nonneg_iff)
  moreover have "rounding_error b \<le> v div 50" using zdiv_mono1 [OF assms(12), of 50] by simp
  ultimately have v: "0 < v" "v - v div 50 \<le> pool" "0 \<le> v - v div 50" using u(2) assms(12) by linarith+
  have p: "dk_CollateralPool (ch_storage s) = Some pool" "pool \<le> bal token (host_self H) (ch_tokens s)" using f assms(8) by (auto simp: funded_def)
  have tr: "host_transfer H token (host_self H) user (v - v div 50) (ch_tokens s) \<noteq> None"
    using assms(2) v p(2) unfolding token_liquid_def by (meson order_trans)
  have "fst (claim H auth user s) = Inr (v - v div 50)"
    using resolved_claim(2) [where auth = auth, OF inv assms(5,9,11) v(1) p(1) v(2) assms(8) tr] .
  then obtain s' where c: "claim H auth user s = (Inr (v - v div 50), s')" by (metis prod.collapse)
  have "balance_of (ch_storage s') user w = 0" "\<exists>l. host_transfer H token (host_self H) user (v - v div 50) (ch_tokens s) = Some l \<and> ch_tokens s' = l"
    using c by (elim claim_InrE; use assms(5,8) in \<open>simp add: balance_of_def set_balance_def\<close>)+
  then show ?thesis using exec_claim(2) [OF c] token_lawsD(3) [OF assms(1), of token "host_self H" user _ _ _ token user] assms(10) by auto
qed



section \<open>Claims after the withdrawal\<close>

text \<open>A winner whose payout is more than the pool: nothing that happens after the resolution fills the pool up again.\<close>

definition starved :: "ScAddress \<Rightarrow> uint32 \<Rightarrow> int \<Rightarrow> 'l chain \<Rightarrow> bool" where
  "starved user w v s \<longleftrightarrow> dk_Oracle (ch_storage s) \<noteq> None \<and> dk_Resolved (ch_storage s) = Some True \<and> dk_WinningOutcome (ch_storage s) = Some w
     \<and> balance_of (ch_storage s) user w = v \<and> (\<exists>pool. dk_CollateralPool (ch_storage s) = Some pool \<and> pool < v - v div 50)"

lemma reserve_less: "\<not> 50 dvd v \<Longrightarrow> v * 49 div 50 < v - v div 50" for v :: int
proof -
  assume "\<not> 50 dvd v"
  then have "0 < v mod 50" using pos_mod_sign [of 50 v] by (simp add: dvd_eq_mod_eq_0 less_le)
  then show ?thesis using mult_div_mod_eq [of 50 v] mult_div_bounds(1) [of 50 "v * 49"] pos_mod_bound [of 50 v] by linarith
qed

lemma starved_step:
  assumes "market_step H bal s s'" "token_laws H bal" "starved user w v s" 
  shows "starved user w v s'"
  using assms(1)
proof cases
  case (call auth c r)
  from call(2) show ?thesis
  proof (cases rule: exec_cases)
    case (Initialize a token b hash funding)
    from this(2) show ?thesis by (rule initialize_InrE) (use assms(3) in \<open>simp add: starved_def\<close>)
  next
    case (Buy user' outcome amount max_cost cost)
    from this(2) show ?thesis by (rule buy_InrE) (use assms(3) in \<open>simp add: starved_def\<close>)
  next
    case (Sell user' outcome amount min_return ret)
    from this(2) show ?thesis by (rule sell_InrE) (use assms(3) in \<open>simp add: starved_def\<close>)
  next
    case (Resolve a w')
    from this(2) show ?thesis by (rule resolve_InrE) (use assms(3) in \<open>simp add: starved_def\<close>)
  next
    case (Claim user' payout)
    from this(2) show ?thesis
    proof (rule claim_InrE, goal_cases)
      case (1 w' v' pool token l)
      then have "user' \<noteq> user" using assms(3) by (auto simp: starved_def)
      moreover have "0 \<le> payout" using token_lawsD(1) [OF assms(2) 1(11)] .
      ultimately show ?thesis using assms(3) 1 by (auto simp: starved_def balance_of_def set_balance_def)
    qed
  next
    case (Withdraw a amount)
    from this(2) show ?thesis by (rule withdraw_InrE) (use assms(3) in \<open>auto simp: starved_def balance_of_def\<close>)
  qed
next
  case (external l)
  then show ?thesis using assms(3) by (simp add: starved_def)
qed

lemma starved_run: 
  assumes "market_run H bal s s'" "token_laws H bal" "starved user w v s" shows "starved user w v s'"
  using assms(1) unfolding market_run_def
proof (induction rule: rtranclp_induct)
  case base
  show ?case by (fact assms(3))
next
  case (step s' s'')
  show ?case using starved_step [OF step(2) assms(2) step(3)] .
qed

text \<open>
  C8 (claim_stuck_after_withdraw): the oracle's withdrawal reserves 98 per cent of the unclaimed tokens rounded down, while a claim pays 98 per cent rounded
  up.  When the only winner who has not claimed holds a number of tokens that 50 does not divide, the withdrawal leaves one unit too little: every later
  claim of this winner fails, and the winner never gets anything.
\<close>

theorem claim_stuck_after_withdraw:
  assumes "token_laws H bal" "ch_storage s0 = empty_storage" "market_run H bal s0 s" "\<not> auth (host_self H)"
    and "exec H auth (WithdrawRemaining a) s = (Inr r, s1)" "market_run H bal s1 s2"
    and "dk_WinningOutcome (ch_storage s) = Some w" "v = balance_of (ch_storage s) user w" "v = unclaimed_of (ch_storage s)" "0 < v" "\<not> 50 dvd v" "auth' user"
  shows "exec H auth' (Claim user) s2 = (Inl (Err InsufficientPool), s2) \<and> balance_of (ch_storage s2) user w = v"
proof -
  have run1: "market_run H bal s0 s1" using assms(3-5) market_step.call unfolding market_run_def by (metis rtranclp.rtrancl_into_rtrancl)
  then have run2: "market_run H bal s0 s2" using assms(6) unfolding market_run_def by simp
  have "v * 49 div 50 < v - v div 50" using reserve_less assms(11) .
  moreover have "unclaimed_of (ch_storage s) * (BPS_DENOMINATOR - CLAIM_FEE_BPS) sdiv BPS_DENOMINATOR = v * 49 div 50"
    using claim_reserve [of v] assms(9,10) by simp
  moreover obtain amount where "withdraw_remaining H auth a s = (Inr amount, s1)" using assms(5) by (rule exec_cases) auto
  then have "dk_Oracle (ch_storage s1) \<noteq> None \<and> dk_Resolved (ch_storage s1) = Some True \<and> dk_WinningOutcome (ch_storage s1) = Some w
      \<and> balance_of (ch_storage s1) user w = v
      \<and> dk_CollateralPool (ch_storage s1) = Some (unclaimed_of (ch_storage s) * (BPS_DENOMINATOR - CLAIM_FEE_BPS) sdiv BPS_DENOMINATOR)"
    by (rule withdraw_InrE) (simp add: assms(7,8))
  ultimately have "starved user w v s1" unfolding starved_def by metis
  then have st: "starved user w v s2" using starved_run [OF assms(6,1)] by blast
  then obtain pool where p: "dk_CollateralPool (ch_storage s2) = Some pool" "pool < v - v div 50" "dk_WinningOutcome (ch_storage s2) = Some w"
      "v = balance_of (ch_storage s2) user w" "dk_Resolved (ch_storage s2) = Some True"
    unfolding starved_def by metis
  have "resolved_inv H bal s2" using market_inv_resolved [OF market_run_inv [OF run2 assms(1,2)] p(5)] .
  then have "fst (claim H auth' user s2) = Inl (Err InsufficientPool)"
    using resolved_claim(1) [where auth = auth', OF _ p(3) assms(12) p(4) assms(10) p(1,2)] by blast
  then show ?thesis using exec_claim(1) p(4) by metis
qed

theorem claim_stuck_after_withdraw_witness:
  "exec demo_host demo_auth (Claim (account [2])) (demo_call (WithdrawRemaining (account [1])) demo_resolved)
     = (Inl (Err InsufficientPool), demo_call (WithdrawRemaining (account [1])) demo_resolved)"
proof -
  have "fst (exec demo_host demo_auth (WithdrawRemaining (account [1])) demo_resolved) = Inr (Some 340114300)" by code_simp
  then have w: "exec demo_host demo_auth (WithdrawRemaining (account [1])) demo_resolved = (Inr (Some 340114300), demo_call (WithdrawRemaining (account [1])) demo_resolved)"
    unfolding demo_call_def by (metis prod.collapse)
  have f: "dk_WinningOutcome (ch_storage demo_resolved) = Some OUTCOME_YES" "1000000001 = balance_of (ch_storage demo_resolved) (account [2]) OUTCOME_YES"
    "1000000001 = unclaimed_of (ch_storage demo_resolved)" "demo_auth (account [2])"
    by code_simp+
  show ?thesis
    using claim_stuck_after_withdraw [where auth = demo_auth and auth' = demo_auth, OF demo_start_facts(1,2) demo_runs(3) demo_start_facts(3) w market_run_refl f(1,2,3) _ _ f(4)] by simp
qed

end
