(* ===== verification/Contract_Factory.thy ===== *)
theory Contract_Factory
  imports Contract_Safety
begin

text \<open>
  The factory contract, \<open>src/contracts/market_factory/src/lib.rs\<close>: the entry points as calls on its storage and on the rest of the chain.  What
  \<open>deploy_v2\<close> of the host does is a parameter; \<open>deploy_code\<close> says what it is when the code that is deployed is the market contract.
\<close>

section \<open>State and errors\<close>

datatype FactoryError = FactoryAlreadyInitialized | FactoryNotInitialized | FactoryUnauthorized | DeploymentFailed | IndexOutOfBounds
  | FactoryStorageCorrupted

fun FactoryError_code :: "FactoryError \<Rightarrow> int" where
  "FactoryError_code FactoryAlreadyInitialized = 1"
| "FactoryError_code FactoryNotInitialized = 2"
| "FactoryError_code FactoryUnauthorized = 3"
| "FactoryError_code DeploymentFailed = 4"
| "FactoryError_code IndexOutOfBounds = 5"
| "FactoryError_code FactoryStorageCorrupted = 6"

record FactoryStorage =
  fk_Admin :: "ScAddress option"
  fk_MarketWasmHash :: "bytes option"
  fk_Markets :: "ScAddress list option"
  fk_DefaultCollateralToken :: "ScAddress option"

definition empty_factory :: FactoryStorage where
  "empty_factory = \<lparr>fk_Admin = None, fk_MarketWasmHash = None, fk_Markets = None, fk_DefaultCollateralToken = None\<rparr>"

record 'w factory_chain =
  fc_storage :: FactoryStorage
  fc_world :: 'w

text \<open>The arguments of the constructor of a market.\<close>

record market_params =
  mp_oracle :: ScAddress
  mp_collateral_token :: ScAddress
  mp_liquidity_param :: int
  mp_metadata_hash :: string
  mp_initial_funding :: int

text \<open>\<open>env.deployer().with_current_contract(salt).deploy_v2(wasm_hash, args)\<close>: the address of the new contract, or a panic.\<close>

type_synonym 'w deployer = "auth \<Rightarrow> bytes \<Rightarrow> bytes \<Rightarrow> market_params \<Rightarrow> 'w \<Rightarrow> (ScAddress \<times> 'w) option"

type_synonym ('w, 'a) factory_act = "('w factory_chain, FactoryError failure, 'a) io"

definition fpeek :: "(FactoryStorage \<Rightarrow> 'a) \<Rightarrow> ('w, 'a) factory_act" where
  "fpeek f s = (Inr (f (fc_storage s)), s)"

definition fload :: "(FactoryStorage \<Rightarrow> 'a option) \<Rightarrow> ('w, 'a) factory_act" where
  "fload f s = (ok_or (f (fc_storage s)) FactoryStorageCorrupted, s)"

definition fstore :: "(FactoryStorage \<Rightarrow> FactoryStorage) \<Rightarrow> ('w, unit) factory_act" where
  "fstore f s = (Inr (), s\<lparr>fc_storage := f (fc_storage s)\<rparr>)"

definition fauth :: "auth \<Rightarrow> ScAddress \<Rightarrow> ('w, unit) factory_act" where
  "fauth auth a = (if auth a then retM () else failM Panic)"

definition fdeploy :: "'w deployer \<Rightarrow> auth \<Rightarrow> bytes \<Rightarrow> bytes \<Rightarrow> market_params \<Rightarrow> ('w, ScAddress) factory_act" where
  "fdeploy D auth wasm_hash salt params s =
     (case D auth wasm_hash salt params (fc_world s) of None \<Rightarrow> (Inl Panic, s) | Some (a, w) \<Rightarrow> (Inr a, s\<lparr>fc_world := w\<rparr>))"

section \<open>The entry points\<close>

definition factory_require_initialized :: "('w, unit) factory_act" where
  "factory_require_initialized =
     questionM (fpeek (\<lambda>d. fk_Admin d \<noteq> None)) (\<lambda>has. if \<not> has then failM (Err FactoryNotInitialized) else retM ())"

definition require_admin :: "ScAddress \<Rightarrow> ('w, unit) factory_act" where
  "require_admin caller = questionM (fload fk_Admin) (\<lambda>admin. if caller \<noteq> admin then failM (Err FactoryUnauthorized) else retM ())"

definition factory_initialize :: "auth \<Rightarrow> ScAddress \<Rightarrow> bytes \<Rightarrow> ScAddress \<Rightarrow> ('w, unit) factory_act" where
  "factory_initialize auth admin market_wasm_hash default_collateral_token =
     questionM (fpeek (\<lambda>d. fk_Admin d \<noteq> None)) (\<lambda>has.
     if has then failM (Err FactoryAlreadyInitialized)
     else questionM (fauth auth admin) (\<lambda>_.
     fstore (\<lambda>d. d\<lparr>fk_Admin := Some admin, fk_MarketWasmHash := Some market_wasm_hash, fk_DefaultCollateralToken := Some default_collateral_token,
       fk_Markets := Some []\<rparr>)))"

definition deploy_market :: "'w deployer \<Rightarrow> auth \<Rightarrow> ScAddress \<Rightarrow> int \<Rightarrow> string \<Rightarrow> int \<Rightarrow> bytes \<Rightarrow> ('w, ScAddress) factory_act" where
  "deploy_market D auth oracle liquidity_param metadata_hash initial_funding salt =
     questionM factory_require_initialized (\<lambda>_.
     questionM (fauth auth oracle) (\<lambda>_.
     questionM (fload fk_MarketWasmHash) (\<lambda>wasm_hash.
     questionM (fload fk_DefaultCollateralToken) (\<lambda>collateral_token.
     questionM (fdeploy D auth wasm_hash salt \<lparr>mp_oracle = oracle, mp_collateral_token = collateral_token, mp_liquidity_param = liquidity_param,
       mp_metadata_hash = metadata_hash, mp_initial_funding = initial_funding\<rparr>) (\<lambda>market_address.
     questionM (fload fk_Markets) (\<lambda>markets.
     questionM (fstore (\<lambda>d. d\<lparr>fk_Markets := Some (markets @ [market_address])\<rparr>)) (\<lambda>_. retM market_address)))))))"

definition list_markets :: "('w, ScAddress list) factory_act" where
  "list_markets = questionM factory_require_initialized (\<lambda>_. fload fk_Markets)"

definition market_count :: "('w, uint32) factory_act" where
  "market_count = questionM factory_require_initialized (\<lambda>_. questionM (fload fk_Markets) (\<lambda>markets. retM (of_nat (length markets))))"

definition get_market :: "uint32 \<Rightarrow> ('w, ScAddress) factory_act" where
  "get_market index = questionM factory_require_initialized (\<lambda>_. questionM (fload fk_Markets) (\<lambda>markets.
     liftM (ok_or (if unat index < length markets then Some (markets ! unat index) else None) IndexOutOfBounds)))"

definition get_admin :: "('w, ScAddress) factory_act" where
  "get_admin = questionM factory_require_initialized (\<lambda>_. fload fk_Admin)"

definition get_market_wasm_hash :: "('w, bytes) factory_act" where
  "get_market_wasm_hash = questionM factory_require_initialized (\<lambda>_. fload fk_MarketWasmHash)"

definition set_market_wasm_hash :: "auth \<Rightarrow> ScAddress \<Rightarrow> bytes \<Rightarrow> ('w, unit) factory_act" where
  "set_market_wasm_hash auth admin new_wasm_hash =
     questionM factory_require_initialized (\<lambda>_.
     questionM (require_admin admin) (\<lambda>_.
     questionM (fauth auth admin) (\<lambda>_. fstore (\<lambda>d. d\<lparr>fk_MarketWasmHash := Some new_wasm_hash\<rparr>))))"

definition set_default_collateral_token :: "auth \<Rightarrow> ScAddress \<Rightarrow> ScAddress \<Rightarrow> ('w, unit) factory_act" where
  "set_default_collateral_token auth admin new_token =
     questionM factory_require_initialized (\<lambda>_.
     questionM (require_admin admin) (\<lambda>_.
     questionM (fauth auth admin) (\<lambda>_. fstore (\<lambda>d. d\<lparr>fk_DefaultCollateralToken := Some new_token\<rparr>))))"

datatype factory_call = FactoryInitialize ScAddress bytes ScAddress | DeployMarket ScAddress int string int bytes
  | SetMarketWasmHash ScAddress bytes | SetDefaultCollateralToken ScAddress ScAddress

fun run_factory_call :: "'w deployer \<Rightarrow> auth \<Rightarrow> factory_call \<Rightarrow> ('w, ScAddress option) factory_act" where
  "run_factory_call D auth (FactoryInitialize admin hash token) = questionM (factory_initialize auth admin hash token) (\<lambda>_. retM None)"
| "run_factory_call D auth (DeployMarket a b hash funding salt) = questionM (deploy_market D auth a b hash funding salt) (\<lambda>x. retM (Some x))"
| "run_factory_call D auth (SetMarketWasmHash admin hash) = questionM (set_market_wasm_hash auth admin hash) (\<lambda>_. retM None)"
| "run_factory_call D auth (SetDefaultCollateralToken admin token) = questionM (set_default_collateral_token auth admin token) (\<lambda>_. retM None)"

definition exec_factory :: "'w deployer \<Rightarrow> auth \<Rightarrow> factory_call \<Rightarrow> ('w, ScAddress option) factory_act" where
  "exec_factory D auth c s = (case run_factory_call D auth c s of (Inl e, _) \<Rightarrow> (Inl e, s) | (Inr r, s') \<Rightarrow> (Inr r, s'))"

section \<open>What a successful call did\<close>

lemma factory_iffs:
  "fpeek f s = (Inr x, s') \<longleftrightarrow> x = f (fc_storage s) \<and> s' = s"
  "fload g s = (Inr y, s') \<longleftrightarrow> g (fc_storage s) = Some y \<and> s' = s"
  "fstore h s = (Inr u, s') \<longleftrightarrow> s' = s\<lparr>fc_storage := h (fc_storage s)\<rparr>"
  "fauth auth a s = (Inr u, s') \<longleftrightarrow> auth a \<and> s' = s"
  "fdeploy D auth hash salt p s = (Inr m, s') \<longleftrightarrow> (\<exists>w. D auth hash salt p (fc_world s) = Some (m, w) \<and> s' = s\<lparr>fc_world := w\<rparr>)"
  "factory_require_initialized s = (Inr u, s') \<longleftrightarrow> fk_Admin (fc_storage s) \<noteq> None \<and> s' = s"
  "require_admin c s = (Inr u, s') \<longleftrightarrow> fk_Admin (fc_storage s) = Some c \<and> s' = s"
  by (auto simp: fpeek_def fload_def fstore_def fauth_def fdeploy_def factory_require_initialized_def require_admin_def tryM_def retM_def failM_def ok_or_def
      split: option.splits)

lemma factory_initialize_Inr:
  "factory_initialize auth admin h token s = (Inr u, s') \<longleftrightarrow> fk_Admin (fc_storage s) = None \<and> auth admin
     \<and> s' = s\<lparr>fc_storage := \<lparr>fk_Admin = Some admin, fk_MarketWasmHash = Some h, fk_Markets = Some [], fk_DefaultCollateralToken = Some token\<rparr>\<rparr>"
  by (auto simp: factory_initialize_def tryM_Inr_iff factory_iffs split: if_splits)

lemma deploy_market_InrE:
  assumes "deploy_market D auth a b hash funding salt s = (Inr m, s')"
  obtains h token w ms where "fk_Admin (fc_storage s) \<noteq> None" "auth a" "fk_MarketWasmHash (fc_storage s) = Some h"
    "fk_DefaultCollateralToken (fc_storage s) = Some token" "fk_Markets (fc_storage s) = Some ms"
    "D auth h salt \<lparr>mp_oracle = a, mp_collateral_token = token, mp_liquidity_param = b, mp_metadata_hash = hash, mp_initial_funding = funding\<rparr> (fc_world s) = Some (m, w)"
    "s' = s\<lparr>fc_storage := (fc_storage s)\<lparr>fk_Markets := Some (ms @ [m])\<rparr>, fc_world := w\<rparr>"
  using assms that by (auto simp: deploy_market_def tryM_Inr_iff factory_iffs)

lemma setter_Inr:
  "set_market_wasm_hash auth admin h s = (Inr u, s') \<longleftrightarrow> fk_Admin (fc_storage s) = Some admin \<and> auth admin
     \<and> s' = s\<lparr>fc_storage := (fc_storage s)\<lparr>fk_MarketWasmHash := Some h\<rparr>\<rparr>"
  "set_default_collateral_token auth admin t s = (Inr u, s') \<longleftrightarrow> fk_Admin (fc_storage s) = Some admin \<and> auth admin
     \<and> s' = s\<lparr>fc_storage := (fc_storage s)\<lparr>fk_DefaultCollateralToken := Some t\<rparr>\<rparr>"
  by (auto simp: set_market_wasm_hash_def set_default_collateral_token_def tryM_Inr_iff factory_iffs)

lemma exec_factory_cases:
  assumes "exec_factory D auth c s = (Inr r, s')"
  obtains (Initialize) admin h token where "c = FactoryInitialize admin h token" "factory_initialize auth admin h token s = (Inr (), s')"
    | (Deploy) a b hash funding salt m where "c = DeployMarket a b hash funding salt" "deploy_market D auth a b hash funding salt s = (Inr m, s')" "r = Some m"
    | (Hash) admin h where "c = SetMarketWasmHash admin h" "set_market_wasm_hash auth admin h s = (Inr (), s')"
    | (Token) admin t where "c = SetDefaultCollateralToken admin t" "set_default_collateral_token auth admin t s = (Inr (), s')"
  using assms by (cases c) (auto simp: exec_factory_def tryM_Inr_iff split: prod.splits sum.splits)

section \<open>Deploying markets\<close>

text \<open>The other contracts that matter here: the markets, and the tokens.\<close>

record 'l market_world =
  mw_markets :: "ScAddress \<rightharpoonup> MarketStorage"
  mw_tokens :: 'l

text \<open>
  What the host does when the code is the market contract: at an address that depends on the salt and is not in use, the constructor runs on an
  empty storage.
\<close>

definition deploy_code :: "(ScAddress \<Rightarrow> ScAddress \<Rightarrow> ScAddress \<Rightarrow> int \<Rightarrow> 'l \<Rightarrow> 'l option) \<Rightarrow> (bytes \<Rightarrow> ScAddress)
    \<Rightarrow> auth \<Rightarrow> bytes \<Rightarrow> market_params \<Rightarrow> 'l market_world \<Rightarrow> (ScAddress \<times> 'l market_world) option" where
  "deploy_code tr address auth salt p w =
     (if mw_markets w (address salt) \<noteq> None then None
      else case constructor \<lparr>host_self = address salt, host_transfer = tr\<rparr> auth (mp_oracle p) (mp_collateral_token p) (mp_liquidity_param p) (mp_metadata_hash p)
             (mp_initial_funding p) \<lparr>ch_storage = empty_storage, ch_tokens = mw_tokens w, ch_events = []\<rparr> of
        (Inl _, _) \<Rightarrow> None
      | (Inr _, s) \<Rightarrow> Some (address salt, w\<lparr>mw_markets := (mw_markets w)(address salt \<mapsto> ch_storage s), mw_tokens := ch_tokens s\<rparr>))"

definition market_wasm :: "'l market_world deployer \<Rightarrow> (ScAddress \<Rightarrow> ScAddress \<Rightarrow> ScAddress \<Rightarrow> int \<Rightarrow> 'l \<Rightarrow> 'l option) \<Rightarrow> (bytes \<Rightarrow> ScAddress) \<Rightarrow> bytes \<Rightarrow> bool" where
  "market_wasm D tr address hash \<longleftrightarrow> (\<forall>auth. D auth hash = deploy_code tr address auth)"

text \<open>The storage of a market that was just deployed.\<close>

definition fresh_market :: "ScAddress \<Rightarrow> ScAddress \<Rightarrow> int \<Rightarrow> string \<Rightarrow> int \<Rightarrow> MarketStorage" where
  "fresh_market a token b hash funding = empty_storage\<lparr>dk_Oracle := Some a, dk_CollateralToken := Some token, dk_LiquidityParam := Some b,
     dk_MetadataHash := Some hash, dk_YesSold := Some 0, dk_NoSold := Some 0, dk_CollateralPool := Some funding, dk_Resolved := Some False\<rparr>"

lemma deploy_code_Some:
  assumes "deploy_code tr address auth salt p w = Some (m, w')"
  obtains l required where "m = address salt" "mw_markets w m = None" "auth (mp_oracle p)" "0 < mp_liquidity_param p"
    "initial_liquidity (mp_liquidity_param p) = Inr required" "required \<le> mp_initial_funding p"
    "tr (mp_collateral_token p) (mp_oracle p) m (mp_initial_funding p) (mw_tokens w) = Some l"
    "w' = w\<lparr>mw_markets := (mw_markets w)(m \<mapsto> fresh_market (mp_oracle p) (mp_collateral_token p) (mp_liquidity_param p) (mp_metadata_hash p)
       (mp_initial_funding p)), mw_tokens := l\<rparr>"
proof -
  obtain s where "mw_markets w (address salt) = None" "m = address salt"
    "w' = w\<lparr>mw_markets := (mw_markets w)(address salt \<mapsto> ch_storage s), mw_tokens := ch_tokens s\<rparr>"
    and i: "initialize \<lparr>host_self = address salt, host_transfer = tr\<rparr> auth (mp_oracle p) (mp_collateral_token p) (mp_liquidity_param p) (mp_metadata_hash p)
             (mp_initial_funding p) \<lparr>ch_storage = empty_storage, ch_tokens = mw_tokens w, ch_events = []\<rparr> = (Inr (), s)"
    using assms by (auto simp: deploy_code_def constructor_def tryM_def retM_def split: if_splits prod.splits sum.splits)
  with i that show ?thesis by (elim initialize_InrE) (auto simp: fresh_market_def)
qed

text \<open>
  C12 (deploy_market_creates): a deployment that succeeds creates, at an address not in use before, a market with exactly the requested parameters and the factory's
  default collateral token, funded with at least the liquidity that bounds the market maker's loss, takes the funding from the oracle, who authorized it, and
  appends the address to the list; the other markets stay as they were.  A deployment that fails changes nothing.
\<close>

theorem deploy_market_creates:
  assumes "exec_factory D auth (DeployMarket a b hash funding salt) s = (r, s')" "fk_MarketWasmHash (fc_storage s) = Some h" "market_wasm D tr address h"
  shows "case r of
     Inl e \<Rightarrow> s' = s
   | Inr m \<Rightarrow> m = Some (address salt) \<and> auth a \<and> mw_markets (fc_world s) (address salt) = None
      \<and> (\<exists>ms token required. fk_Markets (fc_storage s) = Some ms \<and> fc_storage s' = (fc_storage s)\<lparr>fk_Markets := Some (ms @ [address salt])\<rparr>
          \<and> fk_DefaultCollateralToken (fc_storage s) = Some token
          \<and> mw_markets (fc_world s') = (mw_markets (fc_world s))(address salt \<mapsto> fresh_market a token b hash funding)
          \<and> tr token a (address salt) funding (mw_tokens (fc_world s)) = Some (mw_tokens (fc_world s'))
          \<and> initial_liquidity b = Inr required \<and> required \<le> funding)"
proof (cases r)
  case (Inl e)
  then show ?thesis using assms(1) by (auto simp: exec_factory_def split: prod.splits sum.splits)
next
  case (Inr m)
  with assms(1) obtain m' where "deploy_market D auth a b hash funding salt s = (Inr m', s')" and m: "m = Some m'"
    by (auto elim: exec_factory_cases)
  then show ?thesis
  proof (elim deploy_market_InrE)
    fix h' token w ms
    assume f: "auth a" "fk_MarketWasmHash (fc_storage s) = Some h'" "fk_DefaultCollateralToken (fc_storage s) = Some token" "fk_Markets (fc_storage s) = Some ms"
      and d: "D auth h' salt \<lparr>mp_oracle = a, mp_collateral_token = token, mp_liquidity_param = b, mp_metadata_hash = hash, mp_initial_funding = funding\<rparr> (fc_world s)
         = Some (m', w)"
      and s': "s' = s\<lparr>fc_storage := (fc_storage s)\<lparr>fk_Markets := Some (ms @ [m'])\<rparr>, fc_world := w\<rparr>"
    have "deploy_code tr address auth salt \<lparr>mp_oracle = a, mp_collateral_token = token, mp_liquidity_param = b, mp_metadata_hash = hash, mp_initial_funding = funding\<rparr>
        (fc_world s) = Some (m', w)"
      using d f(2) assms(2,3) by (simp add: market_wasm_def)
    then show ?thesis by (rule deploy_code_Some) (use f s' m Inr in simp)
  qed
qed

text \<open>
  A deployment takes the authorization of the oracle and the funding.  It does not take the admin, whom the comments of the source name as the one who
  can deploy markets.
\<close>

lemma deploy_market_succeeds:
  assumes "fk_Admin (fc_storage s) \<noteq> None" "fk_MarketWasmHash (fc_storage s) = Some h" "market_wasm D tr address h"
    and "fk_DefaultCollateralToken (fc_storage s) = Some token" "fk_Markets (fc_storage s) = Some ms" "auth a" "mw_markets (fc_world s) (address salt) = None"
    and "0 < b" "initial_liquidity b = Inr required" "required \<le> funding" "funding \<le> MAX_FUNDING"
    and "tr token a (address salt) funding (mw_tokens (fc_world s)) = Some l"
  shows "fst (exec_factory D auth (DeployMarket a b hash funding salt) s) = Inr (Some (address salt))"
  using assms
  by (auto simp: exec_factory_def deploy_market_def tryM_def retM_def liftM_def fload_def fstore_def fauth_def fdeploy_def factory_require_initialized_def fpeek_def
      market_wasm_def deploy_code_def constructor_def initialize_def peek_def require_auth_def transfer_def store_def empty_storage_def)

text \<open>
  C24 (factory_authorization): only the admin, by authorizing the call, changes the code or the collateral token of future markets, and nobody changes the admin of
  a factory that has one; a call adds at most one market to the list and removes none.
\<close>

theorem factory_authorization:
  assumes "exec_factory D auth c s = (r, s')" "fk_Admin (fc_storage s) = Some admin" "fk_Markets (fc_storage s) = Some ms"
  shows "fk_Admin (fc_storage s') = Some admin
    \<and> ((fk_MarketWasmHash (fc_storage s') = fk_MarketWasmHash (fc_storage s)
        \<and> fk_DefaultCollateralToken (fc_storage s') = fk_DefaultCollateralToken (fc_storage s)) \<or> auth admin)
    \<and> (\<exists>ms'. fk_Markets (fc_storage s') = Some (ms @ ms') \<and> length ms' \<le> 1)"
proof (cases r)
  case (Inl e)
  then have "s' = s" using assms(1) by (auto simp: exec_factory_def split: prod.splits sum.splits)
  then show ?thesis using assms(2,3) by simp
next
  case (Inr m)
  with assms(1) have "exec_factory D auth c s = (Inr m, s')" by simp
  then show ?thesis
  proof (cases rule: exec_factory_cases)
    case (Deploy a b hash funding salt m')
    from this(2) show ?thesis by (rule deploy_market_InrE) (use assms(2,3) in simp)
  qed (use assms(2,3) in \<open>auto simp: setter_Inr factory_initialize_Inr\<close>)
qed

section \<open>A concrete factory\<close>

definition demo_deployer :: "ledger market_world deployer" where
  "demo_deployer auth hash = deploy_code (host_transfer demo_host) account auth"

definition demo_factory_start :: "ledger market_world factory_chain" where
  "demo_factory_start = \<lparr>fc_storage = empty_factory, fc_world = \<lparr>mw_markets = Map.empty, mw_tokens = (\<lambda>t h. 10 ^ 12)\<rparr>\<rparr>"

definition demo_factory_chain :: "ledger market_world factory_chain" where
  "demo_factory_chain = snd (exec_factory demo_deployer (\<lambda>_. True) (FactoryInitialize (account [1]) [7] (account [9])) demo_factory_start)"

lemma demo_wasm: "market_wasm demo_deployer (host_transfer demo_host) account h"
  by (simp add: market_wasm_def demo_deployer_def fun_eq_iff)

lemma demo_factory_fields:
  "fk_Admin (fc_storage demo_factory_chain) = Some (account [1])" "fk_MarketWasmHash (fc_storage demo_factory_chain) = Some [7]"
  "fk_DefaultCollateralToken (fc_storage demo_factory_chain) = Some (account [9])" "fk_Markets (fc_storage demo_factory_chain) = Some []"
  "mw_markets (fc_world demo_factory_chain) (account [5]) = None"
  by code_simp+

lemma demo_deploy:
  "\<exists>s'. exec_factory demo_deployer (\<lambda>x. x = account [3]) (DeployMarket (account [3]) 1000000000 ''Qm'' 700000000 [5]) demo_factory_chain = (Inr (Some (account [5])), s')"
proof -
  have "fst (exec_factory demo_deployer (\<lambda>x. x = account [3]) (DeployMarket (account [3]) 1000000000 ''Qm'' 700000000 [5]) demo_factory_chain) = Inr (Some (account [5]))"
    by code_simp
  then show ?thesis by (metis prod.collapse)
qed

theorem deploy_market_creates_witness:
  "\<exists>s'. exec_factory demo_deployer (\<lambda>x. x = account [3]) (DeployMarket (account [3]) 1000000000 ''Qm'' 700000000 [5]) demo_factory_chain = (Inr (Some (account [5])), s')
     \<and> mw_markets (fc_world s') (account [5]) = Some (fresh_market (account [3]) (account [9]) 1000000000 ''Qm'' 700000000)"
proof -
  obtain s' where e: "exec_factory demo_deployer (\<lambda>x. x = account [3]) (DeployMarket (account [3]) 1000000000 ''Qm'' 700000000 [5]) demo_factory_chain
      = (Inr (Some (account [5])), s')" using demo_deploy by blast
  from deploy_market_creates [OF e demo_factory_fields(2) demo_wasm] show ?thesis using e demo_factory_fields(3) by auto
qed

theorem factory_authorization_witness:
  "\<exists>s' ms'. exec_factory demo_deployer (\<lambda>x. x = account [3]) (DeployMarket (account [3]) 1000000000 ''Qm'' 700000000 [5]) demo_factory_chain = (Inr (Some (account [5])), s')
     \<and> fk_Admin (fc_storage s') = Some (account [1]) \<and> fk_Markets (fc_storage s') = Some ms' \<and> length ms' \<le> 1"
proof -
  obtain s' where e: "exec_factory demo_deployer (\<lambda>x. x = account [3]) (DeployMarket (account [3]) 1000000000 ''Qm'' 700000000 [5]) demo_factory_chain
      = (Inr (Some (account [5])), s')" using demo_deploy by blast
  from factory_authorization [OF e demo_factory_fields(1,4)] show ?thesis using e by auto
qed

end
