(* ===== verification/Contract_System.thy ===== *)
theory Contract_System
  imports Contract_Factory
begin

text \<open>
  The contracts together: the factory, every market that it deployed, and the token ledger that they share, as one state machine.  The markets do not see
  each other; what one of them could lose by what another does, or by what the factory does, is tokens.  The interface \<open>ledger_cells\<close> says why no market
  loses any, and the machine is shown to keep every market solvent.
\<close>

section \<open>Contracts that share a ledger\<close>

text \<open>
  The reason why contracts that share a ledger do not disturb each other: the invariant of each depends on its own state and is kept when its
  balances grow, and a step of one takes nothing from the balances of the others.
\<close>

locale ledger_cells =
  fixes is_cell :: "'a \<Rightarrow> bool" and bal :: "'t \<Rightarrow> 'a \<Rightarrow> 'l \<Rightarrow> int" and inv :: "'a \<Rightarrow> 'd \<Rightarrow> 'l \<Rightarrow> bool"
    and move :: "'a \<Rightarrow> 'd \<times> 'l \<Rightarrow> 'd \<times> 'l \<Rightarrow> bool"
  assumes inv_grow: "inv a d l \<Longrightarrow> (\<And>t. bal t a l \<le> bal t a l') \<Longrightarrow> inv a d l'"
    and move_inv: "inv a d l \<Longrightarrow> is_cell a \<Longrightarrow> move a (d, l) (d', l') \<Longrightarrow> inv a d' l'"
    and move_takes: "move a (d, l) (d', l') \<Longrightarrow> is_cell a' \<Longrightarrow> a' \<noteq> a \<Longrightarrow> bal t a' l \<le> bal t a' l'"
begin

definition all_inv :: "('a \<rightharpoonup> 'd) \<Rightarrow> 'l \<Rightarrow> bool" where
  "all_inv cells l \<longleftrightarrow> (\<forall>a d. cells a = Some d \<longrightarrow> is_cell a \<and> inv a d l)"

lemma all_inv_empty: "all_inv Map.empty l"
  by (simp add: all_inv_def)

lemma all_inv_grow:
  assumes "all_inv cells l" "\<And>t a. is_cell a \<Longrightarrow> bal t a l \<le> bal t a l'"
  shows "all_inv cells l'"
  using assms inv_grow unfolding all_inv_def by blast

lemma all_inv_update:
  assumes "all_inv cells l" "is_cell a" "inv a d' l'" "\<And>t a'. is_cell a' \<Longrightarrow> a' \<noteq> a \<Longrightarrow> bal t a' l \<le> bal t a' l'"
  shows "all_inv (cells(a \<mapsto> d')) l'"
  unfolding all_inv_def
proof (intro allI impI)
  fix a' d
  assume "(cells(a \<mapsto> d')) a' = Some d"
  then show "is_cell a' \<and> inv a' d l'"
  proof (cases "a' = a")
    case False
    with \<open>(cells(a \<mapsto> d')) a' = Some d\<close> have "is_cell a'" "inv a' d l" using assms(1) by (auto simp: all_inv_def)
    then show ?thesis using inv_grow assms(4) False by blast
  qed (use assms(2,3) \<open>(cells(a \<mapsto> d')) a' = Some d\<close> in simp)
qed

lemma all_inv_move:
  assumes "all_inv cells l" "cells a = Some d" "move a (d, l) (d', l')"
  shows "all_inv (cells(a \<mapsto> d')) l'"
proof (rule all_inv_update [OF assms(1)])
  show "is_cell a" using assms(1,2) by (simp add: all_inv_def)
  then show "inv a d' l'" using assms move_inv unfolding all_inv_def by blast
qed (rule move_takes [OF assms(3)])

end

section \<open>The machine\<close>

type_synonym 'l token_transfer = "ScAddress \<Rightarrow> ScAddress \<Rightarrow> ScAddress \<Rightarrow> int \<Rightarrow> 'l \<Rightarrow> 'l option"

definition market_host :: "'l token_transfer \<Rightarrow> ScAddress \<Rightarrow> 'l host" where
  "market_host tr m = \<lparr>host_self = m, host_transfer = tr\<rparr>"

lemma market_host_fields [simp]: "host_self (market_host tr m) = m" "host_transfer (market_host tr m) = tr"
  by (simp_all add: market_host_def)

lemma token_laws_host: "token_laws (market_host tr m) bal = token_laws (market_host tr m') bal"
  by (simp add: token_laws_def)

record 'l system =
  sy_factory :: "'l market_world factory_chain"
  sy_events :: "ScAddress \<Rightarrow> market_event list"

definition sy_tokens :: "'l system \<Rightarrow> 'l" where
  "sy_tokens s = mw_tokens (fc_world (sy_factory s))"

text \<open>The chain as the market at an address sees it.\<close>

definition market_view :: "ScAddress \<Rightarrow> 'l system \<Rightarrow> 'l chain option" where
  "market_view m s = map_option (\<lambda>d. \<lparr>ch_storage = d, ch_tokens = sy_tokens s, ch_events = sy_events s m\<rparr>) (mw_markets (fc_world (sy_factory s)) m)"

definition put_market :: "ScAddress \<Rightarrow> 'l chain \<Rightarrow> 'l system \<Rightarrow> 'l system" where
  "put_market m c s = \<lparr>sy_factory = (sy_factory s)\<lparr>fc_world :=
       \<lparr>mw_markets = (mw_markets (fc_world (sy_factory s)))(m \<mapsto> ch_storage c), mw_tokens = ch_tokens c\<rparr>\<rparr>,
     sy_events = (sy_events s)(m := ch_events c)\<rparr>"

definition put_tokens :: "'l \<Rightarrow> 'l system \<Rightarrow> 'l system" where
  "put_tokens l s = s\<lparr>sy_factory := (sy_factory s)\<lparr>fc_world := (fc_world (sy_factory s))\<lparr>mw_tokens := l\<rparr>\<rparr>\<rparr>"

definition system_start :: "'l \<Rightarrow> 'l system" where
  "system_start l = \<lparr>sy_factory = \<lparr>fc_storage = empty_factory, fc_world = \<lparr>mw_markets = Map.empty, mw_tokens = l\<rparr>\<rparr>, sy_events = (\<lambda>_. [])\<rparr>"

text \<open>
  A step is a call of the factory by anybody, which leaves it with the code of the market contract; a call of a market by anybody; or
  anything else that happens to the tokens and takes none from the addresses of markets.  These addresses authorize nothing but the calls of the markets.
\<close>

inductive system_step :: "'l market_world deployer \<Rightarrow> 'l token_transfer \<Rightarrow> (bytes \<Rightarrow> ScAddress) \<Rightarrow> 'l balances \<Rightarrow> 'l system \<Rightarrow> 'l system \<Rightarrow> bool"
  for D tr address bal where
  factory: "(\<And>salt. \<not> auth (address salt)) \<Longrightarrow> exec_factory D auth c (sy_factory s) = (Inr r, f)
    \<Longrightarrow> (\<And>h. fk_MarketWasmHash (fc_storage f) = Some h \<Longrightarrow> market_wasm D tr address h) \<Longrightarrow> system_step D tr address bal s (s\<lparr>sy_factory := f\<rparr>)"
| market: "(\<And>salt. \<not> auth (address salt)) \<Longrightarrow> market_view m s = Some v \<Longrightarrow> exec (market_host tr m) auth c v = (Inr r, v')
    \<Longrightarrow> system_step D tr address bal s (put_market m v' s)"
| external: "(\<And>t salt. bal t (address salt) (sy_tokens s) \<le> bal t (address salt) l) \<Longrightarrow> system_step D tr address bal s (put_tokens l s)"

definition system_run :: "'l market_world deployer \<Rightarrow> 'l token_transfer \<Rightarrow> (bytes \<Rightarrow> ScAddress) \<Rightarrow> 'l balances \<Rightarrow> 'l system \<Rightarrow> 'l system \<Rightarrow> bool" where
  "system_run D tr address bal = (system_step D tr address bal)\<^sup>*\<^sup>*"

section \<open>The markets as cells of the ledger\<close>

type_synonym cell = "MarketStorage \<times> market_event list"

fun cell_chain :: "cell \<Rightarrow> 'l \<Rightarrow> 'l chain" where
  "cell_chain (d, es) l = \<lparr>ch_storage = d, ch_tokens = l, ch_events = es\<rparr>"

lemma cell_chain_tokens: "(cell_chain d l)\<lparr>ch_tokens := l'\<rparr> = cell_chain d l'" "ch_tokens (cell_chain d l) = l" "ch_storage (cell_chain d l) = fst d"
  by (cases d; simp)+

definition cell_inv :: "'l token_transfer \<Rightarrow> 'l balances \<Rightarrow> ScAddress \<Rightarrow> cell \<Rightarrow> 'l \<Rightarrow> bool" where
  "cell_inv tr bal m d l \<longleftrightarrow> dk_Oracle (fst d) \<noteq> None \<and> market_inv (market_host tr m) bal (cell_chain d l)"

text \<open>A call of a market on tokens that follow SEP-41.\<close>

definition cell_move :: "'l token_transfer \<Rightarrow> (bytes \<Rightarrow> ScAddress) \<Rightarrow> 'l balances \<Rightarrow> ScAddress \<Rightarrow> cell \<times> 'l \<Rightarrow> cell \<times> 'l \<Rightarrow> bool" where
  "cell_move tr address bal m p p' \<longleftrightarrow> token_laws (market_host tr m) bal
     \<and> (\<exists>auth c r. (\<forall>salt. \<not> auth (address salt))
          \<and> exec (market_host tr m) auth c (cell_chain (fst p) (snd p)) = (Inr r, cell_chain (fst p') (snd p')))"

interpretation markets: ledger_cells "\<lambda>m. m \<in> range address" bal "cell_inv tr bal" "cell_move tr address bal" for address bal tr
proof
  fix m d l l'
  assume "cell_inv tr bal m d l" "\<And>t. bal t m l \<le> bal t m l'"
  then show "cell_inv tr bal m d l'"
    using market_inv_tokens [of "market_host tr m" bal "cell_chain d l" l'] by (simp add: cell_inv_def cell_chain_tokens)
next
  fix m d l d' l'
  assume inv: "cell_inv tr bal m d l" and m: "m \<in> range address" and "cell_move tr address bal m (d, l) (d', l')"
  then obtain auth c r where "token_laws (market_host tr m) bal" "\<forall>salt. \<not> auth (address salt)"
    "exec (market_host tr m) auth c (cell_chain d l) = (Inr r, cell_chain d' l')"
    unfolding cell_move_def by auto
  with m have "market_step (market_host tr m) bal (cell_chain d l) (cell_chain d' l')"
    by (intro market_step.call [where auth = auth]) auto
  then have "market_inv (market_host tr m) bal (cell_chain d' l')"
    using market_step_inv inv \<open>token_laws (market_host tr m) bal\<close> unfolding cell_inv_def by blast
  moreover have "dk_Oracle (fst d') \<noteq> None"
    using exec_keeps_oracle [OF \<open>exec (market_host tr m) auth c (cell_chain d l) = (Inr r, cell_chain d' l')\<close>] inv by (auto simp: cell_inv_def cell_chain_tokens)
  ultimately show "cell_inv tr bal m d' l'" by (simp add: cell_inv_def)
next
  fix m d l d' l' m' t
  assume "cell_move tr address bal m (d, l) (d', l')" "m' \<in> range address" "m' \<noteq> m"
  then obtain auth c r where "token_laws (market_host tr m) bal" "\<forall>salt. \<not> auth (address salt)"
    "exec (market_host tr m) auth c (cell_chain d l) = (Inr r, cell_chain d' l')"
    unfolding cell_move_def by auto
  moreover from this(2) \<open>m' \<in> range address\<close> have "\<not> auth m'" by auto
  ultimately show "bal t m' l \<le> bal t m' l'"
    using exec_takes [where auth = auth, of "market_host tr m" c "cell_chain d l" "Inr r" "cell_chain d' l'" bal t m'] \<open>m' \<noteq> m\<close>
    by (simp add: cell_chain_tokens)
qed

section \<open>The invariant of the machine\<close>

definition sy_cells :: "'l system \<Rightarrow> ScAddress \<rightharpoonup> cell" where
  "sy_cells s m = map_option (\<lambda>d. (d, sy_events s m)) (mw_markets (fc_world (sy_factory s)) m)"

abbreviation all_markets_inv :: "'l token_transfer \<Rightarrow> (bytes \<Rightarrow> ScAddress) \<Rightarrow> 'l balances \<Rightarrow> 'l system \<Rightarrow> bool" where
  "all_markets_inv tr address bal s \<equiv> ledger_cells.all_inv (\<lambda>m. m \<in> range address) (cell_inv tr bal) (sy_cells s) (sy_tokens s)"

text \<open>The factory's list names the markets that exist, each once; the code it deploys is the market contract.\<close>

definition registry_inv :: "'l market_world deployer \<Rightarrow> 'l token_transfer \<Rightarrow> (bytes \<Rightarrow> ScAddress) \<Rightarrow> 'l system \<Rightarrow> bool" where
  "registry_inv D tr address s \<longleftrightarrow> (let k = fc_storage (sy_factory s); markets = mw_markets (fc_world (sy_factory s)) in
     (case fk_Markets k of None \<Rightarrow> markets = Map.empty | Some ms \<Rightarrow> distinct ms \<and> set ms = dom markets)
     \<and> (fk_Admin k = None \<longrightarrow> fk_Markets k = None)
     \<and> (\<forall>h. fk_MarketWasmHash k = Some h \<longrightarrow> market_wasm D tr address h)
     \<and> (\<forall>m. markets m = None \<longrightarrow> sy_events s m = []))"

lemma market_view_Some: "market_view m s = Some v \<longleftrightarrow> (\<exists>d. sy_cells s m = Some d \<and> v = cell_chain d (sy_tokens s))"
  by (auto simp: market_view_def sy_cells_def)

lemma put_market_cells: "sy_cells (put_market m v s) = (sy_cells s)(m \<mapsto> (ch_storage v, ch_events v))" "sy_tokens (put_market m v s) = ch_tokens v"
  by (auto simp: sy_cells_def put_market_def sy_tokens_def fun_eq_iff)

lemma put_tokens_cells: "sy_cells (put_tokens l s) = sy_cells s" "sy_tokens (put_tokens l s) = l"
  by (auto simp: sy_cells_def put_tokens_def sy_tokens_def fun_eq_iff)

lemma cell_chain_fields: "v = cell_chain (ch_storage v, ch_events v) (ch_tokens v)"
  by simp

lemma registry_market:
  assumes "registry_inv D tr address s" "market_view m s = Some v"
  shows "registry_inv D tr address (put_market m v' s)"
proof -
  have "m \<in> dom (mw_markets (fc_world (sy_factory s)))" using assms(2) by (auto simp: market_view_def)
  then show ?thesis using assms(1) by (auto simp: registry_inv_def put_market_def Let_def split: option.splits)
qed

lemma registry_tokens: "registry_inv D tr address s \<Longrightarrow> registry_inv D tr address (put_tokens l s)"
  by (simp add: registry_inv_def put_tokens_def Let_def)

lemma market_call_inv:
  assumes "all_markets_inv tr address bal s" "token_laws (market_host tr m) bal" "\<And>salt. \<not> auth (address salt)"
    and "market_view m s = Some v" "exec (market_host tr m) auth c v = (Inr r, v')"
  shows "all_markets_inv tr address bal (put_market m v' s)"
proof -
  obtain d where d: "sy_cells s m = Some d" "v = cell_chain d (sy_tokens s)" using assms(4) unfolding market_view_Some by blast
  have "exec (market_host tr m) auth c (cell_chain d (sy_tokens s)) = (Inr r, cell_chain (ch_storage v', ch_events v') (ch_tokens v'))"
    using assms(5) d(2) by simp
  then have "cell_move tr address bal m (d, sy_tokens s) ((ch_storage v', ch_events v'), ch_tokens v')"
    using assms(2,3) unfolding cell_move_def fst_conv snd_conv by blast
  from markets.all_inv_move [OF assms(1) d(1) this] show ?thesis by (simp add: put_market_cells)
qed

lemma external_inv:
  assumes "all_markets_inv tr address bal s" "\<And>t salt. bal t (address salt) (sy_tokens s) \<le> bal t (address salt) l"
  shows "all_markets_inv tr address bal (put_tokens l s)"
proof -
  have "bal t m (sy_tokens s) \<le> bal t m l" if "m \<in> range address" for t m using that assms(2) by auto
  from markets.all_inv_grow [OF assms(1) this] show ?thesis by (simp add: put_tokens_cells)
qed

text \<open>A deployment runs the constructor, which sets the invariant of the new market up and takes the funding from the oracle.\<close>

lemma deploy_code_inv:
  assumes "deploy_code tr address auth salt p w = Some (m, w')" "token_laws (market_host tr m) bal" "\<And>salt. \<not> auth (address salt)"
  shows "m = address salt" "mw_markets w m = None"
    and "\<exists>d. w' = w\<lparr>mw_markets := (mw_markets w)(m \<mapsto> d), mw_tokens := mw_tokens w'\<rparr> \<and> cell_inv tr bal m (d, []) (mw_tokens w')"
    and "\<not> auth h \<Longrightarrow> h \<noteq> m \<Longrightarrow> bal t h (mw_tokens w) \<le> bal t h (mw_tokens w')"
proof -
  let ?s = "\<lparr>ch_storage = empty_storage, ch_tokens = mw_tokens w, ch_events = []\<rparr>"
  obtain v where m: "m = address salt" "mw_markets w m = None"
    and w': "w' = w\<lparr>mw_markets := (mw_markets w)(m \<mapsto> ch_storage v), mw_tokens := ch_tokens v\<rparr>"
    and i: "initialize (market_host tr m) auth (mp_oracle p) (mp_collateral_token p) (mp_liquidity_param p) (mp_metadata_hash p) (mp_initial_funding p) ?s = (Inr (), v)"
    using assms(1) by (auto simp: deploy_code_def constructor_def market_host_def tryM_def retM_def split: if_splits prod.splits sum.splits)
  show "m = address salt" "mw_markets w m = None" by (fact m)+
  have "market_inv (market_host tr m) bal ?s" by (simp add: market_inv_def)
  from initialize_inv [where auth = auth, OF this assms(2) _ i] have "market_inv (market_host tr m) bal v" using assms(3) m(1) by simp
  moreover have "ch_events v = []" "dk_Oracle (ch_storage v) \<noteq> None" using i by (rule initialize_InrE; simp)+
  moreover from this(1) have "v = cell_chain (ch_storage v, []) (mw_tokens w')" using w' by simp
  ultimately have "cell_inv tr bal m (ch_storage v, []) (mw_tokens w')" by (metis cell_inv_def fst_conv)
  then show "\<exists>d. w' = w\<lparr>mw_markets := (mw_markets w)(m \<mapsto> d), mw_tokens := mw_tokens w'\<rparr> \<and> cell_inv tr bal m (d, []) (mw_tokens w')"
    using w' by auto
  have "exec (market_host tr m) auth (Initialize (mp_oracle p) (mp_collateral_token p) (mp_liquidity_param p) (mp_metadata_hash p) (mp_initial_funding p)) ?s = (Inr None, v)"
    using i by (simp add: exec_def tryM_def retM_def)
  from exec_takes [OF this assms(2), of t h] show "\<not> auth h \<Longrightarrow> h \<noteq> m \<Longrightarrow> bal t h (mw_tokens w) \<le> bal t h (mw_tokens w')"
    by (simp add: w')
qed

lemma deploy_call_inv:
  assumes "all_markets_inv tr address bal s" "registry_inv D tr address s" "\<And>m. token_laws (market_host tr m) bal" "\<And>salt. \<not> auth (address salt)"
    and "deploy_market D auth a b hash funding salt (sy_factory s) = (Inr m, f)"
  shows "all_markets_inv tr address bal (s\<lparr>sy_factory := f\<rparr>) \<and> registry_inv D tr address (s\<lparr>sy_factory := f\<rparr>)"
  using assms(5)
proof (rule deploy_market_InrE)
  fix h token w ms
  assume h: "fk_MarketWasmHash (fc_storage (sy_factory s)) = Some h" and ms: "fk_Markets (fc_storage (sy_factory s)) = Some ms"
    and d: "D auth h salt \<lparr>mp_oracle = a, mp_collateral_token = token, mp_liquidity_param = b, mp_metadata_hash = hash, mp_initial_funding = funding\<rparr>
      (fc_world (sy_factory s)) = Some (m, w)"
    and f: "f = (sy_factory s)\<lparr>fc_storage := (fc_storage (sy_factory s))\<lparr>fk_Markets := Some (ms @ [m])\<rparr>, fc_world := w\<rparr>"
  have "market_wasm D tr address h" using assms(2) h by (auto simp: registry_inv_def Let_def)
  then have dc: "deploy_code tr address auth salt \<lparr>mp_oracle = a, mp_collateral_token = token, mp_liquidity_param = b, mp_metadata_hash = hash,
      mp_initial_funding = funding\<rparr> (fc_world (sy_factory s)) = Some (m, w)"
    using d by (simp add: market_wasm_def)
  note new = deploy_code_inv [where auth = auth, OF dc assms(3,4)]
  obtain st where w: "w = (fc_world (sy_factory s))\<lparr>mw_markets := (mw_markets (fc_world (sy_factory s)))(m \<mapsto> st), mw_tokens := mw_tokens w\<rparr>"
    and inv: "cell_inv tr bal m (st, []) (mw_tokens w)" using new(3) by blast
  have ev: "sy_events s m = []" using assms(2) new(2) by (simp add: registry_inv_def Let_def)
  have mk: "mw_markets w = (mw_markets (fc_world (sy_factory s)))(m \<mapsto> st)"
    using w by (metis market_world.select_convs(1) market_world.surjective market_world.update_convs(1,2))
  have cells: "sy_cells (s\<lparr>sy_factory := f\<rparr>) = (sy_cells s)(m \<mapsto> (st, []))" "sy_tokens (s\<lparr>sy_factory := f\<rparr>) = mw_tokens w"
    by (auto simp: sy_cells_def sy_tokens_def fun_eq_iff f mk ev)
  have "all_markets_inv tr address bal (s\<lparr>sy_factory := f\<rparr>)" unfolding cells
  proof (rule markets.all_inv_update [OF assms(1) _ inv])
    show "m \<in> range address" using new(1) by simp
    show "bal t a' (sy_tokens s) \<le> bal t a' (mw_tokens w)" if "a' \<in> range address" "a' \<noteq> m" for t a'
      unfolding sy_tokens_def using that assms(4) by (intro new(4)) auto
  qed
  moreover have "registry_inv D tr address (s\<lparr>sy_factory := f\<rparr>)"
    using assms(2) ms new(2) by (auto simp: registry_inv_def Let_def f mk split: option.splits if_splits)
  ultimately show ?thesis ..
qed

text \<open>The other calls of the factory leave the markets and the tokens as they are.\<close>

lemma factory_call_inv:
  assumes "all_markets_inv tr address bal s" "registry_inv D tr address s" "\<And>m. token_laws (market_host tr m) bal" "\<And>salt. \<not> auth (address salt)"
    and "exec_factory D auth c (sy_factory s) = (Inr r, f)" "\<And>h. fk_MarketWasmHash (fc_storage f) = Some h \<Longrightarrow> market_wasm D tr address h"
  shows "all_markets_inv tr address bal (s\<lparr>sy_factory := f\<rparr>) \<and> registry_inv D tr address (s\<lparr>sy_factory := f\<rparr>)"
proof -
  have still: ?thesis if "fc_world f = fc_world (sy_factory s)" "registry_inv D tr address (s\<lparr>sy_factory := f\<rparr>)"
  proof -
    have "sy_cells (s\<lparr>sy_factory := f\<rparr>) = sy_cells s" "sy_tokens (s\<lparr>sy_factory := f\<rparr>) = sy_tokens s"
      using that(1) by (auto simp: sy_cells_def sy_tokens_def fun_eq_iff)
    then show ?thesis using assms(1) that(2) by simp
  qed
  from assms(5) show ?thesis
  proof (cases rule: exec_factory_cases)
    case (Initialize admin h token)
    then show ?thesis using assms(2,6) by (intro still) (auto simp: factory_initialize_Inr registry_inv_def Let_def)
  next
    case (Hash admin h)
    then show ?thesis using assms(2,6) by (intro still) (auto simp: setter_Inr registry_inv_def Let_def)
  next
    case (Token admin t)
    then show ?thesis using assms(2) by (intro still) (auto simp: setter_Inr registry_inv_def Let_def)
  next
    case (Deploy a b hash funding salt m)
    then show ?thesis using deploy_call_inv [where auth = auth, OF assms(1-4) Deploy(2)] by blast
  qed
qed

lemma system_step_inv:
  assumes "system_step D tr address bal s s'" "\<And>m. token_laws (market_host tr m) bal"
    and "all_markets_inv tr address bal s \<and> registry_inv D tr address s"
  shows "all_markets_inv tr address bal s' \<and> registry_inv D tr address s'"
  using assms(1)
proof cases
  case (factory auth c r f)
  show ?thesis unfolding factory(1)
    using factory_call_inv [where auth = auth, OF conjunct1 [OF assms(3)] conjunct2 [OF assms(3)] assms(2) factory(2-4)] .
next
  case (market auth m v c r v')
  show ?thesis unfolding market(1)
    using market_call_inv [where auth = auth, OF conjunct1 [OF assms(3)] assms(2) market(2-4)] registry_market [OF conjunct2 [OF assms(3)] market(3)] by simp
next
  case (external l)
  show ?thesis unfolding external(1)
    using external_inv [OF conjunct1 [OF assms(3)] external(2)] registry_tokens [OF conjunct2 [OF assms(3)]] by simp
qed

lemma system_start_inv: "all_markets_inv tr address bal (system_start l) \<and> registry_inv D tr address (system_start l)"
proof -
  have "sy_cells (system_start l) = Map.empty" by (simp add: sy_cells_def system_start_def fun_eq_iff)
  then show ?thesis using markets.all_inv_empty by (auto simp: registry_inv_def system_start_def empty_factory_def Let_def)
qed

lemma system_run_inv:
  assumes "system_run D tr address bal (system_start l) s" "\<And>m. token_laws (market_host tr m) bal"
  shows "all_markets_inv tr address bal s \<and> registry_inv D tr address s"
  using assms(1) unfolding system_run_def
proof (induction rule: rtranclp_induct)
  case base
  show ?case by (rule system_start_inv)
next
  case (step s s')
  show ?case using system_step_inv [OF step(2) assms(2) step(3)] .
qed

section \<open>Every market is solvent\<close>

text \<open>
  C1 (all_markets_solvent): whatever sequence of calls of the factory and of its markets, and of token movements elsewhere, the contracts go through from the creation of the
  factory, the factory lists exactly the markets that exist, each once, and every one of them is solvent: its own tokens cover its pool, and its pool
  covers what the holders of each outcome (of the winning one, until the oracle withdraws) are owed, up to the rounding error.  No market is drained through another.
\<close>

theorem all_markets_solvent:
  assumes "token_laws (market_host tr m0) bal" "system_run D tr address bal (system_start l) s" "fst (list_markets (sy_factory s)) = Inr ms"
  shows "distinct ms \<and> set ms = dom (mw_markets (fc_world (sy_factory s)))
    \<and> (\<forall>m \<in> set ms. \<exists>v. market_view m s = Some v \<and> ch_tokens v = sy_tokens s \<and> solvent bal m v)"
proof -
  have laws: "token_laws (market_host tr m) bal" for m using assms(1) token_laws_host by blast
  note inv = system_run_inv [OF assms(2) laws]
  have "fk_Markets (fc_storage (sy_factory s)) = Some ms"
    using assms(3) by (auto simp: list_markets_def tryM_def fload_def ok_or_def split: sum.splits prod.splits option.splits dest: factory_iffs(6) [THEN iffD1])
  then have ms: "distinct ms" "set ms = dom (mw_markets (fc_world (sy_factory s)))" using inv by (simp_all add: registry_inv_def Let_def)
  moreover have "\<exists>v. market_view m s = Some v \<and> ch_tokens v = sy_tokens s \<and> solvent bal m v" if "m \<in> set ms" for m
  proof -
    have "m \<in> dom (mw_markets (fc_world (sy_factory s)))" using that ms(2) by simp
    then obtain st where "sy_cells s m = Some (st, sy_events s m)" by (auto simp: sy_cells_def)
    then have "cell_inv tr bal m (st, sy_events s m) (sy_tokens s)" and v: "market_view m s = Some (cell_chain (st, sy_events s m) (sy_tokens s))"
      using conjunct1 [OF inv] unfolding markets.all_inv_def market_view_Some by blast+
    then have "solvent bal m (cell_chain (st, sy_events s m) (sy_tokens s))"
      using market_inv_solvent [of "market_host tr m" bal "cell_chain (st, sy_events s m) (sy_tokens s)"] by (simp add: cell_inv_def)
    with v show ?thesis by (auto simp: cell_chain_tokens)
  qed
  ultimately show ?thesis by blast
qed

section \<open>A concrete system\<close>

text \<open>A factory that deploys two markets, in the second of which a user buys.\<close>

definition contract_at :: "bytes \<Rightarrow> ScAddress" where
  "contract_at salt = \<lparr>sa_Type = AddressTypeContract, sa_AccountId = None, sa_ContractId = Some salt\<rparr>"

definition two_deployer :: "ledger market_world deployer" where
  "two_deployer auth hash = deploy_code (host_transfer demo_host) contract_at auth"

definition accounts_only :: auth where
  "accounts_only a \<longleftrightarrow> sa_Type a = AddressTypeAccount"

definition two_factory_call :: "factory_call \<Rightarrow> ledger system \<Rightarrow> ledger system" where
  "two_factory_call c s = s\<lparr>sy_factory := snd (exec_factory two_deployer accounts_only c (sy_factory s))\<rparr>"

definition two_market_call :: "ScAddress \<Rightarrow> market_call \<Rightarrow> ledger system \<Rightarrow> ledger system" where
  "two_market_call m c s = put_market m (snd (exec (market_host (host_transfer demo_host) m) accounts_only c (the (market_view m s)))) s"

definition two_start :: "ledger system" where
  "two_start = system_start (\<lambda>t h. 10 ^ 12)"

definition no_market :: "ledger system" where
  "no_market = two_factory_call (FactoryInitialize (account [1]) [7] (account [9])) two_start"

definition one_market :: "ledger system" where
  "one_market = two_factory_call (DeployMarket (account [3]) 1000000000 ''Qm'' 700000000 [5]) no_market"

definition two_markets :: "ledger system" where
  "two_markets = two_factory_call (DeployMarket (account [4]) 1000000000 ''Qm'' 700000000 [6]) one_market"

definition two_traded :: "ledger system" where
  "two_traded = two_market_call (contract_at [6]) (Buy (account [2]) OUTCOME_YES 1000000001 1000000000) two_markets"

lemma two_run_factory:
  assumes "system_run two_deployer (host_transfer demo_host) contract_at ledger_balance s0 s" "fst (exec_factory two_deployer accounts_only c (sy_factory s)) = Inr r"
  shows "system_run two_deployer (host_transfer demo_host) contract_at ledger_balance s0 (two_factory_call c s)"
proof -
  have "exec_factory two_deployer accounts_only c (sy_factory s) = (Inr r, snd (exec_factory two_deployer accounts_only c (sy_factory s)))"
    using assms(2) by (metis prod.collapse)
  moreover have "market_wasm two_deployer (host_transfer demo_host) contract_at h" for h by (simp add: market_wasm_def two_deployer_def fun_eq_iff)
  ultimately show ?thesis
    using assms(1) unfolding system_run_def two_factory_call_def
    by (intro rtranclp.rtrancl_into_rtrancl [OF assms(1) [unfolded system_run_def]] system_step.factory [where auth = accounts_only])
      (simp_all add: accounts_only_def contract_at_def)
qed

lemma two_run_market:
  assumes "system_run two_deployer (host_transfer demo_host) contract_at ledger_balance s0 s" "market_view m s \<noteq> None"
    and "fst (exec (market_host (host_transfer demo_host) m) accounts_only c (the (market_view m s))) = Inr r"
  shows "system_run two_deployer (host_transfer demo_host) contract_at ledger_balance s0 (two_market_call m c s)"
proof -
  have "exec (market_host (host_transfer demo_host) m) accounts_only c (the (market_view m s))
      = (Inr r, snd (exec (market_host (host_transfer demo_host) m) accounts_only c (the (market_view m s))))"
    using assms(3) by (metis prod.collapse)
  then show ?thesis
    using assms(1,2) unfolding system_run_def two_market_call_def
    by (intro rtranclp.rtrancl_into_rtrancl [OF assms(1) [unfolded system_run_def]] system_step.market [where auth = accounts_only and v = "the (market_view m s)"])
      (auto simp: accounts_only_def contract_at_def)
qed

lemma two_calls:
  "fst (exec_factory two_deployer accounts_only (FactoryInitialize (account [1]) [7] (account [9])) (sy_factory two_start)) = Inr None"
  "fst (exec_factory two_deployer accounts_only (DeployMarket (account [3]) 1000000000 ''Qm'' 700000000 [5]) (sy_factory no_market)) = Inr (Some (contract_at [5]))"
  "fst (exec_factory two_deployer accounts_only (DeployMarket (account [4]) 1000000000 ''Qm'' 700000000 [6]) (sy_factory one_market)) = Inr (Some (contract_at [6]))"
  "fst (exec (market_host (host_transfer demo_host) (contract_at [6])) accounts_only (Buy (account [2]) OUTCOME_YES 1000000001 1000000000)
     (the (market_view (contract_at [6]) two_markets))) = Inr (Some 620114300)"
  "map_option (\<lambda>_. ()) (market_view (contract_at [6]) two_markets) = Some ()"
  by code_simp+

lemma two_run: "system_run two_deployer (host_transfer demo_host) contract_at ledger_balance two_start two_traded"
  unfolding two_traded_def
proof (rule two_run_market [OF _ _ two_calls(4)])
  have "system_run two_deployer (host_transfer demo_host) contract_at ledger_balance two_start two_start" by (simp add: system_run_def)
  from two_run_factory [OF this two_calls(1)] show "system_run two_deployer (host_transfer demo_host) contract_at ledger_balance two_start two_markets"
    unfolding two_markets_def one_market_def no_market_def [symmetric]
    using two_run_factory two_calls(2,3) unfolding one_market_def by blast
qed (use two_calls(5) in auto)

theorem all_markets_solvent_witness:
  "fst (list_markets (sy_factory two_traded)) = Inr [contract_at [5], contract_at [6]]
   \<and> (\<exists>v. market_view (contract_at [5]) two_traded = Some v \<and> solvent ledger_balance (contract_at [5]) v)
   \<and> (\<exists>v. market_view (contract_at [6]) two_traded = Some v \<and> solvent ledger_balance (contract_at [6]) v)"
proof -
  have l: "fst (list_markets (sy_factory two_traded)) = Inr [contract_at [5], contract_at [6]]" by code_simp
  have "token_laws (market_host (host_transfer demo_host) (contract_at [5])) ledger_balance"
    using ledger_token [of "account [0]"] by (simp add: token_laws_def demo_host_def)
  from all_markets_solvent [OF this two_run [unfolded two_start_def] l] show ?thesis using l by auto
qed

end
