(* ===== verification/Contract_Trades.thy ===== *)
theory Contract_Trades
  imports Contract_Safety
begin

text \<open>
  The trades of the market contract against its quotes: in a market that has not moved since the quote, a trade that the caller can pay for goes
  through at exactly the quoted amount.  A sale never finds the pool too small.
\<close>

section \<open>The cost function is not negative\<close>

lemma contract_cost_nonneg:
  assumes "contract_cost x y b = Inr c" "0 \<le> x"
  shows "0 \<le> c"
proof -
  obtain p q e l where b: "0 < b" and p: "over_b x b = Inr p"
    and e: "exp_scaled (min p q - max p q) = Inr e" and l: "ln_scaled (SCALE_FACTOR + e) = Inr l"
    and c: "c = (b * (max p q + l)) sdiv SCALE_FACTOR"
    using assms(1) by (auto simp: contract_cost_def tryE_Inr_iff i128_ops Let_def split: if_splits)
  have "0 \<le> l" using ln_scaled_nonneg [OF l] exp_scaled_nonneg [OF e] by simp
  moreover have "0 \<le> p" using p b assms(2) by (auto simp: over_b_def tryE_Inr_iff i128_ops pos_imp_zdiv_nonneg_iff)
  ultimately have "0 \<le> b * (max p q + l)" using b by simp
  then show ?thesis using c by (simp add: pos_imp_zdiv_nonneg_iff)
qed

section \<open>Quotes\<close>

lemma get_quote_InrE:
  assumes "get_quote outcome amount s = (Inr (cost, price), s')"
  obtains b y n where "s' = s" "dk_Oracle (ch_storage s) \<noteq> None" "dk_Resolved (ch_storage s) = Some False" "is_valid_outcome outcome" "0 < amount"
    "dk_LiquidityParam (ch_storage s) = Some b" "dk_YesSold (ch_storage s) = Some y" "dk_NoSold (ch_storage s) = Some n"
    "calculate_buy_cost y n amount outcome b = Inr cost"
  using assms that by (auto simp: get_quote_def tryM_Inr_iff contract_iffs require_iffs not_le split: if_splits)

lemma get_sell_quote_InrE:
  assumes "get_sell_quote outcome amount s = (Inr (ret, price), s')"
  obtains b y n where "s' = s" "dk_Oracle (ch_storage s) \<noteq> None" "dk_Resolved (ch_storage s) = Some False" "is_valid_outcome outcome" "0 < amount"
    "dk_LiquidityParam (ch_storage s) = Some b" "dk_YesSold (ch_storage s) = Some y" "dk_NoSold (ch_storage s) = Some n"
    "calculate_sell_return y n amount outcome b = Inr ret"
  using assms that by (auto simp: get_sell_quote_def tryM_Inr_iff contract_iffs require_iffs not_le split: if_splits)

section \<open>Trades that succeed\<close>

lemmas contract_defs = tryM_def liftM_def retM_def failM_def peek_def load_def store_def require_auth_def transfer_def publish_def
  require_initialized_def require_not_resolved_def store_sold_def i128_ops checked_def or_panic_def

lemma in_scaled: "in_i128 (x * SCALE_FACTOR) \<Longrightarrow> in_i128 x"
  by (simp add: i128_range SCALE_FACTOR_def)

lemma buy_result:
  assumes "dk_Oracle (ch_storage s) \<noteq> None" "dk_Resolved (ch_storage s) = Some False" "is_valid_outcome outcome" "0 < amount" "auth user"
    "dk_LiquidityParam (ch_storage s) = Some b" "dk_YesSold (ch_storage s) = Some y" "dk_NoSold (ch_storage s) = Some n"
    "dk_CollateralPool (ch_storage s) = Some pool" "dk_CollateralToken (ch_storage s) = Some token"
    "calculate_buy_cost y n amount outcome b = Inr cost" "cost \<le> max_cost"
    "host_transfer H token user (host_self H) cost (ch_tokens s) = Some l"
    "in_i128 (pool + cost)" "in_i128 (if outcome = 0 then y + amount else n + amount)" "in_i128 (balance_of (ch_storage s) user outcome + amount)"
  shows "fst (buy H auth user outcome amount max_cost s) = Inr cost"
  using assms by (cases "outcome = 0") (auto simp: buy_def contract_defs OUTCOME_YES_def)

lemma sell_result:
  assumes "dk_Oracle (ch_storage s) \<noteq> None" "dk_Resolved (ch_storage s) = Some False" "is_valid_outcome outcome" "0 < amount" "auth user"
    "amount \<le> balance_of (ch_storage s) user outcome"
    "dk_LiquidityParam (ch_storage s) = Some b" "dk_YesSold (ch_storage s) = Some y" "dk_NoSold (ch_storage s) = Some n"
    "dk_CollateralPool (ch_storage s) = Some pool" "dk_CollateralToken (ch_storage s) = Some token"
    "calculate_sell_return y n amount outcome b = Inr ret" "min_return \<le> ret" "ret \<le> pool"
    "host_transfer H token (host_self H) user ret (ch_tokens s) = Some l"
    "in_i128 (pool - ret)" "in_i128 (if outcome = 0 then y - amount else n - amount)" "in_i128 (balance_of (ch_storage s) user outcome - amount)"
  shows "fst (sell H auth user outcome amount min_return s) = Inr ret"
  using assms by (cases "outcome = 0") (auto simp: sell_def contract_defs OUTCOME_YES_def)

lemma exec_trade:
  "buy H auth user outcome amount max_cost s = (Inr p, s') \<Longrightarrow> exec H auth (Buy user outcome amount max_cost) s = (Inr (Some p), s')"
  "sell H auth user outcome amount min_return s = (Inr p, s') \<Longrightarrow> exec H auth (Sell user outcome amount min_return) s = (Inr (Some p), s')"
  by (simp_all add: exec_Inr tryM_def retM_def)

lemma open_reachable:
  assumes "token_laws H bal" "ch_storage s0 = empty_storage" "market_run H bal s0 s" "dk_Resolved (ch_storage s) = Some False"
    "dk_LiquidityParam (ch_storage s) = Some b" "dk_YesSold (ch_storage s) = Some y" "dk_NoSold (ch_storage s) = Some n"
  obtains pool token where "dk_CollateralPool (ch_storage s) = Some pool" "dk_CollateralToken (ch_storage s) = Some token" "0 \<le> pool" "pool \<le> i128_MAX"
    "pool \<le> bal token (host_self H) (ch_tokens s)" "balances_ok (dk_UserBalance (ch_storage s))" "contract.backed b y n pool"
    "y = held (dk_UserBalance (ch_storage s)) 0" "n = held (dk_UserBalance (ch_storage s)) 1"
proof -
  have "open_inv H bal s" using market_inv_open [OF market_run_inv [OF assms(3,1,2)] assms(4)] .
  then show ?thesis using that assms(5-7) unfolding open_inv_def funded_def OUTCOME_YES_def OUTCOME_NO_def by (metis option.inject)
qed

lemma balance_of_sold:
  assumes "balances_ok (dk_UserBalance d)" "y = held (dk_UserBalance d) 0" "n = held (dk_UserBalance d) 1" "is_valid_outcome outcome"
  shows "balance_of d user outcome \<le> (if outcome = 0 then y else n)"
  using held_bounds(2) [OF assms(1), of user outcome] assms(2-4) by (auto simp: is_valid_outcome_def OUTCOME_YES_def OUTCOME_NO_def)

text \<open>
  In every state that a market reaches, a purchase by a user who authorized it and has the quoted cost succeeds when the quoted cost is
  at most the maximum, costs exactly the quoted amount and gives exactly the tokens asked for.
\<close>

lemma quoted_buy_succeeds:
  assumes "token_laws H bal" "token_liquid H bal" "ch_storage s0 = empty_storage" "market_run H bal s0 s"
    and "get_quote outcome amount s = (Inr (cost, price), s1)" "cost \<le> max_cost" "auth user" "user \<noteq> host_self H"
    and "dk_CollateralToken (ch_storage s) = Some token" "0 \<le> cost" "cost \<le> bal token user (ch_tokens s)"
    and "dk_CollateralPool (ch_storage s) = Some pool" "pool + cost \<le> i128_MAX"
  shows "\<exists>s'. exec H auth (Buy user outcome amount max_cost) s = (Inr (Some cost), s')
     \<and> balance_of (ch_storage s') user outcome = balance_of (ch_storage s) user outcome + amount
     \<and> bal token user (ch_tokens s') = bal token user (ch_tokens s) - cost"
proof -
  obtain b y n where q: "dk_Oracle (ch_storage s) \<noteq> None" "dk_Resolved (ch_storage s) = Some False" "is_valid_outcome outcome" "0 < amount"
    and f: "dk_LiquidityParam (ch_storage s) = Some b" "dk_YesSold (ch_storage s) = Some y" "dk_NoSold (ch_storage s) = Some n"
    and c: "calculate_buy_cost y n amount outcome b = Inr cost"
    using assms(5) by (rule get_quote_InrE)
  have pool: "0 \<le> pool" and ok: "balances_ok (dk_UserBalance (ch_storage s))"
    and held: "y = held (dk_UserBalance (ch_storage s)) 0" "n = held (dk_UserBalance (ch_storage s)) 1"
    using open_reachable [OF assms(1,3,4) q(2) f] assms(12) by auto
  obtain c' where "contract_cost (fst (bought outcome amount (y, n))) (snd (bought outcome amount (y, n))) b = Inr c'"
    using c by (rule calculate_buy_cost_Inr)
  then have r: "in_i128 (if outcome = 0 then y + amount else n + amount)"
    using contract_cost_in_range in_scaled by (fastforce simp: bought_def split: if_splits)
  have "balance_of (ch_storage s) user outcome \<le> (if outcome = 0 then y else n)"
    using balance_of_sold [OF ok held q(3)] .
  then have r': "in_i128 (balance_of (ch_storage s) user outcome + amount)"
    using r balance_of_nonneg [OF ok, of user outcome] q(4) by (auto simp: i128_range split: if_splits)
  obtain l where l: "host_transfer H token user (host_self H) cost (ch_tokens s) = Some l"
    using assms(2,10,11) unfolding token_liquid_def by (meson not_None_eq)
  have "in_i128 (pool + cost)" using pool assms(10,13) by (simp add: i128_range)
  then have "fst (buy H auth user outcome amount max_cost s) = Inr cost"
    using buy_result [where auth = auth, OF q assms(7) f assms(12,9) c assms(6) l _ r r'] by blast
  then obtain s' where s': "buy H auth user outcome amount max_cost s = (Inr cost, s')" by (metis prod.collapse)
  then have "ch_tokens s' = l \<and> balance_of (ch_storage s') user outcome = balance_of (ch_storage s) user outcome + amount"
    by (rule buy_InrE) (use assms(9) l in \<open>simp add: balance_of_def\<close>)
  then show ?thesis using exec_trade(1) [OF s'] token_lawsD(3) [OF assms(1) l, of token user] assms(8) by auto
qed

text \<open>
  In every state that a market reaches, a holder can sell: the sale succeeds when the quoted return is not negative and at least the
  minimum, it pays exactly the quoted return, and the pool is never too small for it.
\<close>

lemma quoted_sell_succeeds:
  assumes "token_laws H bal" "token_liquid H bal" "ch_storage s0 = empty_storage" "market_run H bal s0 s"
    and "get_sell_quote outcome amount s = (Inr (ret, price), s1)" "min_return \<le> ret" "0 \<le> ret" "auth user" "user \<noteq> host_self H"
    and "amount \<le> balance_of (ch_storage s) user outcome" "dk_CollateralToken (ch_storage s) = Some token"
  shows "\<exists>s'. exec H auth (Sell user outcome amount min_return) s = (Inr (Some ret), s')
     \<and> balance_of (ch_storage s') user outcome = balance_of (ch_storage s) user outcome - amount
     \<and> bal token user (ch_tokens s') = bal token user (ch_tokens s) + ret"
proof -
  obtain b y n where q: "dk_Oracle (ch_storage s) \<noteq> None" "dk_Resolved (ch_storage s) = Some False" "is_valid_outcome outcome" "0 < amount"
    and f: "dk_LiquidityParam (ch_storage s) = Some b" "dk_YesSold (ch_storage s) = Some y" "dk_NoSold (ch_storage s) = Some n"
    and r: "calculate_sell_return y n amount outcome b = Inr ret"
    using assms(5) by (rule get_sell_quote_InrE)
  obtain pool where pool: "dk_CollateralPool (ch_storage s) = Some pool" "pool \<le> i128_MAX" "pool \<le> bal token (host_self H) (ch_tokens s)"
    and ok: "balances_ok (dk_UserBalance (ch_storage s))" and bk: "contract.backed b y n pool"
    and held: "y = held (dk_UserBalance (ch_storage s)) 0" "n = held (dk_UserBalance (ch_storage s)) 1"
    using open_reachable [OF assms(1,3,4) q(2) f] assms(11) by auto
  have yn: "0 \<le> y" "0 \<le> n" using held_bounds(1) [OF ok] held by simp_all
  obtain c c' where cc: "contract_cost y n b = Inr c" "ret = c - c'" "amount \<le> (if outcome = 0 then y else n)"
      "contract_cost (fst (bought outcome (- amount) (y, n))) (snd (bought outcome (- amount) (y, n))) b = Inr c'"
    using r by (rule calculate_sell_return_Inr)
  have "0 \<le> c'" using contract_cost_nonneg [OF cc(4)] cc(3) yn by (simp add: bought_def split: if_splits)
  moreover have "c \<le> pool" using bk cc(1) by (auto simp: contract.backed_def)
  ultimately have le: "ret \<le> pool" using cc(2) by simp
  have i: "in_i128 (if outcome = 0 then y - amount else n - amount)"
    using contract_cost_in_range [OF cc(4)] in_scaled by (fastforce simp: bought_def split: if_splits)
  have "balance_of (ch_storage s) user outcome \<le> (if outcome = 0 then y else n)"
    using balance_of_sold [OF ok held q(3)] .
  then have i': "in_i128 (balance_of (ch_storage s) user outcome - amount)" using i assms(10) by (auto simp: i128_range split: if_splits)
  obtain l where l: "host_transfer H token (host_self H) user ret (ch_tokens s) = Some l"
    using assms(2,7) le pool(3) unfolding token_liquid_def by (meson not_None_eq order_trans)
  have "in_i128 (pool - ret)" using le pool(2) assms(7) by (simp add: i128_range)
  then have "fst (sell H auth user outcome amount min_return s) = Inr ret"
    using sell_result [where auth = auth, OF q assms(8,10) f pool(1) assms(11) r assms(6) le l _ i i'] by blast
  then obtain s' where s': "sell H auth user outcome amount min_return s = (Inr ret, s')" by (metis prod.collapse)
  then have "ch_tokens s' = l \<and> balance_of (ch_storage s') user outcome = balance_of (ch_storage s) user outcome - amount"
    by (rule sell_InrE) (use assms(11) l in \<open>simp add: balance_of_def\<close>)
  then show ?thesis using exec_trade(2) [OF s'] token_lawsD(3) [OF assms(1) l, of token user] assms(9) by auto
qed

end
