(* ===== verification/Contract_Interface.thy ===== *)
theory Contract_Interface
  imports Contract_Trades Contract_Factory Factory_Service Handler_Errors
begin

text \<open>
  The server and the contracts together: the transactions that the services build, executed by the contracts, and the results of the contracts, read
  by the services.  How the host passes the arguments of an invocation to an entry point is a parameter.
\<close>

section \<open>Invocations\<close>

definition i128_ScVal :: "Int128Parts \<Rightarrow> ScVal" where
  "i128_ScVal p = ScVal ScvI128 None None (Some p) None None None None None"

lemma EncodeI128_ScVal: "\<exists>p. EncodeI128 v = i128_ScVal p \<and> i128_value p = sint v"
  using EncodeI128_value [of v] by (auto simp: EncodeI128_def i128_ScVal_def Let_def split: prod.splits if_splits)

text \<open>
  What is relied on of the host: a function of the contract is found by its name, and its arguments are the values of the invocation, an \<open>i128\<close>
  as the number that its two halves stand for.
\<close>

definition market_entry_points :: "(string \<Rightarrow> ScVal list \<Rightarrow> market_call option) \<Rightarrow> bool" where
  "market_entry_points D \<longleftrightarrow>
     (\<forall>u n p q. D ''buy'' [address_ScVal u, EncodeU32 n, i128_ScVal p, i128_ScVal q] = Some (market_call.Buy u n (i128_value p) (i128_value q))
        \<and> D ''sell'' [address_ScVal u, EncodeU32 n, i128_ScVal p, i128_ScVal q] = Some (market_call.Sell u n (i128_value p) (i128_value q)))
   \<and> (\<forall>u n. D ''resolve'' [address_ScVal u, EncodeU32 n] = Some (Resolve u n) \<and> D ''claim'' [address_ScVal u] = Some (Claim u)
        \<and> D ''withdraw_remaining'' [address_ScVal u] = Some (WithdrawRemaining u))"

definition factory_entry_points :: "(string \<Rightarrow> ScVal list \<Rightarrow> factory_call option) \<Rightarrow> bool" where
  "factory_entry_points D \<longleftrightarrow>
     (\<forall>u p h q salt. D ''deploy_market'' [address_ScVal u, i128_ScVal p, EncodeString h, i128_ScVal q, EncodeBytes32 salt]
        = Some (DeployMarket u (i128_value p) h (i128_value q) salt))"

text \<open>The contract that a transaction invokes, and the call.\<close>

definition tx_call :: "'w env \<Rightarrow> (string \<Rightarrow> ScVal list \<Rightarrow> 'c option) \<Rightarrow> string \<Rightarrow> (ScAddress \<times> 'c) option" where
  "tx_call E D x =
     (case xdr_UnmarshalEnvelope E x of
        Inr (EnvelopeTx t) \<Rightarrow>
          (case tx_Operations t of
             [OpInvokeHostFunction iop] \<Rightarrow> map_option (\<lambda>c. (ih_ContractAddress iop, c)) (D (ih_FunctionName iop) (ih_Args iop))
           | _ \<Rightarrow> None)
      | _ \<Rightarrow> None)"

lemma invokes_tx_call:
  assumes "invokes E x who cid func args" "D func args = Some c"
  obtains cb where "sk_Decode E VersionByteContract cid = Inr cb" "tx_call E D x = Some (contract_address cb, c)"
  using assms that by (auto simp: invokes_def tx_call_def)

lemma EncodeAddress_ScVal: "EncodeAddress E k = Inr a \<Longrightarrow> \<exists>u. a = address_ScVal u"
  by (auto simp: EncodeAddress_def tryE_Inr_iff split: if_splits)

lemma trade_call:
  assumes "market_entry_points D" "EncodeAddress E k = Inr a"
  obtains u where "a = address_ScVal u"
    "D ''buy'' [a, EncodeU32 n, EncodeI128 v, EncodeI128 m] = Some (market_call.Buy u n (sint v) (sint m))"
    "D ''sell'' [a, EncodeU32 n, EncodeI128 v, EncodeI128 m] = Some (market_call.Sell u n (sint v) (sint m))"
proof -
  obtain u where "a = address_ScVal u" using EncodeAddress_ScVal [OF assms(2)] by blast
  moreover obtain p q where "EncodeI128 v = i128_ScVal p" "i128_value p = sint v" "EncodeI128 m = i128_ScVal q" "i128_value q = sint m"
    using EncodeI128_ScVal by metis
  ultimately show ?thesis using that assms(1) by (simp add: market_entry_points_def)
qed

section \<open>Trades from the form to the chain\<close>

text \<open>
  A user who can pay a quoted trade in a market that stands where it stood when it was quoted.
\<close>

definition unmoved :: "'l host \<Rightarrow> 'l balances \<Rightarrow> auth \<Rightarrow> ScAddress \<Rightarrow> 'l chain \<Rightarrow> bool" where
  "unmoved H bal auth user ch \<longleftrightarrow> token_liquid H bal \<and> auth user \<and> user \<noteq> host_self H
     \<and> (\<exists>ch0. ch_storage ch0 = empty_storage \<and> market_run H bal ch0 ch)"

definition can_pay :: "'l host \<Rightarrow> 'l balances \<Rightarrow> ScAddress \<Rightarrow> int \<Rightarrow> 'l chain \<Rightarrow> bool" where
  "can_pay H bal user paid ch \<longleftrightarrow> (\<exists>token pool. dk_CollateralToken (ch_storage ch) = Some token \<and> paid \<le> bal token user (ch_tokens ch)
     \<and> dk_CollateralPool (ch_storage ch) = Some pool \<and> pool + paid \<le> i128_MAX)"

text \<open>What a trade that the contract accepts does to the user: tokens of the outcome against collateral, nothing else.\<close>

definition exchanged :: "'l host \<Rightarrow> 'l balances \<Rightarrow> ScAddress \<Rightarrow> uint32 \<Rightarrow> int \<Rightarrow> int \<Rightarrow> 'l chain \<Rightarrow> 'l chain \<Rightarrow> bool" where
  "exchanged H bal user n amount paid ch ch' \<longleftrightarrow>
     (\<forall>u m. balance_of (ch_storage ch') u m = balance_of (ch_storage ch) u m + (if u = user \<and> m = n then amount else 0))
   \<and> (\<exists>token. dk_CollateralToken (ch_storage ch) = Some token
        \<and> (\<forall>t h. h \<noteq> host_self H \<longrightarrow> bal t h (ch_tokens ch') = bal t h (ch_tokens ch) - (if t = token \<and> h = user then paid else 0)))"

lemma exec_Inl: "exec H auth c ch = (Inl e, ch') \<Longrightarrow> ch' = ch"
  by (auto simp: exec_def split: prod.splits sum.splits)

lemma exec_buy_exchanged:
  assumes "token_laws H bal" "exec H auth (market_call.Buy user n amount max_cost) ch = (Inr p, ch')"
  shows "\<exists>paid. p = Some paid \<and> 0 \<le> paid \<and> paid \<le> max_cost \<and> exchanged H bal user n amount paid ch ch'"
proof -
  obtain paid where "buy H auth user n amount max_cost ch = (Inr paid, ch')" and p: "p = Some paid" using assms(2) by (auto elim: exec_cases)
  then show ?thesis
  proof (elim buy_InrE, goal_cases)
    case (1 b y m pool token l)
    note l = token_lawsD [OF assms(1) 1(15)]
    show ?case unfolding exchanged_def using p 1(11,13,16) l(1) l(3) by (auto simp: balance_of_def)
  qed
qed

lemma exec_sell_exchanged:
  assumes "token_laws H bal" "exec H auth (market_call.Sell user n amount min_return) ch = (Inr p, ch')"
  shows "\<exists>paid. p = Some paid \<and> 0 \<le> paid \<and> min_return \<le> paid \<and> exchanged H bal user n (- amount) (- paid) ch ch'"
proof -
  obtain ret where "sell H auth user n amount min_return ch = (Inr ret, ch')" and p: "p = Some ret" using assms(2) by (auto elim: exec_cases)
  then show ?thesis
  proof (elim sell_InrE, goal_cases)
    case (1 b y m pool token l)
    note l = token_lawsD [OF assms(1) 1(16)]
    show ?case unfolding exchanged_def using p 1(12,14,17) l(1) l(3) by (auto simp: balance_of_def)
  qed
qed

lemma unmoved_buy:
  assumes "token_laws H bal" "unmoved H bal auth user ch" "can_pay H bal user paid ch" "get_quote n amount ch = (Inr (paid, price), ch1)"
    "0 \<le> paid" "paid \<le> max_cost"
  shows "\<exists>ch'. exec H auth (market_call.Buy user n amount max_cost) ch = (Inr (Some paid), ch')"
  using quoted_buy_succeeds [where auth = auth] assms unfolding unmoved_def can_pay_def by metis

lemma unmoved_sell:
  assumes "token_laws H bal" "unmoved H bal auth user ch" "amount \<le> balance_of (ch_storage ch) user n" "get_sell_quote n amount ch = (Inr (paid, price), ch1)"
    "0 \<le> paid" "min_return \<le> paid" "dk_CollateralToken (ch_storage ch) = Some token"
  shows "\<exists>ch'. exec H auth (market_call.Sell user n amount min_return) ch = (Inr (Some paid), ch')"
  using quoted_sell_succeeds [where auth = auth] assms unfolding unmoved_def by metis

text \<open>
  C3 (buy_end_to_end): a transaction that the server hands out for a purchase calls \<open>buy\<close> on the requested market for the requesting user.  When it is
  executed, in whatever state the market then is, it either changes nothing or gives the user exactly the requested tokens of the requested
  outcome for at most 9/8 of the quoted cost, and takes nothing from anybody else.  It is executed, at exactly the quoted cost, when the market still
  stands where the contract quoted it and the user can pay.
\<close>

theorem buy_end_to_end:
  assumes "sdk_laws E" "market_entry_points D" "token_laws H bal" "svc_BuildBuyTx E s req w = (Inr tr, w')"
  shows "\<exists>cb user n amount maxCost q wq.
     sk_Decode E VersionByteContract (tq_ContractID req) = Inr cb
     \<and> tx_call E D (tr_XDR tr) = Some (contract_address cb, market_call.Buy user n (sint amount) maxCost)
     \<and> EncodeAddress E (tq_UserPublicKey req) = Inr (address_ScVal user) \<and> U32ToOutcome n = Inr (tq_Outcome req)
     \<and> safeFloatToInt64 E (f64_mul (tq_ShareAmount req) float_ScaleFactor) = Inr amount
     \<and> GetQuote E s (tq_ContractID req) (tq_Outcome req) (tq_ShareAmount req) w = (Inr q, wq)
     \<and> (\<forall>auth ch r ch'. exec H auth (market_call.Buy user n (sint amount) maxCost) ch = (r, ch') \<longrightarrow>
          (case r of Inl e \<Rightarrow> ch' = ch
           | Inr p \<Rightarrow> \<exists>paid. p = Some paid \<and> (sint (q_Cost q) \<le> 2 ^ 49 \<longrightarrow> 8 * paid \<le> 9 * sint (q_Cost q))
               \<and> exchanged H bal user n (sint amount) paid ch ch'))
     \<and> (\<forall>auth ch price ch1. unmoved H bal auth user ch \<and> get_quote n (sint amount) ch = (Inr (sint (q_Cost q), price), ch1)
          \<and> can_pay H bal user (sint (q_Cost q)) ch \<and> sint (q_Cost q) \<le> 2 ^ 53 \<longrightarrow>
          (\<exists>ch'. exec H auth (market_call.Buy user n (sint amount) maxCost) ch = (Inr (Some (sint (q_Cost q))), ch')))"
  using assms(1,4)
proof (rule svc_BuildBuyTx_InrE)
  fix a n amount q wq maxCost
  assume i: "invokes E (tr_XDR tr) (tq_UserPublicKey req) (tq_ContractID req) ''buy'' [a, EncodeU32 n, EncodeI128 amount, EncodeI128 maxCost]"
    and a: "EncodeAddress E (tq_UserPublicKey req) = Inr a"
    and rest: "U32ToOutcome n = Inr (tq_Outcome req)" "safeFloatToInt64 E (f64_mul (tq_ShareAmount req) float_ScaleFactor) = Inr amount"
      "GetQuote E s (tq_ContractID req) (tq_Outcome req) (tq_ShareAmount req) w = (Inr q, wq)"
    and q: "0 < sint (q_Cost q)" "sint (q_Cost q) \<le> 2 ^ 53 \<Longrightarrow> sint (q_Cost q) \<le> sint maxCost"
      "sint (q_Cost q) \<le> 2 ^ 49 \<Longrightarrow> 8 * sint maxCost \<le> 9 * sint (q_Cost q)"
  obtain user where user: "a = address_ScVal user" "D ''buy'' [a, EncodeU32 n, EncodeI128 amount, EncodeI128 maxCost] = Some (market_call.Buy user n (sint amount) (sint maxCost))"
    using trade_call [OF assms(2) a] by metis
  obtain cb where "sk_Decode E VersionByteContract (tq_ContractID req) = Inr cb"
    "tx_call E D (tr_XDR tr) = Some (contract_address cb, market_call.Buy user n (sint amount) (sint maxCost))"
    using invokes_tx_call [where D = D, OF i user(2)] .
  moreover have "case r of Inl e \<Rightarrow> ch' = ch
      | Inr p \<Rightarrow> \<exists>paid. p = Some paid \<and> (sint (q_Cost q) \<le> 2 ^ 49 \<longrightarrow> 8 * paid \<le> 9 * sint (q_Cost q)) \<and> exchanged H bal user n (sint amount) paid ch ch'"
    if "exec H auth (market_call.Buy user n (sint amount) (sint maxCost)) ch = (r, ch')" for auth ch r ch'
    using that exec_buy_exchanged [OF assms(3)] q(3) by (cases r) (force simp: exec_Inl)+
  moreover have "\<exists>ch'. exec H auth (market_call.Buy user n (sint amount) (sint maxCost)) ch = (Inr (Some (sint (q_Cost q))), ch')"
    if "unmoved H bal auth user ch" "get_quote n (sint amount) ch = (Inr (sint (q_Cost q), price), ch1)"
      "can_pay H bal user (sint (q_Cost q)) ch" "sint (q_Cost q) \<le> 2 ^ 53" for auth ch price ch1
    using unmoved_buy [OF assms(3) that(1,3,2)] q(1) q(2) [OF that(4)] by simp
  ultimately show ?thesis using a user(1) rest by blast
qed

text \<open>A host that passes arguments on as described.\<close>

definition demo_entry :: "string \<Rightarrow> ScVal list \<Rightarrow> market_call option" where
  "demo_entry func args =
     (if func = ''buy'' then (case args of [u, n, p, q] \<Rightarrow> Some (market_call.Buy (the (sv_Address u)) (the (sv_U32 n)) (i128_value (the (sv_I128 p))) (i128_value (the (sv_I128 q)))) | _ \<Rightarrow> None)
      else if func = ''sell'' then (case args of [u, n, p, q] \<Rightarrow> Some (market_call.Sell (the (sv_Address u)) (the (sv_U32 n)) (i128_value (the (sv_I128 p))) (i128_value (the (sv_I128 q)))) | _ \<Rightarrow> None)
      else if func = ''resolve'' then (case args of [u, n] \<Rightarrow> Some (Resolve (the (sv_Address u)) (the (sv_U32 n))) | _ \<Rightarrow> None)
      else if func = ''claim'' then (case args of [u] \<Rightarrow> Some (Claim (the (sv_Address u))) | _ \<Rightarrow> None)
      else if func = ''withdraw_remaining'' then (case args of [u] \<Rightarrow> Some (WithdrawRemaining (the (sv_Address u))) | _ \<Rightarrow> None)
      else None)"

lemma demo_entry_points: "market_entry_points demo_entry"
  by (simp add: market_entry_points_def demo_entry_def address_ScVal_def EncodeU32_def i128_ScVal_def)

theorem buy_end_to_end_witness:
  "\<exists>tr w' cb user n amount maxCost. svc_BuildBuyTx trade_env trade_service trade_request demo_world = (Inr tr, w')
     \<and> tx_call trade_env demo_entry (tr_XDR tr) = Some (contract_address cb, market_call.Buy user n amount maxCost)"
proof -
  obtain tr w' where r: "svc_BuildBuyTx trade_env trade_service trade_request demo_world = (Inr tr, w')"
    using trade_runs(1) [of demo_world] by blast
  from buy_end_to_end [OF trade_env_laws demo_entry_points demo_start_facts(1) r] show ?thesis using r by blast
qed



section \<open>Deployments from the form to the chain\<close>

lemma scaled_amount:
  assumes "1 / 10000 \<le> x" "x \<le> 10 ^ 11" "safeFloatToInt64 E (f64_mul (Fin x) float_ScaleFactor) = Inr v"
  shows "x * 9999900 - 1 < of_int (sint v)" "of_int (sint v) \<le> x * 10000100" "0 < sint v"
proof -
  let ?y = "x * 10000000"
  have y: "1000 \<le> ?y" "?y \<le> 10 ^ 18" using assms(1,2) by simp_all
  then have b: "\<bar>?y\<bar> \<le> 2 powi 60" by simp
  have r: "f64_mul (Fin x) float_ScaleFactor = Fin (rnd ?y)" using round64_bounded(1) [OF b] by (simp add: trade_floats(1))
  have "\<bar>rnd ?y\<bar> \<le> 2 powi 60" using round64_bounded(2) [OF b] by simp
  then have "rnd ?y \<noteq> 2 ^ 63" by auto
  then have v: "sint v = rat_trunc (rnd ?y)" using assms(3) unfolding r by (intro safeFloatToInt64_value)
  have "(2::rat) powi (- 1022) \<le> 2 powi 0" by (simp only: powi_le_iff)
  also have "\<dots> \<le> \<bar>?y\<bar>" using y(1) by simp
  finally have "\<bar>rnd ?y - ?y\<bar> \<le> \<bar>?y\<bar> * 2 powi (- 53)" by (rule rnd_rel_err)
  also have "\<dots> \<le> ?y * (1 / 100000)" using y(1) by (intro mult_mono) (simp_all add: power_int_minus)
  also have "\<dots> = x * 100" by simp
  finally have e: "x * 9999900 \<le> rnd ?y" "rnd ?y \<le> x * 10000100" unfolding abs_le_iff by linarith+
  then have "0 \<le> rnd ?y" using assms(1) by linarith
  from rat_trunc_bounds [OF this] have t: "of_int (sint v) \<le> rnd ?y" "rnd ?y < of_int (sint v) + 1" by (simp_all add: v)
  show "x * 9999900 - 1 < of_int (sint v)" "of_int (sint v) \<le> x * 10000100" using t e by linarith+
  have "(0::rat) < of_int (sint v)" using t e(1) assms(1) by linarith
  then show "0 < sint v" by simp
qed

text \<open>The check of the server implies the check of the contract, which works on scaled and truncated numbers.\<close>

lemma contract_accepts_funding:
  assumes "1 / 1000 \<le> x" "x \<le> 10 ^ 11" "safeFloatToInt64 E (f64_mul (Fin x) float_ScaleFactor) = Inr l"
    and "y \<le> 10 ^ 11" "safeFloatToInt64 E (f64_mul (Fin y) float_ScaleFactor) = Inr f" "rnd (x * rnd (7/10)) \<le> y"
  shows "\<exists>required. initial_liquidity (sint l) = Inr required \<and> required \<le> sint f" "0 < sint l" "sint f \<le> MAX_FUNDING"
proof -
  have "(2::rat) powi (- 1000) \<le> 2 powi (- 10)" by (simp only: powi_le_iff)
  also have "\<dots> \<le> 1 / 1000" by (simp add: power_int_minus)
  finally have xy: "x * (6999 / 10000) \<le> y" using min_funding [of x] assms(1,6) by linarith
  have l: "of_int (sint l) \<le> x * 10000100" and pos: "0 < sint l" using scaled_amount [of x E l] assms(1-3) by simp_all
  have "1 / 10000 \<le> y" using xy assms(1) by linarith
  then have f: "y * 9999900 - 1 < of_int (sint f)" using scaled_amount [of y E f] assms(4,5) by simp
  have s63: "sint l < 2 ^ 63" "sint f < 2 ^ 63" by (rule sint_int64_bounds)+
  let ?r = "sint l * LN2_SCALED div SCALE_FACTOR"
  have "?r * SCALE_FACTOR \<le> sint l * LN2_SCALED" using mult_div_bounds(1) [of SCALE_FACTOR "sint l * LN2_SCALED"] by (simp add: mult.commute)
  then have "of_int (?r * SCALE_FACTOR) \<le> (of_int (sint l * LN2_SCALED) :: rat)" by (simp only: of_int_le_iff)
  then have "of_int ?r \<le> (of_int (sint l) * 6931472 / 10000000 :: rat)" by (simp add: SCALE_FACTOR_def LN2_SCALED_def)
  then have "(of_int ?r :: rat) < of_int (sint f)" using l f xy assms(1) by linarith
  then have le: "?r \<le> sint f" by (simp only: of_int_less_iff)
  have "0 \<le> ?r" using pos by (simp add: pos_imp_zdiv_nonneg_iff LN2_SCALED_def)
  then have "in_i128 (sint l * LN2_SCALED)" "in_i128 ?r" using pos s63 le by (simp_all add: i128_range LN2_SCALED_def)
  then have "initial_liquidity (sint l) = Inr ?r"
    using pos by (simp add: initial_liquidity_def i128_ops checked_def LN2_SCALED_def)
  then show "\<exists>required. initial_liquidity (sint l) = Inr required \<and> required \<le> sint f" using le by blast
  show "0 < sint l" by (fact pos)
  show "sint f \<le> MAX_FUNDING" using s63 by (simp add: MAX_FUNDING_def i128_MAX_def)
qed

lemma deploy_call:
  assumes "factory_entry_points D" "EncodeAddress E k = Inr a"
  obtains u where "a = address_ScVal u"
    "D ''deploy_market'' [a, EncodeI128 l, EncodeString h, EncodeI128 f, EncodeBytes32 salt] = Some (DeployMarket u (sint l) h (sint f) salt)"
proof -
  obtain u where "a = address_ScVal u" using EncodeAddress_ScVal [OF assms(2)] by blast
  moreover obtain p q where "EncodeI128 l = i128_ScVal p" "i128_value p = sint l" "EncodeI128 f = i128_ScVal q" "i128_value q = sint f"
    using EncodeI128_ScVal by metis
  ultimately show ?thesis using that assms(1) by (simp add: factory_entry_points_def)
qed


definition demo_factory_entry :: "string \<Rightarrow> ScVal list \<Rightarrow> factory_call option" where
  "demo_factory_entry func args =
     (case args of
        [u, p, h, q, salt] \<Rightarrow> Some (DeployMarket (the (sv_Address u)) (i128_value (the (sv_I128 p))) (the (sv_Str h)) (i128_value (the (sv_I128 q))) (the (sv_Bytes salt)))
      | _ \<Rightarrow> None)"

lemma demo_factory_entry_points: "factory_entry_points demo_factory_entry"
  by (simp add: factory_entry_points_def demo_factory_entry_def address_ScVal_def i128_ScVal_def EncodeString_def EncodeBytes32_def)


section \<open>What the server shows\<close>

text \<open>The value that the host returns for the tuple of \<open>get_state\<close>.\<close>

definition encodes_state :: "ScVal \<Rightarrow> int \<times> int \<times> int \<times> bool \<Rightarrow> bool" where
  "encodes_state val st \<longleftrightarrow> (case st of (y, n, pool, resolved) \<Rightarrow>
     \<exists>p q r. sv_Type val = ScvVec \<and> sv_Vec val = Some (Some [i128_ScVal p, i128_ScVal q, i128_ScVal r, ScVal ScvBool (Some resolved) None None None None None None None])
       \<and> i128_value p = y \<and> i128_value q = n \<and> i128_value r = pool)"

lemma sint_int64_range: "(\<exists>w :: int64. sint w = v) \<longleftrightarrow> - (2 ^ 63) \<le> v \<and> v < 2 ^ 63"
  using sint_word_of_int64 [of v] sint_int64_bounds by metis

lemma DecodeI128_ScVal:
  "DecodeI128 (i128_ScVal p) = Inr v \<longleftrightarrow> i128_value p = sint v"
  "(\<exists>e. DecodeI128 (i128_ScVal p) = Inl e) \<longleftrightarrow> i128_value p < - (2 ^ 63) \<or> 2 ^ 63 \<le> i128_value p"
  using DecodeI128_exact [of "i128_ScVal p" p] by (auto simp: i128_ScVal_def)

lemma decode_state_iff:
  assumes "sim_return E sim = Inr val" "encodes_state val (y, n, pool, resolved)"
  shows "decode_state E sim = Inr (y', n', pool', resolved') \<longleftrightarrow> sint y' = y \<and> sint n' = n \<and> sint pool' = pool \<and> resolved' = resolved"
proof -
  obtain p q r where val: "sv_Type val = ScvVec"
      "sv_Vec val = Some (Some [i128_ScVal p, i128_ScVal q, i128_ScVal r, ScVal ScvBool (Some resolved) None None None None None None None])"
    and v: "i128_value p = y" "i128_value q = n" "i128_value r = pool"
    using assms(2) by (auto simp: encodes_state_def)
  have "decode_state E sim = tryE (DecodeI128 (i128_ScVal p)) (wrap ''failed to decode yes_sold: '') (\<lambda>yesSold.
      tryE (DecodeI128 (i128_ScVal q)) (wrap ''failed to decode no_sold: '') (\<lambda>noSold.
      tryE (DecodeI128 (i128_ScVal r)) (wrap ''failed to decode pool: '') (\<lambda>pool. Inr (yesSold, noSold, pool, resolved))))"
    using assms(1) val by (simp add: decode_state_def DecodeVec_def DecodeBool_def)
  then show ?thesis using v by (auto simp: tryE_Inr_iff DecodeI128_ScVal)
qed

text \<open>
  C23 (shown_state_exact): the numbers that the server reads from a simulation of \<open>get_state\<close> are those of the contract; while a market trades they are not negative and the
  tokens sold of either outcome are covered by the pool up to the rounding error.  The server fails to read them exactly when one of
  them does not fit in 64 bits.
\<close>

theorem shown_state_exact:
  assumes "token_laws H bal" "ch_storage ch0 = empty_storage" "market_run H bal ch0 ch" "dk_LiquidityParam (ch_storage ch) = Some b"
    and "get_state ch = (Inr (y, n, pool, resolved), ch1)" "sim_return E sim = Inr val" "encodes_state val (y, n, pool, resolved)"
  shows "(\<forall>y' n' pool' resolved'. decode_state E sim = Inr (y', n', pool', resolved') \<longrightarrow>
        sint y' = y \<and> sint n' = n \<and> sint pool' = pool \<and> resolved' = resolved
        \<and> (\<not> resolved' \<longrightarrow> 0 \<le> sint y' \<and> 0 \<le> sint n' \<and> sint y' \<le> sint pool' + rounding_error b \<and> sint n' \<le> sint pool' + rounding_error b))
    \<and> ((\<exists>st. decode_state E sim = Inr st) \<longleftrightarrow> list_all (\<lambda>v. - (2 ^ 63) \<le> v \<and> v < 2 ^ 63) [y, n, pool])"
proof -
  have f: "dk_YesSold (ch_storage ch) = Some y" "dk_NoSold (ch_storage ch) = Some n" "dk_CollateralPool (ch_storage ch) = Some pool"
    "dk_Resolved (ch_storage ch) = Some resolved"
    using assms(5) by (auto simp: get_state_def tryM_Inr_iff contract_iffs require_iffs)
  have open_bounds: "0 \<le> y \<and> 0 \<le> n \<and> y \<le> pool + rounding_error b \<and> n \<le> pool + rounding_error b" if "\<not> resolved"
  proof -
    have "contract.backed b y n pool" "balances_ok (dk_UserBalance (ch_storage ch))"
      "y = held (dk_UserBalance (ch_storage ch)) 0" "n = held (dk_UserBalance (ch_storage ch)) 1"
      using open_reachable [OF assms(1-3) _ assms(4) f(1,2)] f(3,4) that by auto
    then show ?thesis using contract.backed_covers [of b y n pool] held_bounds(1) [of "ch_storage ch"] by simp
  qed
  have "(\<exists>st. decode_state E sim = Inr st) \<longleftrightarrow> (\<exists>y' n' pool' resolved'. decode_state E sim = Inr (y', n', pool', resolved'))" by simp
  also have "\<dots> \<longleftrightarrow> (\<exists>w :: int64. sint w = y) \<and> (\<exists>w :: int64. sint w = n) \<and> (\<exists>w :: int64. sint w = pool)"
    unfolding decode_state_iff [OF assms(6,7)] by blast
  also have "\<dots> \<longleftrightarrow> list_all (\<lambda>v. - (2 ^ 63) \<le> v \<and> v < 2 ^ 63) [y, n, pool]" unfolding sint_int64_range by simp
  finally show ?thesis using decode_state_iff [OF assms(6,7)] open_bounds by auto
qed

definition demo_state_val :: ScVal where
  "demo_state_val = ScVal ScvVec None None None None None None (Some (Some [EncodeI128 1000000001, EncodeI128 0, EncodeI128 1320114300,
     ScVal ScvBool (Some False) None None None None None None None])) None"

definition demo_state_env :: "unit env" where
  "demo_state_env = null_env\<lparr>base64_Decode := (\<lambda>_. Inr []), xdr_UnmarshalScVal := (\<lambda>_. Inr demo_state_val)\<rparr>"

theorem shown_state_exact_witness:
  "\<exists>y n pool. decode_state demo_state_env demo_sim = Inr (y, n, pool, False) \<and> sint y = 1000000001 \<and> sint n = 0 \<and> sint pool = 1320114300"
proof -
  have r: "sim_return demo_state_env demo_sim = Inr demo_state_val" by (simp add: sim_return_def demo_sim_def ParseReturnValue_def demo_state_env_def)
  have "fst (get_state demo_open) = Inr (1000000001, 0, 1320114300, False)" by code_simp
  then have g: "get_state demo_open = (Inr (1000000001, 0, 1320114300, False), snd (get_state demo_open))" by (metis prod.collapse)
  have b: "dk_LiquidityParam (ch_storage demo_open) = Some 1000000000" by code_simp
  have "encodes_state demo_state_val (1000000001, 0, 1320114300, False)"
    unfolding encodes_state_def demo_state_val_def using EncodeI128_ScVal [of 1000000001] EncodeI128_ScVal [of 0] EncodeI128_ScVal [of 1320114300] by auto
  note s = shown_state_exact [OF demo_start_facts(1,2) demo_runs(2) b g r this]
  then obtain y n pool resolved where d: "decode_state demo_state_env demo_sim = Inr (y, n, pool, resolved)" by auto
  with s have "sint y = 1000000001" "sint n = 0" "sint pool = 1320114300" "resolved = False" by blast+
  with d show ?thesis by blast
qed

text \<open>
  The same for the quotes and the balances: what the server reads from a simulation of \<open>get_quote\<close>, \<open>get_sell_quote\<close> or \<open>get_balance\<close> is the number of the contract, and
  it reads it exactly when it fits in 64 bits.  This is how the quote that \<open>buy_end_to_end\<close> and \<open>sell_end_to_end\<close> speak of comes from the contract.
\<close>

definition encodes_quote :: "ScVal \<Rightarrow> int \<times> int \<Rightarrow> bool" where
  "encodes_quote val q \<longleftrightarrow> (\<exists>x y. sv_Type val = ScvVec \<and> sv_Vec val = Some (Some [i128_ScVal x, i128_ScVal y]) \<and> i128_value x = fst q \<and> i128_value y = snd q)"

lemma sim_return_Inr:
  "sim_return E sim = Inr val \<longleftrightarrow> (\<exists>r rs. sim_Error sim = [] \<and> sim_Results sim = r # rs \<and> sr_XDR r \<noteq> [] \<and> ParseReturnValue E (sr_XDR r) = Inr val)"
  by (auto simp: sim_return_def tryE_Inr_iff split: list.splits)

lemma decode_quote_iff:
  assumes "sim_return E sim = Inr val" "encodes_quote val (paid, price)"
  shows "decode_quote E what amt sim = Inr (v, p) \<longleftrightarrow>
     sint v = paid \<and> (\<exists>w :: int64. sint w = price \<and> p = f64_div (f64_of_int64 w) float_ScaleFactor)"
proof -
  obtain x y where val: "sv_Type val = ScvVec" "sv_Vec val = Some (Some [i128_ScVal x, i128_ScVal y])" and v: "i128_value x = paid" "i128_value y = price"
    using assms(2) by (auto simp: encodes_quote_def)
  obtain r rs where "sim_Error sim = []" "sim_Results sim = r # rs" "sr_XDR r \<noteq> []" "ParseReturnValue E (sr_XDR r) = Inr val"
    using assms(1) by (auto simp: sim_return_Inr)
  then have "decode_quote E what amt sim = tryE (DecodeI128 (i128_ScVal x)) (wrap (''failed to decode '' @ amt @ '' from tuple: '')) (\<lambda>v.
      tryE (DecodeI128 (i128_ScVal y)) (wrap ''failed to decode price_after from tuple: '') (\<lambda>w. Inr (v, f64_div (f64_of_int64 w) float_ScaleFactor)))"
    using val by (simp add: decode_quote_def DecodeVec_def)
  then show ?thesis using v by (simp add: tryE_Inr_iff DecodeI128_ScVal) (metis (no_types))
qed

lemma decode_balance_iff:
  assumes "sim_return E sim = Inr (i128_ScVal p)"
  shows "decode_balance E sim = Inr v \<longleftrightarrow> sint v = i128_value p"
proof -
  obtain r rs where "sim_Results sim = r # rs" "sr_XDR r \<noteq> []" "ParseReturnValue E (sr_XDR r) = Inr (i128_ScVal p)"
    using assms by (auto simp: sim_return_Inr)
  then show ?thesis by (auto simp: decode_balance_def tryE_Inr_iff DecodeI128_ScVal)
qed

section \<open>Errors of the contracts\<close>

text \<open>
  The text of an error of a contract as the host reports it, somewhere in a log that may name the errors of other contracts before it.
\<close>

definition error_report :: "string \<Rightarrow> int \<Rightarrow> string \<Rightarrow> string" where
  "error_report a c b = a @ code_marker @ dec_int c @ '')'' @ b"

definition log_around :: "string \<Rightarrow> string \<Rightarrow> bool" where
  "log_around a b \<longleftrightarrow> \<not> suffix code_marker a \<and> \<not> Contains b code_marker"

lemma market_code_digits:
  "ParseInt64 (dec_int (MarketError_code e)) = Some (MarketError_code e)" "CHR '')'' \<notin> set (dec_int (MarketError_code e))"
  "CHR ''E'' \<notin> set (dec_int (MarketError_code e))"
  by (cases e; simp only: MarketError_code.simps; code_simp)+

lemma Contains_skip: "CHR ''E'' \<notin> set d \<Longrightarrow> Contains (d @ s) code_marker = Contains s code_marker"
  by (induction d) (auto simp: Contains_def code_marker_def)

lemma extract_report:
  assumes "log_around a b"
  shows "extractLastErrorCode (error_report a (MarketError_code e) b) = MarketError_code e"
proof -
  have "\<not> Contains (dec_int (MarketError_code e) @ '')'' @ b) code_marker"
    using assms Contains_skip [of "dec_int (MarketError_code e) @ '')''" b] market_code_digits(3) by (simp add: log_around_def)
  from extractLastErrorCode_last [OF market_code_digits(1,2) this, of a] assms show ?thesis by (simp add: log_around_def error_report_def)
qed

lemma market_error_answers:
  assumes "log_around a b"
  shows "mapContractError (error_report a (MarketError_code AlreadyInitialized) b) = resp ''Contract is already initialized.'' 409"
  "mapContractError (error_report a (MarketError_code NotInitialized) b) = resp ''Contract is not initialized.'' 400"
  "mapContractError (error_report a (MarketError_code AlreadyResolved) b) = resp ''Market has already been resolved.'' 409"
  "mapContractError (error_report a (MarketError_code NotResolved) b) = resp ''Market has not been resolved yet.'' 400"
  "mapContractError (error_report a (MarketError_code InvalidOutcome) b) = resp ''Invalid outcome. Must be YES (0) or NO (1).'' 400"
  "mapContractError (error_report a (MarketError_code InvalidAmount) b) = resp ''Invalid amount.'' 400"
  "mapContractError (error_report a (MarketError_code InsufficientBalance) b) = resp ''Insufficient token balance.'' 400"
  "mapContractError (error_report a (MarketError_code SlippageExceeded) b) = resp ''Slippage exceeded. Price moved unfavorably.'' 400"
  "mapContractError (error_report a (MarketError_code ReturnTooLow) b) = resp ''Return amount too low.'' 400"
  "mapContractError (error_report a (MarketError_code Unauthorized) b) = resp ''Transaction failed. Check that your account has enough EURMTL and the collateral token trustline.'' 400"
  "mapContractError (error_report a (MarketError_code InvalidLiquidity) b) = resp ''Invalid liquidity parameter.'' 400"
  "mapContractError (error_report a (MarketError_code Overflow) b) = resp ''Arithmetic overflow.'' 400"
  "mapContractError (error_report a (MarketError_code NothingToClaim) b) = resp ''Nothing to claim. You either have no winning tokens or already claimed.'' 400"
  "mapContractError (error_report a (MarketError_code StorageCorrupted) b) = resp ''Contract storage corrupted.'' 500"
  "mapContractError (error_report a (MarketError_code InsufficientPool) b) = resp ''Insufficient pool balance.'' 400"
  by (simp_all add: mapContractError_def extract_report [OF assms] del: MarketError_code.simps) (simp_all)

text \<open>
  C39 (market_errors_told_apart): the server tells the errors of the market contract apart: the last error that a log names, whatever other errors come
  before it, is the one that is answered, each error of the contract with a message of its own.
\<close>

theorem market_errors_told_apart:
  assumes "log_around a b" "log_around a' b'"
  shows "mapContractError (error_report a (MarketError_code e) b) = mapContractError (error_report a' (MarketError_code e') b') \<longleftrightarrow> e = e'"
  by (cases e; cases e'; simp add: market_error_answers [OF assms(1)] market_error_answers [OF assms(2)] resp_def del: MarketError_code.simps)

theorem market_errors_told_apart_witness:
  "mapContractError ''HostError: Error(Contract, #3) caused by Error(Contract, #10) in token'' \<noteq> mapContractError ''Error(Contract, #3)''"
proof -
  have "log_around ''HostError: Error(Contract, #3) caused by '' '' in token''" "log_around [] []"
    by (simp_all add: log_around_def Contains_def suffix_to_prefix code_marker_def)
  moreover have "error_report ''HostError: Error(Contract, #3) caused by '' 10 '' in token'' = ''HostError: Error(Contract, #3) caused by Error(Contract, #10) in token''"
    "error_report [] 3 [] = ''Error(Contract, #3)''"
    by code_simp+
  ultimately show ?thesis using market_errors_told_apart [of "''HostError: Error(Contract, #3) caused by ''" "'' in token''" "[]" "[]" Unauthorized AlreadyResolved] by simp
qed

text \<open>The errors of the factory, which has codes of its own, are answered with the messages of the market.\<close>

lemma factory_errors_confused:
  "mapContractError (error_report a (FactoryError_code FactoryStorageCorrupted) b) = mapContractError (error_report a (MarketError_code InvalidAmount) b)"
  "mapContractError (error_report a (FactoryError_code FactoryUnauthorized) b) = mapContractError (error_report a (MarketError_code AlreadyResolved) b)"
  by simp_all

end
