(* ===== verification/Contract_Settlement.thy ===== *)
theory Contract_Settlement
  imports Contract_Interface
begin

text \<open>
  The end of a market, from the server to the chain: the transactions that the market service builds for the oracle's resolution, for the claims of
  the winners and for the oracle's withdrawal, executed by the market contract.
\<close>

section \<open>Payments of the contract\<close>

text \<open>The contract pays an amount of its collateral to one address and touches nobody else's tokens.\<close>

definition pays :: "'l host \<Rightarrow> 'l balances \<Rightarrow> ScAddress \<Rightarrow> int \<Rightarrow> 'l chain \<Rightarrow> 'l chain \<Rightarrow> bool" where
  "pays H bal a paid ch ch' \<longleftrightarrow> (\<exists>token pool. dk_CollateralToken (ch_storage ch) = Some token
     \<and> dk_CollateralPool (ch_storage ch) = Some pool \<and> dk_CollateralPool (ch_storage ch') = Some (pool - paid) \<and> 0 \<le> paid
     \<and> (\<forall>t h. h \<noteq> host_self H \<longrightarrow> bal t h (ch_tokens ch') = bal t h (ch_tokens ch) + (if t = token \<and> h = a then paid else 0)))"

text \<open>What is kept for the winners who did not claim yet: 98 per cent of their tokens, rounded down.\<close>

definition reserve :: "'l chain \<Rightarrow> int" where
  "reserve ch = unclaimed_of (ch_storage ch) * (BPS_DENOMINATOR - CLAIM_FEE_BPS) sdiv BPS_DENOMINATOR"

lemma exec_resolve_settles:
  assumes "exec H auth (Resolve a n) ch = (Inr p, ch')"
  shows "dk_Oracle (ch_storage ch) = Some a \<and> auth a \<and> dk_Resolved (ch_storage ch) = Some False
    \<and> dk_Resolved (ch_storage ch') = Some True \<and> dk_WinningOutcome (ch_storage ch') = Some n
    \<and> dk_UserBalance (ch_storage ch') = dk_UserBalance (ch_storage ch) \<and> ch_tokens ch' = ch_tokens ch"
proof -
  have "resolve H auth a n ch = (Inr (), ch')" using assms by (auto elim: exec_cases)
  then show ?thesis by (rule resolve_InrE) simp
qed

lemma exec_claim_settles:
  assumes "token_laws H bal" "exec H auth (Claim user) ch = (Inr p, ch')"
  shows "\<exists>w v. dk_WinningOutcome (ch_storage ch) = Some w \<and> v = balance_of (ch_storage ch) user w \<and> 0 < v \<and> p = Some (v - v div 50) \<and> auth user
    \<and> (\<forall>u m. balance_of (ch_storage ch') u m = (if u = user \<and> m = w then 0 else balance_of (ch_storage ch) u m))
    \<and> pays H bal user (v - v div 50) ch ch'"
proof -
  obtain paid where "claim H auth user ch = (Inr paid, ch')" and p: "p = Some paid" using assms(2) by (auto elim: exec_cases)
  then show ?thesis
  proof (elim claim_InrE, goal_cases)
    case (1 w v pool token l)
    note l = token_lawsD [OF assms(1) 1(12)]
    have "pays H bal user paid ch ch'" unfolding pays_def using 1 l(1,3) by auto
    moreover have "balance_of (ch_storage ch') u m = (if u = user \<and> m = w then 0 else balance_of (ch_storage ch) u m)" for u m
      using 1(13) by (simp add: balance_of_def set_balance_def)
    ultimately show ?case using 1 by auto
  qed
qed

lemma exec_withdraw_settles:
  assumes "token_laws H bal" "exec H auth (WithdrawRemaining a) ch = (Inr p, ch')"
  shows "\<exists>paid. p = Some paid \<and> 0 < paid \<and> dk_Oracle (ch_storage ch) = Some a \<and> auth a \<and> dk_Resolved (ch_storage ch) = Some True
    \<and> dk_CollateralPool (ch_storage ch') = Some (reserve ch) \<and> dk_UserBalance (ch_storage ch') = dk_UserBalance (ch_storage ch)
    \<and> pays H bal a paid ch ch'"
proof -
  obtain paid where "withdraw_remaining H auth a ch = (Inr paid, ch')" and p: "p = Some paid" using assms(2) by (auto elim: exec_cases)
  then show ?thesis
  proof (elim withdraw_InrE, goal_cases)
    case (1 pool token l reserved)
    note l = token_lawsD [OF assms(1) 1(10)]
    have "pays H bal a paid ch ch'" unfolding pays_def using 1 l(1,3) by auto
    then show ?case using 1 by (simp add: reserve_def)
  qed
qed

section \<open>From the request to the chain\<close>

lemma exec_result:
  assumes "exec H auth c ch = (r, ch')" "\<And>p. exec H auth c ch = (Inr p, ch') \<Longrightarrow> Q p"
  shows "case r of Inl e \<Rightarrow> ch' = ch | Inr p \<Rightarrow> Q p"
  using assms exec_Inl by (cases r) auto

lemma settlement_calls:
  assumes "market_entry_points D" "EncodeAddress E k = Inr a"
  obtains u where "a = address_ScVal u" "D ''resolve'' [a, EncodeU32 n] = Some (Resolve u n)" "D ''claim'' [a] = Some (Claim u)"
    "D ''withdraw_remaining'' [a] = Some (WithdrawRemaining u)"
  using EncodeAddress_ScVal [OF assms(2)] assms(1) that by (auto simp: market_entry_points_def)

text \<open>A winner who can claim: enough tokens to be paid in spite of the rounding, and the oracle has not withdrawn.\<close>

definition can_claim :: "'l host \<Rightarrow> 'l balances \<Rightarrow> auth \<Rightarrow> ScAddress \<Rightarrow> int \<Rightarrow> 'l chain \<Rightarrow> bool" where
  "can_claim H bal auth user v ch \<longleftrightarrow> unmoved H bal auth user ch \<and> \<not> withdrawn ch \<and> dk_CollateralToken (ch_storage ch) \<noteq> None
     \<and> (\<exists>w b. dk_WinningOutcome (ch_storage ch) = Some w \<and> dk_LiquidityParam (ch_storage ch) = Some b \<and> v = balance_of (ch_storage ch) user w
          \<and> 50 * rounding_error b \<le> v)"

lemma can_claim_pays:
  assumes "token_laws H bal" "can_claim H bal auth user v ch"
  shows "\<exists>ch'. exec H auth (Claim user) ch = (Inr (Some (v - v div 50)), ch')"
proof -
  obtain ch0 w b token where c: "token_liquid H bal" "ch_storage ch0 = empty_storage" "market_run H bal ch0 ch" "auth user" "user \<noteq> host_self H"
    "\<not> withdrawn ch" "dk_CollateralToken (ch_storage ch) = Some token" "dk_WinningOutcome (ch_storage ch) = Some w"
    "dk_LiquidityParam (ch_storage ch) = Some b" "v = balance_of (ch_storage ch) user w" "50 * rounding_error b \<le> v"
    using assms(2) unfolding can_claim_def unmoved_def by blast
  from claim_succeeds [where auth = auth, OF assms(1) c(1-3,8,6,9,7,4,5,10,11)] show ?thesis by blast
qed



end
