(* ===== verification/Contract_Reports.thy ===== *)
theory Contract_Reports
  imports Contract_Interface Event_Service
begin

text \<open>
  The events of the market contract and what the server makes of them: the log determines the state of a market, and the history of trades that the
  event service shows is the log.  How the host puts an event into the topics and the data of an answer of the RPC server is stated as \<open>reports\<close>.
\<close>

section \<open>The log as an account book\<close>

text \<open>An abstract market: who holds what, the pool and the winner.  Each event says how it changes.\<close>

record book =
  bk_tokens :: "ScAddress \<Rightarrow> uint32 \<Rightarrow> int"
  bk_pool :: "int option"
  bk_winner :: "uint32 option"

definition credit :: "ScAddress \<Rightarrow> uint32 \<Rightarrow> int \<Rightarrow> book \<Rightarrow> book" where
  "credit u n a k = k\<lparr>bk_tokens := (bk_tokens k)(u := (bk_tokens k u)(n := bk_tokens k u n + a))\<rparr>"

fun post :: "market_event \<Rightarrow> book \<Rightarrow> book" where
  "post (EvBuy u n a c) k = (credit u n a k)\<lparr>bk_pool := map_option (\<lambda>p. p + c) (bk_pool k)\<rparr>"
| "post (EvSell u n a c) k = (credit u n (- a) k)\<lparr>bk_pool := map_option (\<lambda>p. p - c) (bk_pool k)\<rparr>"
| "post (EvResolve a n) k = k\<lparr>bk_winner := Some n\<rparr>"
| "post (EvClaim u p) k = (case bk_winner k of None \<Rightarrow> k
     | Some n \<Rightarrow> (credit u n (- bk_tokens k u n) k)\<lparr>bk_pool := map_option (\<lambda>q. q - p) (bk_pool k)\<rparr>)"
| "post (EvWithdraw a p) k = k\<lparr>bk_pool := map_option (\<lambda>q. q - p) (bk_pool k)\<rparr>"

definition book_of :: "'l chain \<Rightarrow> book" where
  "book_of s = \<lparr>bk_tokens = balance_of (ch_storage s), bk_pool = dk_CollateralPool (ch_storage s), bk_winner = dk_WinningOutcome (ch_storage s)\<rparr>"

text \<open>A successful call of a market that was set up publishes one event, and its effect on the market is that of the event.\<close>

lemma exec_posts:
  assumes "exec H auth c s = (Inr r, s')" "dk_Oracle (ch_storage s) \<noteq> None"
  shows "\<exists>e. ch_events s' = ch_events s @ [e] \<and> book_of s' = post e (book_of s)"
  using assms(1)
proof (cases rule: exec_cases)
  case (Initialize a token b hash funding)
  from this(2) show ?thesis by (rule initialize_InrE) (use assms(2) in simp)
next
  case (Buy user outcome amount max_cost paid)
  from this(2) show ?thesis by (rule buy_InrE) (simp add: book_of_def credit_def traded_def balance_of_def fun_eq_iff)
next
  case (Sell user outcome amount min_return ret)
  from this(2) show ?thesis by (rule sell_InrE) (simp add: book_of_def credit_def traded_def balance_of_def fun_eq_iff)
next
  case (Resolve a w)
  from this(2) show ?thesis by (rule resolve_InrE) (simp add: book_of_def balance_of_def fun_eq_iff)
next
  case (Claim user payout)
  from this(2) show ?thesis by (rule claim_InrE) (simp add: book_of_def credit_def set_balance_def balance_of_def fun_eq_iff)
next
  case (Withdraw a amount)
  from this(2) show ?thesis by (rule withdraw_InrE) (simp add: book_of_def balance_of_def fun_eq_iff)
qed

lemma run_keeps_oracle:
  assumes "market_run H bal s0 s" "dk_Oracle (ch_storage s0) = Some a"
  shows "dk_Oracle (ch_storage s) = Some a"
  using assms(1) unfolding market_run_def
proof (induction rule: rtranclp_induct)
  case (step s s')
  from step(2) show ?case by cases (use exec_keeps_oracle step(3) in auto)
qed (fact assms(2))

text \<open>
  C9 (log_replays_state): the log of a market is complete: from the moment it was set up, whatever calls are made, events are only appended, and replaying them on the
  account book of the start gives exactly the balances of all users, the pool and the winner that the contract stores.
\<close>

theorem log_replays_state:
  assumes "market_run H bal s0 s" "dk_Oracle (ch_storage s0) \<noteq> None"
  shows "\<exists>es. ch_events s = ch_events s0 @ es \<and> book_of s = fold post es (book_of s0)"
  using assms(1) [unfolded market_run_def]
proof (induction rule: rtranclp_induct)
  case base
  show ?case by simp
next
  case (step s s')
  then obtain es where es: "ch_events s = ch_events s0 @ es" "book_of s = fold post es (book_of s0)" by blast
  have o: "dk_Oracle (ch_storage s) \<noteq> None" using run_keeps_oracle [of H bal s0 s] step(1) assms(2) by (auto simp: market_run_def)
  from step(2) show ?case
  proof cases
    case (call auth c r)
    from exec_posts [OF call(2) o] obtain e where "ch_events s' = ch_events s @ [e]" "book_of s' = post e (book_of s)" by blast
    then show ?thesis using es by (intro exI [of _ "es @ [e]"]) simp
  next
    case (external l)
    then show ?thesis using es by (intro exI [of _ es]) (simp add: book_of_def)
  qed
qed

theorem log_replays_state_witness:
  "\<exists>es. ch_events demo_resolved = es \<and> book_of demo_resolved = fold post es (book_of demo_funded)"
proof -
  have run: "market_run demo_host ledger_balance demo_funded demo_resolved"
    unfolding demo_resolved_def demo_open_def demo_call_def
    by (intro market_run_call [where r = None] market_run_call [where r = "Some 620114300"] market_run_refl)
      (use demo_calls demo_start_facts(3) in \<open>simp_all add: demo_open_def demo_call_def\<close>)
  have "dk_Oracle (ch_storage demo_funded) = Some (account [1])" "ch_events demo_funded = []" by code_simp+
  with log_replays_state [OF run] show ?thesis by simp
qed

section \<open>The log as the server reads it\<close>

fun is_trade :: "market_event \<Rightarrow> bool" where
  "is_trade (EvBuy u n a c) = True"
| "is_trade (EvSell u n a c) = True"
| "is_trade _ = False"

text \<open>
  The topics and the data of an event, as \<open>env.events().publish\<close> passes them on: the tuple of topics value by value, the pair of the amounts as a vector.
\<close>

definition pair_ScVal :: "ScVal \<Rightarrow> ScVal \<Rightarrow> ScVal" where
  "pair_ScVal x y = ScVal ScvVec None None None None None None (Some (Some [x, y])) None"

fun event_values :: "market_event \<Rightarrow> ScVal list \<Rightarrow> ScVal \<Rightarrow> bool" where
  "event_values (EvBuy u n a c) topics d \<longleftrightarrow> topics = [EncodeSymbol ''buy'', address_ScVal u, EncodeU32 n]
     \<and> (\<exists>p q. d = pair_ScVal (i128_ScVal p) (i128_ScVal q) \<and> i128_value p = a \<and> i128_value q = c)"
| "event_values (EvSell u n a c) topics d \<longleftrightarrow> topics = [EncodeSymbol ''sell'', address_ScVal u, EncodeU32 n]
     \<and> (\<exists>p q. d = pair_ScVal (i128_ScVal p) (i128_ScVal q) \<and> i128_value p = a \<and> i128_value q = c)"
| "event_values (EvResolve a n) topics d \<longleftrightarrow> topics = [EncodeSymbol ''resolve'', address_ScVal a] \<and> d = EncodeU32 n"
| "event_values (EvClaim u x) topics d \<longleftrightarrow> topics = [EncodeSymbol ''claim'', address_ScVal u] \<and> (\<exists>p. d = i128_ScVal p \<and> i128_value p = x)"
| "event_values (EvWithdraw a x) topics d \<longleftrightarrow> topics = [EncodeSymbol ''withdraw'', address_ScVal a] \<and> (\<exists>p. d = i128_ScVal p \<and> i128_value p = x)"

text \<open>An entry of the RPC server's answer that reports an event of the contract.\<close>

definition reports :: "'w env \<Rightarrow> ContractEvent \<Rightarrow> market_event \<Rightarrow> bool" where
  "reports E evt e \<longleftrightarrow> ce_InSuccessfulContractCall evt \<and> (\<exists>ts. time_ParseRFC3339 E (ce_LedgerClosedAt evt) = Inr ts)
     \<and> (\<exists>topics d. list_all2 (\<lambda>x v. ParseReturnValue E x = Inr v) (ce_Topic evt) topics \<and> ParseReturnValue E (ce_Value evt) = Inr d \<and> event_values e topics d)"

text \<open>A row of the history that shows a trade: the key of the user, the outcome, and the amounts in whole tokens, each the nearest double.\<close>

definition tokens_of :: "int \<Rightarrow> float64" where
  "tokens_of a = Fin (rnd (of_int a / 10000000))"

fun shows_trade :: "'w env \<Rightarrow> market_event \<Rightarrow> TradeEvent \<Rightarrow> bool" where
  "shows_trade E (EvBuy u n a c) x \<longleftrightarrow> te_Kind x = TradeKindBuy \<and> EncodeAddress E (te_User x) = Inr (address_ScVal u)
     \<and> U32ToOutcome n = Inr (te_Outcome x) \<and> te_Amount x = tokens_of a \<and> te_Cost x = tokens_of c"
| "shows_trade E (EvSell u n a c) x \<longleftrightarrow> te_Kind x = TradeKindSell \<and> EncodeAddress E (te_User x) = Inr (address_ScVal u)
     \<and> U32ToOutcome n = Inr (te_Outcome x) \<and> te_Amount x = tokens_of a \<and> te_Cost x = tokens_of c"
| "shows_trade E _ x \<longleftrightarrow> False"

text \<open>What the log of a market is made of: trades of valid outcomes and of amounts that are not negative.\<close>

fun trade_ok :: "market_event \<Rightarrow> bool" where
  "trade_ok (EvBuy u n a c) \<longleftrightarrow> is_valid_outcome n \<and> 0 < a \<and> 0 \<le> c"
| "trade_ok (EvSell u n a c) \<longleftrightarrow> is_valid_outcome n \<and> 0 < a \<and> 0 \<le> c"
| "trade_ok _ \<longleftrightarrow> True"

lemma exec_trade_ok:
  assumes "exec H auth c s = (Inr r, s')" "token_laws H bal" "list_all trade_ok (ch_events s)"
  shows "list_all trade_ok (ch_events s')"
  using assms(1)
proof (cases rule: exec_cases)
  case (Initialize a token b hash funding)
  from this(2) show ?thesis by (rule initialize_InrE) (use assms(3) in simp)
next
  case (Buy user outcome amount max_cost paid)
  from this(2) show ?thesis by (rule buy_InrE) (use assms(3) token_lawsD(1) [OF assms(2)] in auto)
next
  case (Sell user outcome amount min_return ret)
  from this(2) show ?thesis by (rule sell_InrE) (use assms(3) token_lawsD(1) [OF assms(2)] in auto)
next
  case (Resolve a w)
  from this(2) show ?thesis by (rule resolve_InrE) (use assms(3) in simp)
next
  case (Claim user payout)
  from this(2) show ?thesis by (rule claim_InrE) (use assms(3) in simp)
next
  case (Withdraw a amount)
  from this(2) show ?thesis by (rule withdraw_InrE) (use assms(3) in simp)
qed

lemma run_trade_ok:
  assumes "market_run H bal s0 s" "token_laws H bal" "ch_events s0 = []"
  shows "list_all trade_ok (ch_events s)"
  using assms(1) unfolding market_run_def
proof (induction rule: rtranclp_induct)
  case (step s s')
  from step(2) show ?case by cases (use exec_trade_ok [OF _ assms(2)] step(3) in auto)
qed (simp add: assms(3))

text \<open>An amount of the contract as the server shows it; the bound is that of the integers that a double represents exactly.\<close>

lemma decoded_tokens:
  assumes "DecodeI128 (i128_ScVal p) = Inr v" "0 \<le> i128_value p" "i128_value p \<le> 2 ^ 53"
  shows "f64_div (f64_of_int64 v) float_ScaleFactor = tokens_of (i128_value p)"
proof -
  have v: "sint v = i128_value p" using assms(1) by (simp add: DecodeI128_ScVal)
  have "f64_of_int64 v = Fin (of_int (i128_value p))" using f64_of_int64_exact [of v] assms(2,3) by (simp add: v)
  moreover have "\<bar>of_int (i128_value p) / 10000000 :: rat\<bar> \<le> 2 powi 53"
  proof -
    have "(of_int (i128_value p) :: rat) \<le> of_int (2 ^ 53)" using assms(3) by (simp only: of_int_le_iff)
    then show ?thesis using assms(2) by (simp add: power_int_def)
  qed
  from round64_bounded(1) [OF this] have "round64 (of_int (i128_value p) / 10000000) = Fin (rnd (of_int (i128_value p) / 10000000))" by simp
  ultimately show ?thesis by (simp add: trade_floats(1) tokens_of_def)
qed

text \<open>Keys, of accounts and of contracts, as the strkey package treats them.\<close>

definition strkey_laws :: "'w env \<Rightarrow> bool" where
  "strkey_laws E \<longleftrightarrow> (\<forall>ver a b. sk_Decode E ver a = Inr b \<longrightarrow> length b = 32 \<and> sk_Encode E ver b = Inr a)"

lemma DecodeAddress_key: "strkey_laws E \<Longrightarrow> EncodeAddress E k = Inr (address_ScVal u) \<Longrightarrow> DecodeAddress E (address_ScVal u) = Inr k"
  using address_roundtrip [of E k "address_ScVal u"] by (simp add: strkey_laws_def)

fun trader :: "market_event \<Rightarrow> ScAddress" where
  "trader (EvBuy u n a c) = u" | "trader (EvSell u n a c) = u" | "trader (EvResolve a n) = a" | "trader (EvClaim u p) = u" | "trader (EvWithdraw a p) = a"

fun amounts :: "market_event \<Rightarrow> int list" where
  "amounts (EvBuy u n a c) = [a, c]" | "amounts (EvSell u n a c) = [a, c]" | "amounts (EvResolve a n) = []" | "amounts (EvClaim u p) = [p]"
| "amounts (EvWithdraw a p) = [p]"

text \<open>The parser on the topics and the data of a trade.\<close>

lemma parse_trade_values:
  assumes "ParseReturnValue E x1 = Inr (EncodeSymbol kind)" "ParseReturnValue E x2 = Inr (address_ScVal u)" "ParseReturnValue E x3 = Inr (EncodeU32 n)"
    and "ce_Topic evt = [x1, x2, x3]" "ParseReturnValue E (ce_Value evt) = Inr (pair_ScVal (i128_ScVal p) (i128_ScVal q))"
    and "DecodeAddress E (address_ScVal u) = Inr k" "is_valid_outcome n" "time_ParseRFC3339 E (ce_LedgerClosedAt evt) = Inr ts"
    and p: "0 \<le> i128_value p" "i128_value p \<le> 2 ^ 53" and q: "0 \<le> i128_value q" "i128_value q \<le> 2 ^ 53"
  obtains out where "U32ToOutcome n = Inr out"
    "parseTradeEvent E evt = Inr \<lparr>te_Kind = kind, te_User = k, te_Outcome = out, te_Amount = tokens_of (i128_value p), te_Cost = tokens_of (i128_value q),
       te_Timestamp = ts, te_Ledger = ce_Ledger evt\<rparr>"
proof -
  obtain out where out: "U32ToOutcome n = Inr out"
    using assms(7) Outcome_codec_exact(2) [of n] by (auto simp: is_valid_outcome_def OUTCOME_YES_def OUTCOME_NO_def)
  have fits: "\<exists>v. DecodeI128 (i128_ScVal x) = Inr v" if "0 \<le> i128_value x" "i128_value x \<le> 2 ^ 53" for x
    using that sint_int64_range [of "i128_value x"] unfolding DecodeI128_ScVal by (simp add: eq_commute)
  obtain v v' where v: "DecodeI128 (i128_ScVal p) = Inr v" and v': "DecodeI128 (i128_ScVal q) = Inr v'" using fits p q by blast
  have "parseTradeEvent E evt = Inr \<lparr>te_Kind = kind, te_User = k, te_Outcome = out, te_Amount = tokens_of (i128_value p), te_Cost = tokens_of (i128_value q),
      te_Timestamp = ts, te_Ledger = ce_Ledger evt\<rparr>"
    using assms(1-6,8) out v v' decoded_tokens [OF v p] decoded_tokens [OF v' q]
    by (simp add: parseTradeEvent_def topic_symbol_def EncodeSymbol_def u32.dec_enc DecodeVec_def pair_ScVal_def)
  then show ?thesis using that out by blast
qed

lemma reported_trade_parses:
  assumes "strkey_laws E" "reports E evt e" "is_trade e" "trade_ok e" "EncodeAddress E k = Inr (address_ScVal (trader e))" "\<forall>v \<in> set (amounts e). v \<le> 2 ^ 53"
  shows "\<exists>x. parseTradeEvent E evt = Inr x \<and> shows_trade E e x"
proof -
  obtain ts topics d where r: "time_ParseRFC3339 E (ce_LedgerClosedAt evt) = Inr ts" "list_all2 (\<lambda>x v. ParseReturnValue E x = Inr v) (ce_Topic evt) topics"
    "ParseReturnValue E (ce_Value evt) = Inr d" "event_values e topics d"
    using assms(2) by (auto simp: reports_def)
  obtain kind u n a c where e: "e = EvBuy u n a c \<and> kind = ''buy'' \<or> e = EvSell u n a c \<and> kind = ''sell''" using assms(3) by (cases e) auto
  then obtain p q where v: "topics = [EncodeSymbol kind, address_ScVal u, EncodeU32 n]" "d = pair_ScVal (i128_ScVal p) (i128_ScVal q)" "i128_value p = a" "i128_value q = c"
    using r(4) by auto
  then obtain x1 x2 x3 where x: "ce_Topic evt = [x1, x2, x3]" "ParseReturnValue E x1 = Inr (EncodeSymbol kind)" "ParseReturnValue E x2 = Inr (address_ScVal u)"
    "ParseReturnValue E x3 = Inr (EncodeU32 n)" using r(2) by (auto simp: list_all2_Cons2)
  have key: "EncodeAddress E k = Inr (address_ScVal u)" and ok: "is_valid_outcome n" "0 \<le> a" "a \<le> 2 ^ 53" "0 \<le> c" "c \<le> 2 ^ 53"
    using e assms(4-6) by auto
  obtain out where "U32ToOutcome n = Inr out" "parseTradeEvent E evt = Inr \<lparr>te_Kind = kind, te_User = k, te_Outcome = out, te_Amount = tokens_of a, te_Cost = tokens_of c,
      te_Timestamp = ts, te_Ledger = ce_Ledger evt\<rparr>"
    using parse_trade_values [OF x(2-4,1) r(3) [unfolded v(2)] DecodeAddress_key [OF assms(1) key] ok(1) r(1)] ok v(3,4) by metis
  then show ?thesis using e key by (auto simp: TradeKindBuy_def TradeKindSell_def)
qed

lemma parsed_events_all2:
  assumes "list_all2 (\<lambda>evt e. ce_InSuccessfulContractCall evt \<and> (\<exists>x. parseTradeEvent E evt = Inr x \<and> P e x)) evts es"
  shows "list_all2 P es (parsed_events E evts)"
  using assms by (induction rule: list_all2_induct) (auto simp: parsed_events_def)

lemma collect_events_all:
  assumes "list_all (\<lambda>evt. ce_InSuccessfulContractCall evt \<and> (\<exists>x. parseTradeEvent E evt = Inr x)) evts"
  shows "collect_events E evts = Inr (parsed_events E evts)"
proof (cases "collect_events E evts")
  case (Inl e)
  then have "(\<exists>evt \<in> set evts. ce_InSuccessfulContractCall evt) \<and> parsed_events E evts = []" using collect_events_Inl by blast
  then show ?thesis using assms unfolding parsed_events_Nil list_all_iff by fastforce
next
  case (Inr xs)
  then show ?thesis using collect_events_Inr by metis
qed

text \<open>
  C13 (trade_events_exact): the history of trades that the server makes of an answer of the RPC server is the log of the contract: when the answer reports trades of the
  market, in some order, the server rejects none of them and shows each, in that order, with its kind, the key of its user, its outcome and its
  amounts, as the nearest doubles; the amounts have to be below 2^53 units, about nine hundred million tokens.
\<close>

theorem trade_events_exact:
  assumes "strkey_laws E" "token_laws H bal" "ch_events s0 = []" "market_run H bal s0 s"
    and "list_all2 (reports E) evts es" "set es \<subseteq> {e \<in> set (ch_events s). is_trade e}"
    and "\<forall>e \<in> set es. (\<exists>k. EncodeAddress E k = Inr (address_ScVal (trader e))) \<and> (\<forall>v \<in> set (amounts e). v \<le> 2 ^ 53)"
  shows "\<exists>rows. collect_events E evts = Inr rows \<and> list_all2 (shows_trade E) es rows"
proof -
  have ok: "trade_ok e" if "e \<in> set es" for e using run_trade_ok [OF assms(4,2,3)] assms(6) that by (auto simp: list_all_iff)
  have one: "ce_InSuccessfulContractCall evt \<and> (\<exists>x. parseTradeEvent E evt = Inr x \<and> shows_trade E e x)" if "reports E evt e" "e \<in> set es" for evt e
    using reported_trade_parses [OF assms(1) that(1)] that ok assms(6,7) unfolding reports_def by blast
  have all2: "list_all2 (\<lambda>evt e. ce_InSuccessfulContractCall evt \<and> (\<exists>x. parseTradeEvent E evt = Inr x \<and> shows_trade E e x)) evts es"
    using assms(5) one by (rule list.rel_mono_strong)
  then have "list_all (\<lambda>evt. ce_InSuccessfulContractCall evt \<and> (\<exists>x. parseTradeEvent E evt = Inr x)) evts"
    by (induction rule: list_all2_induct) auto
  from collect_events_all [OF this] parsed_events_all2 [OF all2] show ?thesis by blast
qed

text \<open>A purchase in the market of the earlier examples, reported by the RPC server and read by the event service.\<close>

definition demo_trader :: ScAddress where
  "demo_trader = account_address (replicate 32 7)"

definition demo_bought :: "ledger chain" where
  "demo_bought = demo_call (market_call.Buy demo_trader OUTCOME_YES 20000000 20000000) demo_funded"

definition report_env :: "unit env" where
  "report_env = event_env\<lparr>xdr_UnmarshalScVal := (\<lambda>b. Inr (if b = [1] then EncodeSymbol ''buy'' else if b = [2] then address_ScVal demo_trader
     else if b = [3] then EncodeU32 OUTCOME_YES else pair_ScVal (EncodeI128 20000000) (EncodeI128 1147100)))\<rparr>"

lemma demo_bought_facts:
  "ch_events demo_bought = [EvBuy demo_trader OUTCOME_YES 20000000 1147100]"
  "market_run demo_host ledger_balance demo_start demo_bought" "ch_events demo_start = []"
proof -
  show "ch_events demo_bought = [EvBuy demo_trader OUTCOME_YES 20000000 1147100]" by code_simp
  have "fst (exec demo_host demo_auth (market_call.Buy demo_trader OUTCOME_YES 20000000 20000000) demo_funded) = Inr (Some 1147100)" by code_simp
  from demo_run_call [OF demo_runs(1) this] show "market_run demo_host ledger_balance demo_start demo_bought" by (simp only: demo_bought_def)
  show "ch_events demo_start = []" by (simp add: demo_start_def)
qed

lemma report_env_facts:
  "strkey_laws report_env" "EncodeAddress report_env (replicate 56 (CHR ''G'')) = Inr (address_ScVal demo_trader)"
  "reports report_env demo_event (EvBuy demo_trader OUTCOME_YES 20000000 1147100)"
proof -
  show "strkey_laws report_env"
    by (auto simp: strkey_laws_def report_env_def event_env_def demo_env_def key_env_def split: if_splits)
  show "EncodeAddress report_env (replicate 56 (CHR ''G'')) = Inr (address_ScVal demo_trader)"
    by (simp add: EncodeAddress_def report_env_def event_env_def demo_env_def key_env_def demo_trader_def)
  obtain p q where "EncodeI128 20000000 = i128_ScVal p" "i128_value p = 20000000" "EncodeI128 1147100 = i128_ScVal q" "i128_value q = 1147100"
    using EncodeI128_ScVal [of 20000000] EncodeI128_ScVal [of 1147100] by auto
  then show "reports report_env demo_event (EvBuy demo_trader OUTCOME_YES 20000000 1147100)"
    by (auto simp: reports_def demo_event_def ParseReturnValue_def report_env_def event_env_def demo_env_def key_env_def)
qed

theorem trade_events_exact_witness:
  "\<exists>x. collect_events report_env [demo_event] = Inr [x] \<and> te_Kind x = TradeKindBuy \<and> te_Outcome x = ''YES'' \<and> te_Amount x = tokens_of 20000000"
proof -
  let ?e = "EvBuy demo_trader OUTCOME_YES 20000000 1147100"
  have "\<forall>e \<in> set [?e]. (\<exists>k. EncodeAddress report_env k = Inr (address_ScVal (trader e))) \<and> (\<forall>v \<in> set (amounts e). v \<le> 2 ^ 53)"
    using report_env_facts(2) by auto
  from trade_events_exact [OF report_env_facts(1) demo_start_facts(1) demo_bought_facts(3,2) _ _ this, of "[demo_event]"]
  obtain x where "collect_events report_env [demo_event] = Inr [x]" "shows_trade report_env ?e x"
    using report_env_facts(3) by (auto simp: demo_bought_facts(1) list_all2_Cons1)
  then show ?thesis by (auto simp: U32ToOutcome_def OutcomeYes32_def OUTCOME_YES_def)
qed

end
