(* ===== verification/Spec2Isabelle.thy ===== *)
theory Spec2Isabelle
  imports Lmsr Handler_Safety Contract_System Contract_Settlement Contract_Reports
begin

text \<open>
  A verification of \<open>mtlprog/total\<close>, a prediction market server on Stellar.

  \<^bold>\<open>The program.\<close>  The Go server under \<open>src/\<close> shows prediction markets that are run by Soroban contracts and builds
  transactions for them, which the user signs and submits elsewhere; the contracts, in Rust, are under \<open>src/contracts\<close>.  A request enters a handler
  (\<open>internal/handler\<close>), which checks the form and calls a service (\<open>internal/service\<close>): the market service for trades,
  quotes and balances, the factory service for the list and the states of the markets and for deployments, the event service for
  the trade history.  The services build invocations with the transaction builder (\<open>internal/stellar\<close>) and the contract
  invoker (\<open>internal/soroban\<close>), simulate them through the JSON-RPC client and decode the returned contract values.  Market
  descriptions come from IPFS (\<open>internal/ipfs\<close>).  The package \<open>internal/lmsr\<close> has the market maker's formulas,
  \<open>internal/chart\<close> draws the price chart, and \<open>cmd/total\<close> configures and starts everything.

  \<^bold>\<open>Theories and sources.\<close>
  \<^item> \<open>Prelude\<close>: errors as sums, calls that act on the world, the property \<open>preserves\<close> of a call, and the used parts of the packages
    \<open>strings\<close> and \<open>strconv\<close>.
  \<^item> \<open>Float64\<close>: binary64 arithmetic: rounding to nearest even of rationals, the special values, conversions and the verb \<open>%f\<close>.  The
    locale \<open>rounding\<close> states what the bounds need and is interpreted by the rounding function.
  \<^item> \<open>Errors\<close>: the sentinel errors of all packages, wrapping, \<open>errors.Is\<close>.
  \<^item> \<open>Lmsr\<close>: \<open>internal/lmsr/calculator.go\<close>, over an arithmetic that is instantiated by the reals and by binary64.
  \<^item> \<open>Model\<close>: \<open>internal/model\<close>: outcomes, keys, markets, metadata and their validators.
  \<^item> \<open>Sdk\<close>: the data types of the Stellar SDK, the messages of \<open>internal/soroban/types.go\<close>, and the record \<open>env\<close> of everything the
    program calls outside its sources.
  \<^item> \<open>Soroban_Codec\<close>, \<open>Soroban_Invoker\<close>, \<open>Soroban_Client\<close>: \<open>internal/soroban\<close>: contract values (the locale of a codec is interpreted
    for each encoder and decoder), building and preparing invocations, the RPC client with its request counter and the polling loop.
  \<^item> \<open>Stellar_Builder\<close>: \<open>internal/stellar\<close>; the locale \<open>contract_call\<close> is the contract of a builder method and is interpreted for all thirteen.
  \<^item> \<open>Concurrency\<close>: goroutines as resumable threads, run under an arbitrary schedule; invariants, and goals with
    rely-guarantee rules: what one goroutine establishes the others keep.
  \<^item> \<open>Market_Service\<close>, \<open>Factory_Service\<close>, \<open>Event_Service\<close>: \<open>internal/service\<close>.
  \<^item> \<open>Config\<close>, \<open>Ipfs\<close>, \<open>Chart\<close>: \<open>internal/config\<close>, \<open>internal/ipfs\<close>, \<open>internal/chart\<close>.
  \<^item> \<open>Http\<close>: what the handlers use of \<open>net/http\<close>; \<open>Handler_Errors\<close>, \<open>Handler_Views\<close>, \<open>Handler\<close>: \<open>internal/handler/market.go\<close> and
    the functions of \<open>internal/template/template.go\<close>; \<open>Cmd_Total\<close>: \<open>cmd/total/main.go\<close>, \<open>internal/logger\<close> and the loading of the templates;
    \<open>Handler_Safety\<close>: the properties of the server as a whole.
  \<^item> \<open>Rust\<close>: results, panics and the checked and trapping integers of 128 bits.  \<open>Contract_Lmsr\<close>, \<open>Contract_Market\<close>: \<open>contracts/lmsr_market\<close>: the errors,
    the fixed-point pricing (the locale \<open>cost_rule\<close> states what solvency needs of it and is interpreted by the contract's cost function) and every entry
    point as a call on storage, tokens and events; \<open>Contract_Safety\<close>: the contract as a step relation, its invariant and what follows;
    \<open>Contract_Trades\<close>: trades against quotes; \<open>Contract_Factory\<close>: \<open>contracts/market_factory\<close>; \<open>Contract_Interface\<close>: the transactions of the
    server executed by the contracts, the results of the contracts read by the server, and the error codes of both; \<open>Contract_Settlement\<close>: the same for the end
    of a market; \<open>Contract_Reports\<close>: the events of the contract as an account book, and as the event service reads them; \<open>Contract_System\<close>: the factory and all its
    markets on one token ledger as a step relation.  Its locale \<open>ledger_cells\<close> states why contracts that share a ledger do not disturb each other and is interpreted by the
    markets.

  \<^bold>\<open>State.\<close>  A Go struct is a record with the same fields, a pointer that may be nil an option, a machine integer a word of its width.  A call that reaches
  outside takes a world and returns it; the world holds the RPC request counter and an arbitrary rest, so two equal calls may be answered
  differently.  Caches of the library \<open>samber/hot\<close>, HTTP, JSON, XDR, strkey, Horizon, \<open>txnbuild\<close>, clocks, timers, templates, and
  \<open>strconv.ParseFloat\<close> are parameters.  What a property needs of them is a hypothesis of it, and a witness instantiates them.  A run-time panic is \<open>None\<close>.  A call of
  a contract acts on its storage (one optional field per key), the token balances and the events, and a failed call is undone; in \<open>Contract_System\<close> the storages of all markets stand beside one ledger.  The token contract, the
  addresses that authorized the call, the deployment of code and the passing of arguments and events by the host are parameters.

  \<^bold>\<open>What is proved.\<close>
  \<^item> Market maker: prices are probabilities, the stable cost formula is the log-sum-exp, buying costs less than its payout and selling back returns
    the cost, quotes lie between the prices, and no sequence of trades loses more than the initial funding; in binary64 the price overflows to NaN.
  \<^item> Model: validators accept exactly the valid data; outcomes are parsed from exactly the right spellings.
  \<^item> Contract values: encoders and decoders are inverse to each other, overflow is reported; a prepared transaction has
    exactly the resource fee added.
  \<^item> Services: the transactions handed out are exactly the requested calls with bounds that follow the slippage; deployments are funded; states fetched by
    concurrent goroutines are right and complete for every schedule; waiting for a transaction ends; trade events are exactly those that parse.
  \<^item> IPFS: only safe URLs are requested, and finitely often.
  \<^item> Charts: the imperative drawing is the reference plot; its points are probabilities.
  \<^item> Handlers: the status of an error is a function of its sentinel, trades are built from exactly the form,
    accounts survive the round trip through the cookie, the wallet proxy forwards only what it should, all parts use one network; and over all sequences of requests
    the server answers every request without a panic and never submits a transaction.
  \<^item> Contracts: in every reachable state the pool is covered by tokens and covers the payouts up to a rounding error; nobody loses tokens without having authorized
    it, only the oracle resolves, and once; quoted trades go through at the quote; winners can claim until the oracle withdraws, and what the withdrawal leaves may
    be a unit too little for the last of them; the approximations of the pricing give negative and excessive costs at the ends of their range;
    deployments create exactly the requested market; the log of a market replays to its state; and with all markets on one ledger, under any sequence of calls of the
    factory and of the markets, the factory lists exactly the markets that exist and all of them stay solvent.
  \<^item> Server and contracts: a trade transaction has exactly the requested effect within the slippage or none, and succeeds in a market that has not moved; a deployment
    that passes the server's check passes the contract's; resolutions, claims and withdrawals do exactly what was requested; the state shown is the contract's, the trade history
    shown is its log; every market error is answered with its own message.

  \<^bold>\<open>Bounds and termination.\<close>  No definition uses fuel.  Loops are structural or have a termination proof, with the number of attempts, the number of
  points or the rest of a text as measure; polling for a transaction, which need not end, is a partial function, and its property gives the condition
  under which it returns.  The series of the contract's exponential and logarithm have fixed lengths, their normalization loops a termination
  proof.  Charts of up to \<open>2^31\<close> points and rows are covered, far above the 200 events of one request.

  \<^bold>\<open>Not modelled.\<close>  The writing of log lines; the HTML files and their execution by \<open>html/template\<close>; routing, listening, time-outs and signals of
  \<open>net/http\<close>; the interleaving of several requests with each other (each request is one step of the server, its own goroutines interleave); the effect of the sizes and lifetimes that the caches
  are built with; the sign of zero and NaN payloads.  Of the contracts: fees and the lifetime of storage entries, which the sources leave to the host, and the tests.
\<close>

end
